(* ===== verification/Py_Prelude.thy ===== *)
theory Py_Prelude
  imports Complex_Main
begin

text \<open>
  What every component of the development shares: Python exceptions as values, the two result
  shapes (a pure computation that may raise, and a computation over a mutable object that may
  raise half-way and leaves the object as mutated so far), Python's division, and the list
  facts behind \<open>sum\<close>, \<open>max\<close>, \<open>min\<close> and slices with a negative start.

  Python floats are read as real numbers: rounding is not modelled. Where the source itself
  handles infinities and NaN, the theory \<open>Py_Float\<close> supplies them.
\<close>

named_theorems py_eval "unfolding equations of the shared combinators"

section \<open>Exceptions and results\<close>

datatype py_exc =
    ZeroDivisionError
  | ValueError string
  | KeyError string
  | IndexError
  | TypeError
  | AttributeError
  | AssertionError
  | OSError
  | RuntimeError string
  | SafetyException string
  | TimeoutException
  | HTTPStatusError nat
  | TransientProviderError
  | RateLimitProviderError
  | AuthProviderError
  | UnknownProviderError
  | CircuitBreakerOpenError
  | OtherError string

type_synonym 'a res = "py_exc + 'a"

text \<open>A stateful computation: the object after the call is returned on the error path too.\<close>

type_synonym ('s, 'a) py = "'s \<Rightarrow> 'a res \<times> 's"

definition bindE :: "'a res \<Rightarrow> ('a \<Rightarrow> 'b res) \<Rightarrow> 'b res" where
  "bindE m f = (case m of Inl e \<Rightarrow> Inl e | Inr a \<Rightarrow> f a)"

definition bindS :: "('s, 'a) py \<Rightarrow> ('a \<Rightarrow> ('s, 'b) py) \<Rightarrow> ('s, 'b) py" where
  "bindS m f = (\<lambda>s. case m s of (Inl e, s') \<Rightarrow> (Inl e, s') | (Inr a, s') \<Rightarrow> f a s')"

definition returnS :: "'a \<Rightarrow> ('s, 'a) py" where
  "returnS a = (\<lambda>s. (Inr a, s))"

definition raiseS :: "py_exc \<Rightarrow> ('s, 'a) py" where
  "raiseS e = (\<lambda>s. (Inl e, s))"

definition liftS :: "'a res \<Rightarrow> ('s, 'a) py" where
  "liftS r = (\<lambda>s. (r, s))"

definition modifyS :: "('s \<Rightarrow> 's) \<Rightarrow> ('s, unit) py" where
  "modifyS f = (\<lambda>s. (Inr (), f s))"

lemma bindE_simps [simp, py_eval]:
  "bindE (Inl e) f = Inl e" "bindE (Inr a) f = f a"
  by (simp_all add: bindE_def)

lemma bindE_Inr_iff: "bindE m f = Inr b \<longleftrightarrow> (\<exists>a. m = Inr a \<and> f a = Inr b)"
  by (cases m) auto

lemma bindS_simps [simp, py_eval]:
  "m s = (Inl e, s') \<Longrightarrow> bindS m f s = (Inl e, s')"
  "m s = (Inr a, s') \<Longrightarrow> bindS m f s = f a s'"
  by (simp_all add: bindS_def)

lemma bindS_cases:
  assumes "bindS m f s = (r, t)"
  obtains (raised) e where "m s = (Inl e, t)" "r = Inl e"
  | (passed) a s' where "m s = (Inr a, s')" "f a s' = (r, t)"
  using assms by (auto simp: bindS_def split: prod.splits sum.splits)

lemma returnS_apply [simp, py_eval]: "returnS a s = (Inr a, s)"
  by (simp add: returnS_def)

lemma raiseS_apply [simp, py_eval]: "raiseS e s = (Inl e, s)"
  by (simp add: raiseS_def)

lemma liftS_apply [simp, py_eval]: "liftS r s = (r, s)"
  by (simp add: liftS_def)

lemma modifyS_apply [simp, py_eval]: "modifyS f s = (Inr (), f s)"
  by (simp add: modifyS_def)

lemma bindS_returnS [simp]: "bindS (returnS a) f = f a"
  by (simp add: bindS_def returnS_def fun_eq_iff)

lemma bindS_assoc: "bindS (bindS m f) g = bindS m (\<lambda>a. bindS (f a) g)"
  by (auto simp: bindS_def fun_eq_iff split: prod.splits sum.splits)

section \<open>Numbers\<close>

text \<open>\<open>a / b\<close> on Python floats raises when the divisor is zero.\<close>

definition py_div :: "real \<Rightarrow> real \<Rightarrow> real res" where
  "py_div a b = (if b = 0 then Inl ZeroDivisionError else Inr (a / b))"

lemma py_div_nonzero [simp]: "b \<noteq> 0 \<Longrightarrow> py_div a b = Inr (a / b)"
  by (simp add: py_div_def)

lemma py_div_zero [simp]: "py_div a 0 = Inl ZeroDivisionError"
  by (simp add: py_div_def)

lemma py_div_Inr_iff [simp]: "py_div a b = Inr c \<longleftrightarrow> b \<noteq> 0 \<and> c = a / b"
  by (auto simp: py_div_def)

text \<open>\<open>int(x)\<close> on a float truncates towards zero.\<close>

definition py_int :: "real \<Rightarrow> int" where
  "py_int x = (if 0 \<le> x then \<lfloor>x\<rfloor> else \<lceil>x\<rceil>)"

lemma py_int_nonneg: "0 \<le> x \<Longrightarrow> 0 \<le> py_int x \<and> real_of_int (py_int x) \<le> x"
  by (simp add: py_int_def)

text \<open>A float is truthy when it is not zero; an optional one when it is present and not zero.\<close>

definition truthy :: "real option \<Rightarrow> bool" where
  "truthy x = (case x of None \<Rightarrow> False | Some r \<Rightarrow> r \<noteq> 0)"

definition float_or :: "real option \<Rightarrow> real \<Rightarrow> real" where
  "float_or x d = (case x of None \<Rightarrow> d | Some r \<Rightarrow> if r = 0 then d else r)"

lemma truthy_simps [simp]: "\<not> truthy None" "truthy (Some r) \<longleftrightarrow> r \<noteq> 0"
  by (simp_all add: truthy_def)

lemma float_or_simps [simp]:
  "float_or None d = d" "r \<noteq> 0 \<Longrightarrow> float_or (Some r) d = r" "float_or (Some 0) d = d"
  by (simp_all add: float_or_def)

section \<open>Lists\<close>

text \<open>\<open>xs[-n:]\<close> for a positive \<open>n\<close>: the whole list when it is shorter.\<close>

definition last_n :: "nat \<Rightarrow> 'a list \<Rightarrow> 'a list" where
  "last_n n xs = drop (length xs - n) xs"

lemma length_last_n [simp]: "length (last_n n xs) = min n (length xs)"
  by (simp add: last_n_def)

lemma last_n_all [simp]: "length xs \<le> n \<Longrightarrow> last_n n xs = xs"
  by (simp add: last_n_def)

lemma set_last_n: "set (last_n n xs) \<subseteq> set xs"
  by (simp add: last_n_def set_drop_subset)

lemma last_n_append_one: "0 < n \<Longrightarrow> last (last_n n (xs @ [x])) = x"
  by (simp add: last_n_def)

text \<open>\<open>max(xs)\<close> and \<open>min(xs)\<close> over a list: an empty argument raises ValueError.\<close>

fun max_from :: "real \<Rightarrow> real list \<Rightarrow> real" where
  "max_from m [] = m"
| "max_from m (x # xs) = max_from (if m < x then x else m) xs"

fun min_from :: "real \<Rightarrow> real list \<Rightarrow> real" where
  "min_from m [] = m"
| "min_from m (x # xs) = min_from (if x < m then x else m) xs"

definition py_max :: "real list \<Rightarrow> real res" where
  "py_max xs = (case xs of [] \<Rightarrow> Inl (ValueError ''max() arg is an empty sequence'')
     | x # ys \<Rightarrow> Inr (max_from x ys))"

definition py_min :: "real list \<Rightarrow> real res" where
  "py_min xs = (case xs of [] \<Rightarrow> Inl (ValueError ''min() arg is an empty sequence'')
     | x # ys \<Rightarrow> Inr (min_from x ys))"

lemma max_from_bound: "y \<in> insert m (set xs) \<Longrightarrow> y \<le> max_from m xs"
proof (induction xs arbitrary: m y)
  case (Cons x xs)
  have le: "(if m < x then x else m) \<le> max_from (if m < x then x else m) xs"
    by (rule Cons.IH) simp
  from Cons.prems Cons.IH [of y] le show ?case by (auto split: if_splits)
qed simp

lemma max_from_in: "max_from m xs \<in> insert m (set xs)"
proof (induction xs arbitrary: m)
  case (Cons x xs)
  then show ?case using Cons.IH [of x] Cons.IH [of m] by auto
qed simp

lemma min_from_bound: "y \<in> insert m (set xs) \<Longrightarrow> min_from m xs \<le> y"
proof (induction xs arbitrary: m y)
  case (Cons x xs)
  have le: "min_from (if x < m then x else m) xs \<le> (if x < m then x else m)"
    by (rule Cons.IH) simp
  from Cons.prems Cons.IH [of y] le show ?case by (auto split: if_splits)
qed simp

lemma min_from_in: "min_from m xs \<in> insert m (set xs)"
proof (induction xs arbitrary: m)
  case (Cons x xs)
  then show ?case using Cons.IH [of x] Cons.IH [of m] by auto
qed simp

lemma py_max_Inr: "py_max xs = Inr m \<Longrightarrow> m \<in> set xs \<and> (\<forall>x\<in>set xs. x \<le> m)"
  using max_from_bound max_from_in by (fastforce simp: py_max_def split: list.splits)

lemma py_min_Inr: "py_min xs = Inr m \<Longrightarrow> m \<in> set xs \<and> (\<forall>x\<in>set xs. m \<le> x)"
  using min_from_bound min_from_in by (fastforce simp: py_min_def split: list.splits)

lemma py_max_defined: "xs \<noteq> [] \<Longrightarrow> \<exists>m. py_max xs = Inr m"
  by (cases xs) (simp_all add: py_max_def)

lemma py_min_defined: "xs \<noteq> [] \<Longrightarrow> \<exists>m. py_min xs = Inr m"
  by (cases xs) (simp_all add: py_min_def)

lemma sum_list_scale: "(\<Sum>x\<leftarrow>xs. c * f x) = c * (\<Sum>x\<leftarrow>xs. f x)" for c :: real
  by (induction xs) (simp_all add: algebra_simps)

lemma sum_list_nonneg_map: "(\<And>x. x \<in> set xs \<Longrightarrow> 0 \<le> f x) \<Longrightarrow> 0 \<le> (\<Sum>x\<leftarrow>xs. f x)" for f :: "'a \<Rightarrow> real"
  by (induction xs) auto

lemma sum_list_pos_map: "xs \<noteq> [] \<Longrightarrow> (\<And>x. x \<in> set xs \<Longrightarrow> 0 < f x) \<Longrightarrow> 0 < (\<Sum>x\<leftarrow>xs. f x)" for f :: "'a \<Rightarrow> real"
proof (induction xs)
  case (Cons x xs)
  have "0 \<le> (\<Sum>x\<leftarrow>xs. f x)"
    using Cons.prems(2) by (intro sum_list_nonneg_map) (simp add: less_imp_le)
  then show ?case using Cons.prems(2)[of x] by simp
qed simp

lemma sum_list_le_map:
  "(\<And>x. x \<in> set xs \<Longrightarrow> f x \<le> c) \<Longrightarrow> (\<Sum>x\<leftarrow>xs. f x) \<le> real (length xs) * c"
  by (induction xs) (auto simp: algebra_simps intro: add_mono)

lemma sum_list_ge_map:
  "(\<And>x. x \<in> set xs \<Longrightarrow> c \<le> f x) \<Longrightarrow> real (length xs) * c \<le> (\<Sum>x\<leftarrow>xs. f x)"
  by (induction xs) (auto simp: algebra_simps intro: add_mono)

section \<open>Strings\<close>

definition is_digit :: "char \<Rightarrow> bool" where
  "is_digit c \<longleftrightarrow> c \<in> set ''0123456789''"

definition py_isdigit :: "string \<Rightarrow> bool" where
  "py_isdigit s \<longleftrightarrow> s \<noteq> [] \<and> list_all is_digit s"

definition digit_val :: "char \<Rightarrow> int" where
  "digit_val c = int (of_char c :: nat) - 48"

definition int_of_digits :: "string \<Rightarrow> int" where
  "int_of_digits s = foldl (\<lambda>n c. 10 * n + digit_val c) 0 s"

definition str_contains :: "string \<Rightarrow> string \<Rightarrow> bool" where
  "str_contains needle s \<longleftrightarrow> (\<exists>i \<in> set [0..<Suc (length s)]. take (length needle) (drop i s) = needle)"

definition str_endswith :: "string \<Rightarrow> string \<Rightarrow> bool" where
  "str_endswith suf s \<longleftrightarrow> length suf \<le> length s \<and> drop (length s - length suf) s = suf"

definition str_startswith :: "string \<Rightarrow> string \<Rightarrow> bool" where
  "str_startswith pre s \<longleftrightarrow> take (length pre) s = pre"

text \<open>ASCII case folding, as \<open>str.upper\<close> and \<open>str.lower\<close> act on the strings the program compares.\<close>

definition upper_char :: "char \<Rightarrow> char" where
  "upper_char c = (let n = of_char c :: nat in if 97 \<le> n \<and> n \<le> 122 then char_of (n - 32) else c)"

definition lower_char :: "char \<Rightarrow> char" where
  "lower_char c = (let n = of_char c :: nat in if 65 \<le> n \<and> n \<le> 90 then char_of (n + 32) else c)"

definition py_upper :: "string \<Rightarrow> string" where
  "py_upper s = map upper_char s"

definition py_lower :: "string \<Rightarrow> string" where
  "py_lower s = map lower_char s"

end
