(* ===== verification/Py_Float.thy ===== *)
theory Py_Float
  imports Py_Prelude
begin

text \<open>
  Floats with the non-finite values, for the checks of the source that exist because of them
  (\<open>math.isfinite\<close>, \<open>math.isnan\<close>): the IEEE rules for comparison and arithmetic, without
  rounding. A comparison with NaN is false; dividing by zero raises, as Python's \<open>/\<close> does.
\<close>

datatype pyfloat = Fin real | PInf | NInf | NaN

fun isfinite :: "pyfloat \<Rightarrow> bool" where
  "isfinite (Fin r) = True"
| "isfinite PInf = False"
| "isfinite NInf = False"
| "isfinite NaN = False"

definition isnan :: "pyfloat \<Rightarrow> bool" where
  "isnan x = (x = NaN)"

fun pf_lt :: "pyfloat \<Rightarrow> pyfloat \<Rightarrow> bool" where
  "pf_lt NaN y = False"
| "pf_lt x NaN = False"
| "pf_lt (Fin a) (Fin b) = (a < b)"
| "pf_lt PInf y = False"
| "pf_lt x NInf = False"
| "pf_lt x y = True"

fun pf_le :: "pyfloat \<Rightarrow> pyfloat \<Rightarrow> bool" where
  "pf_le NaN y = False"
| "pf_le x NaN = False"
| "pf_le (Fin a) (Fin b) = (a \<le> b)"
| "pf_le NInf y = True"
| "pf_le x PInf = True"
| "pf_le x y = False"

definition pf_inf :: "bool \<Rightarrow> pyfloat" where
  "pf_inf positive = (if positive then PInf else NInf)"

fun pf_neg :: "pyfloat \<Rightarrow> pyfloat" where
  "pf_neg (Fin a) = Fin (- a)"
| "pf_neg PInf = NInf"
| "pf_neg NInf = PInf"
| "pf_neg NaN = NaN"

fun pf_add :: "pyfloat \<Rightarrow> pyfloat \<Rightarrow> pyfloat" where
  "pf_add NaN y = NaN"
| "pf_add x NaN = NaN"
| "pf_add (Fin a) (Fin b) = Fin (a + b)"
| "pf_add PInf NInf = NaN"
| "pf_add NInf PInf = NaN"
| "pf_add PInf y = PInf"
| "pf_add NInf y = NInf"
| "pf_add x PInf = PInf"
| "pf_add x NInf = NInf"

definition pf_sub :: "pyfloat \<Rightarrow> pyfloat \<Rightarrow> pyfloat" where
  "pf_sub x y = pf_add x (pf_neg y)"

fun pf_mul :: "pyfloat \<Rightarrow> pyfloat \<Rightarrow> pyfloat" where
  "pf_mul NaN y = NaN"
| "pf_mul x NaN = NaN"
| "pf_mul (Fin a) (Fin b) = Fin (a * b)"
| "pf_mul (Fin a) PInf = (if a = 0 then NaN else pf_inf (0 < a))"
| "pf_mul (Fin a) NInf = (if a = 0 then NaN else pf_inf (a < 0))"
| "pf_mul PInf (Fin b) = (if b = 0 then NaN else pf_inf (0 < b))"
| "pf_mul NInf (Fin b) = (if b = 0 then NaN else pf_inf (b < 0))"
| "pf_mul PInf PInf = PInf"
| "pf_mul NInf NInf = PInf"
| "pf_mul PInf NInf = NInf"
| "pf_mul NInf PInf = NInf"

fun pf_abs :: "pyfloat \<Rightarrow> pyfloat" where
  "pf_abs (Fin a) = Fin \<bar>a\<bar>"
| "pf_abs PInf = PInf"
| "pf_abs NInf = PInf"
| "pf_abs NaN = NaN"

text \<open>Division of a possibly non-finite float by an ordinary one.\<close>

fun pf_div :: "pyfloat \<Rightarrow> real \<Rightarrow> pyfloat res" where
  "pf_div (Fin a) b = (if b = 0 then Inl ZeroDivisionError else Inr (Fin (a / b)))"
| "pf_div PInf b = (if b = 0 then Inl ZeroDivisionError else Inr (pf_inf (0 < b)))"
| "pf_div NInf b = (if b = 0 then Inl ZeroDivisionError else Inr (pf_inf (b < 0)))"
| "pf_div NaN b = (if b = 0 then Inl ZeroDivisionError else Inr NaN)"

lemma isfinite_iff: "isfinite x \<longleftrightarrow> (\<exists>r. x = Fin r)"
  by (cases x) auto

lemma pf_le_Fin_Fin: "pf_le (Fin a) (Fin b) \<longleftrightarrow> a \<le> b"
  by simp

lemma pf_lt_imp_le: "pf_lt x y \<Longrightarrow> pf_le x y"
  by (cases x; cases y) auto

lemma pf_lt_not_le: "pf_lt x y \<Longrightarrow> \<not> pf_le y x"
  by (cases x; cases y) auto

lemma pf_total: "\<not> isnan x \<Longrightarrow> \<not> isnan y \<Longrightarrow> pf_lt x y \<or> pf_le y x"
  by (cases x; cases y) (auto simp: isnan_def)

lemma pf_div_nonzero_defined: "b \<noteq> 0 \<Longrightarrow> \<exists>q. pf_div x b = Inr q"
  by (cases x) auto

lemma isfinite_mul: "isfinite x \<Longrightarrow> isfinite y \<Longrightarrow> isfinite (pf_mul x y)"
  by (auto simp: isfinite_iff)

end
