(* ===== verification/Trading_Helpers.thy ===== *)
theory Trading_Helpers
  imports Py_Float
begin

text \<open>
  \<^verbatim>\<open>src/laptop_agents/trading/helpers.py\<close>: the candle and tick data classes and the pure
  helpers on them, with the fee table of \<^verbatim>\<open>execution/fees.py\<close>. Candle timestamps are strings,
  as in the source.
\<close>

section \<open>Data\<close>

record candle =
  c_ts :: string
  c_open :: real
  c_high :: real
  c_low :: real
  c_close :: real
  c_volume :: real

record tick =
  t_symbol :: string
  t_bid :: real
  t_ask :: real
  t_last :: real
  t_ts :: string

text \<open>The string enumerations the program compares against; any other string is carried along.\<close>

datatype side = LONG | SHORT | OtherSide string

datatype entry_type = Market | Limit | OtherType string

section \<open>Fees and slippage\<close>

definition calculate_fees :: "real \<Rightarrow> real \<Rightarrow> real" where
  "calculate_fees notional fees_bps = notional * (fees_bps / 10000)"

definition apply_slippage :: "real \<Rightarrow> bool \<Rightarrow> bool \<Rightarrow> real \<Rightarrow> real" where
  "apply_slippage price is_entry is_long slip_bps =
     (let slip_rate = slip_bps / 10000
      in if is_long
         then (if is_entry then price * (1 + slip_rate) else price * (1 - slip_rate))
         else (if is_entry then price * (1 - slip_rate) else price * (1 + slip_rate)))"

record fee_tier =
  maker_bps :: real
  taker_bps :: real

definition BITUNIX_DEFAULT_TIER :: fee_tier where
  "BITUNIX_DEFAULT_TIER = \<lparr>maker_bps = 2, taker_bps = 6\<rparr>"

definition get_fee_bps :: "string \<Rightarrow> real" where
  "get_fee_bps order_type =
     (let tier = BITUNIX_DEFAULT_TIER
      in if py_upper order_type = ''LIMIT'' then maker_bps tier else taker_bps tier)"

definition calculate_fee_amount :: "real \<Rightarrow> string \<Rightarrow> real" where
  "calculate_fee_amount notional order_type = notional * (get_fee_bps order_type / 10000)"

text \<open>Slippage is adverse on every side: an entry never gets a better price, nor does an exit.\<close>

lemma apply_slippage_entry_long:
  "0 \<le> price \<Longrightarrow> 0 \<le> bps \<Longrightarrow> price \<le> apply_slippage price True True bps"
  by (simp add: apply_slippage_def Let_def mult_le_cancel_left1 algebra_simps)

lemma apply_slippage_entry_short:
  "0 \<le> price \<Longrightarrow> 0 \<le> bps \<Longrightarrow> apply_slippage price True False bps \<le> price"
  by (simp add: apply_slippage_def Let_def mult_left_le algebra_simps)

lemma apply_slippage_exit:
  "apply_slippage price False is_long bps = apply_slippage price True (\<not> is_long) bps"
  by (simp add: apply_slippage_def Let_def)

lemma apply_slippage_zero [simp]: "apply_slippage price e l 0 = price"
  by (simp add: apply_slippage_def Let_def)

lemma apply_slippage_pos:
  "0 < price \<Longrightarrow> 0 \<le> bps \<Longrightarrow> bps < 10000 \<Longrightarrow> 0 < apply_slippage price e l bps"
  by (simp add: apply_slippage_def Let_def)

section \<open>Moving average and candle order\<close>

definition sma :: "real list \<Rightarrow> int \<Rightarrow> real option res" where
  "sma vals window =
     (if int (length vals) < window then Inr None
      else let tail_vals = (if window \<le> 0 then (if window = 0 then vals else drop (nat (- window)) vals)
                       else last_n (nat window) vals)
           in bindE (py_div (sum_list tail_vals) (of_int window)) (\<lambda>m. Inr (Some m)))"

text \<open>\<open>first_ts > last_ts\<close> on strings is the lexicographic order of the characters.\<close>

fun str_less :: "string \<Rightarrow> string \<Rightarrow> bool" where
  "str_less [] [] = False"
| "str_less [] (y # ys) = True"
| "str_less (x # xs) [] = False"
| "str_less (x # xs) (y # ys) =
     (if (of_char x :: nat) < of_char y then True else if x = y then str_less xs ys else False)"

definition normalize_candle_order :: "candle list \<Rightarrow> candle list" where
  "normalize_candle_order candles =
     (if length candles < 2 then candles
      else if str_less (c_ts (last candles)) (c_ts (hd candles)) then rev candles
      else candles)"

lemma str_less_irrefl [simp]: "\<not> str_less s s"
  by (induction s) auto

lemma str_less_asym: "str_less s t \<Longrightarrow> \<not> str_less t s"
  by (induction s t rule: str_less.induct) (auto split: if_splits)

lemma set_normalize [simp]: "set (normalize_candle_order cs) = set cs"
  by (simp add: normalize_candle_order_def)

lemma length_normalize [simp]: "length (normalize_candle_order cs) = length cs"
  by (simp add: normalize_candle_order_def)

lemma normalize_idem: "normalize_candle_order (normalize_candle_order cs) = normalize_candle_order cs"
  by (cases cs) (auto simp: normalize_candle_order_def hd_rev last_rev dest: str_less_asym)

lemma normalize_ends:
  "cs \<noteq> [] \<Longrightarrow> \<not> str_less (c_ts (last (normalize_candle_order cs))) (c_ts (hd (normalize_candle_order cs)))"
  by (cases cs) (auto simp: normalize_candle_order_def hd_rev last_rev dest: str_less_asym split: if_splits)

lemma sma_window_mean:
  assumes "0 < window" and "window \<le> int (length vals)"
  shows "sma vals window = Inr (Some (sum_list (last_n (nat window) vals) / of_int window))"
  using assms by (simp add: sma_def Let_def)

section \<open>Position sizing\<close>

text \<open>
  \<open>None\<close> is the triple \<open>(None, None, None)\<close> of the source; the two ordering checks at its end
  raise ValueError.
\<close>

definition calculate_position_size ::
  "real \<Rightarrow> real \<Rightarrow> real \<Rightarrow> real \<Rightarrow> real \<Rightarrow> real \<Rightarrow> bool \<Rightarrow> (real \<times> real \<times> real) option res" where
  "calculate_position_size equity entry_price risk_pct stop_bps tp_r max_leverage is_long =
     (let stop_distance = entry_price * (stop_bps / 10000)
      in if stop_distance \<le> 0 then Inr None
      else let risk_amount = equity * (risk_pct / 100);
               qty_raw = risk_amount / stop_distance;
               max_notional = equity * max_leverage;
               max_qty = (if 0 < entry_price then max_notional / entry_price else 0);
               qty = min qty_raw max_qty
           in if qty \<le> 0 then Inr None
           else let stop_price = (if is_long then entry_price - stop_distance
                                  else entry_price + stop_distance);
                    tp_price = (if is_long then entry_price + stop_distance * tp_r
                                else entry_price - stop_distance * tp_r)
                in if is_long
                   then (if \<not> (stop_price < entry_price \<and> entry_price < tp_price)
                         then Inl (ValueError ''LONG position stop/tp ordering violation'')
                         else Inr (Some (qty, stop_price, tp_price)))
                   else (if \<not> (tp_price < entry_price \<and> entry_price < stop_price)
                         then Inl (ValueError ''SHORT position stop/tp ordering violation'')
                         else Inr (Some (qty, stop_price, tp_price))))"

section \<open>One-bar trade\<close>

record bar_trade =
  bt_side :: side
  bt_buy :: bool
  bt_entry :: real
  bt_exit :: real
  bt_qty :: real
  bt_pnl :: real
  bt_fees :: real

text \<open>
  The result dictionary also carries a fresh id and a timestamp, which nothing computes with.
\<close>

definition simulate_trade_one_bar ::
  "bool \<Rightarrow> real \<Rightarrow> real \<Rightarrow> real \<Rightarrow> real \<Rightarrow> real \<Rightarrow> bar_trade" where
  "simulate_trade_one_bar is_buy entry_px exit_px starting_balance fees_bps slip_bps =
     (let fees_rate = fees_bps / 10000;
          slip_rate = slip_bps / 10000;
          entry = (if is_buy then entry_px * (1 + slip_rate) else entry_px * (1 - slip_rate));
          exit' = (if is_buy then exit_px * (1 - slip_rate) else exit_px * (1 + slip_rate));
          qty = (if 0 < entry then starting_balance / entry else 0);
          gross = (if is_buy then (exit' - entry) * qty else (entry - exit') * qty);
          fees = (entry * qty + exit' * qty) * fees_rate;
          pnl = gross - fees
      in \<lparr>bt_side = (if is_buy then LONG else SHORT), bt_buy = is_buy, bt_entry = entry,
          bt_exit = exit', bt_qty = qty, bt_pnl = pnl, bt_fees = fees\<rparr>)"

section \<open>Gaps\<close>

record gap =
  g_prev_ts :: int
  g_curr_ts :: int
  g_missing :: int

definition interval_seconds :: "string \<Rightarrow> int" where
  "interval_seconds interval =
     (if interval = ''1m'' then 60 else if interval = ''5m'' then 300
      else if interval = ''15m'' then 900 else if interval = ''1h'' then 3600 else 60)"

definition ts_digits :: "string \<Rightarrow> int" where
  "ts_digits ts = (if py_isdigit ts then int_of_digits ts else 0)"

definition gap_between :: "int \<Rightarrow> candle \<Rightarrow> candle \<Rightarrow> gap list" where
  "gap_between interval_s prev cur =
     (let prev_ts = ts_digits (c_ts prev); curr_ts = ts_digits (c_ts cur)
      in if 0 < prev_ts \<and> 0 < curr_ts then
           (let actual_gap = curr_ts - prev_ts
            in if real_of_int actual_gap > real_of_int interval_s * 1.5
               then [\<lparr>g_prev_ts = prev_ts, g_curr_ts = curr_ts,
                      g_missing = actual_gap div interval_s - 1\<rparr>]
               else [])
         else [])"

fun gaps_from :: "int \<Rightarrow> candle list \<Rightarrow> gap list" where
  "gaps_from s [] = []"
| "gaps_from s [c] = []"
| "gaps_from s (c # d # cs) = gap_between s c d @ gaps_from s (d # cs)"

definition detect_candle_gaps :: "candle list \<Rightarrow> string \<Rightarrow> gap list" where
  "detect_candle_gaps candles interval =
     (if length candles < 2 then [] else gaps_from (interval_seconds interval) candles)"

lemma interval_seconds_pos: "60 \<le> interval_seconds i"
  by (simp add: interval_seconds_def)

end
