(* ===== verification/Indicators.thy ===== *)
theory Indicators
  imports Trading_Helpers
begin

text \<open>
  \<^verbatim>\<open>src/laptop_agents/indicators.py\<close> and the crossover strategy of \<^verbatim>\<open>trading/strategy.py\<close>:
  exponential average, true range, swings, level clusters, VWAP, cumulative volume delta and the
  sweep detector. An indicator that needs more data than it has returns \<open>None\<close>.
\<close>

section \<open>Exponential average\<close>

fun ema_loop :: "real \<Rightarrow> real \<Rightarrow> real list \<Rightarrow> real" where
  "ema_loop k e [] = e"
| "ema_loop k e (v # vs) = ema_loop k ((v - e) * k + e) vs"

definition ema :: "real list \<Rightarrow> int \<Rightarrow> real option" where
  "ema vals period =
     (if period \<le> 0 \<or> int (length vals) < period then None
      else Some (ema_loop (2 / (of_int period + 1))
                  (sum_list (take (nat period) vals) / of_int period)
                  (drop (nat period) vals)))"

lemma ema_loop_bounds:
  assumes "0 \<le> k" "k \<le> 1" "lo \<le> e" "e \<le> hi" "\<forall>v\<in>set vs. lo \<le> v \<and> v \<le> hi"
  shows "lo \<le> ema_loop k e vs \<and> ema_loop k e vs \<le> hi"
  using assms
proof (induction vs arbitrary: e)
  case (Cons v vs)
  have conv: "(v - e) * k + e = (1 - k) * e + k * v" by (simp add: algebra_simps)
  have "lo \<le> (1 - k) * e + k * v" "(1 - k) * e + k * v \<le> hi"
    using Cons.prems convex_bound_le [of e hi v "1 - k" k] convex_bound_le [of "- e" "- lo" "- v" "1 - k" k]
    by (simp_all add: algebra_simps)
  then show ?case using Cons by (simp add: conv)
qed simp

section \<open>True range\<close>

definition true_range :: "real \<Rightarrow> real \<Rightarrow> real \<Rightarrow> real" where
  "true_range prev_close high low =
     max_from (high - low) [\<bar>high - prev_close\<bar>, \<bar>low - prev_close\<bar>]"

fun true_ranges :: "candle list \<Rightarrow> real list" where
  "true_ranges [] = []"
| "true_ranges [c] = []"
| "true_ranges (c # d # cs) = true_range (c_close c) (c_high d) (c_low d) # true_ranges (d # cs)"

definition atr :: "candle list \<Rightarrow> int \<Rightarrow> real option res" where
  "atr candles period =
     (if int (length candles) < period + 1 then Inr None
      else let trs = true_ranges candles
           in if int (length trs) < period then Inr None
              else bindE (py_div (sum_list (if 0 < period then last_n (nat period) trs
                                            else drop (nat (- period)) trs)) (of_int period))
                     (\<lambda>a. Inr (Some a)))"

lemma length_true_ranges: "length (true_ranges cs) = length cs - 1"
  by (induction cs rule: true_ranges.induct) auto

lemma true_range_nonneg: "0 \<le> true_range p h l"
proof -
  have "\<bar>h - p\<bar> \<le> true_range p h l"
    unfolding true_range_def by (rule max_from_bound) simp
  then show ?thesis using abs_ge_zero by (rule order_trans [rotated])
qed

lemma true_range_ge_range: "h - l \<le> true_range p h l"
  unfolding true_range_def by (rule max_from_bound) simp

lemma true_ranges_nonneg: "t \<in> set (true_ranges cs) \<Longrightarrow> 0 \<le> t"
  by (induction cs rule: true_ranges.induct) (auto simp: true_range_nonneg)

text \<open>With a positive period the average is defined exactly from \<open>period + 1\<close> candles on.\<close>

lemma atr_positive_period:
  assumes "0 < p"
  shows "atr cs p = (if int (length cs) < p + 1 then Inr None
    else Inr (Some (sum_list (last_n (nat p) (true_ranges cs)) / of_int p)))"
  using assms by (simp add: atr_def Let_def length_true_ranges of_nat_diff)

lemma atr_nonneg: "0 < p \<Longrightarrow> atr cs p = Inr (Some a) \<Longrightarrow> 0 \<le> a"
  using true_ranges_nonneg set_last_n
  by (force simp: atr_positive_period split: if_splits intro!: divide_nonneg_nonneg sum_list_nonneg)

section \<open>Swings and levels\<close>

definition swing_high_low :: "candle list \<Rightarrow> nat \<Rightarrow> (real option \<times> real option) res" where
  "swing_high_low candles lookback =
     (if candles = [] then Inr (None, None)
      else let window = (if lookback \<le> length candles
                         then (if lookback = 0 then candles else last_n lookback candles)
                         else candles)
           in bindE (py_max (map c_high window)) (\<lambda>hi.
              bindE (py_min (map c_low window)) (\<lambda>lo. Inr (Some hi, Some lo))))"

definition equal_level :: "real list \<Rightarrow> real \<Rightarrow> real option" where
  "equal_level vals tol_pct =
     (if length vals < 6 then None
      else let recent = last_n 12 vals;
               lst = last recent;
               tol = \<bar>lst\<bar> * tol_pct;
               matches = filter (\<lambda>v. \<bar>v - lst\<bar> \<le> tol) (butlast recent)
           in if 1 \<le> length matches
              then Some ((sum_list matches + lst) / (real (length matches) + 1))
              else None)"

lemma swing_high_low_spec:
  assumes "swing_high_low cs n = Inr (Some hi, Some lo)" and "c \<in> set cs" and "length cs \<le> n"
  shows "c_high c \<le> hi \<and> lo \<le> c_low c"
proof -
  have w: "(if n \<le> length cs then (if n = 0 then cs else last_n n cs) else cs) = cs"
    using assms(3) by simp
  from assms(1) obtain "py_max (map c_high cs) = Inr hi" "py_min (map c_low cs) = Inr lo"
    by (auto simp: swing_high_low_def w bindE_Inr_iff split: if_splits)
  with assms(2) show ?thesis by (auto dest!: py_max_Inr py_min_Inr)
qed

lemma equal_level_close:
  assumes lvl: "equal_level vs tol = Some l" and "0 \<le> tol"
  shows "\<bar>l - last vs\<bar> \<le> \<bar>last vs\<bar> * tol"
proof -
  let ?r = "last_n 12 vs" let ?x = "last ?r"
  let ?m = "filter (\<lambda>v. \<bar>v - ?x\<bar> \<le> \<bar>?x\<bar> * tol) (butlast ?r)"
  let ?n = "real (length ?m) + 1"
  from lvl have n6: "6 \<le> length vs" and l: "l = (sum_list ?m + ?x) / ?n"
    by (auto simp: equal_level_def Let_def split: if_splits)
  have x: "?x = last vs" using n6 by (cases "vs = []") (auto simp: last_n_def last_drop)
  have dev: "\<bar>sum_list ?m - real (length ?m) * ?x\<bar> \<le> real (length ?m) * (\<bar>?x\<bar> * tol)"
    using sum_list_le_map [of ?m "\<lambda>v. v" "?x + \<bar>?x\<bar> * tol"]
      sum_list_ge_map [of ?m "?x - \<bar>?x\<bar> * tol" "\<lambda>v. v"]
    by (force simp: abs_le_iff algebra_simps)
  have "l - ?x = (sum_list ?m - real (length ?m) * ?x) / ?n"
    by (simp add: l field_simps)
  then have "\<bar>l - ?x\<bar> = \<bar>sum_list ?m - real (length ?m) * ?x\<bar> / ?n" by simp
  also have "\<dots> \<le> (real (length ?m) * (\<bar>?x\<bar> * tol)) / ?n"
    using dev by (rule divide_right_mono) simp
  also have "\<dots> \<le> \<bar>?x\<bar> * tol"
    using assms(2) by (simp add: divide_le_eq algebra_simps)
  finally show ?thesis by (simp add: x)
qed

section \<open>Volume-weighted price and volume delta\<close>

fun vwap_loop :: "real \<Rightarrow> real \<Rightarrow> candle list \<Rightarrow> real list" where
  "vwap_loop pv vol [] = []"
| "vwap_loop pv vol (c # cs) =
     (let typical_price = (c_high c + c_low c + c_close c) / 3;
          pv' = pv + typical_price * c_volume c;
          vol' = vol + c_volume c
      in (if vol' = 0 then c_close c else pv' / vol') # vwap_loop pv' vol' cs)"

definition vwap :: "candle list \<Rightarrow> real list" where
  "vwap candles = vwap_loop 0 0 candles"

definition cvd_delta :: "candle \<Rightarrow> real" where
  "cvd_delta c =
     (let range_len = c_high c - c_low c
      in if range_len = 0 then 0
         else ((c_close c - c_low c) - (c_high c - c_close c)) / range_len * c_volume c)"

fun cvd_loop :: "real \<Rightarrow> candle list \<Rightarrow> real list" where
  "cvd_loop acc [] = []"
| "cvd_loop acc (c # cs) = (let acc' = acc + cvd_delta c in acc' # cvd_loop acc' cs)"

definition cvd_indicator :: "candle list \<Rightarrow> real list" where
  "cvd_indicator candles = cvd_loop 0 candles"

lemma length_vwap_loop [simp]: "length (vwap_loop pv vol cs) = length cs"
  by (induction cs arbitrary: pv vol) (auto simp: Let_def)

lemma length_vwap [simp]: "length (vwap cs) = length cs"
  by (simp add: vwap_def)

lemma length_cvd_loop [simp]: "length (cvd_loop a cs) = length cs"
  by (induction cs arbitrary: a) (auto simp: Let_def)

definition sane_candle :: "candle \<Rightarrow> bool" where
  "sane_candle c \<longleftrightarrow> c_low c \<le> c_open c \<and> c_open c \<le> c_high c \<and> c_low c \<le> c_close c
     \<and> c_close c \<le> c_high c \<and> 0 \<le> c_volume c"

text \<open>One candle moves the delta by at most its volume.\<close>

lemma cvd_delta_bound: "sane_candle c \<Longrightarrow> \<bar>cvd_delta c\<bar> \<le> c_volume c"
proof (cases "c_high c - c_low c = 0")
  case False
  assume s: "sane_candle c"
  let ?r = "c_high c - c_low c"
  from s False have r: "0 < ?r" by (auto simp: sane_candle_def)
  have "\<bar>(c_close c - c_low c) - (c_high c - c_close c)\<bar> \<le> ?r"
    using s by (auto simp: sane_candle_def abs_le_iff)
  then have q: "\<bar>((c_close c - c_low c) - (c_high c - c_close c)) / ?r\<bar> \<le> 1"
    using r by (simp add: abs_le_iff divide_le_eq_1 le_divide_eq)
  have "\<bar>cvd_delta c\<bar> = \<bar>((c_close c - c_low c) - (c_high c - c_close c)) / ?r\<bar> * \<bar>c_volume c\<bar>"
    using False by (simp add: cvd_delta_def Let_def abs_mult)
  also have "\<dots> \<le> 1 * \<bar>c_volume c\<bar>" using q by (rule mult_right_mono) simp
  finally show ?thesis using s by (simp add: sane_candle_def)
qed (auto simp: cvd_delta_def sane_candle_def)

text \<open>Every VWAP value of a window with positive volume lies in the window's price range.\<close>

lemma vwap_loop_bounds:
  assumes "0 \<le> vol" "lo * vol \<le> pv" "pv \<le> hi * vol"
    and "\<forall>c\<in>set cs. sane_candle c \<and> lo \<le> c_low c \<and> c_high c \<le> hi"
  shows "\<forall>v\<in>set (vwap_loop pv vol cs). lo \<le> v \<and> v \<le> hi"
  using assms
proof (induction cs arbitrary: pv vol)
  case (Cons c cs)
  define t where "t = (c_high c + c_low c + c_close c) / 3"
  let ?pv = "pv + t * c_volume c" let ?vol = "vol + c_volume c"
  have c: "sane_candle c" "lo \<le> c_low c" "c_high c \<le> hi" using Cons.prems by auto
  have t: "lo \<le> t" "t \<le> hi" and v0: "0 \<le> c_volume c"
    using c by (auto simp: sane_candle_def t_def)
  have inv: "0 \<le> ?vol" "lo * ?vol \<le> ?pv" "?pv \<le> hi * ?vol"
    using Cons.prems v0 mult_right_mono [OF t(1) v0] mult_right_mono [OF t(2) v0]
    by (simp_all add: algebra_simps)
  have rest: "\<forall>v\<in>set (vwap_loop ?pv ?vol cs). lo \<le> v \<and> v \<le> hi"
    using Cons.IH [OF inv] Cons.prems by simp
  have hd: "lo \<le> (if ?vol = 0 then c_close c else ?pv / ?vol)"
      "(if ?vol = 0 then c_close c else ?pv / ?vol) \<le> hi"
    using c inv by (auto simp: sane_candle_def pos_le_divide_eq pos_divide_le_eq)
  from rest hd show ?case unfolding t_def by (simp add: Let_def split: if_splits)
qed simp

section \<open>Sweeps\<close>

datatype sweep_side = SweptHigh | SweptLow

record sweep =
  sw_swept :: "sweep_side option"
  sw_level :: "real option"
  sw_reclaimed :: bool

definition no_sweep :: sweep where
  "no_sweep = \<lparr>sw_swept = None, sw_level = None, sw_reclaimed = False\<rparr>"

definition detect_sweep :: "candle list \<Rightarrow> nat \<Rightarrow> sweep res" where
  "detect_sweep candles lookback =
     (if length candles < lookback + 1 then Inr no_sweep
      else let window = butlast (last_n (lookback + 1) candles); cur = last candles
           in bindE (py_max (map c_high window)) (\<lambda>swing_high.
              bindE (py_min (map c_low window)) (\<lambda>swing_low.
                if swing_high < c_high cur \<and> c_close cur < swing_high
                then Inr \<lparr>sw_swept = Some SweptHigh, sw_level = Some swing_high, sw_reclaimed = True\<rparr>
                else if c_low cur < swing_low \<and> swing_low < c_close cur
                then Inr \<lparr>sw_swept = Some SweptLow, sw_level = Some swing_low, sw_reclaimed = True\<rparr>
                else Inr no_sweep)))"

lemma detect_sweep_reclaimed:
  assumes "detect_sweep cs n = Inr s" and "sw_reclaimed s"
  shows "\<exists>lvl. sw_level s = Some lvl \<and>
     ((sw_swept s = Some SweptHigh \<and> c_close (last cs) < lvl \<and> lvl < c_high (last cs)) \<or>
      (sw_swept s = Some SweptLow \<and> lvl < c_close (last cs) \<and> c_low (last cs) < lvl))"
  using assms
  by (auto simp: detect_sweep_def Let_def no_sweep_def bindE_Inr_iff split: if_splits)

section \<open>The crossover strategy\<close>

definition generate_signal :: "int \<Rightarrow> int \<Rightarrow> bool \<Rightarrow> candle list \<Rightarrow> bool option res" where
  "generate_signal fast_period slow_period volatility_filter candles =
     (if candles = [] \<or> int (length candles) < max fast_period slow_period then Inr None
      else let closes = map c_close candles
           in bindE (sma closes fast_period) (\<lambda>fast_sma.
              bindE (sma closes slow_period) (\<lambda>slow_sma.
                case (fast_sma, slow_sma) of
                  (Some f, Some s) \<Rightarrow>
                    (if volatility_filter
                     then bindE (atr candles 14) (\<lambda>a.
                       case a of None \<Rightarrow> Inr (Some (s < f))
                       | Some a' \<Rightarrow> bindE (py_div a' (last closes)) (\<lambda>ratio.
                           if ratio < 5 / 1000 then Inr None else Inr (Some (s < f))))
                     else Inr (Some (s < f)))
                | _ \<Rightarrow> Inr None)))"

end
