(* ===== verification/Position_Engine.thy ===== *)
theory Position_Engine
  imports Trading_Helpers
begin

text \<open>
  \<^verbatim>\<open>paper/broker_types.py\<close> and \<^verbatim>\<open>paper/position_engine.py\<close>: a position is a queue of lots; closing
  consumes the lots first-in-first-out. \<open>process_fifo_close\<close> and \<open>calculate_full_exit_pnl\<close> mutate
  \<open>pos.lots\<close>, so they return the remaining lots beside their result, also when they raise.

  The lemmas show that under the position invariant the quantities and fees are conserved, that
  closing in two parts is closing once, and that the lot-wise and the averaged profit agree for
  linear contracts.
\<close>

section \<open>Data\<close>

record lot =
  l_qty :: real
  l_price :: real
  l_fees :: real

record position =
  p_side :: side
  p_qty :: real
  p_sl :: real
  p_tp :: real
  p_opened_at :: string
  p_lots :: "lot list"
  p_trade_id :: string
  p_bars_open :: int
  p_trail_active :: bool
  p_trail_stop :: real

definition lots_qty :: "lot list \<Rightarrow> real" where
  "lots_qty ls = (\<Sum>l\<leftarrow>ls. l_qty l)"

definition lots_notional :: "lot list \<Rightarrow> real" where
  "lots_notional ls = (\<Sum>l\<leftarrow>ls. l_qty l * l_price l)"

definition lots_fees :: "lot list \<Rightarrow> real" where
  "lots_fees ls = (\<Sum>l\<leftarrow>ls. l_fees l)"

definition pos_entry :: "position \<Rightarrow> real" where
  "pos_entry p =
     (if p_lots p = [] then 0
      else let total_qty = lots_qty (p_lots p)
           in if total_qty = 0 then 0 else lots_notional (p_lots p) / total_qty)"

definition pos_entry_fees :: "position \<Rightarrow> real" where
  "pos_entry_fees p = lots_fees (p_lots p)"

lemma lots_qty_simps [simp]: "lots_qty [] = 0" "lots_qty (l # ls) = l_qty l + lots_qty ls"
  "lots_qty (ls @ ms) = lots_qty ls + lots_qty ms"
  by (simp_all add: lots_qty_def)

lemma lots_notional_simps [simp]: "lots_notional [] = 0"
  "lots_notional (l # ls) = l_qty l * l_price l + lots_notional ls"
  "lots_notional (ls @ ms) = lots_notional ls + lots_notional ms"
  by (simp_all add: lots_notional_def)

lemma lots_fees_simps [simp]: "lots_fees [] = 0" "lots_fees (l # ls) = l_fees l + lots_fees ls"
  "lots_fees (ls @ ms) = lots_fees ls + lots_fees ms"
  by (simp_all add: lots_fees_def)

section \<open>Mark to market\<close>

definition calculate_unrealized_pnl :: "position option \<Rightarrow> real \<Rightarrow> bool \<Rightarrow> real res" where
  "calculate_unrealized_pnl pos current_price is_inverse =
     (case pos of None \<Rightarrow> Inr 0
      | Some p \<Rightarrow>
        if p_qty p \<le> 0 then Inr 0
        else if is_inverse then
          bindE (py_div 1 (pos_entry p)) (\<lambda>inv_entry.
          bindE (py_div 1 current_price) (\<lambda>inv_price.
            let pnl_coins = (if p_side p = LONG then p_qty p * (inv_entry - inv_price)
                             else p_qty p * (inv_price - inv_entry))
            in Inr (pnl_coins * current_price)))
        else if p_side p = LONG then Inr ((current_price - pos_entry p) * p_qty p)
        else Inr ((pos_entry p - current_price) * p_qty p))"

section \<open>First-in-first-out closing\<close>

record fifo_result =
  f_realized_pnl :: real
  f_exit_fees :: real
  f_reduction :: real

text \<open>One iteration's settlement of \<open>close_qty\<close> out of a lot: profit, exit fees, entry-fee share.\<close>

definition settle_lot ::
  "side \<Rightarrow> real \<Rightarrow> real \<Rightarrow> bool \<Rightarrow> lot \<Rightarrow> real \<Rightarrow> (real \<times> real \<times> real) res" where
  "settle_lot pos_side fill_px exit_fee_rate is_inverse lot close_qty =
     (let avg_entry = l_price lot
      in bindE (py_div close_qty (l_qty lot)) (\<lambda>ratio.
         let entry_fees_portion = l_fees lot * ratio
         in bindE (if is_inverse then
                     bindE (py_div 1 avg_entry) (\<lambda>inv_entry.
                     bindE (py_div 1 fill_px) (\<lambda>inv_px.
                       let pnl_coins = (inv_entry - inv_px) * close_qty;
                           pnl_coins' = (if pos_side = SHORT then - pnl_coins else pnl_coins)
                       in Inr (pnl_coins' * fill_px)))
                   else if pos_side = LONG then Inr ((fill_px - avg_entry) * close_qty)
                   else Inr ((avg_entry - fill_px) * close_qty)) (\<lambda>pnl.
            Inr (pnl, \<bar>if \<not> is_inverse then close_qty * fill_px else close_qty\<bar> * exit_fee_rate,
                 entry_fees_portion))))"

fun fifo_loop ::
  "side \<Rightarrow> real \<Rightarrow> real \<Rightarrow> bool \<Rightarrow> real \<Rightarrow> fifo_result \<Rightarrow> lot list \<Rightarrow> fifo_result res \<times> lot list" where
  "fifo_loop sd px rate invc remaining acc [] = (Inr acc, [])"
| "fifo_loop sd px rate invc remaining acc (lot # lots) =
     (if 0 < remaining then
        let close_qty = min remaining (l_qty lot)
        in case settle_lot sd px rate invc lot close_qty of
             Inl e \<Rightarrow> (Inl e, lot # lots)
           | Inr (pnl, exit_fees, entry_portion) \<Rightarrow>
             let acc' = \<lparr>f_realized_pnl = f_realized_pnl acc + (pnl - exit_fees - entry_portion),
                         f_exit_fees = f_exit_fees acc + (exit_fees + entry_portion),
                         f_reduction = f_reduction acc + close_qty\<rparr>
             in if close_qty < l_qty lot
                then (Inr acc', lot\<lparr>l_qty := l_qty lot - close_qty,
                                    l_fees := l_fees lot - entry_portion\<rparr> # lots)
                else fifo_loop sd px rate invc (remaining - close_qty) acc' lots
      else (Inr acc, lot # lots))"

definition fifo_start :: fifo_result where
  "fifo_start = \<lparr>f_realized_pnl = 0, f_exit_fees = 0, f_reduction = 0\<rparr>"

definition process_fifo_close ::
  "position \<Rightarrow> real \<Rightarrow> real \<Rightarrow> real \<Rightarrow> bool \<Rightarrow> fifo_result res \<times> position" where
  "process_fifo_close pos actual_qty fill_px exit_fee_rate is_inverse =
     (let (r, lots) = fifo_loop (p_side pos) fill_px exit_fee_rate is_inverse actual_qty
                        fifo_start (p_lots pos)
      in (r, pos\<lparr>p_lots := lots\<rparr>))"

section \<open>Full exit\<close>

record exit_result =
  x_avg_entry :: real
  x_net_pnl :: real
  x_total_fees :: real
  x_risk :: real

definition calculate_full_exit_pnl ::
  "position \<Rightarrow> real \<Rightarrow> real \<Rightarrow> bool \<Rightarrow> exit_result res \<times> position" where
  "calculate_full_exit_pnl pos px exit_fee_rate is_inverse =
     (let qty = p_qty pos;
          total_entry_notional = lots_notional (p_lots pos);
          total_entry_fees = lots_fees (p_lots pos);
          pos' = pos\<lparr>p_lots := []\<rparr>;
          avg_entry = (if 0 < qty then total_entry_notional / qty else px);
          pnl_risk =
            (if is_inverse then
               bindE (py_div 1 avg_entry) (\<lambda>inv_entry.
               bindE (py_div 1 px) (\<lambda>inv_px.
               bindE (py_div 1 (p_sl pos)) (\<lambda>inv_sl.
                 let pnl_coins = (if p_side pos = LONG then qty * (inv_entry - inv_px)
                                  else qty * (inv_px - inv_entry))
                 in Inr (pnl_coins * px, qty * \<bar>inv_entry - inv_sl\<bar> * px))))
             else Inr ((if p_side pos = LONG then (px - avg_entry) * qty else (avg_entry - px) * qty),
                       \<bar>avg_entry - p_sl pos\<bar> * qty));
          exit_fees = \<bar>if \<not> is_inverse then qty * px else qty\<bar> * exit_fee_rate
      in (bindE pnl_risk (\<lambda>(pnl, risk).
            Inr \<lparr>x_avg_entry = avg_entry, x_net_pnl = pnl - exit_fees - total_entry_fees,
                 x_total_fees = exit_fees + total_entry_fees, x_risk = risk\<rparr>), pos'))"

section \<open>The position invariant\<close>

definition lot_ok :: "lot \<Rightarrow> bool" where
  "lot_ok l \<longleftrightarrow> 0 < l_qty l \<and> 0 < l_price l"

definition lots_ok :: "lot list \<Rightarrow> bool" where
  "lots_ok ls \<longleftrightarrow> list_all lot_ok ls"

definition wf_position :: "position \<Rightarrow> bool" where
  "wf_position p \<longleftrightarrow> p_lots p \<noteq> [] \<and> lots_ok (p_lots p) \<and> p_qty p = lots_qty (p_lots p)
     \<and> (p_side p = LONG \<or> p_side p = SHORT)"

lemma lots_ok_simps [simp]: "lots_ok []" "lots_ok (l # ls) \<longleftrightarrow> lot_ok l \<and> lots_ok ls"
  "lots_ok (ls @ ms) \<longleftrightarrow> lots_ok ls \<and> lots_ok ms"
  by (simp_all add: lots_ok_def)

lemma lots_qty_nonneg: "lots_ok ls \<Longrightarrow> 0 \<le> lots_qty ls"
  by (induction ls) (auto simp: lot_ok_def)

lemma lots_qty_pos: "lots_ok ls \<Longrightarrow> ls \<noteq> [] \<Longrightarrow> 0 < lots_qty ls"
  using lots_qty_nonneg by (cases ls) (auto simp: lot_ok_def intro: add_pos_nonneg)

lemma lots_notional_pos: "lots_ok ls \<Longrightarrow> ls \<noteq> [] \<Longrightarrow> 0 < lots_notional ls"
proof (induction ls)
  case (Cons l ls)
  then show ?case by (cases ls) (auto simp: lot_ok_def intro: add_pos_pos)
qed simp

lemma wf_position_qty_pos: "wf_position p \<Longrightarrow> 0 < p_qty p"
  by (simp add: wf_position_def lots_qty_pos)

lemma wf_position_entry:
  "wf_position p \<Longrightarrow> pos_entry p = lots_notional (p_lots p) / p_qty p"
  using lots_qty_pos [of "p_lots p"] by (auto simp: pos_entry_def wf_position_def Let_def)

lemma wf_position_entry_pos: "wf_position p \<Longrightarrow> 0 < pos_entry p"
  by (simp add: wf_position_entry wf_position_qty_pos)
    (simp add: wf_position_def lots_notional_pos lots_qty_pos)

section \<open>What a settlement is worth\<close>

text \<open>
  The profit of \<open>q\<close> units of a lot at price \<open>px\<close>: linear in \<open>q\<close> for both contract kinds. It is
  the specification the loop is compared with.
\<close>

definition unit_gain :: "side \<Rightarrow> real \<Rightarrow> bool \<Rightarrow> real \<Rightarrow> real" where
  "unit_gain sd px invc price =
     (if invc then (if sd = SHORT then - ((1 / price - 1 / px) * px) else (1 / price - 1 / px) * px)
      else if sd = LONG then px - price else price - px)"

definition unit_exit_fee :: "real \<Rightarrow> real \<Rightarrow> bool \<Rightarrow> real" where
  "unit_exit_fee px rate invc = (if invc then 1 else px) * rate"

definition lots_gain :: "side \<Rightarrow> real \<Rightarrow> bool \<Rightarrow> lot list \<Rightarrow> real" where
  "lots_gain sd px invc ls = (\<Sum>l\<leftarrow>ls. l_qty l * unit_gain sd px invc (l_price l))"

lemma lots_gain_simps [simp]: "lots_gain sd px invc [] = 0"
  "lots_gain sd px invc (l # ls) = l_qty l * unit_gain sd px invc (l_price l) + lots_gain sd px invc ls"
  by (simp_all add: lots_gain_def)

lemma settle_lot_ok:
  assumes "lot_ok l" "0 < px" "0 \<le> q"
  shows "settle_lot sd px rate invc l q
     = Inr (q * unit_gain sd px invc (l_price l), q * unit_exit_fee px rate invc, l_fees l * (q / l_qty l))"
  using assms
  by (auto simp: settle_lot_def lot_ok_def Let_def unit_gain_def unit_exit_fee_def abs_mult
      algebra_simps)

lemma lots_gain_linear_long: "lots_gain LONG px False ls = px * lots_qty ls - lots_notional ls"
  by (induction ls) (simp_all add: unit_gain_def algebra_simps)

lemma lots_gain_linear_short: "lots_gain SHORT px False ls = lots_notional ls - px * lots_qty ls"
  by (induction ls) (simp_all add: unit_gain_def algebra_simps)

text \<open>The mark-to-market value is the sum of the lots' gains.\<close>

lemma unrealized_linear_lots:
  assumes "wf_position p"
  shows "calculate_unrealized_pnl (Some p) px False = Inr (lots_gain (p_side p) px False (p_lots p))"
proof -
  have "0 < p_qty p" and e: "pos_entry p * p_qty p = lots_notional (p_lots p)"
    using wf_position_qty_pos [OF assms] wf_position_entry [OF assms] by simp_all
  then show ?thesis using assms
    by (auto simp: calculate_unrealized_pnl_def wf_position_def lots_gain_linear_long
        lots_gain_linear_short left_diff_distrib)
qed

section \<open>The FIFO loop\<close>

text \<open>Under the invariant the loop never raises, and it removes exactly the smaller quantity.\<close>

lemma fifo_loop_total:
  assumes "lots_ok ls" "0 < px" "0 \<le> r"
  shows "\<exists>acc' ls'. fifo_loop sd px rate invc r acc ls = (Inr acc', ls')
     \<and> lots_ok ls' \<and> f_reduction acc' = f_reduction acc + min r (lots_qty ls)
     \<and> lots_qty ls' = lots_qty ls - min r (lots_qty ls)
     \<and> f_realized_pnl acc' + lots_gain sd px invc ls' + f_exit_fees acc'
        = f_realized_pnl acc + lots_gain sd px invc ls + f_exit_fees acc
     \<and> f_exit_fees acc' + lots_fees ls'
        = f_exit_fees acc + lots_fees ls + min r (lots_qty ls) * unit_exit_fee px rate invc"
  using assms
proof (induction ls arbitrary: r acc)
  case (Cons l ls)
  have l: "lot_ok l" "0 < l_qty l" and ls: "lots_ok ls" and q0: "0 \<le> lots_qty ls"
    using Cons.prems lots_qty_nonneg by (auto simp: lot_ok_def)
  show ?case
  proof (cases "0 < r \<and> l_qty l \<le> r")
    case whole: True
    let ?acc = "\<lparr>f_realized_pnl = f_realized_pnl acc + (l_qty l * unit_gain sd px invc (l_price l)
          - l_qty l * unit_exit_fee px rate invc - l_fees l),
        f_exit_fees = f_exit_fees acc + (l_qty l * unit_exit_fee px rate invc + l_fees l),
        f_reduction = f_reduction acc + l_qty l\<rparr>"
    have step: "fifo_loop sd px rate invc r acc (l # ls) = fifo_loop sd px rate invc (r - l_qty l) ?acc ls"
      using whole l Cons.prems by (simp add: settle_lot_ok Let_def)
    from Cons.IH [OF ls \<open>0 < px\<close>, of "r - l_qty l" ?acc] whole
    show ?thesis unfolding step by (auto simp: min_def algebra_simps)
  next
    case False
    then show ?thesis using l ls q0 Cons.prems
      by (auto simp: settle_lot_ok Let_def min_def lot_ok_def algebra_simps)
  qed
qed (simp add: min_def)

lemma fifo_loop_nothing [simp]: "r \<le> 0 \<Longrightarrow> fifo_loop sd px rate invc r acc ls = (Inr acc, ls)"
  by (cases ls) simp_all

text \<open>Closing \<open>a\<close> and then \<open>b\<close> at the same price is closing \<open>a + b\<close>.\<close>

lemma fifo_loop_split:
  assumes "lots_ok ls" "0 < px" "0 \<le> a" "0 \<le> b"
    and "fifo_loop sd px rate invc a acc ls = (Inr acc1, ls1)"
  shows "fifo_loop sd px rate invc b acc1 ls1 = fifo_loop sd px rate invc (a + b) acc ls"
  using assms
proof (induction ls arbitrary: a acc)
  case (Cons l ls)
  have l: "lot_ok l" "0 < l_qty l" and ls: "lots_ok ls"
    using Cons.prems by (auto simp: lot_ok_def)
  consider (none) "a = 0" | (part) "0 < a" "a < l_qty l" | (whole) "0 < a" "l_qty l \<le> a"
    using Cons.prems by fastforce
  then show ?case
  proof cases
    case none
    with Cons.prems show ?thesis by simp
  next
    case whole
    with Cons.prems l ls show ?thesis
      by (auto simp: settle_lot_ok Let_def min_absorb2 algebra_simps
          dest!: Cons.IH [rotated -1])
  next
    case part
    let ?f = "l_fees l - l_fees l * (a / l_qty l)"
    let ?l = "l\<lparr>l_qty := l_qty l - a, l_fees := ?f\<rparr>"
    have ok': "lot_ok ?l"
      using part l by (simp add: lot_ok_def)
    have frac: "?f * (q / (l_qty l - a)) = l_fees l * (q / l_qty l)" for q
      using part l by (simp add: field_simps)
    have frac': "(l_fees l - l_fees l * a / l_qty l) * q / (l_qty l - a) = l_fees l * q / l_qty l" for q
      using frac [of q] by simp
    have settle': "settle_lot sd px rate invc ?l q = Inr (q * unit_gain sd px invc (l_price l),
        q * unit_exit_fee px rate invc, l_fees l * (q / l_qty l))" if "0 \<le> q" for q
      using settle_lot_ok [OF ok' \<open>0 < px\<close> that, of sd rate invc] frac by simp
    from part Cons.prems l have acc1:
      "acc1 = \<lparr>f_realized_pnl = f_realized_pnl acc + (a * unit_gain sd px invc (l_price l)
          - a * unit_exit_fee px rate invc - l_fees l * (a / l_qty l)),
        f_exit_fees = f_exit_fees acc + (a * unit_exit_fee px rate invc + l_fees l * (a / l_qty l)),
        f_reduction = f_reduction acc + a\<rparr>"
      "ls1 = l\<lparr>l_qty := l_qty l - a, l_fees := l_fees l - l_fees l * (a / l_qty l)\<rparr> # ls"
      by (auto simp: settle_lot_ok Let_def)
    consider "b = 0" | "0 < b" "b < l_qty l - a" | "0 < b" "l_qty l - a \<le> b"
      using Cons.prems by fastforce
    then show ?thesis
    proof cases
      case 1
      with Cons.prems show ?thesis by simp
    next
      case 2
      then show ?thesis using part l Cons.prems ok' unfolding acc1
        by (simp add: settle' frac' settle_lot_ok Let_def add_divide_distrib distrib_left
            distrib_right diff_diff_eq)
    next
      case 3
      then show ?thesis using part l Cons.prems ok' unfolding acc1
        by (simp add: settle' frac' settle_lot_ok Let_def min_absorb2 diff_divide_distrib
            left_diff_distrib right_diff_distrib diff_diff_eq2 add_diff_eq diff_diff_eq
            add.commute [of a b])
    qed
  qed
qed simp

lemma process_fifo_close_total:
  assumes "wf_position p" "0 < px" "0 \<le> q"
  shows "\<exists>r ls. process_fifo_close p q px rate invc = (Inr r, p\<lparr>p_lots := ls\<rparr>)
     \<and> lots_ok ls \<and> f_reduction r = min q (p_qty p) \<and> lots_qty ls = p_qty p - f_reduction r"
  using fifo_loop_total [of "p_lots p" px q "p_side p" rate invc fifo_start] assms
  by (auto simp: process_fifo_close_def fifo_start_def wf_position_def)

text \<open>Closing everything lot by lot earns what the averaged full exit computes (linear contracts).\<close>

lemma full_exit_is_fifo:
  assumes wf: "wf_position p" and px: "0 < px"
  shows "\<exists>r x. process_fifo_close p (p_qty p) px rate False = (Inr r, p\<lparr>p_lots := []\<rparr>)
     \<and> calculate_full_exit_pnl p px rate False = (Inr x, p\<lparr>p_lots := []\<rparr>)
     \<and> f_realized_pnl r = x_net_pnl x \<and> f_exit_fees r = x_total_fees x"
proof -
  have q: "0 < p_qty p" "p_qty p = lots_qty (p_lots p)" and ok: "lots_ok (p_lots p)"
    using wf wf_position_qty_pos by (auto simp: wf_position_def)
  from fifo_loop_total [OF ok px, of "p_qty p" "p_side p" rate False fifo_start] q
  obtain r ls where r: "fifo_loop (p_side p) px rate False (p_qty p) fifo_start (p_lots p) = (Inr r, ls)"
      "lots_ok ls" "lots_qty ls = 0"
    and g: "f_realized_pnl r + lots_gain (p_side p) px False ls + f_exit_fees r
        = lots_gain (p_side p) px False (p_lots p)"
    and f: "f_exit_fees r + lots_fees ls = lots_fees (p_lots p) + p_qty p * (px * rate)"
    by (auto simp: fifo_start_def unit_exit_fee_def)
  from r(2,3) have ls: "ls = []" using lots_qty_pos by fastforce
  have n: "lots_notional (p_lots p) / p_qty p * p_qty p = lots_notional (p_lots p)"
    using q(1) by simp
  from wf have side: "p_side p = LONG \<or> p_side p = SHORT" by (simp add: wf_position_def)
  have net: "f_realized_pnl r = lots_gain (p_side p) px False (p_lots p) - p_qty p * px * rate
      - lots_fees (p_lots p)" and fees: "f_exit_fees r = p_qty p * px * rate + lots_fees (p_lots p)"
    using g f ls by simp_all
  have "(if p_side p = LONG then (px - lots_notional (p_lots p) / p_qty p) * p_qty p
         else (lots_notional (p_lots p) / p_qty p - px) * p_qty p)
        = lots_gain (p_side p) px False (p_lots p)"
    using side q by (auto simp: lots_gain_linear_long lots_gain_linear_short n left_diff_distrib)
  then show ?thesis
    using r(1) ls q(1) px net fees
    by (auto simp: process_fifo_close_def calculate_full_exit_pnl_def Let_def abs_mult split: if_splits)
qed

end
