(* ===== verification/Engine_Properties.thy ===== *)
theory Engine_Properties
  imports Position_Engine
begin

text \<open>
  What the position engine promises: a FIFO close conserves profit, fees and quantity, may be split
  at will, and agrees with the averaged full exit for linear contracts; for inverse contracts the
  full exit averages the entry prices arithmetically and so differs from the lots.
\<close>

section \<open>Sample position\<close>

definition two_lots :: position where
  "two_lots = \<lparr>p_side = LONG, p_qty = 3, p_sl = 50, p_tp = 300, p_opened_at = ''1'',
     p_lots = [\<lparr>l_qty = 1, l_price = 100, l_fees = 1\<rparr>, \<lparr>l_qty = 2, l_price = 200, l_fees = 2\<rparr>],
     p_trade_id = ''t'', p_bars_open = 0, p_trail_active = False, p_trail_stop = 0\<rparr>"

lemma two_lots_wf: "wf_position two_lots"
  by (simp add: wf_position_def two_lots_def lot_ok_def)

section \<open>Closing first in, first out\<close>

text \<open>Closing part of a well-formed position removes exactly the smaller of the asked and the
  held quantity, leaves well-formed lots, and conserves value: realized profit, charged fees and
  the gain still in the remaining lots add up to the gain before, and the charged fees are the
  exit fees plus the entry fees no longer carried by the lots.\<close>

theorem fifo_close_conserves:
  assumes "wf_position p" "0 < px" "0 \<le> q"
  shows "\<exists>r ls. process_fifo_close p q px rate invc = (Inr r, p\<lparr>p_lots := ls\<rparr>) \<and> lots_ok ls
     \<and> f_reduction r = min q (p_qty p) \<and> lots_qty ls = p_qty p - f_reduction r
     \<and> f_realized_pnl r + f_exit_fees r + lots_gain (p_side p) px invc ls
         = lots_gain (p_side p) px invc (p_lots p)
     \<and> f_exit_fees r = f_reduction r * unit_exit_fee px rate invc + (lots_fees (p_lots p) - lots_fees ls)"
  using fifo_loop_total [of "p_lots p" px q "p_side p" rate invc fifo_start] assms
  by (auto simp: process_fifo_close_def fifo_start_def wf_position_def algebra_simps)

theorem fifo_close_conserves_witness:
  "\<exists>r ls. process_fifo_close two_lots 2 150 (1 / 100) False = (Inr r, two_lots\<lparr>p_lots := ls\<rparr>)
     \<and> lots_qty ls = 1"
proof -
  obtain r ls where "process_fifo_close two_lots 2 150 (1 / 100) False = (Inr r, two_lots\<lparr>p_lots := ls\<rparr>)"
    "f_reduction r = min 2 (p_qty two_lots)" "lots_qty ls = p_qty two_lots - f_reduction r"
    using fifo_close_conserves [OF two_lots_wf, of 150 2 "1 / 100" False] by auto
  then show ?thesis by (simp add: two_lots_def)
qed

text \<open>The accumulator only collects.\<close>

definition add_results :: "fifo_result \<Rightarrow> fifo_result \<Rightarrow> fifo_result" where
  "add_results a b = \<lparr>f_realized_pnl = f_realized_pnl a + f_realized_pnl b,
     f_exit_fees = f_exit_fees a + f_exit_fees b, f_reduction = f_reduction a + f_reduction b\<rparr>"

lemma fifo_loop_acc:
  "fifo_loop sd px rate invc r (add_results a b) ls
     = (case fifo_loop sd px rate invc r b ls of
          (Inl e, ls') \<Rightarrow> (Inl e, ls') | (Inr x, ls') \<Rightarrow> (Inr (add_results a x), ls'))"
proof (induction ls arbitrary: r b)
  case (Cons l ls)
  show ?case
  proof (cases "settle_lot sd px rate invc l (min r (l_qty l))")
    case (Inl e)
    then show ?thesis by (simp add: Let_def)
  next
    case (Inr y)
    obtain g f n where y: "y = (g, f, n)" by (cases y)
    let ?b = "\<lparr>f_realized_pnl = f_realized_pnl b + (g - f - n), f_exit_fees = f_exit_fees b + (f + n),
      f_reduction = f_reduction b + min r (l_qty l)\<rparr>"
    have "\<lparr>f_realized_pnl = f_realized_pnl (add_results a b) + (g - f - n),
        f_exit_fees = f_exit_fees (add_results a b) + (f + n),
        f_reduction = f_reduction (add_results a b) + min r (l_qty l)\<rparr> = add_results a ?b"
      by (simp add: add_results_def)
    then have e: "fifo_loop sd px rate invc r (add_results a b) (l # ls) =
        (if 0 < r then if min r (l_qty l) < l_qty l
           then (Inr (add_results a ?b), l\<lparr>l_qty := l_qty l - min r (l_qty l), l_fees := l_fees l - n\<rparr> # ls)
           else fifo_loop sd px rate invc (r - min r (l_qty l)) (add_results a ?b) ls
         else (Inr (add_results a b), l # ls))"
      using Inr y by (simp only: fifo_loop.simps Let_def sum.case prod.case)
    show ?thesis unfolding e Cons.IH using Inr y by (simp add: Let_def)
  qed
qed simp

lemma add_results_start [simp]: "add_results a fifo_start = a"
  by (simp add: add_results_def fifo_start_def)

text \<open>C31: Closing a quantity in two parts at the same price is closing it at once: the same lots
  remain, and profit, fees and quantity of the parts add up to those of the whole.\<close>

theorem fifo_close_splits:
  assumes "wf_position p" "0 < px" "0 \<le> a" "0 \<le> b"
    and "process_fifo_close p a px rate invc = (Inr r1, p1)"
    and "process_fifo_close p1 b px rate invc = (Inr r2, p2)"
    and "process_fifo_close p (a + b) px rate invc = (Inr r, p3)"
  shows "p2 = p3 \<and> f_reduction r = f_reduction r1 + f_reduction r2
    \<and> f_exit_fees r = f_exit_fees r1 + f_exit_fees r2
    \<and> f_realized_pnl r = f_realized_pnl r1 + f_realized_pnl r2"
proof -
  have ok: "lots_ok (p_lots p)" using assms(1) by (simp add: wf_position_def)
  obtain l1 where l1: "fifo_loop (p_side p) px rate invc a fifo_start (p_lots p) = (Inr r1, l1)"
    "p1 = p\<lparr>p_lots := l1\<rparr>"
    using assms(5) by (auto simp: process_fifo_close_def split: prod.splits)
  obtain l2 where l2: "fifo_loop (p_side p) px rate invc b fifo_start l1 = (Inr r2, l2)"
    "p2 = p\<lparr>p_lots := l2\<rparr>"
    using assms(6) l1 by (auto simp: process_fifo_close_def split: prod.splits)
  have "fifo_loop (p_side p) px rate invc b r1 l1 = (Inr (add_results r1 r2), l2)"
    using fifo_loop_acc [of "p_side p" px rate invc b r1 fifo_start l1] l2 by simp
  with fifo_loop_split [OF ok assms(2-4) l1(1)]
  have "fifo_loop (p_side p) px rate invc (a + b) fifo_start (p_lots p) = (Inr (add_results r1 r2), l2)"
    by simp
  with assms(7) l2 have "r = add_results r1 r2" "p3 = p2" by (auto simp: process_fifo_close_def)
  then show ?thesis by (simp add: add_results_def)
qed

lemma two_lots_close:
  "process_fifo_close two_lots 1 150 0 False
     = (Inr \<lparr>f_realized_pnl = 49, f_exit_fees = 1, f_reduction = 1\<rparr>,
        two_lots\<lparr>p_lots := [\<lparr>l_qty = 2, l_price = 200, l_fees = 2\<rparr>]\<rparr>)"
  "process_fifo_close (two_lots\<lparr>p_lots := [\<lparr>l_qty = 2, l_price = 200, l_fees = 2\<rparr>]\<rparr>) 1 150 0 False
     = (Inr \<lparr>f_realized_pnl = - 51, f_exit_fees = 1, f_reduction = 1\<rparr>,
        two_lots\<lparr>p_lots := [\<lparr>l_qty = 1, l_price = 200, l_fees = 1\<rparr>]\<rparr>)"
  by (simp_all add: process_fifo_close_def two_lots_def settle_lot_def fifo_start_def Let_def)

theorem fifo_close_splits_witness:
  "\<exists>r p3. process_fifo_close two_lots (1 + 1) 150 0 False = (Inr r, p3) \<and> f_realized_pnl r = - 2"
proof -
  have "\<exists>r p3. process_fifo_close two_lots (1 + 1) 150 0 False = (Inr r, p3)"
    by (simp add: process_fifo_close_def two_lots_def settle_lot_def fifo_start_def Let_def)
  then obtain r p3 where r: "process_fifo_close two_lots (1 + 1) 150 0 False = (Inr r, p3)" by blast
  from fifo_close_splits [OF two_lots_wf _ _ _ two_lots_close r] have "f_realized_pnl r = - 2" by simp
  with r show ?thesis by blast
qed

section \<open>The full exit\<close>

text \<open>For linear contracts the averaged full exit is the lot-by-lot close of everything: it books
  the same net profit and the same fees, and it is worth the mark-to-market value at that price
  less those fees.\<close>

theorem full_exit_is_lotwise_close:
  assumes "wf_position p" "0 < px"
  shows "\<exists>r x. process_fifo_close p (p_qty p) px rate False = (Inr r, p\<lparr>p_lots := []\<rparr>)
     \<and> calculate_full_exit_pnl p px rate False = (Inr x, p\<lparr>p_lots := []\<rparr>)
     \<and> x_net_pnl x = f_realized_pnl r \<and> x_total_fees x = f_exit_fees r
     \<and> calculate_unrealized_pnl (Some p) px False = Inr (x_net_pnl x + x_total_fees x)"
proof -
  obtain r x where rx: "process_fifo_close p (p_qty p) px rate False = (Inr r, p\<lparr>p_lots := []\<rparr>)"
    "calculate_full_exit_pnl p px rate False = (Inr x, p\<lparr>p_lots := []\<rparr>)"
    "f_realized_pnl r = x_net_pnl x" "f_exit_fees r = x_total_fees x"
    using full_exit_is_fifo [OF assms] by blast
  have wf: "lots_ok (p_lots p)" "p_qty p = lots_qty (p_lots p)" "0 \<le> p_qty p"
    using assms(1) wf_position_qty_pos by (auto simp: wf_position_def less_imp_le)
  have "fifo_loop (p_side p) px rate False (p_qty p) fifo_start (p_lots p) = (Inr r, [])"
    using rx(1) by (auto simp: process_fifo_close_def dest: arg_cong [where f = p_lots] split: prod.splits)
  with fifo_loop_total [OF wf(1) assms(2) wf(3), of "p_side p" rate False fifo_start]
  have "f_realized_pnl r + f_exit_fees r = lots_gain (p_side p) px False (p_lots p)"
    unfolding fifo_start_def by auto
  with rx unrealized_linear_lots [OF assms(1), of px] show ?thesis by auto
qed

theorem full_exit_is_lotwise_close_witness:
  "\<exists>x. calculate_full_exit_pnl two_lots 150 0 False = (Inr x, two_lots\<lparr>p_lots := []\<rparr>)
     \<and> calculate_unrealized_pnl (Some two_lots) 150 False = Inr (x_net_pnl x + x_total_fees x)"
  using full_exit_is_lotwise_close [OF two_lots_wf, of 150 0] by auto

section \<open>Inverse contracts\<close>

lemma cauchy_lots:
  assumes "lots_ok ls"
  shows "lots_qty ls * lots_qty ls \<le> lots_notional ls * (\<Sum>l\<leftarrow>ls. l_qty l / l_price l)"
  using assms
proof (induction ls)
  case (Cons l ls)
  let ?Q = "lots_qty ls" and ?A = "lots_notional ls" and ?B = "\<Sum>l\<leftarrow>ls. l_qty l / l_price l"
  let ?q = "l_qty l" and ?p = "l_price l"
  have l: "0 < ?q" "0 < ?p" and ls: "lots_ok ls" using Cons.prems by (auto simp: lot_ok_def)
  have ih: "?Q * ?Q \<le> ?A * ?B" by (rule Cons.IH [OF ls])
  have nn: "0 \<le> ?Q" "0 \<le> ?A" "0 \<le> ?B"
    using lots_qty_nonneg [OF ls] lots_notional_pos [OF ls] ls
    by (cases "ls = []"; auto intro!: sum_list_nonneg_map simp: lots_ok_def list_all_iff lot_ok_def less_imp_le)+
  define x y where "x = ?A / ?p" and "y = ?p * ?B"
  have xy: "x * y = ?A * ?B" "0 \<le> x" "0 \<le> y" using l nn by (simp_all add: x_def y_def)
  have "(2 * ?Q)\<^sup>2 \<le> 4 * (x * y)" using ih xy by (simp add: power2_eq_square)
  also have "4 * (x * y) = (x + y)\<^sup>2 - (x - y)\<^sup>2" by (simp add: power2_eq_square algebra_simps)
  also have "\<dots> \<le> (x + y)\<^sup>2" by simp
  finally have "(2 * ?Q)\<^sup>2 \<le> (x + y)\<^sup>2" .
  then have "2 * ?Q \<le> x + y" by (rule power2_le_imp_le) (use xy in simp)
  then have "?q * (2 * ?Q) \<le> ?q * (x + y)" using l by (simp add: mult_left_mono)
  moreover have "(?q * ?p + ?A) * (?q / ?p + ?B) = ?A * ?B + ?q * (x + y) + ?q * ?q"
    using l by (simp add: x_def y_def field_simps)
  ultimately have "(?q + ?Q) * (?q + ?Q) \<le> (?q * ?p + ?A) * (?q / ?p + ?B)"
    using ih by (simp add: distrib_left distrib_right)
  then show ?case by simp
qed simp

text \<open>For an inverse contract a full exit of a long position never books more than closing
  its lots one by one at the same price, for the same fees, since the full exit values the lots at the
  arithmetic mean of their entry prices while each lot is worth the reciprocal of its own.\<close>

theorem inverse_full_exit_understates_longs:
  assumes "wf_position p" "p_side p = LONG" "0 < px" "p_sl p \<noteq> 0"
  shows "\<exists>r x. process_fifo_close p (p_qty p) px rate True = (Inr r, p\<lparr>p_lots := []\<rparr>)
     \<and> calculate_full_exit_pnl p px rate True = (Inr x, p\<lparr>p_lots := []\<rparr>)
     \<and> x_net_pnl x \<le> f_realized_pnl r \<and> x_total_fees x = f_exit_fees r"
proof -
  let ?Q = "lots_qty (p_lots p)" and ?A = "lots_notional (p_lots p)"
  let ?B = "\<Sum>l\<leftarrow>p_lots p. l_qty l / l_price l"
  have wf: "lots_ok (p_lots p)" "p_lots p \<noteq> []" "p_qty p = ?Q" using assms(1) by (auto simp: wf_position_def)
  have pos: "0 < ?Q" "0 < ?A" using lots_qty_pos lots_notional_pos wf by auto
  then have avg: "?A / ?Q \<noteq> 0" by simp
  have gain: "lots_gain LONG px True ls = (\<Sum>l\<leftarrow>ls. l_qty l / l_price l) * px - lots_qty ls" for ls
    using assms(3) by (induction ls) (simp_all add: unit_gain_def algebra_simps)
  have "?Q * (1 / (?A / ?Q)) \<le> ?B"
    using cauchy_lots [OF wf(1)] pos by (simp add: divide_le_eq mult.commute)
  then have "?Q * (1 / (?A / ?Q)) * px \<le> ?B * px"
    by (rule mult_right_mono) (use assms(3) in simp)
  moreover have "?Q * (1 / (?A / ?Q) - 1 / px) * px = ?Q * (1 / (?A / ?Q)) * px - ?Q"
    using assms(3) by (simp add: algebra_simps)
  ultimately have le: "?Q * (1 / (?A / ?Q) - 1 / px) * px \<le> lots_gain LONG px True (p_lots p)"
    by (simp add: gain)
  obtain r ls where r: "fifo_loop (p_side p) px rate True (p_qty p) fifo_start (p_lots p) = (Inr r, ls)"
    "lots_ok ls" "lots_qty ls = 0"
    and g: "f_realized_pnl r + lots_gain LONG px True ls + f_exit_fees r = lots_gain LONG px True (p_lots p)"
    and f: "f_exit_fees r + lots_fees ls = lots_fees (p_lots p) + ?Q * rate"
    using fifo_loop_total [OF wf(1) assms(3), of "p_qty p" "p_side p" rate True fifo_start] pos(1) wf(3) assms(2)
    by (auto simp: fifo_start_def unit_exit_fee_def)
  have ls: "ls = []" using r(2,3) lots_qty_pos by fastforce
  with r(1) have "process_fifo_close p (p_qty p) px rate True = (Inr r, p\<lparr>p_lots := []\<rparr>)"
    by (simp add: process_fifo_close_def)
  then show ?thesis using assms wf(3) pos py_div_nonzero [OF avg] le g f ls
    by (simp add: calculate_full_exit_pnl_def Let_def)
qed

theorem inverse_full_exit_understates_longs_witness:
  "\<exists>r x. process_fifo_close two_lots (p_qty two_lots) 150 0 True = (Inr r, two_lots\<lparr>p_lots := []\<rparr>)
     \<and> calculate_full_exit_pnl two_lots 150 0 True = (Inr x, two_lots\<lparr>p_lots := []\<rparr>)
     \<and> x_net_pnl x \<le> f_realized_pnl r \<and> x_total_fees x = f_exit_fees r"
  by (rule inverse_full_exit_understates_longs [OF two_lots_wf]) (simp_all add: two_lots_def)

end
