(* ===== verification/Hard_Limits.thy ===== *)
theory Hard_Limits
  imports Py_Prelude
begin

text \<open>
  \<^verbatim>\<open>src/laptop_agents/constants.py\<close>: the safety limits. Four of them are read from the
  \<^verbatim>\<open>trading\<close> section of \<^verbatim>\<open>config/defaults.yaml\<close> when the module is loaded and fall back to a
  literal; the others are literals. Components take the loaded limits as their argument \<open>L\<close>.
\<close>

record limits =
  MAX_POSITION_SIZE_USD :: real
  MAX_POSITION_ABS :: real
  MAX_DAILY_LOSS_USD :: real
  MAX_DAILY_LOSS_PCT :: real
  MAX_ORDERS_PER_MINUTE :: nat
  MIN_RR_RATIO :: real
  MAX_LEVERAGE :: real
  MAX_ERRORS_PER_SESSION :: nat
  MAX_SINGLE_TRADE_LOSS_USD :: real
  MAX_CANDLE_BUFFER :: nat

definition cfg_get :: "(string \<rightharpoonup> real) \<Rightarrow> string \<Rightarrow> real \<Rightarrow> real" where
  "cfg_get m k d = (case m k of None \<Rightarrow> d | Some v \<Rightarrow> v)"

definition load_limits :: "(string \<rightharpoonup> real) \<Rightarrow> limits" where
  "load_limits trading =
     \<lparr>MAX_POSITION_SIZE_USD = cfg_get trading ''max_position_size_usd'' 200000,
      MAX_POSITION_ABS = 1,
      MAX_DAILY_LOSS_USD = cfg_get trading ''max_daily_loss_usd'' 50,
      MAX_DAILY_LOSS_PCT = 5,
      MAX_ORDERS_PER_MINUTE = 10,
      MIN_RR_RATIO = cfg_get trading ''tp_r'' 1,
      MAX_LEVERAGE = cfg_get trading ''max_leverage'' 1,
      MAX_ERRORS_PER_SESSION = 20,
      MAX_SINGLE_TRADE_LOSS_USD = 100,
      MAX_CANDLE_BUFFER = 500\<rparr>"

text \<open>The repository's \<^verbatim>\<open>config/defaults.yaml\<close>, as far as the limits read it.\<close>

definition defaults_yaml :: "string \<rightharpoonup> real" where
  "defaults_yaml = [''max_position_size_usd'' \<mapsto> 200000, ''max_daily_loss_usd'' \<mapsto> 50,
     ''tp_r'' \<mapsto> 3 / 2, ''max_leverage'' \<mapsto> 20]"

definition std_limits :: limits where
  "std_limits = load_limits defaults_yaml"

lemma load_limits_fixed [simp]:
  "MAX_POSITION_ABS (load_limits m) = 1" "MAX_DAILY_LOSS_PCT (load_limits m) = 5"
  "MAX_ORDERS_PER_MINUTE (load_limits m) = 10" "MAX_ERRORS_PER_SESSION (load_limits m) = 20"
  "MAX_SINGLE_TRADE_LOSS_USD (load_limits m) = 100" "MAX_CANDLE_BUFFER (load_limits m) = 500"
  by (simp_all add: load_limits_def)

lemma std_limits_simps [simp]:
  "MAX_POSITION_SIZE_USD std_limits = 200000" "MAX_POSITION_ABS std_limits = 1"
  "MAX_DAILY_LOSS_USD std_limits = 50" "MAX_DAILY_LOSS_PCT std_limits = 5"
  "MAX_ORDERS_PER_MINUTE std_limits = 10" "MIN_RR_RATIO std_limits = 3 / 2"
  "MAX_LEVERAGE std_limits = 20" "MAX_ERRORS_PER_SESSION std_limits = 20"
  "MAX_SINGLE_TRADE_LOSS_USD std_limits = 100" "MAX_CANDLE_BUFFER std_limits = 500"
  by (simp_all add: std_limits_def load_limits_def cfg_get_def defaults_yaml_def)

end
