(* ===== verification/Broker_Types.thy ===== *)
theory Broker_Types
  imports Position_Engine Hard_Limits
begin

text \<open>
  The state of \<^verbatim>\<open>paper/broker.py\<close>'s \<open>PaperBroker\<close> and the dictionaries it exchanges: orders, the
  three shapes of event it returns, and what it writes to the event journal.

  What the code reads from outside is part of the state as a sequence that each read consumes:
  \<open>b_clock\<close> for \<open>time.time()\<close>, \<open>b_uuid\<close> for \<open>uuid.uuid4().hex\<close>, \<open>b_rng\<close> for the values of
  \<open>random()\<close> behind the broker's generator, and \<open>b_evict\<close> for what the third-party \<open>TTLCache\<close> has
  forgotten at each access.
\<close>

section \<open>Orders and events\<close>

record order =
  o_client_id :: "string option"
  o_go :: bool
  o_side :: side
  o_type :: entry_type
  o_entry :: pyfloat
  o_qty :: pyfloat
  o_sl :: pyfloat
  o_tp :: pyfloat
  o_equity :: "real option"
  o_created_at :: "real option"

record fill_rec =
  fr_trade_id :: string
  fr_side :: side
  fr_price :: real
  fr_qty :: real
  fr_sl :: real
  fr_tp :: real
  fr_at :: string
  fr_fees :: real
  fr_requested_qty :: "real option"

record close_rec =
  cr_final :: bool
  cr_trade_id :: string
  cr_side :: side
  cr_price :: real
  cr_qty :: real
  cr_pnl :: real
  cr_fees :: real
  cr_at :: string

record exit_rec =
  er_trade_id :: string
  er_reason :: string
  er_entry :: real
  er_exit :: real
  er_qty :: real
  er_pnl :: real
  er_at :: string
  er_fees :: real
  er_r :: real
  er_side :: side
  er_bars_open :: int

text \<open>
  \<open>FillEv\<close> has type \<open>"fill"\<close> (and \<open>partial\<close> when a quantity was requested beyond what filled);
  \<open>CloseEv\<close> is \<open>"exit"\<close> or \<open>"partial_exit"\<close> from the FIFO close; \<open>ExitEv\<close> is \<open>"exit"\<close> with a reason.
\<close>

datatype bevent = FillEv fill_rec | CloseEv close_rec | ExitEv exit_rec

fun ev_pnl :: "bevent \<Rightarrow> real" where
  "ev_pnl (FillEv f) = 0"
| "ev_pnl (CloseEv c) = cr_pnl c"
| "ev_pnl (ExitEv x) = er_pnl x"

datatype journal_event =
    OrderRejected string
  | OrderThrottled
  | TrailActivated side real real real
  | StalePosition int side real
  | FundingApplied real real real side string
  | WorkingOrderCancelled "string option" side pyfloat

section \<open>The persisted state\<close>

record saved_pos =
  sp_side :: side
  sp_entry :: real
  sp_qty :: real
  sp_sl :: real
  sp_tp :: real
  sp_opened_at :: string
  sp_lots :: "lot list"
  sp_bars_open :: int
  sp_trail_active :: bool
  sp_trail_stop :: real

record saved_state =
  sv_symbol :: string
  sv_starting_equity :: real
  sv_current_equity :: real
  sv_processed :: "string set"
  sv_order_history :: "bevent list"
  sv_working_orders :: "order list"
  sv_pos :: "saved_pos option"
  sv_saved_at :: real

section \<open>The broker\<close>

record broker =
  b_symbol :: string
  b_max_bars_open :: int
  b_trailing_atr_mult :: real
  b_pos :: "position option"
  b_is_inverse :: bool
  b_slip_bps :: real
  b_starting_equity :: real
  b_current_equity :: real
  b_maker :: real
  b_taker :: real
  b_last_trade_time :: real
  b_min_trade_interval :: real
  b_processed :: "string set"
  b_idempotency :: "string \<rightharpoonup> bevent"
  b_order_timestamps :: "real list"
  b_order_history :: "bevent list"
  b_working_orders :: "order list"
  b_max_position :: "string \<rightharpoonup> real"
  b_state_path :: bool
  b_store :: "string \<rightharpoonup> saved_state"
  b_clock :: "nat \<Rightarrow> real"
  b_uuid :: "nat \<Rightarrow> string"
  b_rng :: "nat \<Rightarrow> real"
  b_evict :: "nat \<Rightarrow> (string \<rightharpoonup> bevent) \<Rightarrow> (string \<rightharpoonup> bevent)"
  b_journal :: "journal_event list"

text \<open>Reading from the outside consumes one element of its sequence.\<close>

definition time_time :: "broker \<Rightarrow> real \<times> broker" where
  "time_time b = (b_clock b 0, b\<lparr>b_clock := \<lambda>k. b_clock b (Suc k)\<rparr>)"

definition uuid4_hex :: "broker \<Rightarrow> string \<times> broker" where
  "uuid4_hex b = (b_uuid b 0, b\<lparr>b_uuid := \<lambda>k. b_uuid b (Suc k)\<rparr>)"

definition rng_uniform :: "real \<Rightarrow> real \<Rightarrow> broker \<Rightarrow> real \<times> broker" where
  "rng_uniform lo hi b = (lo + (hi - lo) * b_rng b 0, b\<lparr>b_rng := \<lambda>k. b_rng b (Suc k)\<rparr>)"

text \<open>\<open>randint\<close> is called for a log message only; its value is not used.\<close>

definition rng_randint :: "broker \<Rightarrow> broker" where
  "rng_randint b = b\<lparr>b_rng := \<lambda>k. b_rng b (Suc k)\<rparr>"

definition cache_view :: "broker \<Rightarrow> (string \<rightharpoonup> bevent) \<times> broker" where
  "cache_view b = (let m = b_evict b 0 (b_idempotency b)
     in (m, b\<lparr>b_idempotency := m, b_evict := \<lambda>k. b_evict b (Suc k)\<rparr>))"

definition append_event :: "journal_event \<Rightarrow> broker \<Rightarrow> broker" where
  "append_event e b = b\<lparr>b_journal := b_journal b @ [e]\<rparr>"

text \<open>What the outside is documented to do.\<close>

definition rng_ok :: "(nat \<Rightarrow> real) \<Rightarrow> bool" where
  "rng_ok g \<longleftrightarrow> (\<forall>k. 0 \<le> g k \<and> g k < 1)"

definition evict_ok :: "(nat \<Rightarrow> (string \<rightharpoonup> bevent) \<Rightarrow> (string \<rightharpoonup> bevent)) \<Rightarrow> bool" where
  "evict_ok ev \<longleftrightarrow> (\<forall>k m. ev k m \<subseteq>\<^sub>m m)"

lemma rng_uniform_bounds:
  "rng_ok (b_rng b) \<Longrightarrow> lo \<le> hi \<Longrightarrow> lo \<le> fst (rng_uniform lo hi b) \<and> fst (rng_uniform lo hi b) \<le> hi"
  using mult_left_le [of "b_rng b 0" "hi - lo"]
  by (auto simp: rng_ok_def rng_uniform_def less_imp_le)

text \<open>The opening state of \<open>__init__\<close>.\<close>

definition ends_usd_not_usdt :: "string \<Rightarrow> bool" where
  "ends_usd_not_usdt s \<longleftrightarrow> str_endswith ''USD'' s \<and> \<not> str_endswith ''USDT'' s"

end
