(* ===== verification/Broker_Risk.thy ===== *)
theory Broker_Risk
  imports Broker_Types
begin

text \<open>
  \<^verbatim>\<open>paper/broker_risk.py\<close>: every order passes \<open>validate_risk_limits\<close> before it may fill. The
  stateful part (the order-rate window, the trade throttle) comes first; the rest is a decision
  on the order, the candle and the equity, in the source's order of checks. A rejection with a
  reason is also written to the event journal.
\<close>

datatype verdict = Accept | Reject "string option"

definition risk_checks :: "limits \<Rightarrow> real \<Rightarrow> real \<Rightarrow> order \<Rightarrow> candle \<Rightarrow> real \<Rightarrow> verdict res" where
  "risk_checks L starting_equity symbol_cap ord c equity =
     (let drawdown_usd = starting_equity - equity
      in if starting_equity \<noteq> 0 \<and> MAX_DAILY_LOSS_USD L \<le> drawdown_usd
         then Inr (Reject (Some ''daily_loss_usd_exceeded''))
      else bindE (py_div (starting_equity - equity) starting_equity) (\<lambda>ratio.
         if MAX_DAILY_LOSS_PCT L < ratio * 100
         then Inr (Reject (Some ''daily_loss_exceeded''))
         else if pf_lt (Fin symbol_cap) (o_qty ord)
         then Inr (Reject (Some ''position_limit_exceeded''))
         else if c_close c \<le> 0 then Inr (Reject None)
         else let notional_est = pf_mul (o_qty ord) (Fin (c_close c))
         in if pf_lt (Fin (MAX_POSITION_SIZE_USD L)) notional_est
            then Inr (Reject (Some ''notional_exceeded''))
         else bindE (pf_div notional_est equity) (\<lambda>leverage_est.
            if pf_lt (Fin (MAX_LEVERAGE L)) leverage_est
            then Inr (Reject (Some ''leverage_exceeded''))
            else if o_side ord \<noteq> LONG \<and> o_side ord \<noteq> SHORT then Inr (Reject None)
            else if pf_le (o_sl ord) (Fin 0) \<or> pf_le (o_tp ord) (Fin 0) then Inr (Reject None)
            else if \<not> (isfinite (o_entry ord) \<and> isfinite (o_qty ord)
                       \<and> isfinite (o_sl ord) \<and> isfinite (o_tp ord)) then Inr (Reject None)
            else if pf_le (o_qty ord) (Fin 0) \<or> pf_le (o_entry ord) (Fin 0) then Inr (Reject None)
            else let risk_dollars = pf_mul (pf_abs (pf_sub (o_entry ord) (o_sl ord))) (o_qty ord)
            in if pf_lt (Fin (MAX_SINGLE_TRADE_LOSS_USD L)) risk_dollars
               then Inr (Reject (Some ''risk_cap_exceeded''))
               else Inr Accept)))"

definition symbol_cap :: "limits \<Rightarrow> broker \<Rightarrow> real" where
  "symbol_cap L b = (case b_max_position b (b_symbol b) of None \<Rightarrow> MAX_POSITION_ABS L | Some c \<Rightarrow> c)"

definition validate_risk_limits ::
  "limits \<Rightarrow> order \<Rightarrow> candle \<Rightarrow> real \<Rightarrow> bool \<Rightarrow> (broker, bool) py" where
  "validate_risk_limits L ord c equity is_working = (\<lambda>b0.
     let (now, b1) = time_time b0;
         recent = filter (\<lambda>t. now - t < 60) (b_order_timestamps b1);
         b2 = b1\<lparr>b_order_timestamps := recent\<rparr>
     in if MAX_ORDERS_PER_MINUTE L \<le> length recent
        then (Inr False, append_event (OrderRejected ''rate_limit_exceeded'') b2)
        else let b3 = b2\<lparr>b_order_timestamps := recent @ [now]\<rparr>;
                 time_since_last = now - b_last_trade_time b3
        in if \<not> is_working \<and> time_since_last < b_min_trade_interval b3
           then (Inr False, append_event OrderThrottled b3)
           else case risk_checks L (b_starting_equity b3) (symbol_cap L b3) ord c equity of
                  Inl e \<Rightarrow> (Inl e, b3)
                | Inr Accept \<Rightarrow> (Inr True, b3)
                | Inr (Reject None) \<Rightarrow> (Inr False, b3)
                | Inr (Reject (Some reason)) \<Rightarrow> (Inr False, append_event (OrderRejected reason) b3))"

section \<open>What acceptance means\<close>

text \<open>The order an accepted check let through, as numbers.\<close>

definition within_limits :: "limits \<Rightarrow> real \<Rightarrow> real \<Rightarrow> order \<Rightarrow> candle \<Rightarrow> real \<Rightarrow> bool" where
  "within_limits L start cap ord c equity \<longleftrightarrow>
     (\<exists>entry qty sl tp.
        o_entry ord = Fin entry \<and> o_qty ord = Fin qty \<and> o_sl ord = Fin sl \<and> o_tp ord = Fin tp
        \<and> 0 < entry \<and> 0 < qty \<and> 0 < sl \<and> 0 < tp \<and> 0 < c_close c
        \<and> (o_side ord = LONG \<or> o_side ord = SHORT)
        \<and> start - equity < MAX_DAILY_LOSS_USD L
        \<and> (start - equity) / start * 100 \<le> MAX_DAILY_LOSS_PCT L
        \<and> qty \<le> cap \<and> qty * c_close c \<le> MAX_POSITION_SIZE_USD L
        \<and> qty * c_close c / equity \<le> MAX_LEVERAGE L
        \<and> \<bar>entry - sl\<bar> * qty \<le> MAX_SINGLE_TRADE_LOSS_USD L)"

lemma risk_checks_accept_iff:
  assumes "start \<noteq> 0" "equity \<noteq> 0"
  shows "risk_checks L start cap ord c equity = Inr Accept \<longleftrightarrow> within_limits L start cap ord c equity"
  using assms
  by (cases "o_entry ord"; cases "o_qty ord"; cases "o_sl ord"; cases "o_tp ord")
    (auto simp: risk_checks_def within_limits_def Let_def pf_sub_def pf_inf_def bindE_Inr_iff)

lemma risk_checks_defined:
  assumes "start \<noteq> 0" "equity \<noteq> 0"
  shows "\<exists>v. risk_checks L start cap ord c equity = Inr v"
proof -
  obtain lev where "pf_div (pf_mul (o_qty ord) (Fin (c_close c))) equity = Inr lev"
    using pf_div_nonzero_defined [OF assms(2)] by blast
  with assms(1) show ?thesis by (simp add: risk_checks_def Let_def)
qed

section \<open>The stateful checks\<close>

text \<open>Validation changes the rate window, the clock and the journal, nothing else.\<close>

lemma validate_frame:
  assumes "validate_risk_limits L ord c eq w b = (r, b')"
  shows "b' = b\<lparr>b_order_timestamps := b_order_timestamps b', b_clock := b_clock b',
                b_journal := b_journal b'\<rparr>"
  using assms
  by (auto simp: validate_risk_limits_def time_time_def append_event_def Let_def
      split: if_splits sum.splits verdict.splits option.splits)

lemma validate_accept:
  assumes "validate_risk_limits L ord c eq w b = (Inr True, b')"
  shows "risk_checks L (b_starting_equity b) (symbol_cap L b) ord c eq = Inr Accept"
    and "w \<or> b_min_trade_interval b \<le> b_clock b 0 - b_last_trade_time b"
    and "length (filter (\<lambda>t. b_clock b 0 - t < 60) (b_order_timestamps b)) < MAX_ORDERS_PER_MINUTE L"
  using assms
  by (auto simp: validate_risk_limits_def time_time_def symbol_cap_def Let_def
      split: if_splits sum.splits verdict.splits option.splits)

text \<open>The rate window never holds more than the limit.\<close>

lemma validate_rate_window:
  assumes "validate_risk_limits L ord c eq w b = (r, b')"
    and "length (b_order_timestamps b) \<le> MAX_ORDERS_PER_MINUTE L"
  shows "length (b_order_timestamps b') \<le> MAX_ORDERS_PER_MINUTE L"
proof -
  have "length (filter (\<lambda>t. b_clock b 0 - t < 60) (b_order_timestamps b)) \<le> MAX_ORDERS_PER_MINUTE L"
    using assms(2) length_filter_le order_trans by blast
  with assms(1) show ?thesis
    by (auto simp: validate_risk_limits_def time_time_def append_event_def Let_def
        split: if_splits sum.splits verdict.splits option.splits)
qed

end
