(* ===== verification/Broker_State.thy ===== *)
theory Broker_State
  imports Broker_Risk
begin

text \<open>
  \<^verbatim>\<open>paper/broker_state.py\<close>: persistence of the broker over \<^verbatim>\<open>storage/trade_repository.py\<close>'s state
  table, which holds one row per symbol. A missing \<open>lots\<close> key (the migration of an old file) is
  \<open>None\<close> in \<open>lp_lots\<close>; what \<open>_save_state\<close> writes always has the key.
\<close>

section \<open>Saving\<close>

definition save_pos :: "position \<Rightarrow> saved_pos" where
  "save_pos p =
     \<lparr>sp_side = p_side p, sp_entry = pos_entry p, sp_qty = p_qty p, sp_sl = p_sl p, sp_tp = p_tp p,
      sp_opened_at = p_opened_at p, sp_lots = p_lots p, sp_bars_open = p_bars_open p,
      sp_trail_active = p_trail_active p, sp_trail_stop = p_trail_stop p\<rparr>"

definition save_state' :: "broker \<Rightarrow> broker" where
  "save_state' b0 =
     (if \<not> b_state_path b0 then b0
      else let (now, b) = time_time b0;
               st = \<lparr>sv_symbol = b_symbol b, sv_starting_equity = b_starting_equity b,
                     sv_current_equity = b_current_equity b, sv_processed = b_processed b,
                     sv_order_history = b_order_history b, sv_working_orders = b_working_orders b,
                     sv_pos = map_option save_pos (b_pos b), sv_saved_at = now\<rparr>
           in b\<lparr>b_store := (b_store b)(b_symbol b \<mapsto> st)\<rparr>)"

section \<open>Loading\<close>

record loaded_pos =
  lp_saved :: saved_pos
  lp_lots :: "lot list option"
  lp_entry_fees :: real

definition load_pos :: "loaded_pos \<Rightarrow> position" where
  "load_pos lp =
     (let s = lp_saved lp;
          lots = (case lp_lots lp of Some ls \<Rightarrow> ls
                  | None \<Rightarrow> [\<lparr>l_qty = sp_qty s, l_price = sp_entry s, l_fees = lp_entry_fees lp\<rparr>])
      in \<lparr>p_side = sp_side s, p_qty = sp_qty s, p_sl = sp_sl s, p_tp = sp_tp s,
          p_opened_at = sp_opened_at s, p_lots = lots, p_trade_id = [],
          p_bars_open = sp_bars_open s, p_trail_active = sp_trail_active s,
          p_trail_stop = sp_trail_stop s\<rparr>)"

definition as_loaded :: "saved_pos \<Rightarrow> loaded_pos" where
  "as_loaded s = \<lparr>lp_saved = s, lp_lots = Some (sp_lots s), lp_entry_fees = 0\<rparr>"

definition unexpired :: "real \<Rightarrow> order \<Rightarrow> bool" where
  "unexpired now ord = (now - (case o_created_at ord of None \<Rightarrow> now | Some t \<Rightarrow> t) < 86400)"

definition load_state' :: "broker \<Rightarrow> broker" where
  "load_state' b0 =
     (if \<not> b_state_path b0 then b0
      else case b_store b0 (b_symbol b0) of
        None \<Rightarrow> b0
      | Some st \<Rightarrow>
        let (now, b) = time_time b0
        in b\<lparr>b_starting_equity := sv_starting_equity st,
             b_current_equity := sv_current_equity st,
             b_processed := sv_processed st,
             b_order_history := sv_order_history st,
             b_working_orders := filter (unexpired now) (sv_working_orders st),
             b_pos := (case sv_pos st of None \<Rightarrow> b_pos b | Some s \<Rightarrow> Some (load_pos (as_loaded s)))\<rparr>)"

definition load_risk_config :: "(string \<rightharpoonup> real) option \<Rightarrow> broker \<Rightarrow> broker" where
  "load_risk_config cfg b = (case cfg of None \<Rightarrow> b | Some m \<Rightarrow> b\<lparr>b_max_position := m\<rparr>)"

definition load_exchange_config :: "(real \<times> real) option \<Rightarrow> broker \<Rightarrow> broker" where
  "load_exchange_config fees b =
     (case fees of None \<Rightarrow> b | Some (mk, tk) \<Rightarrow> b\<lparr>b_maker := mk, b_taker := tk\<rparr>)"

section \<open>What survives a restart\<close>

lemma load_pos_save_pos [simp]:
  "load_pos (as_loaded (save_pos p)) = p\<lparr>p_trade_id := []\<rparr>"
  by (simp add: load_pos_def as_loaded_def save_pos_def)

lemma wf_position_trade_id [simp]: "wf_position (p\<lparr>p_trade_id := t\<rparr>) = wf_position p"
  by (simp add: wf_position_def)

lemma save_state_frame:
  "save_state' b = b\<lparr>b_store := b_store (save_state' b), b_clock := b_clock (save_state' b)\<rparr>"
  by (simp add: save_state'_def time_time_def Let_def)

lemma save_state_row:
  "b_state_path b \<Longrightarrow> \<exists>st. b_store (save_state' b) (b_symbol b) = Some st
     \<and> sv_starting_equity st = b_starting_equity b \<and> sv_current_equity st = b_current_equity b
     \<and> sv_processed st = b_processed b \<and> sv_order_history st = b_order_history b
     \<and> sv_working_orders st = b_working_orders b \<and> sv_pos st = map_option save_pos (b_pos b)"
  by (simp add: save_state'_def time_time_def Let_def)

end
