(* ===== verification/Paper_Broker.thy ===== *)
theory Paper_Broker
  imports Broker_State
begin

text \<open>
  \<^verbatim>\<open>paper/broker.py\<close>: the simulated broker. The methods are stateful computations over the broker;
  an exception leaves the state as mutated so far. \<open>_try_fill\<close> is cut at the comments of the
  source into its stages: identity, price, size and impact, booking.
\<close>

section \<open>Filling an order\<close>

subsection \<open>Identity\<close>

definition resolve_client_id :: "order \<Rightarrow> broker \<Rightarrow> string \<times> broker" where
  "resolve_client_id ord b =
     (case o_client_id ord of
        Some s \<Rightarrow> (if s \<noteq> [] then (s, b) else uuid4_hex b)
      | None \<Rightarrow> uuid4_hex b)"

text \<open>\<open>Some r\<close>: \<open>_try_fill\<close> returns \<open>r\<close> at once; \<open>None\<close>: it goes on.\<close>

definition idempotency_check :: "string \<Rightarrow> (broker, bevent option option) py" where
  "idempotency_check cid = (\<lambda>b.
     let (m1, b1) = cache_view b
     in if m1 cid \<noteq> None then
          (let (m2, b2) = cache_view b1
           in case m2 cid of None \<Rightarrow> (Inl (KeyError cid), b2)
              | Some ev \<Rightarrow> (Inr (Some (Some ev)), b2))
        else if cid \<in> b_processed b1 then (Inr (Some None), b1)
        else (Inr None, b1\<lparr>b_processed := insert cid (b_processed b1)\<rparr>))"

subsection \<open>Price\<close>

definition tick_quotes :: "tick option \<Rightarrow> (real \<times> real) option" where
  "tick_quotes tk = (case tk of None \<Rightarrow> None
     | Some t \<Rightarrow> if t_bid t \<noteq> 0 \<and> t_ask t \<noteq> 0 then Some (t_bid t, t_ask t) else None)"

definition quote_price :: "entry_type \<Rightarrow> real \<Rightarrow> side \<Rightarrow> candle \<Rightarrow> tick option \<Rightarrow> real \<Rightarrow> real option" where
  "quote_price ty entry sd c tk slip_bps =
     (if ty = Market then
        (case tick_quotes tk of
           Some (bid, ask) \<Rightarrow> Some (if sd = LONG then ask else bid)
         | None \<Rightarrow>
           let half_spread_bps = (if 0 < slip_bps then 5 else 0);
               ask = c_close c * (1 + half_spread_bps / 10000);
               bid = c_close c * (1 - half_spread_bps / 10000)
           in Some (if sd = LONG then ask else bid))
      else if c_low c \<le> entry \<and> entry \<le> c_high c then Some entry else None)"

definition market_slip :: "entry_type \<Rightarrow> side \<Rightarrow> real \<Rightarrow> broker \<Rightarrow> real \<times> broker" where
  "market_slip ty sd fill_px b =
     (if ty = Market \<and> 0 < b_slip_bps b then
        (let (r, b') = rng_uniform (1 / 2) (3 / 2) b
         in (fill_px * (1 + r / 10000 * (if sd = LONG then 1 else - 1)), b'))
      else (fill_px, b))"

subsection \<open>Size and impact\<close>

definition capped_qty :: "candle \<Rightarrow> real \<Rightarrow> real" where
  "capped_qty c qty = min qty (if 0 < c_volume c then c_volume c * (1 / 10) else qty)"

definition market_impact :: "real \<Rightarrow> side \<Rightarrow> real \<Rightarrow> real \<Rightarrow> real" where
  "market_impact slip_bps sd actual_qty fill_px =
     (if 0 < slip_bps then
        (let impact_pct = actual_qty * fill_px / 1000000 * (5 / 100)
         in if sd = LONG then fill_px * (1 + impact_pct) else fill_px * (1 - impact_pct))
      else fill_px)"

text \<open>\<open>actual_slip_bps\<close> is \<open>0.0\<close> on every branch that assigns it.\<close>

definition entry_slip :: "entry_type \<Rightarrow> side \<Rightarrow> tick option \<Rightarrow> real \<Rightarrow> broker \<Rightarrow> real \<times> broker" where
  "entry_slip ty sd tk fill_px b =
     (let actual_slip_bps = 0;
          (effective_slip, b1) =
            (if tick_quotes tk \<noteq> None \<and> ty = Market then rng_uniform 0 (2 / 10) b
             else let (f, b') = rng_uniform (1 / 2) (3 / 2) b in (actual_slip_bps * f, b'))
      in (apply_slippage fill_px True (sd = LONG) effective_slip, rng_randint b1))"

subsection \<open>Booking\<close>

definition close_position_fifo :: "side \<Rightarrow> real \<Rightarrow> real \<Rightarrow> candle \<Rightarrow> (broker, bevent) py" where
  "close_position_fifo sd actual_qty px c = (\<lambda>b.
     case b_pos b of None \<Rightarrow> (Inl AssertionError, b)
     | Some p \<Rightarrow>
       case process_fifo_close p actual_qty px (b_taker b) (b_is_inverse b) of
         (Inl e, p') \<Rightarrow> (Inl e, b\<lparr>b_pos := Some p'\<rparr>)
       | (Inr r, p') \<Rightarrow>
         let qty' = p_qty p' - f_reduction r;
             done' = (qty' \<le> 1 / 100000000);
             ev = CloseEv \<lparr>cr_final = done', cr_trade_id = p_trade_id p', cr_side = sd, cr_price = px,
                    cr_qty = f_reduction r, cr_pnl = f_realized_pnl r, cr_fees = f_exit_fees r,
                    cr_at = c_ts c\<rparr>;
             b1 = b\<lparr>b_pos := (if done' then None else Some (p'\<lparr>p_qty := qty'\<rparr>)),
                    b_current_equity := b_current_equity b + f_realized_pnl r,
                    b_order_history := b_order_history b @ [ev]\<rparr>;
             b2 = save_state' b1;
             (now, b3) = time_time b2
         in (Inr ev, b3\<lparr>b_last_trade_time := now\<rparr>))"

definition remainder_order :: "order \<Rightarrow> string \<Rightarrow> real \<Rightarrow> real \<Rightarrow> real \<Rightarrow> order" where
  "remainder_order ord cid left_qty equity now =
     \<lparr>o_client_id = Some ((if cid \<noteq> [] then cid else ''anon'') @ ''_remainder''), o_go = False,
      o_side = o_side ord, o_type = Limit, o_entry = o_entry ord, o_qty = Fin left_qty,
      o_sl = o_sl ord, o_tp = o_tp ord, o_equity = Some equity, o_created_at = Some now\<rparr>"

definition cache_store :: "string \<Rightarrow> bevent \<Rightarrow> broker \<Rightarrow> broker" where
  "cache_store cid ev b = (let (m, b') = cache_view b in b'\<lparr>b_idempotency := m(cid \<mapsto> ev)\<rparr>)"

text \<open>The bookkeeping at the end of \<open>_try_fill\<close>, given the numbers the earlier stages settled.\<close>

definition book_finish ::
  "order \<Rightarrow> candle \<Rightarrow> bool \<Rightarrow> string \<Rightarrow> real \<Rightarrow> real \<Rightarrow> real \<Rightarrow> real \<Rightarrow> real \<Rightarrow> real
   \<Rightarrow> position \<Rightarrow> real \<Rightarrow> real \<Rightarrow> string \<Rightarrow> (broker, bevent option) py" where
  "book_finish ord c is_working cid equity qty actual_qty px sl tp pos pos_qty entry_fees trade_id =
     (\<lambda>b.
     let b1 = b\<lparr>b_pos := Some pos\<rparr>;
         fill_event = FillEv \<lparr>fr_trade_id = trade_id, fr_side = o_side ord, fr_price = px,
           fr_qty = pos_qty, fr_sl = sl, fr_tp = tp, fr_at = c_ts c, fr_fees = entry_fees,
           fr_requested_qty = (if actual_qty < qty then Some qty else None)\<rparr>;
         b2 = (if actual_qty < qty then
                 (let (now, b') = time_time b1
                  in b'\<lparr>b_working_orders := b_working_orders b' @
                        [remainder_order ord cid (qty - actual_qty) equity now]\<rparr>)
               else b1);
         b3 = save_state' b2;
         (now, b4) = time_time b3;
         b5 = b4\<lparr>b_last_trade_time := now\<rparr>;
         b6 = (if cid \<noteq> [] \<and> \<not> is_working then cache_store cid fill_event b5 else b5)
     in (Inr (Some fill_event), b6))"

definition book_fill ::
  "order \<Rightarrow> candle \<Rightarrow> bool \<Rightarrow> string \<Rightarrow> real \<Rightarrow> real \<Rightarrow> real \<Rightarrow> real \<Rightarrow> real \<Rightarrow> real
   \<Rightarrow> (broker, bevent option) py" where
  "book_fill ord c is_working cid equity qty actual_qty px sl tp = (\<lambda>b.
     let notional = actual_qty * px;
         fee_rate = (if o_type ord = Limit then b_maker b else b_taker b);
         entry_fees = notional * fee_rate;
         pos_qty = (if b_is_inverse b then notional else actual_qty);
         new_lot = \<lparr>l_qty = pos_qty, l_price = px, l_fees = entry_fees\<rparr>;
         (trade_id, b1) = (if \<not> is_working then (cid, b)
                           else let (u, b') = uuid4_hex b in (take 12 u, b'))
     in case b_pos b1 of
          Some p \<Rightarrow>
            if o_side ord \<noteq> p_side p
            then bindS (close_position_fifo (o_side ord) actual_qty px c) (\<lambda>ev. returnS (Some ev)) b1
            else book_finish ord c is_working cid equity qty actual_qty px sl tp
                   (p\<lparr>p_lots := p_lots p @ [new_lot], p_qty := p_qty p + pos_qty\<rparr>)
                   pos_qty entry_fees trade_id b1
        | None \<Rightarrow>
            book_finish ord c is_working cid equity qty actual_qty px sl tp
              \<lparr>p_side = o_side ord, p_qty = pos_qty, p_sl = sl, p_tp = tp, p_opened_at = c_ts c,
               p_lots = [new_lot], p_trade_id = trade_id, p_bars_open = 0,
               p_trail_active = False, p_trail_stop = 0\<rparr> pos_qty entry_fees trade_id b1)"

subsection \<open>The whole method\<close>

text \<open>
  After validation the four numbers are finite (\<open>risk_checks_accept_iff\<close>), so the last equation
  of \<open>fill_validated\<close> is never reached from \<open>try_fill\<close>.
\<close>

definition fill_validated ::
  "order \<Rightarrow> candle \<Rightarrow> bool \<Rightarrow> tick option \<Rightarrow> string \<Rightarrow> real \<Rightarrow> (broker, bevent option) py" where
  "fill_validated ord c is_working tk cid equity = (\<lambda>b.
     case (o_entry ord, o_qty ord, o_sl ord, o_tp ord) of
       (Fin entry, Fin qty, Fin sl, Fin tp) \<Rightarrow>
         (case quote_price (o_type ord) entry (o_side ord) c tk (b_slip_bps b) of
            None \<Rightarrow> (Inr None, b)
          | Some px0 \<Rightarrow>
            let (px1, b1) = market_slip (o_type ord) (o_side ord) px0 b;
                actual_qty = capped_qty c qty;
                px2 = market_impact (b_slip_bps b1) (o_side ord) actual_qty px1;
                (px3, b2) = entry_slip (o_type ord) (o_side ord) tk px2 b1
            in book_fill ord c is_working cid equity qty actual_qty px3 sl tp b2)
     | _ \<Rightarrow> (Inr None, b))"

definition try_fill ::
  "limits \<Rightarrow> candle \<Rightarrow> order \<Rightarrow> bool \<Rightarrow> tick option \<Rightarrow> (broker, bevent option) py" where
  "try_fill L c ord is_working tk = (\<lambda>b0.
     let (cid, b1) = resolve_client_id ord b0
     in case (if is_working then (Inr None, b1) else idempotency_check cid b1) of
          (Inl e, b2) \<Rightarrow> (Inl e, b2)
        | (Inr (Some r), b2) \<Rightarrow> (Inr r, b2)
        | (Inr None, b2) \<Rightarrow>
          let equity = float_or (o_equity ord) (b_current_equity b2)
          in case validate_risk_limits L ord c equity is_working b2 of
               (Inl e, b3) \<Rightarrow> (Inl e, b3)
             | (Inr False, b3) \<Rightarrow> (Inr None, b3)
             | (Inr True, b3) \<Rightarrow> fill_validated ord c is_working tk cid equity b3)"

section \<open>Leaving a position\<close>

definition exit_position :: "string \<Rightarrow> real \<Rightarrow> string \<Rightarrow> (broker, exit_rec) py" where
  "exit_position ts px reason = (\<lambda>b0.
     case b_pos b0 of None \<Rightarrow> (Inl AssertionError, b0)
     | Some p \<Rightarrow>
       let (f, b) = rng_uniform (1 / 2) (3 / 2) b0;
           effective_slip = b_slip_bps b * f;
           px_slipped = apply_slippage px False (p_side p = LONG) effective_slip
       in case calculate_full_exit_pnl p px_slipped (b_taker b) (b_is_inverse b) of
            (Inl e, p') \<Rightarrow> (Inl e, b\<lparr>b_pos := Some p'\<rparr>)
          | (Inr r, p') \<Rightarrow>
            let net_pnl = x_net_pnl r;
                ev = \<lparr>er_trade_id = p_trade_id p', er_reason = reason, er_entry = x_avg_entry r,
                  er_exit = px_slipped, er_qty = p_qty p', er_pnl = net_pnl, er_at = ts,
                  er_fees = x_total_fees r,
                  er_r = (if 0 < x_risk r then net_pnl / x_risk r else 0),
                  er_side = p_side p', er_bars_open = p_bars_open p'\<rparr>;
                b1 = b\<lparr>b_pos := Some p', b_current_equity := b_current_equity b + net_pnl,
                      b_order_history := b_order_history b @ [ExitEv ev]\<rparr>
            in (Inr ev, save_state' b1))"

text \<open>The exit a tick calls for: the price level and the reason.\<close>

definition tick_exit_at :: "position \<Rightarrow> tick \<Rightarrow> (real \<times> string) option" where
  "tick_exit_at p t =
     (if p_side p = LONG then
        (let px = t_bid t
         in if px \<le> p_sl p then Some (p_sl p, ''SL_TICK'')
            else if p_tp p \<le> px then Some (p_tp p, ''TP_TICK'')
            else if p_trail_active p \<and> px \<le> p_trail_stop p then Some (p_trail_stop p, ''TRAIL_TICK'')
            else None)
      else
        (let px = t_ask t
         in if p_sl p \<le> px then Some (p_sl p, ''SL_TICK'')
            else if px \<le> p_tp p then Some (p_tp p, ''TP_TICK'')
            else if p_trail_active p \<and> p_trail_stop p \<le> px then Some (p_trail_stop p, ''TRAIL_TICK'')
            else None))"

definition check_tick_exit :: "tick \<Rightarrow> (broker, exit_rec option) py" where
  "check_tick_exit t = (\<lambda>b.
     case b_pos b of None \<Rightarrow> (Inl AssertionError, b)
     | Some p \<Rightarrow>
       (case tick_exit_at p t of None \<Rightarrow> (Inr None, b)
        | Some (px, reason) \<Rightarrow>
          bindS (exit_position (t_ts t) px reason) (\<lambda>ev. returnS (Some ev)) b))"

text \<open>The trailing stop: activation beyond half the initial risk, then a ratchet.\<close>

definition update_trail :: "real \<Rightarrow> position \<Rightarrow> candle \<Rightarrow> position \<times> journal_event option" where
  "update_trail atr_mult p c =
     (let risk = \<bar>pos_entry p - p_sl p\<bar>; close = c_close c
      in if \<not> p_trail_active p then
           (if p_side p = LONG \<and> pos_entry p + risk * (1 / 2) < close then
              (let p' = p\<lparr>p_trail_active := True, p_trail_stop := close - risk * atr_mult\<rparr>
               in (p', Some (TrailActivated (p_side p') (pos_entry p') (p_trail_stop p') close)))
            else if p_side p = SHORT \<and> close < pos_entry p - risk * (1 / 2) then
              (let p' = p\<lparr>p_trail_active := True, p_trail_stop := close + risk * atr_mult\<rparr>
               in (p', Some (TrailActivated (p_side p') (pos_entry p') (p_trail_stop p') close)))
            else (p, None))
         else if p_side p = LONG then
           (p\<lparr>p_trail_stop := max (p_trail_stop p) (close - risk * atr_mult)\<rparr>, None)
         else (p\<lparr>p_trail_stop := min (p_trail_stop p) (close + risk * atr_mult)\<rparr>, None))"

text \<open>Whether the stop that was active before this candle is hit, after its update.\<close>

definition trail_hit :: "position \<Rightarrow> candle \<Rightarrow> bool" where
  "trail_hit p c \<longleftrightarrow> (p_side p = LONG \<and> c_low c \<le> p_trail_stop p)
     \<or> (p_side p = SHORT \<and> p_trail_stop p \<le> c_high c)"

definition sl_tp_exit :: "position \<Rightarrow> candle \<Rightarrow> (real \<times> string) option" where
  "sl_tp_exit p c =
     (if p_side p = LONG then
        (let sl_hit = (c_low c \<le> p_sl p); tp_hit = (p_tp p \<le> c_high c)
         in if sl_hit \<and> tp_hit then Some (p_sl p, ''SL_conservative'')
            else if sl_hit then
              Some (if c_open c < p_sl p then min (p_sl p) (c_open c) else p_sl p, ''SL'')
            else if tp_hit then Some (p_tp p, ''TP'') else None)
      else
        (let sl_hit = (p_sl p \<le> c_high c); tp_hit = (c_low c \<le> p_tp p)
         in if sl_hit \<and> tp_hit then Some (p_sl p, ''SL_conservative'')
            else if sl_hit then
              Some (if p_sl p < c_open c then max (p_sl p) (c_open c) else p_sl p, ''SL'')
            else if tp_hit then Some (p_tp p, ''TP'') else None))"

definition check_exit :: "candle \<Rightarrow> (broker, exit_rec option) py" where
  "check_exit c = (\<lambda>b0.
     case b_pos b0 of None \<Rightarrow> (Inl AssertionError, b0)
     | Some p \<Rightarrow>
       let b1 = (if 50 < p_bars_open p
                 then append_event (StalePosition (p_bars_open p) (p_side p) (pos_entry p)) b0 else b0);
           (p1, ev) = update_trail (b_trailing_atr_mult b1) p c;
           b2 = (case ev of None \<Rightarrow> b1\<lparr>b_pos := Some p1\<rparr>
                 | Some e \<Rightarrow> append_event e (b1\<lparr>b_pos := Some p1\<rparr>));
           target = (if p_trail_active p \<and> trail_hit p1 c then Some (p_trail_stop p1, ''TRAIL'')
                     else sl_tp_exit p1 c)
       in case target of None \<Rightarrow> (Inr None, b2)
          | Some (px, reason) \<Rightarrow>
            bindS (exit_position (c_ts c) px reason) (\<lambda>ev. returnS (Some ev)) b2)"

section \<open>Working orders\<close>

text \<open>
  \<open>_process_working_orders\<close> walks the list \<open>self.working_orders\<close> while \<open>_try_fill\<close> appends the
  remainders of partial fills to that same list, so the walk visits them too. It ends because a
  remainder asks for a tenth of the candle's volume less than its parent: \<open>order_weight\<close> counts
  the fills an order can still cause.
\<close>

definition order_weight :: "candle \<Rightarrow> order \<Rightarrow> nat" where
  "order_weight c ord =
     (if 0 < c_volume c
      then (case o_qty ord of Fin q \<Rightarrow> Suc (nat \<lceil>q / (c_volume c * (1 / 10))\<rceil>) | _ \<Rightarrow> 1)
      else 1)"

definition orders_weight :: "candle \<Rightarrow> order list \<Rightarrow> nat" where
  "orders_weight c os = (\<Sum>o'\<leftarrow>os. order_weight c o')"

lemma orders_weight_simps [simp]:
  "orders_weight c [] = 0" "orders_weight c (o' # os) = order_weight c o' + orders_weight c os"
  "orders_weight c (os @ os') = orders_weight c os + orders_weight c os'"
  by (simp_all add: orders_weight_def)

lemma order_weight_pos [simp]: "0 < order_weight c ord"
  by (simp add: order_weight_def split: pyfloat.splits)


subsection \<open>What a stage leaves alone\<close>

lemma save_state_fields [simp]:
  "b_symbol (save_state' b) = b_symbol b" "b_pos (save_state' b) = b_pos b"
  "b_working_orders (save_state' b) = b_working_orders b"
  "b_current_equity (save_state' b) = b_current_equity b"
  "b_starting_equity (save_state' b) = b_starting_equity b"
  "b_order_history (save_state' b) = b_order_history b"
  "b_idempotency (save_state' b) = b_idempotency b" "b_evict (save_state' b) = b_evict b"
  "b_rng (save_state' b) = b_rng b" "b_processed (save_state' b) = b_processed b"
  "b_is_inverse (save_state' b) = b_is_inverse b" "b_slip_bps (save_state' b) = b_slip_bps b"
  "b_maker (save_state' b) = b_maker b" "b_taker (save_state' b) = b_taker b"
  "b_state_path (save_state' b) = b_state_path b" "b_uuid (save_state' b) = b_uuid b"
  "b_order_timestamps (save_state' b) = b_order_timestamps b"
  "b_last_trade_time (save_state' b) = b_last_trade_time b"
  "b_journal (save_state' b) = b_journal b"
  by (simp_all add: save_state'_def time_time_def Let_def)

lemmas broker_env_defs = time_time_def uuid4_hex_def rng_uniform_def rng_randint_def
  cache_view_def append_event_def cache_store_def

lemma validate_fields:
  assumes "validate_risk_limits L ord c eq w b = (r, b')"
  shows "b_working_orders b' = b_working_orders b" "b_pos b' = b_pos b"
    "b_current_equity b' = b_current_equity b" "b_order_history b' = b_order_history b"
    "b_idempotency b' = b_idempotency b" "b_evict b' = b_evict b" "b_rng b' = b_rng b"
    "b_processed b' = b_processed b" "b_is_inverse b' = b_is_inverse b"
    "b_slip_bps b' = b_slip_bps b" "b_starting_equity b' = b_starting_equity b"
    "b_taker b' = b_taker b" "b_state_path b' = b_state_path b" "b_symbol b' = b_symbol b"
    "b_store b' = b_store b"
  by (subst validate_frame [OF assms], simp)+

lemma close_position_fifo_working:
  "close_position_fifo sd q px c b = (r, b') \<Longrightarrow> b_working_orders b' = b_working_orders b"
  by (auto simp: close_position_fifo_def broker_env_defs Let_def split: option.splits prod.splits sum.splits)

lemma book_finish_working:
  "b_working_orders (snd (book_finish ord c w cid eq qty aq px sl tp p pq f t b)) =
     b_working_orders b @ (if aq < qty then [remainder_order ord cid (qty - aq) eq (b_clock b 0)] else [])"
  by (simp add: book_finish_def broker_env_defs Let_def)

text \<open>A fill adds at most one working order: the remainder of this order.\<close>

lemma book_fill_working:
  assumes "book_fill ord c w cid eq qty aq px sl tp b = (r, b')"
  shows "b_working_orders b' = b_working_orders b \<or>
    (aq < qty \<and> (\<exists>now. b_working_orders b' = b_working_orders b @ [remainder_order ord cid (qty - aq) eq now]))"
proof (cases "\<exists>p. b_pos b = Some p \<and> o_side ord \<noteq> p_side p")
  case True
  then show ?thesis using assms close_position_fifo_working
    by (fastforce simp: book_fill_def broker_env_defs Let_def split: if_splits elim!: bindS_cases)
next
  case False
  then have "b_working_orders (snd (book_fill ord c w cid eq qty aq px sl tp b)) =
    b_working_orders b @ (if aq < qty then [remainder_order ord cid (qty - aq) eq (b_clock b 0)] else [])"
    by (auto simp: book_fill_def broker_env_defs Let_def book_finish_working split: option.splits)
  then show ?thesis using assms by (auto split: if_splits)
qed

lemma fill_validated_working:
  assumes "fill_validated ord c w tk cid eq b = (r, b')"
  shows "b_working_orders b' = b_working_orders b \<or>
    (\<exists>q now. o_qty ord = Fin q \<and> capped_qty c q < q \<and>
       b_working_orders b' = b_working_orders b @ [remainder_order ord cid (q - capped_qty c q) eq now])"
proof -
  have env: "b_working_orders (snd (market_slip ty sd px s)) = b_working_orders s"
    "b_working_orders (snd (entry_slip ty sd tk px s)) = b_working_orders s" for ty sd px s
    by (auto simp: market_slip_def entry_slip_def broker_env_defs Let_def split: if_splits)
  from assms show ?thesis
    by (auto simp: fill_validated_def Let_def split: pyfloat.splits option.splits prod.splits
        dest!: book_fill_working) (metis env snd_conv)+
qed

lemma try_fill_working_orders:
  assumes "try_fill L c ord True tk b = (r, b')"
  shows "b_working_orders b' = b_working_orders b \<or>
    (\<exists>cid eq q now. o_qty ord = Fin q \<and> capped_qty c q < q \<and>
       b_working_orders b' = b_working_orders b @ [remainder_order ord cid (q - capped_qty c q) eq now])"
proof -
  obtain cid b1 where r: "resolve_client_id ord b = (cid, b1)" by fastforce
  then have b1: "b_working_orders b1 = b_working_orders b"
    by (auto simp: resolve_client_id_def broker_env_defs split: option.splits if_splits)
  from assms r show ?thesis
    unfolding b1 [symmetric]
    by (auto simp: try_fill_def Let_def split: prod.splits sum.splits bool.splits
        dest: validate_fields(1) dest!: fill_validated_working) (metis validate_fields(1))+
qed

text \<open>So a step of the walk drops one order and adds at most a lighter one.\<close>

lemma remainder_weight:
  assumes "capped_qty c q < q"
  shows "order_weight c (remainder_order ord cid (q - capped_qty c q) eq now)
    < Suc (nat \<lceil>q / (c_volume c * (1 / 10))\<rceil>)"
proof -
  let ?x = "c_volume c * (1 / 10)"
  from assms have vol: "0 < c_volume c" and cap: "capped_qty c q = ?x" and x: "0 < ?x" "?x < q"
    by (auto simp: capped_qty_def min_def split: if_splits)
  have "(q - ?x) / ?x = q / ?x - 1" using x by (simp add: diff_divide_distrib)
  moreover have "1 < q / ?x" using x by simp
  ultimately show ?thesis using vol unfolding cap order_weight_def remainder_order_def
    by simp
qed

lemma try_fill_weight:
  assumes "try_fill L c (b_working_orders b ! i) True tk b = (r, b')"
    and "i < length (b_working_orders b)"
  shows "orders_weight c (drop (Suc i) (b_working_orders b')) < orders_weight c (drop i (b_working_orders b))"
proof -
  have d: "drop i (b_working_orders b) = b_working_orders b ! i # drop (Suc i) (b_working_orders b)"
    using assms(2) by (rule Cons_nth_drop_Suc [symmetric])
  from try_fill_working_orders [OF assms(1)] show ?thesis
  proof (elim disjE exE conjE)
    assume "b_working_orders b' = b_working_orders b"
    then show ?thesis by (simp add: d)
  next
    fix cid eq q now
    assume q: "o_qty (b_working_orders b ! i) = Fin q" "capped_qty c q < q"
      and w: "b_working_orders b' = b_working_orders b @
        [remainder_order (b_working_orders b ! i) cid (q - capped_qty c q) eq now]"
    have "0 < c_volume c" using q(2) by (auto simp: capped_qty_def split: if_splits)
    with remainder_weight [OF q(2)] q(1) show ?thesis using assms(2)
      by (simp add: d w order_weight_def)
  qed
qed

subsection \<open>The walk\<close>

function process_loop ::
  "limits \<Rightarrow> candle \<Rightarrow> nat \<Rightarrow> bevent list \<Rightarrow> order list \<Rightarrow> (broker, bevent list \<times> order list) py" where
  "process_loop L c i fills remaining b =
     (if i < length (b_working_orders b) then
        (case try_fill L c (b_working_orders b ! i) True None b of
           (Inl e, b') \<Rightarrow> (Inl e, b')
         | (Inr (Some ev), b') \<Rightarrow> process_loop L c (Suc i) (fills @ [ev]) remaining b'
         | (Inr None, b') \<Rightarrow>
             process_loop L c (Suc i) fills (remaining @ [b_working_orders b ! i]) b')
      else (Inr (fills, remaining), b))"
  by pat_completeness auto
termination
  by (relation "measure (\<lambda>(L, c, i, fills, remaining, b). orders_weight c (drop i (b_working_orders b)))")
    (auto dest!: try_fill_weight [OF sym])

declare process_loop.simps [simp del]

definition process_working_orders :: "limits \<Rightarrow> candle \<Rightarrow> (broker, bevent list) py" where
  "process_working_orders L c = (\<lambda>b.
     case process_loop L c 0 [] [] b of
       (Inl e, b') \<Rightarrow> (Inl e, b')
     | (Inr (fills, remaining), b') \<Rightarrow> (Inr fills, b'\<lparr>b_working_orders := remaining\<rparr>))"

section \<open>The public operations\<close>

record events =
  evs_fills :: "bevent list"
  evs_exits :: "exit_rec list"

definition on_candle :: "limits \<Rightarrow> candle \<Rightarrow> order option \<Rightarrow> tick option \<Rightarrow> (broker, events) py" where
  "on_candle L c ord tk =
     bindS (process_working_orders L c) (\<lambda>working_fills.
     bindS (\<lambda>b.
        case b_pos b of None \<Rightarrow> (Inr [], b)
        | Some p \<Rightarrow>
          let p1 = p\<lparr>p_bars_open := p_bars_open p + 1\<rparr>; b1 = b\<lparr>b_pos := Some p1\<rparr>
          in bindS (if b_max_bars_open b1 < p_bars_open p1
                    then bindS (exit_position (c_ts c) (c_close c) ''STALE_EXIT'') (\<lambda>x. returnS (Some x))
                    else check_exit c)
               (\<lambda>exit_event b2.
                  case exit_event of None \<Rightarrow> (Inr [], b2)
                  | Some x \<Rightarrow> (Inr [x], (save_state' b2)\<lparr>b_pos := None\<rparr>)) b1) (\<lambda>exits.
     bindS (\<lambda>b.
        case ord of None \<Rightarrow> (Inr [], b)
        | Some o' \<Rightarrow>
          if b_pos b = None \<and> o_go o' then
            bindS (try_fill L c o' False tk) (\<lambda>fill b2.
              case fill of None \<Rightarrow> (Inr [], b2)
              | Some f \<Rightarrow> (Inr [f], save_state' b2)) b
          else (Inr [], b)) (\<lambda>new_fills.
     returnS \<lparr>evs_fills = working_fills @ new_fills, evs_exits = exits\<rparr>)))"

definition on_tick :: "tick \<Rightarrow> (broker, exit_rec list) py" where
  "on_tick t = (\<lambda>b.
     case b_pos b of None \<Rightarrow> (Inr [], b)
     | Some p \<Rightarrow>
       bindS (check_tick_exit t) (\<lambda>exit_event b2.
         case exit_event of None \<Rightarrow> (Inr [], b2)
         | Some x \<Rightarrow> (Inr [x], (save_state' b2)\<lparr>b_pos := None\<rparr>)) b)"

definition place_order ::
  "string \<Rightarrow> pyfloat \<Rightarrow> string \<Rightarrow> real option \<Rightarrow> real option \<Rightarrow> real option \<Rightarrow> string option
   \<Rightarrow> (broker, order) py" where
  "place_order sd qty order_type price sl tp client_order_id = (\<lambda>b0.
     let side_upper = py_upper sd;
         normalized_side = (if side_upper = ''BUY'' \<or> side_upper = ''LONG'' then LONG else SHORT);
         ty = py_lower order_type;
         (cid, b1) = (case client_order_id of
            Some s \<Rightarrow> (if s \<noteq> [] then (s, b0) else uuid4_hex b0) | None \<Rightarrow> uuid4_hex b0);
         (now, b2) = time_time b1;
         ord = \<lparr>o_client_id = Some cid, o_go = True, o_side = normalized_side,
            o_type = (if ty = ''market'' then Market else if ty = ''limit'' then Limit else OtherType ty),
            o_entry = Fin (float_or price 0), o_qty = qty, o_sl = Fin (float_or sl 0),
            o_tp = Fin (float_or tp 0), o_equity = None, o_created_at = Some now\<rparr>
     in (Inr ord, b2\<lparr>b_working_orders := b_working_orders b2 @ [ord]\<rparr>))"

definition get_unrealized_pnl :: "real \<Rightarrow> broker \<Rightarrow> real res" where
  "get_unrealized_pnl price b = calculate_unrealized_pnl (b_pos b) price (b_is_inverse b)"

definition close_all :: "string \<Rightarrow> real \<Rightarrow> (broker, exit_rec list) py" where
  "close_all now_iso current_price = (\<lambda>b.
     if b_pos b = None then (Inr [], b)
     else bindS (exit_position now_iso current_price ''FORCE_CLOSE'')
            (\<lambda>x b2. (Inr [x], b2\<lparr>b_pos := None\<rparr>)) b)"

definition apply_funding :: "real \<Rightarrow> string \<Rightarrow> broker \<Rightarrow> broker" where
  "apply_funding rate ts b =
     (case b_pos b of None \<Rightarrow> b
      | Some p \<Rightarrow>
        let notional_usd = (if b_is_inverse b then p_qty p else p_qty p * pos_entry p);
            cost = notional_usd * rate;
            b1 = b\<lparr>b_current_equity := b_current_equity b - cost\<rparr>
        in append_event (FundingApplied rate cost (b_current_equity b1) (p_side p) ts) b1)"

definition cancel_events :: "order list \<Rightarrow> journal_event list" where
  "cancel_events os = map (\<lambda>o'. WorkingOrderCancelled (o_client_id o') (o_side o') (o_qty o')) os"

definition shutdown_broker :: "broker \<Rightarrow> broker" where
  "shutdown_broker b =
     save_state' (if b_working_orders b = [] then b
                  else b\<lparr>b_journal := b_journal b @ cancel_events (b_working_orders b),
                         b_working_orders := []\<rparr>)"

definition cancel_all_open_orders :: "broker \<Rightarrow> broker" where
  "cancel_all_open_orders b = shutdown_broker b"

text \<open>
  The constructor, before and after it loads the persisted state. \<open>fees_bps\<close>, when not zero, replaces
  both rates of the exchange configuration.
\<close>

definition init_broker ::
  "string \<Rightarrow> real \<Rightarrow> real \<Rightarrow> real \<Rightarrow> bool \<Rightarrow> int option \<Rightarrow> real option
   \<Rightarrow> (real \<times> real) option \<Rightarrow> (string \<rightharpoonup> real) option \<Rightarrow> (string \<rightharpoonup> saved_state)
   \<Rightarrow> (nat \<Rightarrow> real) \<Rightarrow> (nat \<Rightarrow> string) \<Rightarrow> (nat \<Rightarrow> real)
   \<Rightarrow> (nat \<Rightarrow> (string \<rightharpoonup> bevent) \<Rightarrow> (string \<rightharpoonup> bevent)) \<Rightarrow> broker" where
  "init_broker symbol fees_bps slip_bps starting_equity state_path max_bars trail_mult
     exchange_cfg risk_cfg store clock uuids rng evict =
     (let b0 = \<lparr>b_symbol = symbol, b_max_bars_open = (case max_bars of None \<Rightarrow> 50 | Some n \<Rightarrow> n),
            b_trailing_atr_mult = (case trail_mult of None \<Rightarrow> 3 / 2 | Some m \<Rightarrow> m),
            b_pos = None, b_is_inverse = ends_usd_not_usdt symbol, b_slip_bps = slip_bps,
            b_starting_equity = starting_equity, b_current_equity = starting_equity,
            b_maker = 2 / 10000, b_taker = 6 / 10000, b_last_trade_time = 0,
            b_min_trade_interval = 60, b_processed = {}, b_idempotency = Map.empty,
            b_order_timestamps = [], b_order_history = [], b_working_orders = [],
            b_max_position = Map.empty, b_state_path = state_path, b_store = store,
            b_clock = clock, b_uuid = uuids, b_rng = rng, b_evict = evict, b_journal = []\<rparr>;
          b1 = load_exchange_config exchange_cfg b0;
          b2 = (if fees_bps \<noteq> 0 then b1\<lparr>b_maker := fees_bps / 10000, b_taker := fees_bps / 10000\<rparr>
                else b1)
      in load_risk_config risk_cfg b2)"

definition new_broker ::
  "string \<Rightarrow> real \<Rightarrow> real \<Rightarrow> real \<Rightarrow> bool \<Rightarrow> int option \<Rightarrow> real option
   \<Rightarrow> (real \<times> real) option \<Rightarrow> (string \<rightharpoonup> real) option \<Rightarrow> (string \<rightharpoonup> saved_state)
   \<Rightarrow> (nat \<Rightarrow> real) \<Rightarrow> (nat \<Rightarrow> string) \<Rightarrow> (nat \<Rightarrow> real)
   \<Rightarrow> (nat \<Rightarrow> (string \<rightharpoonup> bevent) \<Rightarrow> (string \<rightharpoonup> bevent)) \<Rightarrow> broker" where
  "new_broker symbol fees_bps slip_bps starting_equity state_path max_bars trail_mult
     exchange_cfg risk_cfg store clock uuids rng evict =
     load_state' (init_broker symbol fees_bps slip_bps starting_equity state_path max_bars trail_mult
       exchange_cfg risk_cfg store clock uuids rng evict)"

lemma load_config_fields [simp]:
  "b_symbol (load_exchange_config x b) = b_symbol b" "b_symbol (load_risk_config y b) = b_symbol b"
  "b_state_path (load_exchange_config x b) = b_state_path b" "b_state_path (load_risk_config y b) = b_state_path b"
  "b_store (load_exchange_config x b) = b_store b" "b_store (load_risk_config y b) = b_store b"
  "b_clock (load_exchange_config x b) = b_clock b" "b_clock (load_risk_config y b) = b_clock b"
  "b_pos (load_exchange_config x b) = b_pos b" "b_pos (load_risk_config y b) = b_pos b"
  "b_order_timestamps (load_exchange_config x b) = b_order_timestamps b" "b_order_timestamps (load_risk_config y b) = b_order_timestamps b"
  "b_last_trade_time (load_exchange_config x b) = b_last_trade_time b" "b_last_trade_time (load_risk_config y b) = b_last_trade_time b"
  "b_idempotency (load_exchange_config x b) = b_idempotency b" "b_idempotency (load_risk_config y b) = b_idempotency b"
  "b_current_equity (load_exchange_config x b) = b_current_equity b" "b_current_equity (load_risk_config y b) = b_current_equity b"
  "b_starting_equity (load_exchange_config x b) = b_starting_equity b" "b_starting_equity (load_risk_config y b) = b_starting_equity b"
  "b_slip_bps (load_exchange_config x b) = b_slip_bps b" "b_slip_bps (load_risk_config y b) = b_slip_bps b"
  "b_order_history (load_exchange_config x b) = b_order_history b" "b_order_history (load_risk_config y b) = b_order_history b"
  "b_working_orders (load_exchange_config x b) = b_working_orders b" "b_working_orders (load_risk_config y b) = b_working_orders b"
  by (simp_all add: load_exchange_config_def load_risk_config_def split: option.splits)

lemma init_broker_fields [simp]:
  "b_symbol (init_broker symb fees slip eq path bars mult ecfg rcfg store clock uuids rng evict) = symb"
  "b_state_path (init_broker symb fees slip eq path bars mult ecfg rcfg store clock uuids rng evict) = path"
  "b_store (init_broker symb fees slip eq path bars mult ecfg rcfg store clock uuids rng evict) = store"
  "b_clock (init_broker symb fees slip eq path bars mult ecfg rcfg store clock uuids rng evict) = clock"
  "b_pos (init_broker symb fees slip eq path bars mult ecfg rcfg store clock uuids rng evict) = None"
  "b_order_timestamps (init_broker symb fees slip eq path bars mult ecfg rcfg store clock uuids rng evict) = []"
  "b_last_trade_time (init_broker symb fees slip eq path bars mult ecfg rcfg store clock uuids rng evict) = 0"
  "b_idempotency (init_broker symb fees slip eq path bars mult ecfg rcfg store clock uuids rng evict) = Map.empty"
  "b_current_equity (init_broker symb fees slip eq path bars mult ecfg rcfg store clock uuids rng evict) = eq"
  "b_starting_equity (init_broker symb fees slip eq path bars mult ecfg rcfg store clock uuids rng evict) = eq"
  "b_slip_bps (init_broker symb fees slip eq path bars mult ecfg rcfg store clock uuids rng evict) = slip"
  "b_order_history (init_broker symb fees slip eq path bars mult ecfg rcfg store clock uuids rng evict) = []"
  "b_working_orders (init_broker symb fees slip eq path bars mult ecfg rcfg store clock uuids rng evict) = []"
  by (simp_all add: init_broker_def Let_def)

lemma new_broker_loads:
  assumes "store symb = Some st"
    and "b = new_broker symb fees slip eq True bars mult ecfg rcfg store clock uuids rng evict"
  shows "b_current_equity b = sv_current_equity st" "b_starting_equity b = sv_starting_equity st"
    "b_processed b = sv_processed st" "b_order_history b = sv_order_history st"
    "b_pos b = map_option (\<lambda>s. load_pos (as_loaded s)) (sv_pos st)"
    "b_working_orders b = filter (unexpired (clock 0)) (sv_working_orders st)"
    "b_order_timestamps b = []" "b_last_trade_time b = 0" "b_idempotency b = Map.empty"
  using assms(1)
  unfolding assms(2) new_broker_def
  by (auto simp: load_state'_def time_time_def Let_def split: option.splits)

end
