(* ===== verification/Paper_Stages.thy ===== *)
theory Paper_Stages
  imports Paper_Broker
begin

text \<open>
  What the broker's operations do to its accounts, proved once for every preorder on states: a
  relation that holds when a call does not touch the accounts and that the four stages which do
  touch them (the order check, the idempotency check, the FIFO close and the exit) respect is
  respected by every operation, on every path and also when it raises. The ledger and the rate
  window are two instances.
\<close>

fun journal_cost :: "journal_event \<Rightarrow> real" where
  "journal_cost (FundingApplied rate cost equity sd ts) = cost"
| "journal_cost e = 0"

definition funding_paid :: "broker \<Rightarrow> real" where
  "funding_paid b = (\<Sum>e\<leftarrow>b_journal b. journal_cost e)"

lemma funding_paid_update [simp]:
  "funding_paid (append_event e b) = funding_paid b + journal_cost e"
  "funding_paid (save_state' b) = funding_paid b"
  "funding_paid (b\<lparr>b_pos := x1\<rparr>) = funding_paid b"
  "funding_paid (b\<lparr>b_clock := x2\<rparr>) = funding_paid b"
  "funding_paid (b\<lparr>b_uuid := x3\<rparr>) = funding_paid b"
  "funding_paid (b\<lparr>b_rng := x4\<rparr>) = funding_paid b"
  "funding_paid (b\<lparr>b_evict := x5\<rparr>) = funding_paid b"
  "funding_paid (b\<lparr>b_idempotency := x6\<rparr>) = funding_paid b"
  "funding_paid (b\<lparr>b_working_orders := x7\<rparr>) = funding_paid b"
  "funding_paid (b\<lparr>b_last_trade_time := x8\<rparr>) = funding_paid b"
  "funding_paid (b\<lparr>b_current_equity := x9\<rparr>) = funding_paid b"
  "funding_paid (b\<lparr>b_order_history := x10\<rparr>) = funding_paid b"
  "funding_paid (b\<lparr>b_processed := x11\<rparr>) = funding_paid b"
  "funding_paid (b\<lparr>b_order_timestamps := x12\<rparr>) = funding_paid b"
  by (simp_all add: funding_paid_def append_event_def)

definition accounts :: "broker \<Rightarrow> real \<times> bevent list \<times> string set \<times> real list \<times> real" where
  "accounts b = (b_current_equity b, b_order_history b, b_processed b, b_order_timestamps b,
     funding_paid b)"

lemma accounts_update [simp]:
  "accounts (b\<lparr>b_pos := x1\<rparr>) = accounts b" "accounts (b\<lparr>b_clock := x2\<rparr>) = accounts b"
  "accounts (b\<lparr>b_uuid := x3\<rparr>) = accounts b" "accounts (b\<lparr>b_rng := x4\<rparr>) = accounts b"
  "accounts (b\<lparr>b_evict := x5\<rparr>) = accounts b" "accounts (b\<lparr>b_idempotency := x6\<rparr>) = accounts b"
  "accounts (b\<lparr>b_working_orders := x7\<rparr>) = accounts b"
  "accounts (b\<lparr>b_last_trade_time := x8\<rparr>) = accounts b"
  "accounts (save_state' b) = accounts b"
  by (simp_all add: accounts_def)

lemma accounts_append_event [simp]: "journal_cost e = 0 \<Longrightarrow> accounts (append_event e b) = accounts b"
  unfolding accounts_def by simp (simp add: append_event_def)

lemma validate_funding:
  "validate_risk_limits L ord c eq w b = (r, b') \<Longrightarrow> funding_paid b' = funding_paid b"
  by (auto simp: validate_risk_limits_def time_time_def Let_def
      split: if_splits sum.splits verdict.splits option.splits)

lemma cancel_events_cost [simp]: "(\<Sum>e\<leftarrow>cancel_events os. journal_cost e) = 0"
  by (simp add: cancel_events_def comp_def)

locale broker_preorder =
  fixes R :: "broker \<Rightarrow> broker \<Rightarrow> bool"
    and L :: limits
  assumes same: "accounts b' = accounts b \<Longrightarrow> R b b'"
    and trans: "R b b1 \<Longrightarrow> R b1 b2 \<Longrightarrow> R b b2"
    and validate: "validate_risk_limits L ord c eq w b = (r, b') \<Longrightarrow> R b b'"
    and idempotency: "idempotency_check cid b = (q, b') \<Longrightarrow> R b b'"
    and fifo_close: "close_position_fifo sd qty px c b = (r1, b') \<Longrightarrow> R b b'"
    and leave: "exit_position ts px2 reason b = (r2, b') \<Longrightarrow> R b b'"
begin

lemma refl [simp, intro]: "R b b"
  by (rule same) simp

lemma accounts_R: "accounts s' = accounts s \<Longrightarrow> R b s' = R b s"
  using same [of s s'] same [of s' s] trans by metis

lemma accounts_R': "accounts s' = accounts s \<Longrightarrow> R s' b = R s b"
  using same [of s s'] same [of s' s] trans by metis

lemma R_pos [simp]: "R b (s\<lparr>b_pos := p\<rparr>) = R b s" "R (b\<lparr>b_pos := p\<rparr>) s = R b s"
  "R b (s\<lparr>b_working_orders := w\<rparr>) = R b s" "R b (save_state' s) = R b s"
  by (rule accounts_R accounts_R'; simp)+

lemma R_bindS:
  assumes "bindS m f b = (r, b')" "\<And>r b1. m b = (r, b1) \<Longrightarrow> R b b1"
    and "\<And>a b1. m b = (Inr a, b1) \<Longrightarrow> f a b1 = (r, b') \<Longrightarrow> R b1 b'"
  shows "R b b'"
  using assms by (elim bindS_cases) (auto intro: trans)

lemma book_finish_R:
  "book_finish ord c w cid eq qty aq px sl tp p pq f t b = (r, b') \<Longrightarrow> R b b'"
  by (rule same) (auto simp: book_finish_def broker_env_defs Let_def split: if_splits)

lemma book_fill_R:
  assumes "book_fill ord c w cid eq qty aq px sl tp b = (r, b')"
  shows "R b b'"
proof -
  obtain t b1 where e: "(if \<not> w then (cid, b) else let (u, b') = uuid4_hex b in (take 12 u, b')) = (t, b1)"
    by fastforce
  then have "R b b1"
    by (auto intro!: same simp: broker_env_defs Let_def split: if_splits)
  moreover from assms e have "R b1 b'"
    by (auto simp: book_fill_def Let_def split: option.splits if_splits
        elim!: bindS_cases dest: fifo_close book_finish_R)
  ultimately show ?thesis by (rule trans)
qed

lemma fill_validated_R:
  assumes "fill_validated ord c w tk cid eq b = (r, b')"
  shows "R b b'"
proof -
  have env: "R s (snd (market_slip ty sd px s))" "R s (snd (entry_slip ty sd tk px s))" for ty sd px s
    by (auto intro!: same simp: market_slip_def entry_slip_def broker_env_defs Let_def split: if_splits)
  from assms show ?thesis
    by (auto simp: fill_validated_def Let_def split: pyfloat.splits option.splits prod.splits
        dest!: book_fill_R) (metis env snd_conv trans)
qed

lemma resolve_client_id_R: "resolve_client_id ord b = (cid, b') \<Longrightarrow> R b b'"
  by (auto intro!: same simp: resolve_client_id_def broker_env_defs split: option.splits if_splits)

lemma try_fill_R:
  assumes "try_fill L c ord w tk b = (r, b')"
  shows "R b b'"
proof -
  obtain cid b1 where r1: "resolve_client_id ord b = (cid, b1)" by fastforce
  obtain q b2 where i: "(if w then (Inr None, b1) else idempotency_check cid b1) = (q, b2)" by fastforce
  then have b12: "R b1 b2" by (auto split: if_splits dest: idempotency)
  have "R b2 b'" using assms r1 i
    by (auto simp: try_fill_def Let_def split: sum.splits option.splits prod.splits bool.splits
        dest!: validate fill_validated_R intro: trans)
  then show ?thesis using resolve_client_id_R [OF r1] b12 trans by blast
qed

lemma check_tick_exit_R:
  "check_tick_exit t b = (r, b') \<Longrightarrow> R b b'"
  by (auto simp: check_tick_exit_def split: option.splits prod.splits
      elim!: bindS_cases dest: leave)

lemma check_exit_R:
  assumes "check_exit c b = (r, b')"
  shows "R b b'"
proof (cases "b_pos b")
  case None
  with assms show ?thesis by (auto simp: check_exit_def)
next
  case (Some p)
  define b1 where "b1 = (if 50 < p_bars_open p
      then append_event (StalePosition (p_bars_open p) (p_side p) (pos_entry p)) b else b)"
  obtain p1 ev where u: "update_trail (b_trailing_atr_mult b1) p c = (p1, ev)" by fastforce
  define b2 where "b2 = (case ev of None \<Rightarrow> b1\<lparr>b_pos := Some p1\<rparr>
      | Some e \<Rightarrow> append_event e (b1\<lparr>b_pos := Some p1\<rparr>))"
  have "ev = Some e \<Longrightarrow> journal_cost e = 0" for e
    using u by (auto simp: update_trail_def Let_def split: if_splits)
  then have "R b b2"
    by (intro same) (auto simp: b1_def b2_def append_event_def funding_paid_def accounts_def split: option.splits)
  moreover have "R b2 b'"
    using assms Some u
    by (auto simp: check_exit_def Let_def b1_def [symmetric] b2_def [symmetric]
        split: option.splits prod.splits elim!: bindS_cases dest: leave)
  ultimately show ?thesis by (rule trans)
qed

lemma process_loop_R:
  "process_loop L' c i fills rm b = (r, b') \<Longrightarrow> L' = L \<Longrightarrow> R b b'"
proof (induction L' c i fills rm b rule: process_loop.induct)
  case (1 L' c i fills rm b)
  show ?case
  proof (cases "i < length (b_working_orders b)")
    case True
    obtain q b1 where f: "try_fill L' c (b_working_orders b ! i) True None b = (q, b1)" by fastforce
    have "R b1 b'"
      using "1.prems" True f "1.IH"(1) [OF True f [symmetric]] "1.IH"(2) [OF True f [symmetric]]
      by (subst (asm) process_loop.simps) (auto split: sum.splits option.splits)
    with try_fill_R f "1.prems"(2) show ?thesis by (blast intro: trans)
  next
    case False
    with "1.prems" show ?thesis by (subst (asm) process_loop.simps) simp
  qed
qed

lemma process_working_orders_R:
  assumes "process_working_orders L c b = (r, b')"
  shows "R b b'"
proof -
  from assms show ?thesis
    by (auto simp: process_working_orders_def split: prod.splits sum.splits
        dest: process_loop_R)
qed

section \<open>The operations\<close>

lemma on_candle_R:
  "on_candle L c ord tk b = (r, b') \<Longrightarrow> R b b'"
  unfolding on_candle_def
  by (elim R_bindS)
    (auto split: option.splits if_splits prod.splits simp: Let_def
      elim!: bindS_cases R_bindS dest: process_working_orders_R leave check_exit_R try_fill_R)

lemma on_tick_R:
  assumes "on_tick t b = (r, b')"
  shows "R b b'"
proof (cases "b_pos b")
  case None
  with assms show ?thesis by (simp add: on_tick_def)
next
  case (Some p)
  obtain q b1 where x: "check_tick_exit t b = (q, b1)" by fastforce
  with assms Some have "R b b' = R b b1"
    by (auto simp: on_tick_def bindS_def split: sum.splits option.splits)
  with check_tick_exit_R [OF x] show ?thesis by simp
qed

lemma close_all_R:
  "close_all ts px b = (r, b') \<Longrightarrow> R b b'"
  by (auto simp: close_all_def split: if_splits elim!: bindS_cases dest: leave)

lemma place_order_R:
  "place_order sd q ty px sl tp cid b = (r, b') \<Longrightarrow> R b b'"
  by (rule same)
    (auto simp: place_order_def broker_env_defs Let_def split: option.splits if_splits)

lemma shutdown_R: "R b (shutdown_broker b)"
  by (rule same) (simp_all add: shutdown_broker_def accounts_def funding_paid_def)

end

end
