(* ===== verification/Exchange.thy ===== *)
theory Exchange
  imports Broker_Types
begin

text \<open>
  \<^verbatim>\<open>execution/interface.py\<close>: the abstract \<open>ExchangeInterface\<close> every broker implements, as the type of
  its calls, and the contract the session relies on as a locale: whatever call is made, and
  whether or not it raises, equity moves only by the profit of events appended to the order
  history. The brokers interpret it; what follows for a whole sequence of calls is proved once.
\<close>

datatype exchange_op =
    OpCandle candle "order option" "tick option"
  | OpTick tick
  | OpPlaceOrder string pyfloat string "real option" "real option" "real option" "string option"
  | OpCloseAll string real
  | OpCancelAll
  | OpShutdown

locale exchange =
  fixes equity :: "'s \<Rightarrow> real"
    and history :: "'s \<Rightarrow> 'e list"
    and pnl :: "'e \<Rightarrow> real"
    and step :: "'op \<Rightarrow> 's \<Rightarrow> 's"
  assumes step_books: "\<exists>evs. history (step op s) = history s @ evs
      \<and> equity (step op s) = equity s + (\<Sum>e\<leftarrow>evs. pnl e)"
begin

definition run :: "'op list \<Rightarrow> 's \<Rightarrow> 's" where
  "run ops s = fold step ops s"

lemma run_books: "\<exists>evs. history (run ops s) = history s @ evs
    \<and> equity (run ops s) = equity s + (\<Sum>e\<leftarrow>evs. pnl e)"
proof (induction ops arbitrary: s)
  case Nil
  show ?case by (simp add: run_def)
next
  case (Cons op ops)
  obtain e1 where "history (step op s) = history s @ e1"
    "equity (step op s) = equity s + (\<Sum>e\<leftarrow>e1. pnl e)" using step_books by blast
  moreover obtain e2 where "history (run ops (step op s)) = history (step op s) @ e2"
    "equity (run ops (step op s)) = equity (step op s) + (\<Sum>e\<leftarrow>e2. pnl e)"
    using Cons.IH by blast
  ultimately show ?case by (intro exI [of _ "e1 @ e2"]) (simp add: run_def)
qed

text \<open>The session's report: profit since the start is what the history adds up to.\<close>

lemma run_net_profit:
  "history s = [] \<Longrightarrow> equity (run ops s) - equity s = (\<Sum>e\<leftarrow>history (run ops s). pnl e)"
  using run_books [of ops s] by auto

lemma run_history_prefix: "\<exists>evs. history (run ops s) = history s @ evs"
  using run_books by blast

end

end
