(* ===== verification/Paper_Ledger.thy ===== *)
theory Paper_Ledger
  imports Paper_Stages Exchange
begin

text \<open>
  The books of the paper broker balance: every operation, on every path and also when it raises,
  changes \<open>current_equity\<close> exactly by the profit of the events it appends to \<open>order_history\<close> and
  by the funding it writes to the event journal. This is the broker's side of the contract in
  \<open>Exchange\<close>. The second relation is the order window: client ids are never forgotten and the
  order-rate window never exceeds its limit.
\<close>

section \<open>The books\<close>

definition books :: "broker \<Rightarrow> broker \<Rightarrow> bool" where
  "books b b' \<longleftrightarrow> funding_paid b' = funding_paid b
     \<and> (\<exists>evs. b_order_history b' = b_order_history b @ evs
          \<and> b_current_equity b' = b_current_equity b + (\<Sum>e\<leftarrow>evs. ev_pnl e))"

lemma books_trans: "books a b \<Longrightarrow> books b c \<Longrightarrow> books a c"
  by (force simp: books_def)

interpretation book: broker_preorder books L for L
proof unfold_locales
  show "books b b'" if "validate_risk_limits L ord c eq w b = (r, b')" for b b' ord c eq w r
    using validate_fields(3,4) [OF that] validate_funding [OF that] by (simp add: books_def)
  show "books b b'" if "idempotency_check cid b = (q, b')" for cid b q b'
    using that by (auto simp: books_def idempotency_check_def broker_env_defs Let_def
        split: option.splits if_splits)
  show "books b b'" if "close_position_fifo sd q px c b = (r, b')" for sd q px c b r b'
    using that by (auto simp: close_position_fifo_def books_def broker_env_defs Let_def
        split: option.splits prod.splits sum.splits if_splits)
  show "books b b'" if "exit_position ts px reason b = (r, b')" for ts px reason b r b'
    using that by (auto simp: exit_position_def books_def broker_env_defs Let_def
        split: option.splits prod.splits sum.splits)
qed (auto simp: books_def accounts_def intro: books_trans)

section \<open>The order window\<close>

definition window :: "nat \<Rightarrow> broker \<Rightarrow> broker \<Rightarrow> bool" where
  "window n b b' \<longleftrightarrow> b_processed b \<subseteq> b_processed b'
     \<and> (length (b_order_timestamps b) \<le> n \<longrightarrow> length (b_order_timestamps b') \<le> n)"

lemma window_trans: "window n b b1 \<Longrightarrow> window n b1 b2 \<Longrightarrow> window n b b2"
  by (auto simp: window_def)

interpretation win: broker_preorder "window (MAX_ORDERS_PER_MINUTE L)" L for L
proof unfold_locales
  let ?W = "window (MAX_ORDERS_PER_MINUTE L)"
  show "?W b b'" if "validate_risk_limits L ord c eq w b = (r, b')" for b b' ord c eq w r
    using validate_fields(8) [OF that] validate_rate_window [OF that] by (simp add: window_def)
  show "?W b b'" if "idempotency_check cid b = (q, b')" for cid b q b'
    using that by (auto simp: window_def idempotency_check_def broker_env_defs Let_def
        split: option.splits if_splits)
  show "?W b b'" if "close_position_fifo sd q px c b = (r, b')" for sd q px c b r b'
    using that by (auto simp: close_position_fifo_def window_def broker_env_defs Let_def
        split: option.splits prod.splits sum.splits if_splits)
  show "?W b b'" if "exit_position ts px reason b = (r, b')" for ts px reason b r b'
    using that by (auto simp: exit_position_def window_def broker_env_defs Let_def
        split: option.splits prod.splits sum.splits)
qed (auto simp: window_def accounts_def)

section \<open>The contract\<close>

text \<open>The calls of the interface, and the session's funding and checkpoint calls.\<close>

datatype paper_op = Call exchange_op | Funding real string | Save

fun paper_step :: "limits \<Rightarrow> paper_op \<Rightarrow> broker \<Rightarrow> broker" where
  "paper_step L (Call (OpCandle c ord tk)) b = snd (on_candle L c ord tk b)"
| "paper_step L (Call (OpTick t)) b = snd (on_tick t b)"
| "paper_step L (Call (OpPlaceOrder sd q ty px sl tp cid)) b = snd (place_order sd q ty px sl tp cid b)"
| "paper_step L (Call (OpCloseAll ts px)) b = snd (close_all ts px b)"
| "paper_step L (Call OpCancelAll) b = cancel_all_open_orders b"
| "paper_step L (Call OpShutdown) b = shutdown_broker b"
| "paper_step L (Funding rate ts) b = apply_funding rate ts b"
| "paper_step L Save b = save_state' b"

lemma paper_call_books: "books b (paper_step L (Call op) b)"
  by (cases op)
    (auto simp: cancel_all_open_orders_def intro: book.shutdown_R book.on_candle_R book.on_tick_R
      book.close_all_R book.place_order_R prod.collapse [symmetric])

lemma paper_step_window: "window (MAX_ORDERS_PER_MINUTE L) b (paper_step L op b)"
proof (cases op)
  case (Call call)
  then show ?thesis
    by (cases call)
      (auto simp: cancel_all_open_orders_def intro: win.shutdown_R win.on_candle_R win.on_tick_R
        win.close_all_R win.place_order_R prod.collapse [symmetric])
next
  case (Funding rate ts)
  then show ?thesis
    by (auto simp: apply_funding_def window_def append_event_def Let_def split: option.splits)
qed (simp add: window_def)

lemma paper_run_window: "window (MAX_ORDERS_PER_MINUTE L) b (fold (paper_step L) ops b)"
proof (induction ops arbitrary: b)
  case (Cons op ops)
  then show ?case using paper_step_window [of L b op] by (auto intro: window_trans)
qed (simp add: window_def)

text \<open>Equity before funding: what the account would hold had no funding been charged.\<close>

definition gross_equity :: "broker \<Rightarrow> real" where
  "gross_equity b = b_current_equity b + funding_paid b"

lemma paper_step_books: "\<exists>evs. b_order_history (paper_step L op b) = b_order_history b @ evs
    \<and> gross_equity (paper_step L op b) = gross_equity b + (\<Sum>e\<leftarrow>evs. ev_pnl e)"
proof (cases op)
  case (Call call)
  with paper_call_books [of b L call] show ?thesis by (auto simp: books_def gross_equity_def)
next
  case (Funding rate ts)
  then show ?thesis
    by (auto simp: apply_funding_def gross_equity_def Let_def split: option.splits)
      (simp_all add: append_event_def)
next
  case Save
  then show ?thesis by (simp add: gross_equity_def)
qed

interpretation paper: exchange gross_equity b_order_history ev_pnl "paper_step L" for L
  by unfold_locales (rule paper_step_books)

end
