(* ===== verification/Paper_Invariant.thy ===== *)
theory Paper_Invariant
  imports Paper_Ledger
begin

text \<open>
  The well-formedness invariant of the paper broker: an open position holds lots of positive
  quantity and price that add up to its quantity, with positive stop and target. Every operation
  keeps it, on every path, for well-formed market data, and the only exception an operation can
  raise is the lookup of a client id that the cache forgot between two accesses.
\<close>

section \<open>The invariant\<close>

definition position_ok :: "position \<Rightarrow> bool" where
  "position_ok p \<longleftrightarrow> wf_position p \<and> 0 < p_sl p \<and> 0 < p_tp p
     \<and> (p_trail_active p \<and> p_side p = SHORT \<longrightarrow> 0 < p_trail_stop p)"

definition settings_ok :: "limits \<Rightarrow> broker \<Rightarrow> bool" where
  "settings_ok L b \<longleftrightarrow> rng_ok (b_rng b) \<and> 0 \<le> b_slip_bps b \<and> b_slip_bps b \<le> 6000
     \<and> 0 \<le> b_trailing_atr_mult b \<and> 0 < MAX_DAILY_LOSS_USD L
     \<and> MAX_DAILY_LOSS_USD L \<le> b_starting_equity b \<and> MAX_POSITION_SIZE_USD L \<le> 200000"

definition healthy :: "limits \<Rightarrow> broker \<Rightarrow> bool" where
  "healthy L b \<longleftrightarrow> settings_ok L b \<and> (\<forall>p. b_pos b = Some p \<longrightarrow> position_ok p)"

text \<open>
  Well-formed market data: prices are positive and ordered, and no price is more than forty times
  the close (beyond that the impact term of the fill model would turn a price negative).
\<close>

definition candle_ok :: "candle \<Rightarrow> bool" where
  "candle_ok c \<longleftrightarrow> 0 < c_low c \<and> c_low c \<le> c_open c \<and> c_open c \<le> c_high c
     \<and> c_low c \<le> c_close c \<and> c_close c \<le> c_high c \<and> c_high c \<le> 40 * c_close c"

definition tick_ok :: "tick \<Rightarrow> bool" where
  "tick_ok t \<longleftrightarrow> 0 < t_bid t \<and> 0 < t_ask t"

definition quotes_ok :: "candle \<Rightarrow> tick option \<Rightarrow> bool" where
  "quotes_ok c tk \<longleftrightarrow> (\<forall>bid ask. tick_quotes tk = Some (bid, ask) \<longrightarrow>
     0 < bid \<and> 0 < ask \<and> bid \<le> 40 * c_close c \<and> ask \<le> 40 * c_close c)"

definition key_error :: "'a res \<Rightarrow> bool" where
  "key_error r \<longleftrightarrow> (\<exists>k. r = Inl (KeyError k))"

definition good :: "limits \<Rightarrow> 'a res \<times> broker \<Rightarrow> bool" where
  "good L rb \<longleftrightarrow> healthy L (snd rb) \<and> (\<forall>e. fst rb = Inl e \<longrightarrow> key_error (fst rb))"

lemma good_simps [simp]: "good L (Inr a, b) = healthy L b" "good L (Inl (KeyError k), b) = healthy L b"
  by (auto simp: good_def key_error_def)

lemma rng_ok_shift: "rng_ok g \<Longrightarrow> rng_ok (\<lambda>k. g (Suc k))"
  by (simp add: rng_ok_def)

lemma settings_update [simp]:
  "settings_ok L (b\<lparr>b_pos := x1\<rparr>) = settings_ok L b" "settings_ok L (b\<lparr>b_clock := x2\<rparr>) = settings_ok L b"
  "settings_ok L (b\<lparr>b_uuid := x3\<rparr>) = settings_ok L b" "settings_ok L (b\<lparr>b_evict := x4\<rparr>) = settings_ok L b"
  "settings_ok L (b\<lparr>b_idempotency := x5\<rparr>) = settings_ok L b"
  "settings_ok L (b\<lparr>b_working_orders := x6\<rparr>) = settings_ok L b"
  "settings_ok L (b\<lparr>b_last_trade_time := x7\<rparr>) = settings_ok L b"
  "settings_ok L (b\<lparr>b_current_equity := x8\<rparr>) = settings_ok L b"
  "settings_ok L (b\<lparr>b_order_history := x9\<rparr>) = settings_ok L b"
  "settings_ok L (b\<lparr>b_processed := x10\<rparr>) = settings_ok L b"
  "settings_ok L (b\<lparr>b_order_timestamps := x11\<rparr>) = settings_ok L b"
  "settings_ok L (b\<lparr>b_journal := x12\<rparr>) = settings_ok L b"
  "settings_ok L (append_event e b) = settings_ok L b"
  "settings_ok L (save_state' b) = settings_ok L b"
  by (simp_all add: settings_ok_def append_event_def save_state'_def time_time_def Let_def)

lemma settings_shift: "settings_ok L b \<Longrightarrow> settings_ok L (b\<lparr>b_rng := \<lambda>k. b_rng b (Suc k)\<rparr>)"
  by (simp add: settings_ok_def rng_ok_shift)

lemma healthy_frame:
  "healthy L b \<Longrightarrow> b_pos b' = b_pos b \<Longrightarrow> settings_ok L b' \<Longrightarrow> healthy L b'"
  by (simp add: healthy_def)

section \<open>Fill prices\<close>

lemma quote_price_bounds:
  assumes "quote_price ty entry sd c tk slip = Some px" "candle_ok c" "quotes_ok c tk"
  shows "0 < px \<and> px \<le> 41 * c_close c"
proof -
  have c: "0 < c_close c" using assms(2) by (simp add: candle_ok_def)
  show ?thesis
  proof (cases "ty = Market")
    case True
    with assms c show ?thesis
      by (cases "tick_quotes tk") (auto simp: quote_price_def quotes_ok_def Let_def split: if_splits)
  next
    case False
    with assms c show ?thesis by (auto simp: quote_price_def candle_ok_def split: if_splits)
  qed
qed

lemma market_slip_bounds:
  assumes "market_slip ty sd px b = (px', b')" "0 < px" "settings_ok L b"
  shows "0 < px' \<and> px' \<le> 2 * px \<and> settings_ok L b' \<and> b_pos b' = b_pos b"
proof -
  obtain r b1 where r: "rng_uniform (1 / 2) (3 / 2) b = (r, b1)" by fastforce
  have "rng_ok (b_rng b)" using assms(3) by (simp add: settings_ok_def)
  from rng_uniform_bounds [OF this, of "1 / 2" "3 / 2"] r have rb: "1 / 2 \<le> r" "r \<le> 3 / 2" by auto
  have b1: "settings_ok L b1" "b_pos b1 = b_pos b"
    using r settings_shift [OF assms(3)] by (auto simp: rng_uniform_def)
  have "0 < px * (1 + r / 10000)" "0 < px * (1 - r / 10000)"
    using rb assms(2) by simp_all
  with assms r b1 rb show ?thesis
    by (auto simp: market_slip_def split: if_splits)
qed

lemma market_impact_pos:
  assumes "0 < px" "0 \<le> q" "q * px < 20000000"
  shows "0 < market_impact slip sd q px"
proof -
  have "q * px / 1000000 * (5 / 100) < 1" "0 \<le> q * px / 1000000 * (5 / 100)"
    using assms by simp_all
  then have "0 < px * (1 + q * px / 1000000 * (5 / 100))" "0 < px * (1 - q * px / 1000000 * (5 / 100))"
    using assms(1) by (simp_all add: add_pos_nonneg)
  with assms show ?thesis by (simp add: market_impact_def Let_def)
qed

lemma entry_slip_bounds:
  assumes "entry_slip ty sd tk px b = (px', b')" "0 < px" "settings_ok L b"
  shows "0 < px' \<and> settings_ok L b' \<and> b_pos b' = b_pos b"
proof -
  obtain f b1 where f: "rng_uniform 0 (2 / 10) b = (f, b1)" by fastforce
  have "rng_ok (b_rng b)" using assms(3) by (simp add: settings_ok_def)
  from rng_uniform_bounds [OF this, of 0 "2 / 10"] f have fb: "0 \<le> f" "f \<le> 2 / 10" by auto
  have "settings_ok L (rng_randint (snd (rng_uniform lo hi b)))" for lo hi
    using settings_shift [OF settings_shift [OF assms(3)]]
    by (simp add: rng_randint_def rng_uniform_def)
  moreover have "b_pos (rng_randint (snd (rng_uniform lo hi b))) = b_pos b" for lo hi
    by (simp add: rng_randint_def rng_uniform_def)
  ultimately show ?thesis using assms(1,2) f fb
    by (auto simp: entry_slip_def Let_def apply_slippage_pos split: if_splits prod.splits)
      (metis snd_conv)+
qed

lemma capped_qty_bounds: "0 < q \<Longrightarrow> 0 < capped_qty c q \<and> capped_qty c q \<le> q"
  by (auto simp: capped_qty_def)

section \<open>Booking keeps the invariant\<close>

lemma close_position_fifo_good:
  assumes "b_pos b = Some p" "healthy L b" "0 < px" "0 \<le> q"
  shows "good L (close_position_fifo sd q px c b)"
proof -
  from assms have p: "position_ok p" "settings_ok L b" by (auto simp: healthy_def)
  then have wf: "wf_position p" by (simp add: position_ok_def)
  obtain r ls where r: "process_fifo_close p q px (b_taker b) (b_is_inverse b) = (Inr r, p\<lparr>p_lots := ls\<rparr>)"
    and ls: "lots_ok ls" "lots_qty ls = p_qty p - f_reduction r"
    using process_fifo_close_total [OF wf assms(3,4), of "b_taker b" "b_is_inverse b"] by blast
  have "position_ok (p\<lparr>p_lots := ls, p_qty := p_qty p - f_reduction r\<rparr>)"
    if "\<not> p_qty p - f_reduction r \<le> 1 / 100000000"
    using that ls p wf by (auto simp: position_ok_def wf_position_def)
  with p r assms(1) show ?thesis
    by (auto simp: close_position_fifo_def Let_def time_time_def healthy_def)
qed

lemma book_finish_good:
  assumes "position_ok pos" "settings_ok L b"
  shows "good L (book_finish ord c w cid eq q aq px sl tp pos pq f t b)"
  using assms by (simp add: book_finish_def Let_def healthy_def broker_env_defs)

lemma book_fill_good:
  assumes h: "healthy L b" and px: "0 < px" and q: "0 < aq" "0 < sl" "0 < tp"
    and sd: "o_side ord = LONG \<or> o_side ord = SHORT"
  shows "good L (book_fill ord c w cid eq q aq px sl tp b)"
proof -
  obtain t b1 where e: "(if \<not> w then (cid, b) else let (u, b') = uuid4_hex b in (take 12 u, b')) = (t, b1)"
    by fastforce
  then have b1: "b_pos b1 = b_pos b" "settings_ok L b1" "healthy L b1"
    using h by (auto simp: uuid4_hex_def healthy_def split: if_splits)
  let ?pq = "if b_is_inverse b then aq * px else aq"
  have lot: "lot_ok \<lparr>l_qty = ?pq, l_price = px, l_fees = f\<rparr>" for f
    using px q by (simp add: lot_ok_def)
  show ?thesis
  proof (cases "b_pos b")
    case None
    have "position_ok \<lparr>p_side = o_side ord, p_qty = ?pq, p_sl = sl, p_tp = tp, p_opened_at = c_ts c,
        p_lots = [\<lparr>l_qty = ?pq, l_price = px, l_fees = f\<rparr>], p_trade_id = t, p_bars_open = 0,
        p_trail_active = False, p_trail_stop = 0\<rparr>" for f
      using lot q sd by (simp add: position_ok_def wf_position_def)
    with None e b1 show ?thesis
      by (auto simp: book_fill_def Let_def book_finish_good split del: if_split)
  next
    case (Some p)
    show ?thesis
    proof (cases "o_side ord = p_side p")
      case True
      have "position_ok (p\<lparr>p_lots := p_lots p @ [\<lparr>l_qty = ?pq, l_price = px, l_fees = f\<rparr>],
          p_qty := p_qty p + ?pq\<rparr>)" for f
        using h Some lot by (simp add: healthy_def position_ok_def wf_position_def)
      with Some True e b1 show ?thesis
        by (auto simp: book_fill_def Let_def book_finish_good split del: if_split)
    next
      case False
      have "good L (close_position_fifo (o_side ord) aq px c b1)"
        using close_position_fifo_good Some b1 px q by simp
      with Some False e b1 show ?thesis
        by (auto simp: book_fill_def Let_def bindS_def good_def key_error_def
            split del: if_split split: prod.splits sum.splits)
    qed
  qed
qed

section \<open>Filling keeps the invariant\<close>

lemma fill_validated_good:
  assumes h: "healthy L b" and w: "within_limits L st cap ord c eq"
    and c: "candle_ok c" "quotes_ok c tk"
  shows "good L (fill_validated ord c w tk cid equity b)"
proof -
  from w obtain entry qty sl tp where
    f: "o_entry ord = Fin entry" "o_qty ord = Fin qty" "o_sl ord = Fin sl" "o_tp ord = Fin tp"
    and v: "0 < qty" "0 < sl" "0 < tp" "o_side ord = LONG \<or> o_side ord = SHORT"
    and n: "qty * c_close c \<le> MAX_POSITION_SIZE_USD L"
    unfolding within_limits_def by blast
  have set: "settings_ok L b" using h by (simp add: healthy_def)
  show ?thesis
  proof (cases "quote_price (o_type ord) entry (o_side ord) c tk (b_slip_bps b)")
    case None
    with f h show ?thesis by (simp add: fill_validated_def)
  next
    case (Some px0)
    obtain px1 b1 where s1: "market_slip (o_type ord) (o_side ord) px0 b = (px1, b1)" by fastforce
    define aq where "aq = capped_qty c qty"
    define px2 where "px2 = market_impact (b_slip_bps b1) (o_side ord) aq px1"
    obtain px3 b2 where s2: "entry_slip (o_type ord) (o_side ord) tk px2 b1 = (px3, b2)" by fastforce
    have px0: "0 < px0" "px0 \<le> 41 * c_close c" using quote_price_bounds [OF Some c] by auto
    have px1: "0 < px1" "px1 \<le> 2 * px0" "settings_ok L b1" "b_pos b1 = b_pos b"
      using market_slip_bounds [OF s1 px0(1) set] by auto
    have aq: "0 < aq" "aq \<le> qty" using capped_qty_bounds v(1) by (auto simp: aq_def)
    have "aq * px1 \<le> qty * (82 * c_close c)"
      using aq px0 px1 v(1) by (intro mult_mono) auto
    also have "\<dots> = 82 * (qty * c_close c)" by simp
    also have "\<dots> < 20000000" using n set by (simp add: settings_ok_def)
    finally have "aq * px1 < 20000000" .
    then have px2: "0 < px2" using market_impact_pos px1(1) aq(1) by (simp add: px2_def)
    have "0 < px3 \<and> settings_ok L b2 \<and> b_pos b2 = b_pos b1"
      using entry_slip_bounds [OF s2 px2 px1(3)] .
    then have "healthy L b2" "0 < px3" using h px1 by (auto simp: healthy_def)
    with book_fill_good [OF this aq(1) v(2,3,4)] f Some s1 s2 show ?thesis
      by (simp add: fill_validated_def Let_def aq_def px2_def)
  qed
qed

lemma risk_checks_never_raise:
  assumes "0 < MAX_DAILY_LOSS_USD L" "MAX_DAILY_LOSS_USD L \<le> start"
  shows "\<exists>v. risk_checks L start cap ord c equity = Inr v"
proof (cases "equity = 0")
  case True
  with assms show ?thesis by (auto simp: risk_checks_def Let_def)
next
  case False
  with assms show ?thesis by (intro risk_checks_defined) auto
qed

lemma risk_checks_accept:
  assumes "risk_checks L start cap ord c equity = Inr Accept"
    and "0 < MAX_DAILY_LOSS_USD L" "MAX_DAILY_LOSS_USD L \<le> start"
  shows "within_limits L start cap ord c equity"
proof -
  have "equity \<noteq> 0" using assms by (auto simp: risk_checks_def Let_def)
  with assms show ?thesis using risk_checks_accept_iff [of start equity L cap ord c] by auto
qed

lemma validate_good:
  assumes "settings_ok L b" "validate_risk_limits L ord c eq w b = (r, b')"
  shows "settings_ok L b' \<and> (\<exists>v. r = Inr v)
    \<and> (r = Inr True \<longrightarrow> within_limits L (b_starting_equity b) (symbol_cap L b) ord c eq)"
proof -
  have l: "0 < MAX_DAILY_LOSS_USD L" "MAX_DAILY_LOSS_USD L \<le> b_starting_equity b"
    using assms(1) by (auto simp: settings_ok_def)
  obtain v where v: "risk_checks L (b_starting_equity b) (symbol_cap L b) ord c eq = Inr v"
    using risk_checks_never_raise [OF l] by blast
  have "\<exists>v. r = Inr v" using assms(2) v
    by (auto simp: validate_risk_limits_def time_time_def symbol_cap_def Let_def
        split: if_splits verdict.splits option.splits)
  moreover have "settings_ok L b'"
    using assms(1) by (subst validate_frame [OF assms(2)]) simp
  moreover have "within_limits L (b_starting_equity b) (symbol_cap L b) ord c eq" if "r = Inr True"
    using risk_checks_accept [OF validate_accept(1) l] assms(2) that by blast
  ultimately show ?thesis by simp
qed

lemma idempotency_good:
  assumes "idempotency_check cid b = (r, b')" "healthy L b"
  shows "good L (r, b')"
  using assms
  by (auto simp: idempotency_check_def cache_view_def Let_def good_def key_error_def healthy_def
      split: if_splits option.splits)

lemma try_fill_good:
  assumes h: "healthy L b" and c: "candle_ok c" "quotes_ok c tk"
  shows "good L (try_fill L c ord w tk b)"
proof -
  obtain cid b1 where r1: "resolve_client_id ord b = (cid, b1)" by fastforce
  then have b1: "healthy L b1" using h
    by (auto simp: resolve_client_id_def uuid4_hex_def healthy_def split: option.splits if_splits)
  obtain q b2 where i: "(if w then (Inr None, b1) else idempotency_check cid b1) = (q, b2)" by fastforce
  then have b2: "good L (q, b2)" using b1 idempotency_good by (auto split: if_splits)
  show ?thesis
  proof (cases "q = Inr None")
    case False
    with b2 r1 i show ?thesis
      by (cases q) (auto simp: try_fill_def good_def key_error_def)
  next
    case True
    with b2 have h2: "healthy L b2" by simp
    let ?eq = "float_or (o_equity ord) (b_current_equity b2)"
    obtain v b3 where v: "validate_risk_limits L ord c ?eq w b2 = (v, b3)" by fastforce
    have "settings_ok L b2" using h2 by (simp add: healthy_def)
    from validate_good [OF this v] obtain a where a: "v = Inr a" "settings_ok L b3"
      "a \<longrightarrow> within_limits L (b_starting_equity b2) (symbol_cap L b2) ord c ?eq" by auto
    have h3: "healthy L b3" using healthy_frame [OF h2 _ a(2)] validate_fields(2) [OF v] by simp
    show ?thesis using r1 i True v a h3 fill_validated_good [OF h3 _ c]
      by (cases a) (auto simp: try_fill_def)
  qed
qed

lemma process_loop_good:
  "healthy L' b \<Longrightarrow> candle_ok c \<Longrightarrow> L' = L \<Longrightarrow> good L (process_loop L' c i fills rm b)"
proof (induction L' c i fills rm b rule: process_loop.induct)
  case (1 L' c i fills rm b)
  show ?case
  proof (cases "i < length (b_working_orders b)")
    case True
    obtain q b1 where f: "try_fill L' c (b_working_orders b ! i) True None b = (q, b1)" by fastforce
    have q: "quotes_ok c None" by (simp add: quotes_ok_def tick_quotes_def)
    have g: "good L (q, b1)" using try_fill_good [OF "1.prems"(1,2) q] f "1.prems"(3) by metis
    then show ?thesis
      using "1.prems" True f "1.IH"(1) [OF True f [symmetric]] "1.IH"(2) [OF True f [symmetric]]
      by (subst process_loop.simps) (auto simp: good_def key_error_def split: sum.splits option.splits)
  next
    case False
    with "1.prems" show ?thesis by (subst process_loop.simps) simp
  qed
qed

lemma process_working_orders_good:
  assumes "healthy L b" "candle_ok c"
  shows "good L (process_working_orders L c b)"
  using process_loop_good [OF assms HOL.refl, of 0 "[]" "[]"]
  by (auto simp: process_working_orders_def good_def key_error_def healthy_def
      split: prod.splits sum.splits)

section \<open>Leaving keeps the invariant\<close>

text \<open>An exit never raises; it leaves the emptied position for the caller to drop.\<close>

lemma full_exit_defined:
  assumes "position_ok p" "invc \<longrightarrow> 0 < px"
  shows "\<exists>x. calculate_full_exit_pnl p px rate invc = (Inr x, p\<lparr>p_lots := []\<rparr>)"
proof -
  have wf: "wf_position p" and sl: "0 < p_sl p" using assms(1) by (auto simp: position_ok_def)
  have "0 < lots_notional (p_lots p) / p_qty p"
    using wf_position_entry_pos [OF wf] wf_position_entry [OF wf] by simp
  then have "lots_notional (p_lots p) / p_qty p \<noteq> 0" by linarith
  note py_div_nonzero [OF this, simp]
  show ?thesis using assms(2) sl wf_position_qty_pos [OF wf]
    by (auto simp: calculate_full_exit_pnl_def Let_def)
qed

lemma exit_position_good:
  assumes p: "b_pos b = Some p" "position_ok p" and px: "0 < px" and s: "settings_ok L b"
  shows "\<exists>x b'. exit_position ts px reason b = (Inr x, b') \<and> settings_ok L b'"
proof -
  obtain f b1 where f: "rng_uniform (1 / 2) (3 / 2) b = (f, b1)" by fastforce
  have "rng_ok (b_rng b)" using s by (simp add: settings_ok_def)
  from rng_uniform_bounds [OF this, of "1 / 2" "3 / 2"] f have fb: "1 / 2 \<le> f" "f \<le> 3 / 2" by auto
  have b1: "settings_ok L b1" "b_slip_bps b1 = b_slip_bps b"
    using f settings_shift [OF s] by (auto simp: rng_uniform_def)
  have "0 \<le> b_slip_bps b1" "b_slip_bps b1 \<le> 6000" using b1(1) by (auto simp: settings_ok_def)
  then have "b_slip_bps b1 * f \<le> 6000 * (3 / 2)" using fb by (intro mult_mono) auto
  then have sl: "0 \<le> b_slip_bps b1 * f" "b_slip_bps b1 * f < 10000"
    using fb \<open>0 \<le> b_slip_bps b1\<close> by auto
  have "0 < apply_slippage px False (p_side p = LONG) (b_slip_bps b1 * f)"
    by (rule apply_slippage_pos [OF px sl])
  with full_exit_defined [OF p(2)] obtain x where
    "calculate_full_exit_pnl p (apply_slippage px False (p_side p = LONG) (b_slip_bps b1 * f))
       (b_taker b1) (b_is_inverse b1) = (Inr x, p\<lparr>p_lots := []\<rparr>)" by blast
  with p(1) f b1 show ?thesis by (simp add: exit_position_def Let_def)
qed

lemma tick_exit_at_pos:
  assumes "tick_exit_at p t = Some (px, reason)" "position_ok p" "tick_ok t"
  shows "0 < px"
  using assms
  by (auto simp: tick_exit_at_def position_ok_def wf_position_def tick_ok_def Let_def split: if_splits)

lemma on_tick_good:
  assumes h: "healthy L b" and t: "tick_ok t"
  shows "\<exists>x b'. on_tick t b = (Inr x, b') \<and> healthy L b'"
proof (cases "b_pos b")
  case None
  with h show ?thesis by (simp add: on_tick_def)
next
  case (Some p)
  with h have p: "position_ok p" "settings_ok L b" by (auto simp: healthy_def)
  show ?thesis
  proof (cases "tick_exit_at p t")
    case None
    with Some h show ?thesis by (simp add: on_tick_def check_tick_exit_def bindS_def)
  next
    case e: (Some y)
    obtain px reason where y: "y = (px, reason)" by fastforce
    have "0 < px" using tick_exit_at_pos e y p(1) t by blast
    from exit_position_good [OF Some p(1) this p(2), of "t_ts t" reason] Some e y show ?thesis
      by (auto simp: on_tick_def check_tick_exit_def bindS_def healthy_def)
  qed
qed

text \<open>The candle's exits: the trail update keeps the position, the level it chooses is positive.\<close>

lemma update_trail_ok:
  assumes "update_trail m p c = (p', ev)" "position_ok p" "0 \<le> m" "candle_ok c"
  shows "position_ok p' \<and> p_side p' = p_side p \<and> (\<exists>a s. p' = p\<lparr>p_trail_active := a, p_trail_stop := s\<rparr>)"
proof -
  have c: "0 < c_close c + \<bar>pos_entry p - p_sl p\<bar> * m"
    using assms(3,4) by (auto simp: candle_ok_def intro: add_pos_nonneg)
  have wf: "wf_position (p\<lparr>p_trail_active := a, p_trail_stop := s\<rparr>) = wf_position p" for a s
    by (simp add: wf_position_def)
  have "\<exists>a s. p' = p\<lparr>p_trail_active := a, p_trail_stop := s\<rparr>
      \<and> (a \<and> p_side p = SHORT \<longrightarrow> 0 < s)"
  proof (cases "p_trail_active p")
    case True
    then have "p' = p\<lparr>p_trail_active := True, p_trail_stop := p_trail_stop p'\<rparr>"
      "p_side p = SHORT \<longrightarrow> 0 < p_trail_stop p'"
      using assms(1,2) c by (auto simp: update_trail_def Let_def position_ok_def split: if_splits)
    then show ?thesis by blast
  next
    case False
    then have "p' = p\<lparr>p_trail_active := p_trail_active p', p_trail_stop := p_trail_stop p'\<rparr>"
      "p_trail_active p' \<and> p_side p = SHORT \<longrightarrow> 0 < p_trail_stop p'"
      using assms(1,2) c by (auto simp: update_trail_def Let_def position_ok_def split: if_splits)
    then show ?thesis by blast
  qed
  with assms(2) wf show ?thesis by (auto simp: position_ok_def)
qed

lemma sl_tp_exit_pos:
  assumes "sl_tp_exit p c = Some (px, reason)" "position_ok p" "candle_ok c"
  shows "0 < px"
  using assms by (auto simp: sl_tp_exit_def position_ok_def candle_ok_def Let_def split: if_splits)

lemma check_exit_good:
  assumes h: "healthy L b" and c: "candle_ok c" and p: "b_pos b = Some p"
  shows "\<exists>x b'. check_exit c b = (Inr x, b') \<and> settings_ok L b' \<and> (x = None \<longrightarrow> healthy L b')"
proof -
  from h p have ok: "position_ok p" "settings_ok L b" by (auto simp: healthy_def)
  define b1 where "b1 = (if 50 < p_bars_open p
      then append_event (StalePosition (p_bars_open p) (p_side p) (pos_entry p)) b else b)"
  have s1: "settings_ok L b1" using ok by (simp add: b1_def)
  obtain p1 ev where u: "update_trail (b_trailing_atr_mult b1) p c = (p1, ev)" by fastforce
  define b2 where "b2 = (case ev of None \<Rightarrow> b1\<lparr>b_pos := Some p1\<rparr>
      | Some e \<Rightarrow> append_event e (b1\<lparr>b_pos := Some p1\<rparr>))"
  have s2: "settings_ok L b2" "b_pos b2 = Some p1"
    using s1 by (auto simp: b2_def append_event_def split: option.splits)
  have "0 \<le> b_trailing_atr_mult b1" using s1 by (simp add: settings_ok_def)
  from update_trail_ok [OF u ok(1) this c] have p1: "position_ok p1" by simp
  define target where "target = (if p_trail_active p \<and> trail_hit p1 c then Some (p_trail_stop p1, ''TRAIL'')
      else sl_tp_exit p1 c)"
  have run: "check_exit c b = (case target of None \<Rightarrow> (Inr None, b2)
      | Some (px, reason) \<Rightarrow> bindS (exit_position (c_ts c) px reason) (\<lambda>ev. returnS (Some ev)) b2)"
    unfolding b2_def target_def using p u
    by (simp add: check_exit_def Let_def b1_def [symmetric] split del: if_split)
  show ?thesis
  proof (cases target)
    case None
    then show ?thesis using run s2 p1 by (simp add: healthy_def)
  next
    case (Some y)
    obtain px reason where y: "y = (px, reason)" by fastforce
    have a: "p_trail_active p1" if "p_trail_active p"
      using that u by (auto simp: update_trail_def Let_def split: if_splits)
    have "0 < px"
    proof (cases "p_trail_active p \<and> trail_hit p1 c")
      case True
      then show ?thesis using Some y a p1 c
        by (auto simp: target_def trail_hit_def candle_ok_def position_ok_def)
    next
      case False
      then show ?thesis using Some y sl_tp_exit_pos [OF _ p1 c] by (auto simp: target_def)
    qed
    from exit_position_good [OF s2(2) p1 this s2(1), of "c_ts c" reason] run Some y
    show ?thesis by (auto simp: bindS_def)
  qed
qed

text \<open>Where a candle's exit comes from, and that slippage only ever makes it worse.\<close>

lemma check_exit_source:
  assumes h: "healthy L b" and c: "candle_ok c" and p: "b_pos b = Some p"
    and x: "check_exit c b = (Inr (Some x), b')"
  obtains p1 b2 px reason where "fst (update_trail (b_trailing_atr_mult b) p c) = p1"
    "b_pos b2 = Some p1" "settings_ok L b2" "b_current_equity b2 = b_current_equity b"
    "exit_position (c_ts c) px reason b2 = (Inr x, b')"
    "p_trail_active p \<and> trail_hit p1 c \<and> px = p_trail_stop p1 \<and> reason = ''TRAIL''
     \<or> sl_tp_exit p1 c = Some (px, reason)"
proof -
  from h p have ok: "settings_ok L b" by (auto simp: healthy_def)
  define b1 where "b1 = (if 50 < p_bars_open p
      then append_event (StalePosition (p_bars_open p) (p_side p) (pos_entry p)) b else b)"
  have b1: "settings_ok L b1" "b_trailing_atr_mult b1 = b_trailing_atr_mult b"
    "b_current_equity b1 = b_current_equity b"
    using ok by (simp_all add: b1_def append_event_def)
  obtain p1 ev where u: "update_trail (b_trailing_atr_mult b1) p c = (p1, ev)" by fastforce
  define b2 where "b2 = (case ev of None \<Rightarrow> b1\<lparr>b_pos := Some p1\<rparr>
      | Some e \<Rightarrow> append_event e (b1\<lparr>b_pos := Some p1\<rparr>))"
  have b2: "settings_ok L b2" "b_pos b2 = Some p1" "b_current_equity b2 = b_current_equity b"
    using b1 by (auto simp: b2_def append_event_def split: option.splits)
  define target where "target = (if p_trail_active p \<and> trail_hit p1 c then Some (p_trail_stop p1, ''TRAIL'')
      else sl_tp_exit p1 c)"
  have "check_exit c b = (case target of None \<Rightarrow> (Inr None, b2)
      | Some (px, reason) \<Rightarrow> bindS (exit_position (c_ts c) px reason) (\<lambda>ev. returnS (Some ev)) b2)"
    unfolding b2_def target_def using p u
    by (simp add: check_exit_def Let_def b1_def [symmetric] split del: if_split)
  with x obtain px reason where t: "target = Some (px, reason)"
    and e: "exit_position (c_ts c) px reason b2 = (Inr x, b')"
    by (auto split: option.splits prod.splits elim!: bindS_cases)
  have "fst (update_trail (b_trailing_atr_mult b) p c) = p1" using u b1 by simp
  from that [OF this b2(2,1,3) e] t show ?thesis by (auto simp: target_def split: if_splits)
qed

lemma exit_position_result:
  assumes "exit_position ts px reason b = (Inr x, b')" "b_pos b = Some p"
    and "settings_ok L b" "0 < px"
  shows "er_reason x = reason \<and> er_side x = p_side p
    \<and> (if p_side p = LONG then er_exit x \<le> px else px \<le> er_exit x)
    \<and> b_current_equity b' = b_current_equity b + er_pnl x"
proof -
  obtain f b1 where f: "rng_uniform (1 / 2) (3 / 2) b = (f, b1)" by fastforce
  have "rng_ok (b_rng b)" "0 \<le> b_slip_bps b" using assms(3) by (auto simp: settings_ok_def)
  with rng_uniform_bounds [OF this(1), of "1 / 2" "3 / 2"] f
  have "0 \<le> b_slip_bps b * f" by auto
  with assms(4) have sl: "if p_side p = LONG then apply_slippage px False (p_side p = LONG) (b_slip_bps b * f) \<le> px
      else px \<le> apply_slippage px False (p_side p = LONG) (b_slip_bps b * f)"
    using apply_slippage_entry_long [of px] apply_slippage_entry_short [of px]
    by (simp add: apply_slippage_exit)
  have b1: "b_slip_bps b1 = b_slip_bps b" "b_pos b1 = b_pos b" "b_current_equity b1 = b_current_equity b"
    using f by (auto simp: rng_uniform_def)
  have "p_side p' = p_side p" if "calculate_full_exit_pnl p y rate invc = (r, p')" for y rate invc r p'
    using that by (auto simp: calculate_full_exit_pnl_def Let_def)
  with assms(1,2) f b1 sl show ?thesis
    by (auto simp: exit_position_def Let_def split: prod.splits sum.splits)
qed

lemma on_candle_good:
  assumes h: "healthy L b" and c: "candle_ok c" "quotes_ok c tk"
  shows "good L (on_candle L c ord tk b)"
proof -
  obtain f b1 where w: "process_working_orders L c b = (f, b1)" by fastforce
  have g1: "good L (f, b1)" using process_working_orders_good [OF h c(1)] w by metis
  show ?thesis
  proof (cases f)
    case (Inl e)
    with g1 w show ?thesis by (auto simp: on_candle_def good_def key_error_def)
  next
    case (Inr fills)
    with g1 have h1: "healthy L b1" by simp
    define leave where "leave = (\<lambda>b::broker.
        case b_pos b of None \<Rightarrow> (Inr [], b)
        | Some p \<Rightarrow>
          let p1 = p\<lparr>p_bars_open := p_bars_open p + 1\<rparr>; b1 = b\<lparr>b_pos := Some p1\<rparr>
          in bindS (if b_max_bars_open b1 < p_bars_open p1
                    then bindS (exit_position (c_ts c) (c_close c) ''STALE_EXIT'') (\<lambda>x. returnS (Some x))
                    else check_exit c)
               (\<lambda>exit_event b2.
                  case exit_event of None \<Rightarrow> (Inr [], b2)
                  | Some x \<Rightarrow> (Inr [x], (save_state' b2)\<lparr>b_pos := None\<rparr>)) b1)"
    have "\<exists>xs b2. leave b1 = (Inr xs, b2) \<and> healthy L b2"
    proof (cases "b_pos b1")
      case None
      with h1 show ?thesis by (simp add: leave_def)
    next
      case (Some p)
      let ?p = "p\<lparr>p_bars_open := p_bars_open p + 1\<rparr>" let ?b = "b1\<lparr>b_pos := Some ?p\<rparr>"
      have "position_ok p" "settings_ok L b1" using h1 Some by (auto simp: healthy_def)
      then have p: "position_ok ?p" "settings_ok L ?b"
        by (auto simp: position_ok_def wf_position_def)
      have hb: "healthy L ?b" using p by (simp add: healthy_def)
      have cl: "0 < c_close c" using c(1) by (simp add: candle_ok_def)
      from exit_position_good [OF _ p(1) cl p(2), of "c_ts c" "''STALE_EXIT''"]
        check_exit_good [OF hb c(1), of ?p]
      show ?thesis using Some by (auto simp: leave_def bindS_def healthy_def split: option.splits)
    qed
    then obtain xs b2 where l: "leave b1 = (Inr xs, b2)" and h2: "healthy L b2" by blast
    have "good L (try_fill L c o' False tk b2)" for o' by (rule try_fill_good [OF h2 c])
    then have "good L ((\<lambda>b::broker. case ord of None \<Rightarrow> (Inr [], b)
        | Some o' \<Rightarrow> if b_pos b = None \<and> o_go o' then
            bindS (try_fill L c o' False tk) (\<lambda>fill b2.
              case fill of None \<Rightarrow> (Inr [], b2)
              | Some f \<Rightarrow> (Inr [f], save_state' b2)) b
          else (Inr [], b)) b2)"
      using h2 by (auto simp: bindS_def good_def key_error_def healthy_def
          split: option.splits prod.splits sum.splits) (metis fst_conv snd_conv)+
    then show ?thesis using w Inr l
      by (auto simp: on_candle_def leave_def good_def key_error_def bindS_def
          split: prod.splits sum.splits)
  qed
qed

section \<open>Every operation\<close>

lemma close_all_good:
  assumes h: "healthy L b" and px: "0 < px"
  shows "\<exists>x b'. close_all ts px b = (Inr x, b') \<and> healthy L b'"
proof (cases "b_pos b")
  case None
  with h show ?thesis by (simp add: close_all_def)
next
  case (Some p)
  with h have "position_ok p" "settings_ok L b" by (auto simp: healthy_def)
  from exit_position_good [OF Some this(1) px this(2), of ts "''FORCE_CLOSE''"] Some show ?thesis
    by (auto simp: close_all_def bindS_def healthy_def)
qed

lemma place_order_good:
  "healthy L b \<Longrightarrow> good L (place_order sd q ty px sl tp cid b)"
  by (auto simp: place_order_def uuid4_hex_def time_time_def Let_def healthy_def
      split: option.splits if_splits prod.splits)

lemma shutdown_good: "healthy L b \<Longrightarrow> healthy L (shutdown_broker b)"
  by (auto simp: shutdown_broker_def healthy_def)

lemma apply_funding_good: "healthy L b \<Longrightarrow> healthy L (apply_funding rate ts b)"
  by (auto simp: apply_funding_def healthy_def append_event_def Let_def split: option.splits)

fun op_ok :: "paper_op \<Rightarrow> bool" where
  "op_ok (Call (OpCandle c ord tk)) = (candle_ok c \<and> quotes_ok c tk)"
| "op_ok (Call (OpTick t)) = tick_ok t"
| "op_ok (Call (OpCloseAll ts px)) = (0 < px)"
| "op_ok op = True"

lemma paper_step_healthy:
  assumes h: "healthy L b" and op: "op_ok op"
  shows "healthy L (paper_step L op b)"
proof (cases op)
  case (Funding rate ts)
  with apply_funding_good [OF h] show ?thesis by simp
next
  case Save
  with h show ?thesis by (simp add: healthy_def)
next
  case (Call call)
  show ?thesis
  proof (cases call)
    case (OpCandle c ord tk)
    with Call op on_candle_good [OF h, of c tk ord] show ?thesis by (auto simp: good_def)
  next
    case (OpTick t)
    with Call op on_tick_good [OF h, of t] show ?thesis by auto
  next
    case (OpPlaceOrder sd q ty px sl tp cid)
    with Call place_order_good [OF h, of sd q ty px sl tp cid] show ?thesis by (auto simp: good_def)
  next
    case (OpCloseAll ts px)
    with Call op close_all_good [OF h, of px ts] show ?thesis by auto
  qed (use Call h in \<open>simp_all add: cancel_all_open_orders_def shutdown_good\<close>)
qed

lemma paper_run_healthy:
  "healthy L b \<Longrightarrow> list_all op_ok ops \<Longrightarrow> healthy L (fold (paper_step L) ops b)"
  by (induction ops arbitrary: b) (auto intro: paper_step_healthy)

end
