(* ===== verification/Paper_Properties.thy ===== *)
theory Paper_Properties
  imports Paper_Invariant
begin

text \<open>
  What the paper broker guarantees over whole sequences of calls, and what its parts do on every
  branch. The sample broker, candle and order at the start are the inputs the witnesses evaluate.
\<close>

section \<open>Sample inputs\<close>

definition sample_broker :: broker where
  "sample_broker = new_broker ''BTCUSDT'' 0 0 10000 True None None None None Map.empty
     (\<lambda>k. 100 + real k) (\<lambda>k. ''a1b2'') (\<lambda>k. 1 / 2) (\<lambda>k m. m)"

definition sample_candle :: candle where
  "sample_candle = \<lparr>c_ts = ''100'', c_open = 100, c_high = 110, c_low = 90, c_close = 100, c_volume = 50\<rparr>"

definition sample_order :: order where
  "sample_order = \<lparr>o_client_id = Some ''c1'', o_go = True, o_side = LONG, o_type = Market,
     o_entry = Fin 100, o_qty = Fin 1, o_sl = Fin 80, o_tp = Fin 140, o_equity = None,
     o_created_at = None\<rparr>"

lemma sample_broker_fields [simp]:
  "b_pos sample_broker = None" "b_current_equity sample_broker = 10000"
  "b_starting_equity sample_broker = 10000" "b_order_history sample_broker = []"
  "b_processed sample_broker = {}" "b_order_timestamps sample_broker = []"
  "b_working_orders sample_broker = []" "b_idempotency sample_broker = Map.empty"
  "b_slip_bps sample_broker = 0" "b_is_inverse sample_broker = False"
  "b_taker sample_broker = 6 / 10000" "b_maker sample_broker = 2 / 10000"
  "b_symbol sample_broker = ''BTCUSDT''" "b_max_position sample_broker = Map.empty"
  "b_last_trade_time sample_broker = 0" "b_min_trade_interval sample_broker = 60"
  "b_clock sample_broker = (\<lambda>k. 100 + real k)" "b_rng sample_broker = (\<lambda>k. 1 / 2)"
  "b_uuid sample_broker = (\<lambda>k. ''a1b2'')" "b_evict sample_broker = (\<lambda>k m. m)"
  "b_state_path sample_broker = True" "b_store sample_broker = Map.empty"
  "b_max_bars_open sample_broker = 50" "b_trailing_atr_mult sample_broker = 3 / 2"
  "b_journal sample_broker = []"
  by (simp_all add: sample_broker_def new_broker_def init_broker_def load_exchange_config_def load_risk_config_def
      load_state'_def ends_usd_not_usdt_def str_endswith_def)

section \<open>The ledger\<close>


section \<open>Admission of orders\<close>

text \<open>C6: The order-rate window of the paper broker holds at most MAX_ORDERS_PER_MINUTE
  timestamps after any sequence of calls, if it did before.\<close>

theorem order_rate_bounded:
  assumes "length (b_order_timestamps b) \<le> MAX_ORDERS_PER_MINUTE L"
  shows "length (b_order_timestamps (fold (paper_step L) ops b)) \<le> MAX_ORDERS_PER_MINUTE L"
  using paper_run_window [of L b ops] assms by (simp add: window_def)

theorem order_rate_bounded_witness:
  "length (b_order_timestamps (fold (paper_step std_limits)
      [Call (OpCandle sample_candle (Some sample_order) None)] sample_broker)) \<le> 10"
  using order_rate_bounded [of sample_broker std_limits
      "[Call (OpCandle sample_candle (Some sample_order) None)]"] by simp

lemma admitted:
  assumes "try_fill L c ord w tk b = (r, b')"
    and "b_pos b' \<noteq> b_pos b \<or> b_current_equity b' \<noteq> b_current_equity b"
    and "0 < MAX_DAILY_LOSS_USD L" "MAX_DAILY_LOSS_USD L \<le> b_starting_equity b"
  shows "within_limits L (b_starting_equity b) (symbol_cap L b) ord c
      (float_or (o_equity ord) (b_current_equity b))
    \<and> length (filter (\<lambda>t. b_clock b 0 - t < 60) (b_order_timestamps b)) < MAX_ORDERS_PER_MINUTE L
    \<and> (w \<or> b_min_trade_interval b \<le> b_clock b 0 - b_last_trade_time b)"
proof -
  obtain cid b1 where r1: "resolve_client_id ord b = (cid, b1)" by fastforce
  obtain q b2 where i: "(if w then (Inr None, b1) else idempotency_check cid b1) = (q, b2)" by fastforce
  have same: "b_pos b2 = b_pos b" "b_current_equity b2 = b_current_equity b"
    "b_starting_equity b2 = b_starting_equity b" "symbol_cap L b2 = symbol_cap L b"
    "b_clock b2 = b_clock b" "b_order_timestamps b2 = b_order_timestamps b"
    "b_last_trade_time b2 = b_last_trade_time b" "b_min_trade_interval b2 = b_min_trade_interval b"
    using r1 i by (auto simp: resolve_client_id_def idempotency_check_def broker_env_defs
        symbol_cap_def Let_def split: option.splits if_splits)
  let ?eq = "float_or (o_equity ord) (b_current_equity b)"
  obtain v b3 where v: "validate_risk_limits L ord c ?eq w b2 = (v, b3)" by fastforce
  have "q = Inr None \<and> v = Inr True"
    using assms(1,2) r1 i v same validate_fields(2,3) [OF v]
    by (auto simp: try_fill_def Let_def split: sum.splits option.splits bool.splits)
  with validate_accept [of L ord c ?eq w b2 b3] v same
    risk_checks_accept [OF _ assms(3), of "b_starting_equity b" "symbol_cap L b" ord c ?eq] assms(4)
  show ?thesis by simp
qed

text \<open>C4: An attempt to fill an order, from the working list or fresh, changes the position or the
  equity only if the order is inside every limit (notional, leverage, symbol cap, daily loss in
  dollars and percent, loss of the single trade, positive finite fields, a known side), the rate
  window has room, and, for a fresh order, the minimum interval since the last trade has passed.\<close>

theorem only_admitted_orders_trade:
  assumes "try_fill L c ord w tk b = (r, b')"
    and "b_pos b' \<noteq> b_pos b \<or> b_current_equity b' \<noteq> b_current_equity b"
    and "0 < MAX_DAILY_LOSS_USD L" "MAX_DAILY_LOSS_USD L \<le> b_starting_equity b"
  shows "within_limits L (b_starting_equity b) (symbol_cap L b) ord c
      (float_or (o_equity ord) (b_current_equity b))
    \<and> length (filter (\<lambda>t. b_clock b 0 - t < 60) (b_order_timestamps b)) < MAX_ORDERS_PER_MINUTE L
    \<and> (w \<or> b_min_trade_interval b \<le> b_clock b 0 - b_last_trade_time b)"
  using admitted [OF assms] .

lemma sample_order_fills:
  "fst (try_fill std_limits sample_candle sample_order False None sample_broker) =
     Inr (Some (FillEv \<lparr>fr_trade_id = ''c1'', fr_side = LONG, fr_price = 100, fr_qty = 1, fr_sl = 80,
       fr_tp = 140, fr_at = ''100'', fr_fees = 6 / 100, fr_requested_qty = None\<rparr>))"
  "b_pos (snd (try_fill std_limits sample_candle sample_order False None sample_broker)) =
     Some \<lparr>p_side = LONG, p_qty = 1, p_sl = 80, p_tp = 140, p_opened_at = ''100'',
       p_lots = [\<lparr>l_qty = 1, l_price = 100, l_fees = 6 / 100\<rparr>], p_trade_id = ''c1'', p_bars_open = 0,
       p_trail_active = False, p_trail_stop = 0\<rparr>"
  by (simp_all add: try_fill_def resolve_client_id_def sample_order_def idempotency_check_def
      cache_view_def validate_risk_limits_def time_time_def symbol_cap_def risk_checks_def Let_def
      sample_candle_def fill_validated_def quote_price_def tick_quotes_def market_slip_def
      capped_qty_def market_impact_def entry_slip_def rng_uniform_def rng_randint_def book_fill_def
      book_finish_def cache_store_def pf_sub_def pf_inf_def)

theorem only_admitted_orders_trade_witness:
  "within_limits std_limits 10000 1 sample_order sample_candle 10000"
proof -
  obtain r b' where t: "try_fill std_limits sample_candle sample_order False None sample_broker = (r, b')"
    by fastforce
  then have "b_pos b' \<noteq> b_pos sample_broker" using sample_order_fills(2) by simp
  with only_admitted_orders_trade [OF t] show ?thesis
    by (simp add: symbol_cap_def sample_order_def)
qed

section \<open>Soundness of positions\<close>








section \<open>Idempotency\<close>





section \<open>Leaving a position\<close>

lemma pos_entry_trail [simp]: "pos_entry (p\<lparr>p_trail_stop := s\<rparr>) = pos_entry p"
  by (simp add: pos_entry_def Let_def)

text \<open>The active trailing stop of a long position, after any run of candle updates, is the
  largest of its value at the start and, over the candles, close minus risk times the multiplier,
  so it never moves down; that of a short position is the smallest, so it never moves up.\<close>

theorem trail_stop_is_best_seen:
  assumes "p_trail_active p" "p_side p = LONG \<or> p_side p = SHORT"
  shows "p_trail_stop (fold (\<lambda>c q. fst (update_trail m q c)) cs p) =
    (if p_side p = LONG
     then max_from (p_trail_stop p) (map (\<lambda>c. c_close c - \<bar>pos_entry p - p_sl p\<bar> * m) cs)
     else min_from (p_trail_stop p) (map (\<lambda>c. c_close c + \<bar>pos_entry p - p_sl p\<bar> * m) cs))"
  using assms
proof (induction cs arbitrary: p)
  case (Cons c cs)
  show ?case
  proof (cases "p_side p = LONG")
    case True
    with Cons.IH [of "fst (update_trail m p c)"] Cons.prems show ?thesis
      by (simp add: update_trail_def Let_def max_def)
  next
    case False
    with Cons.IH [of "fst (update_trail m p c)"] Cons.prems show ?thesis
      by (simp add: update_trail_def Let_def min_def not_le [symmetric])
  qed
qed simp

definition sample_position :: position where
  "sample_position = \<lparr>p_side = LONG, p_qty = 1, p_sl = 80, p_tp = 140, p_opened_at = ''100'',
     p_lots = [\<lparr>l_qty = 1, l_price = 100, l_fees = 6 / 100\<rparr>], p_trade_id = ''c1'', p_bars_open = 0,
     p_trail_active = True, p_trail_stop = 85\<rparr>"

theorem trail_stop_is_best_seen_witness:
  "p_trail_stop (fold (\<lambda>c q. fst (update_trail (3 / 2) q c))
     [sample_candle\<lparr>c_close := 125\<rparr>, sample_candle] sample_position) = 95"
  using trail_stop_is_best_seen [of sample_position "3 / 2"
      "[sample_candle\<lparr>c_close := 125\<rparr>, sample_candle]"]
  by (simp add: sample_position_def sample_candle_def pos_entry_def)

text \<open>C32: A candle's exit resolves ambiguity against the trader: a take-profit is booked only if
  the candle did not reach the stop, a stop exit only if it did, and slippage and gaps make the
  booked price at best the level itself. The equity moves by the booked profit.\<close>

theorem candle_exit_is_conservative:
  assumes "healthy L b" "candle_ok c" "b_pos b = Some p" "check_exit c b = (Inr (Some x), b')"
  shows "b_current_equity b' = b_current_equity b + er_pnl x \<and> er_side x = p_side p
    \<and> (p_side p = LONG \<longrightarrow>
         (er_reason x = ''TP'' \<and> p_sl p < c_low c \<and> p_tp p \<le> c_high c \<and> er_exit x \<le> p_tp p)
         \<or> (er_reason x \<in> {''SL'', ''SL_conservative''} \<and> c_low c \<le> p_sl p \<and> er_exit x \<le> p_sl p)
         \<or> (er_reason x = ''TRAIL'' \<and> p_trail_active p))
    \<and> (p_side p = SHORT \<longrightarrow>
         (er_reason x = ''TP'' \<and> c_high c < p_sl p \<and> c_low c \<le> p_tp p \<and> p_tp p \<le> er_exit x)
         \<or> (er_reason x \<in> {''SL'', ''SL_conservative''} \<and> p_sl p \<le> c_high c \<and> p_sl p \<le> er_exit x)
         \<or> (er_reason x = ''TRAIL'' \<and> p_trail_active p))"
proof -
  obtain p1 b2 px reason where u: "fst (update_trail (b_trailing_atr_mult b) p c) = p1"
    and b2: "b_pos b2 = Some p1" "settings_ok L b2" "b_current_equity b2 = b_current_equity b"
    and e: "exit_position (c_ts c) px reason b2 = (Inr x, b')"
    and src: "p_trail_active p \<and> trail_hit p1 c \<and> px = p_trail_stop p1 \<and> reason = ''TRAIL''
     \<or> sl_tp_exit p1 c = Some (px, reason)"
    using check_exit_source [OF assms(1-4)] by blast
  have p: "position_ok p" "0 \<le> b_trailing_atr_mult b"
    using assms(1,3) by (auto simp: healthy_def settings_ok_def)
  obtain ev where u': "update_trail (b_trailing_atr_mult b) p c = (p1, ev)"
    using u by (cases "update_trail (b_trailing_atr_mult b) p c") simp
  then obtain a s where "p1 = p\<lparr>p_trail_active := a, p_trail_stop := s\<rparr>" and ok: "position_ok p1"
    using update_trail_ok [OF u' p assms(2)] by blast
  then have p1: "p_side p1 = p_side p" "p_sl p1 = p_sl p" "p_tp p1 = p_tp p" by simp_all
  have act: "p_trail_active p \<Longrightarrow> p_trail_active p1"
    using u' by (auto simp: update_trail_def Let_def split: if_splits)
  have "0 < px"
    using src sl_tp_exit_pos [OF _ ok assms(2)] act ok assms(2)
    by (auto simp: trail_hit_def candle_ok_def position_ok_def)
  from exit_position_result [OF e b2(1,2) this] src b2(3) p1 show ?thesis
    by (auto simp: sl_tp_exit_def Let_def split: if_splits)
qed

definition stopped_broker :: broker where
  "stopped_broker = sample_broker\<lparr>b_pos := Some (sample_position\<lparr>p_trail_active := False\<rparr>)\<rparr>"

lemma stopped_broker_healthy: "healthy std_limits stopped_broker"
  by (simp add: healthy_def settings_ok_def rng_ok_def stopped_broker_def sample_position_def
      position_ok_def wf_position_def lot_ok_def)

lemma stopped_broker_exits:
  "\<exists>x b'. check_exit (sample_candle\<lparr>c_low := 70\<rparr>) stopped_broker = (Inr (Some x), b') \<and> er_exit x = 80"
  by (simp add: check_exit_def stopped_broker_def sample_position_def sample_candle_def Let_def
      update_trail_def pos_entry_def sl_tp_exit_def bindS_def exit_position_def rng_uniform_def
      calculate_full_exit_pnl_def)

theorem candle_exit_is_conservative_witness:
  "\<exists>x b'. check_exit (sample_candle\<lparr>c_low := 70\<rparr>) stopped_broker = (Inr (Some x), b')
     \<and> b_current_equity b' = 10000 + er_pnl x"
proof -
  obtain x b' where x: "check_exit (sample_candle\<lparr>c_low := 70\<rparr>) stopped_broker = (Inr (Some x), b')"
    using stopped_broker_exits by blast
  have "candle_ok (sample_candle\<lparr>c_low := 70\<rparr>)" by (simp add: candle_ok_def sample_candle_def)
  from candle_exit_is_conservative [OF stopped_broker_healthy this _ x] x show ?thesis
    by (auto simp: stopped_broker_def)
qed

section \<open>Persistence\<close>

text \<open>C35: A broker constructed over the row another broker saved for the same symbol has that
  broker's equity, processed ids, order history and position, the position without its trade id,
  and those working orders that are younger than a day; the order-rate window, the time of the
  last trade and the idempotency cache start empty.\<close>

theorem restart_restores_the_books:
  assumes "b_state_path b"
    and "b2 = new_broker (b_symbol b) fees slip eq True bars mult ecfg rcfg (b_store (save_state' b))
        clock uuids rng evict"
  shows "b_current_equity b2 = b_current_equity b \<and> b_starting_equity b2 = b_starting_equity b
    \<and> b_processed b2 = b_processed b \<and> b_order_history b2 = b_order_history b
    \<and> b_pos b2 = map_option (\<lambda>p. p\<lparr>p_trade_id := []\<rparr>) (b_pos b)
    \<and> b_working_orders b2 = filter (unexpired (clock 0)) (b_working_orders b)
    \<and> b_order_timestamps b2 = [] \<and> b_last_trade_time b2 = 0 \<and> b_idempotency b2 = Map.empty"
proof -
  obtain st where "b_store (save_state' b) (b_symbol b) = Some st"
    "sv_starting_equity st = b_starting_equity b" "sv_current_equity st = b_current_equity b"
    "sv_processed st = b_processed b" "sv_order_history st = b_order_history b"
    "sv_working_orders st = b_working_orders b" "sv_pos st = map_option save_pos (b_pos b)"
    using save_state_row [OF assms(1)] by blast
  with new_broker_loads [OF this(1) assms(2)] show ?thesis
    by (simp add: option.map_comp comp_def)
qed

theorem restart_restores_the_books_witness:
  "b_pos (new_broker ''BTCUSDT'' 0 0 1 True None None None None (b_store (save_state' stopped_broker))
     (\<lambda>k. 0) (\<lambda>k. []) (\<lambda>k. 0) (\<lambda>k m. m))
   = Some (sample_position\<lparr>p_trail_active := False, p_trade_id := []\<rparr>)"
proof -
  have b: "b_state_path stopped_broker" "b_symbol stopped_broker = ''BTCUSDT''"
    "b_pos stopped_broker = Some (sample_position\<lparr>p_trail_active := False\<rparr>)"
    by (simp_all add: stopped_broker_def)
  from restart_restores_the_books [OF b(1) HOL.refl, of 0 0 1 None None None None
      "\<lambda>k. 0" "\<lambda>k. []" "\<lambda>k. 0" "\<lambda>k m. m"]
  show ?thesis unfolding b(2,3) by simp
qed

text \<open>The row that an exit by tick leaves in the store still holds the closed position, with
  its full quantity and no lots: a broker restarted from it has an open position although the
  running broker has none.\<close>

theorem exit_by_tick_persists_a_phantom_position:
  assumes "healthy L b" "tick_ok t" "b_state_path b" "on_tick t b = (Inr [x], b')"
    and "b2 = new_broker (b_symbol b) fees slip eq True bars mult ecfg rcfg (b_store b')
        clock uuids rng evict"
  shows "b_pos b' = None
    \<and> (\<exists>p. b_pos b2 = Some p \<and> p_lots p = [] \<and> p_qty p = er_qty x \<and> 0 < p_qty p)"
proof -
  obtain p where p: "b_pos b = Some p" using assms(4) by (auto simp: on_tick_def split: option.splits)
  with assms(1) have wf: "wf_position p" by (auto simp: healthy_def position_ok_def)
  have full: "p' = p\<lparr>p_lots := []\<rparr>" if "calculate_full_exit_pnl p px rate invc = (r, p')" for px rate invc r p'
    using that by (auto simp: calculate_full_exit_pnl_def Let_def)
  obtain b1 where b1: "b' = (save_state' b1)\<lparr>b_pos := None\<rparr>" "check_tick_exit t b = (Inr (Some x), b1)"
    using assms(4) p by (auto simp: on_tick_def elim!: bindS_cases split: option.splits)
  from b1(2) p obtain px reason where e: "exit_position (t_ts t) px reason b = (Inr x, b1)"
    by (auto simp: check_tick_exit_def elim!: bindS_cases split: option.splits prod.splits)
  then have s: "b_pos b1 = Some (p\<lparr>p_lots := []\<rparr>)" "er_qty x = p_qty p" "b_state_path b1"
    "b_symbol b1 = b_symbol b"
    using p assms(3) by (auto simp: exit_position_def rng_uniform_def Let_def dest!: full
        split: prod.splits sum.splits)
  obtain st where "b_store (save_state' b1) (b_symbol b) = Some st"
    "sv_pos st = Some (save_pos (p\<lparr>p_lots := []\<rparr>))"
    using save_state_row [OF s(3)] s(1,4) by auto
  then have "b_pos b2 = Some (p\<lparr>p_lots := [], p_trade_id := []\<rparr>)"
    using new_broker_loads(5) [of "b_store b'" "b_symbol b" st, OF _ assms(5)] b1(1) by simp
  with s b1(1) wf_position_qty_pos [OF wf] show ?thesis by simp
qed

definition stop_tick :: tick where
  "stop_tick = \<lparr>t_symbol = ''BTCUSDT'', t_bid = 79, t_ask = 81, t_last = 80, t_ts = ''120''\<rparr>"

lemma stop_tick_exits: "\<exists>x b'. on_tick stop_tick stopped_broker = (Inr [x], b')"
  by (simp add: on_tick_def check_tick_exit_def stopped_broker_def sample_position_def stop_tick_def
      tick_exit_at_def bindS_def exit_position_def rng_uniform_def calculate_full_exit_pnl_def Let_def)

theorem exit_by_tick_persists_a_phantom_position_witness:
  "\<exists>(b'::broker) p. b_pos b' = None \<and> b_pos (new_broker ''BTCUSDT'' 0 0 1 True None None None None (b_store b')
     (\<lambda>k. 0) (\<lambda>k. []) (\<lambda>k. 0) (\<lambda>k m. m)) = Some p \<and> p_lots p = [] \<and> 0 < p_qty p"
proof -
  obtain x b' where x: "on_tick stop_tick stopped_broker = (Inr [x], b')"
    using stop_tick_exits by blast
  have "tick_ok stop_tick" "b_state_path stopped_broker" "b_symbol stopped_broker = ''BTCUSDT''"
    by (simp_all add: tick_ok_def stop_tick_def stopped_broker_def)
  note b = this
  from exit_by_tick_persists_a_phantom_position [OF stopped_broker_healthy b(1,2) x HOL.refl,
      of 0 0 1 None None None None "\<lambda>k. 0" "\<lambda>k. []" "\<lambda>k. 0" "\<lambda>k m. m"]
  obtain p where "b_pos b' = None" "b_pos (new_broker ''BTCUSDT'' 0 0 1 True None None None None
      (b_store b') (\<lambda>k. 0) (\<lambda>k. []) (\<lambda>k. 0) (\<lambda>k m. m)) = Some p" "p_lots p = []" "0 < p_qty p"
    unfolding b(3) by (elim conjE exE)
  then show ?thesis by blast
qed

section \<open>Pricing\<close>

abbreviation with_slip :: "real \<Rightarrow> broker \<Rightarrow> broker" where
  "with_slip s b \<equiv> b\<lparr>b_slip_bps := s\<rparr>"

lemma resolve_client_id_slip:
  "resolve_client_id ord (with_slip s b) = map_prod id (with_slip s) (resolve_client_id ord b)"
  by (simp add: resolve_client_id_def uuid4_hex_def split: option.splits)

lemma idempotency_check_slip:
  "idempotency_check cid (with_slip s b) = map_prod id (with_slip s) (idempotency_check cid b)"
  by (auto simp: idempotency_check_def cache_view_def Let_def split: option.splits)

lemma validate_slip:
  "validate_risk_limits L ord c eq w (with_slip s b)
     = map_prod id (with_slip s) (validate_risk_limits L ord c eq w b)"
  by (auto simp: validate_risk_limits_def time_time_def append_event_def symbol_cap_def Let_def
      split: sum.splits verdict.splits option.splits)

lemma market_slip_slip:
  "0 < s \<Longrightarrow> 0 < b_slip_bps b \<Longrightarrow>
     market_slip ty sd px (with_slip s b) = map_prod id (with_slip s) (market_slip ty sd px b)"
  by (auto simp: market_slip_def rng_uniform_def Let_def)

lemma entry_slip_slip:
  "entry_slip ty sd tk px (with_slip s b) = map_prod id (with_slip s) (entry_slip ty sd tk px b)"
  by (auto simp: entry_slip_def rng_uniform_def rng_randint_def Let_def)

lemma close_position_fifo_slip:
  "fst (close_position_fifo sd q px c (with_slip s b)) = fst (close_position_fifo sd q px c b)"
  by (auto simp: close_position_fifo_def time_time_def Let_def split: option.splits prod.splits sum.splits)

lemma close_event_slip:
  "fst (bindS (close_position_fifo sd q px c) (\<lambda>ev. returnS (f ev)) (with_slip s b))
     = fst (bindS (close_position_fifo sd q px c) (\<lambda>ev. returnS (f ev)) b)"
  using close_position_fifo_slip [of sd q px c s b]
  by (auto simp: bindS_def split: prod.splits sum.splits)

lemma fst_book_finish:
  "fst (book_finish ord c w cid eq q aq px sl tp pos pq f t b) = Inr (Some (FillEv
     \<lparr>fr_trade_id = t, fr_side = o_side ord, fr_price = px, fr_qty = pq, fr_sl = sl, fr_tp = tp,
      fr_at = c_ts c, fr_fees = f, fr_requested_qty = (if aq < q then Some q else None)\<rparr>))"
  by (simp add: book_finish_def Let_def time_time_def)

lemma book_fill_slip:
  "fst (book_fill ord c w cid eq q aq px sl tp (with_slip s b)) = fst (book_fill ord c w cid eq q aq px sl tp b)"
proof -
  have u: "(with_slip s b)\<lparr>b_uuid := f\<rparr> = with_slip s (b\<lparr>b_uuid := f\<rparr>)" for f by simp
  show ?thesis
    by (auto simp: book_fill_def uuid4_hex_def fst_book_finish Let_def close_event_slip u split: option.splits)
qed

lemma quote_price_slip: "0 < s \<Longrightarrow> 0 < s' \<Longrightarrow> quote_price ty e sd c tk s = quote_price ty e sd c tk s'"
  by (simp add: quote_price_def)

lemma market_impact_slip: "0 < s \<Longrightarrow> 0 < s' \<Longrightarrow> market_impact s sd q px = market_impact s' sd q px"
  by (simp add: market_impact_def)

lemma fill_validated_slip:
  assumes "0 < b_slip_bps b" "0 < s"
  shows "fst (fill_validated ord c w tk cid eq (with_slip s b)) = fst (fill_validated ord c w tk cid eq b)"
proof (cases "\<exists>e q sl tp. o_entry ord = Fin e \<and> o_qty ord = Fin q \<and> o_sl ord = Fin sl \<and> o_tp ord = Fin tp")
  case False
  then show ?thesis by (auto simp: fill_validated_def split: pyfloat.splits)
next
  case True
  then obtain e q sl tp where f: "o_entry ord = Fin e" "o_qty ord = Fin q" "o_sl ord = Fin sl"
    "o_tp ord = Fin tp" by blast
  note qp = quote_price_slip [OF assms(2,1), of "o_type ord" e "o_side ord" c tk]
  show ?thesis
  proof (cases "quote_price (o_type ord) e (o_side ord) c tk (b_slip_bps b)")
    case None
    with f qp show ?thesis by (simp add: fill_validated_def)
  next
    case (Some px0)
    obtain px1 b1 where m: "market_slip (o_type ord) (o_side ord) px0 b = (px1, b1)" by fastforce
    then have s1: "0 < b_slip_bps b1" using assms(1)
      by (auto simp: market_slip_def rng_uniform_def split: if_splits)
    obtain px3 b2 where n: "entry_slip (o_type ord) (o_side ord) tk
        (market_impact (b_slip_bps b1) (o_side ord) (capped_qty c q) px1) b1 = (px3, b2)" by fastforce
    have m': "market_slip (o_type ord) (o_side ord) px0 (with_slip s b) = (px1, with_slip s b1)"
      using market_slip_slip [OF assms(2,1)] m by simp
    have n': "entry_slip (o_type ord) (o_side ord) tk
        (market_impact s (o_side ord) (capped_qty c q) px1) (with_slip s b1) = (px3, with_slip s b2)"
      using entry_slip_slip n market_impact_slip [OF assms(2) s1] by simp
    show ?thesis using f qp Some m n m' n' by (simp add: fill_validated_def book_fill_slip)
  qed
qed

text \<open>The configured slippage does not influence the price at which orders fill: two brokers
  that differ only in a positive \<open>slip_bps\<close> book the same entry event.\<close>

theorem entry_price_ignores_slip_bps:
  assumes "0 < b_slip_bps b" "0 < s"
  shows "fst (try_fill L c ord w tk (with_slip s b)) = fst (try_fill L c ord w tk b)"
proof -
  obtain cid b1 where r1: "resolve_client_id ord b = (cid, b1)" by fastforce
  have s1: "b_slip_bps b1 = b_slip_bps b"
    using r1 by (auto simp: resolve_client_id_def uuid4_hex_def split: option.splits if_splits)
  obtain q b2 where i: "(if w then (Inr None, b1) else idempotency_check cid b1) = (q, b2)" by fastforce
  then have i': "(if w then (Inr None, with_slip s b1) else idempotency_check cid (with_slip s b1))
      = (q, with_slip s b2)" and s2: "b_slip_bps b2 = b_slip_bps b1"
    by (auto simp: idempotency_check_slip) (auto simp: idempotency_check_def cache_view_def Let_def
        split: if_splits option.splits)
  let ?eq = "float_or (o_equity ord) (b_current_equity b2)"
  obtain v b3 where v: "validate_risk_limits L ord c ?eq w b2 = (v, b3)" by fastforce
  have "0 < b_slip_bps b3" using validate_fields(10) [OF v] s1 s2 assms(1) by simp
  from fill_validated_slip [OF this assms(2)] r1 i i' v show ?thesis
    by (auto simp: try_fill_def resolve_client_id_slip validate_slip Let_def
        split: sum.splits option.splits bool.splits)
qed

theorem entry_price_ignores_slip_bps_witness:
  "fst (try_fill std_limits sample_candle sample_order False None (with_slip 500 (with_slip 1 sample_broker)))
    = fst (try_fill std_limits sample_candle sample_order False None (with_slip 1 sample_broker))"
  by (rule entry_price_ignores_slip_bps) simp_all

text \<open>A market order placed without a price can never be filled: its entry is recorded as zero,
  which the risk check refuses on every candle. The order stays among the working orders.\<close>

theorem market_order_without_price_never_fills:
  assumes "place_order sd q ''MARKET'' None sl tp cid b = (Inr ord, b1)"
    and "try_fill L c ord w tk b2 = (r, b3)"
    and "0 < MAX_DAILY_LOSS_USD L" "MAX_DAILY_LOSS_USD L \<le> b_starting_equity b2"
  shows "b_working_orders b1 = b_working_orders b @ [ord] \<and> b_pos b3 = b_pos b2
    \<and> b_current_equity b3 = b_current_equity b2"
proof -
  have e: "o_entry ord = Fin 0" and w: "b_working_orders b1 = b_working_orders b @ [ord]"
    using assms(1) by (auto simp: place_order_def uuid4_hex_def time_time_def Let_def
        split: option.splits if_splits)
  have "\<not> within_limits L st cap ord c eq" for st cap eq using e by (simp add: within_limits_def)
  then have "b_pos b3 = b_pos b2 \<and> b_current_equity b3 = b_current_equity b2"
    using admitted [OF assms(2) _ assms(3,4)] by blast
  with w show ?thesis by simp
qed

theorem market_order_without_price_never_fills_witness:
  "b_pos (snd (try_fill std_limits sample_candle
     (case fst (place_order ''buy'' (Fin 1) ''MARKET'' None (Some 80) (Some 140) None sample_broker) of
        Inr ord \<Rightarrow> ord | Inl e \<Rightarrow> sample_order) True None sample_broker)) = None"
proof -
  obtain ord b1 where o: "place_order ''buy'' (Fin 1) ''MARKET'' None (Some 80) (Some 140) None sample_broker
      = (Inr ord, b1)" by (simp add: place_order_def uuid4_hex_def time_time_def Let_def)
  obtain r b3 where t: "try_fill std_limits sample_candle ord True None sample_broker = (r, b3)" by fastforce
  from market_order_without_price_never_fills [OF o t] show ?thesis by (simp add: o t)
qed

definition thin_candle :: candle where
  "thin_candle = sample_candle\<lparr>c_volume := 5\<rparr>"

definition limit_order :: "real \<Rightarrow> order" where
  "limit_order q = sample_order\<lparr>o_type := Limit, o_qty := Fin q\<rparr>"

lemmas fill_eval = try_fill_def resolve_client_id_def validate_risk_limits_def time_time_def
  symbol_cap_def risk_checks_def fill_validated_def quote_price_def market_slip_def capped_qty_def
  market_impact_def entry_slip_def rng_uniform_def rng_randint_def book_fill_def book_finish_def
  uuid4_hex_def pf_sub_def pf_inf_def tick_quotes_def save_state'_def remainder_order_def Let_def

text \<open>The cap of a tenth of the candle's volume per fill does not bound what one candle fills.
  An order above the cap leaves a remainder in the list that the walk over the working orders is
  still visiting, so the remainder fills against the same candle.\<close>

theorem remainder_fills_in_the_same_candle:
  assumes "1 / 2 < q" "q \<le> 1"
  shows "capped_qty thin_candle q = 1 / 2 \<and>
    (\<exists>f1 f2 b'. process_working_orders std_limits thin_candle
        (sample_broker\<lparr>b_working_orders := [limit_order q]\<rparr>) = (Inr [FillEv f1, FillEv f2], b')
      \<and> fr_qty f1 + fr_qty f2 = q \<and> b_working_orders b' = [])"
  using assms
  by (simp add: process_working_orders_def process_loop.simps fill_eval limit_order_def sample_order_def
      thin_candle_def sample_candle_def)

theorem remainder_fills_in_the_same_candle_witness:
  "\<exists>f1 f2 b'. process_working_orders std_limits thin_candle
     (sample_broker\<lparr>b_working_orders := [limit_order 1]\<rparr>) = (Inr [FillEv f1, FillEv f2], b')
     \<and> fr_qty f1 + fr_qty f2 = 1"
  using remainder_fills_in_the_same_candle [of 1] by auto

end
