(* ===== verification/Agents.thy ===== *)
theory Agents
  imports Indicators Broker_Types
begin

text \<open>
  \<^verbatim>\<open>agents/\<close>: the state the pipeline passes along and the agents that read the market and decide.
  Each agent is a function on the state; an exception of one of them is the left value, and the
  agent then has not assigned its field. Dictionaries with fixed keys are records, an absent key
  or \<open>None\<close> is \<open>None\<close>; display strings with formatted numbers keep their numbers.
\<close>

section \<open>The shared state\<close>

datatype trend = TrendUnknown | TrendUp | TrendDown | TrendChop

datatype regime = RegimeUnknown | ChopLowVol | TrendHighVol | RegimeNormal

datatype bullet = TrendRegime trend regime | SwingRange real real | EqualHighs real | EqualLows real

record market_context =
  mc_price :: real
  mc_trend :: trend
  mc_regime :: regime
  mc_ema20 :: "real option"
  mc_ema50 :: "real option"
  mc_swing_high :: "real option"
  mc_swing_low :: "real option"
  mc_eq_high :: "real option"
  mc_eq_low :: "real option"
  mc_bullets :: "bullet list"
  mc_atr :: "real option"
  mc_atr_pct :: "real option"

record snapshot =
  sn_funding_8h :: "real option"
  sn_open_interest :: "real option"
  sn_basis :: "real option"
  sn_error :: "py_exc option"
  sn_cached :: bool

record derivatives =
  dv_snapshot :: snapshot
  dv_flags :: "string list"

datatype divergence = DivNone | Bullish | Bearish

record cvd_reading =
  cv_values :: "real list"
  cv_last :: real
  cv_divergence :: divergence

record trigger =
  tg_type :: string
  tg_level :: real
  tg_tol :: real

record trade_setup =
  su_name :: string
  su_side :: side
  su_reason :: "string option"
  su_entry_type :: "string option"
  su_entry :: "real option"
  su_band :: "(real \<times> real) option"
  su_sl :: real
  su_tp :: real
  su_level :: "real option"
  su_vwap :: "real option"
  su_cvd_confirmation :: "bool option"
  su_trigger :: "trigger option"

text \<open>The order as the agents write it: a refusal with its reason, or the plan.\<close>

record plan =
  pl_pending_trigger :: bool
  pl_side :: side
  pl_entry_type :: string
  pl_entry :: "real option"
  pl_sl :: real
  pl_tp :: real
  pl_rr_min :: real
  pl_size_mult :: real
  pl_risk_pct :: real
  pl_equity :: real
  pl_lot_step :: real
  pl_min_notional :: real
  pl_setup :: trade_setup

record resolved =
  rs_side :: side
  rs_entry_type :: string
  rs_entry :: real
  rs_sl :: real
  rs_tp :: real
  rs_qty :: real
  rs_rr :: real
  rs_setup :: string

datatype agent_order =
    EmptyOrder
  | NoGo string "string list"
  | Plan plan
  | Resolved resolved

fun order_go :: "agent_order \<Rightarrow> bool" where
  "order_go EmptyOrder = False"
| "order_go (NoGo reason details) = False"
| "order_go (Plan p) = True"
| "order_go (Resolved r) = True"

record meta =
  me_last_trade_bar :: int
  me_last_plan_key :: "(string \<times> side \<times> int option \<times> int \<times> int) option"

record agent_state =
  ag_instrument :: string
  ag_candles :: "candle list"
  ag_context :: "market_context option"
  ag_derivatives :: "derivatives option"
  ag_setup :: "trade_setup option"
  ag_cvd :: "cvd_reading option"
  ag_order :: agent_order
  ag_trade_id :: "string option"
  ag_pending_bars :: nat
  ag_meta :: meta

definition post_init :: "limits \<Rightarrow> agent_state \<Rightarrow> agent_state" where
  "post_init L s = s\<lparr>ag_candles := last_n (MAX_CANDLE_BUFFER L) (ag_candles s)\<rparr>"

section \<open>Market intake\<close>

definition classify_trend :: "real option \<Rightarrow> real option \<Rightarrow> real \<Rightarrow> trend" where
  "classify_trend ema_fast ema_slow price =
     (if truthy ema_fast \<and> truthy ema_slow then
        (if the ema_slow < the ema_fast \<and> the ema_fast < price then TrendUp
         else if the ema_fast < the ema_slow \<and> price < the ema_fast then TrendDown
         else TrendChop)
      else TrendUnknown)"

definition classify_regime :: "real option \<Rightarrow> regime" where
  "classify_regime atr_pct =
     (case atr_pct of None \<Rightarrow> RegimeUnknown
      | Some x \<Rightarrow> if x < 0.002 then ChopLowVol else if 0.006 < x then TrendHighVol else RegimeNormal)"

definition market_intake_run :: "(string \<rightharpoonup> real) \<Rightarrow> agent_state \<Rightarrow> agent_state res" where
  "market_intake_run overrides s =
     (let candles = ag_candles s; closes = map c_close candles
      in if candles = [] then Inl IndexError
      else let price = last closes; ema_fast = ema closes 20; ema_slow = ema closes 50;
               trend = classify_trend ema_fast ema_slow price
      in bindE (atr candles 14) (\<lambda>a.
         bindE (if truthy a then bindE (py_div (the a) price) (\<lambda>x. Inr (Some x)) else Inr None)
           (\<lambda>atr_pct.
         let regime = classify_regime atr_pct
         in bindE (swing_high_low candles 40) (\<lambda>(swing_hi, swing_lo).
         let tol = (case overrides (ag_instrument s) of None \<Rightarrow> 0.0008 | Some t \<Rightarrow> t);
             eq_high = equal_level (map c_high candles) tol;
             eq_low = equal_level (map c_low candles) tol;
             bullets = [TrendRegime trend regime]
               @ (if truthy swing_hi \<and> truthy swing_lo then [SwingRange (the swing_lo) (the swing_hi)] else [])
               @ (if truthy eq_high then [EqualHighs (the eq_high)] else [])
               @ (if truthy eq_low then [EqualLows (the eq_low)] else [])
         in Inr (s\<lparr>ag_context := Some
              \<lparr>mc_price = price, mc_trend = trend, mc_regime = regime, mc_ema20 = ema_fast,
               mc_ema50 = ema_slow, mc_swing_high = swing_hi, mc_swing_low = swing_lo,
               mc_eq_high = eq_high, mc_eq_low = eq_low, mc_bullets = last_n 5 bullets,
               mc_atr = a, mc_atr_pct = atr_pct\<rparr>\<rparr>)))))"

section \<open>Derivatives and flows\<close>

text \<open>
  The provider's \<open>snapshot_derivatives\<close> is the sequence of its answers, each used once; \<open>None\<close>: the
  provider has no such method. The gates are the configuration's thresholds.
\<close>

record deriv_agent =
  da_provider :: "(nat \<Rightarrow> snapshot res) option"
  da_gates :: "string \<rightharpoonup> real"
  da_refresh_bars :: int
  da_bar :: int
  da_last :: "snapshot option"

definition new_deriv_agent ::
  "(nat \<Rightarrow> snapshot res) option \<Rightarrow> (string \<rightharpoonup> real) \<Rightarrow> int \<Rightarrow> deriv_agent" where
  "new_deriv_agent provider gates refresh_bars =
     \<lparr>da_provider = provider, da_gates = gates, da_refresh_bars = max 1 refresh_bars,
      da_bar = 0, da_last = None\<rparr>"

definition empty_snapshot :: snapshot where
  "empty_snapshot = \<lparr>sn_funding_8h = None, sn_open_interest = None, sn_basis = None, sn_error = None,
     sn_cached = False\<rparr>"

definition gate :: "(string \<rightharpoonup> real) \<Rightarrow> string \<Rightarrow> real res" where
  "gate gates k = (case gates k of None \<Rightarrow> Inl (KeyError k) | Some v \<Rightarrow> Inr v)"

definition funding_flags :: "(string \<rightharpoonup> real) \<Rightarrow> real option \<Rightarrow> string list res" where
  "funding_flags gates funding =
     (case funding of None \<Rightarrow> Inr [''funding_missing'']
      | Some f \<Rightarrow>
        let extreme = (case gates ''extreme_funding_8h'' of None \<Rightarrow> 0.001 | Some x \<Rightarrow> x)
        in if extreme \<le> \<bar>f\<bar> then Inr [''HALT_funding_extreme'']
        else bindE (gate gates ''no_trade_funding_8h'') (\<lambda>no_trade.
          if no_trade \<le> \<bar>f\<bar> then Inr [''NO_TRADE_funding_hot'']
          else bindE (gate gates ''half_size_funding_8h'') (\<lambda>half.
            if half \<le> \<bar>f\<bar> then Inr [''HALF_SIZE_funding_warm''] else Inr [])))"

definition next_snapshot :: "deriv_agent \<Rightarrow> snapshot \<times> deriv_agent" where
  "next_snapshot d =
     (case da_provider d of None \<Rightarrow> (empty_snapshot, d)
      | Some answers \<Rightarrow>
        (case answers 0 of Inr snap \<Rightarrow> snap | Inl e \<Rightarrow> empty_snapshot\<lparr>sn_error := Some e\<rparr>,
         d\<lparr>da_provider := Some (\<lambda>k. answers (Suc k))\<rparr>))"

definition derivatives_run :: "deriv_agent \<Rightarrow> agent_state \<Rightarrow> agent_state res \<times> deriv_agent" where
  "derivatives_run d0 s =
     (let d = d0\<lparr>da_bar := da_bar d0 + 1\<rparr>;
          (snap, d') =
            (case da_last d of
               Some lst \<Rightarrow>
                 if da_bar d mod da_refresh_bars d \<noteq> 0 then (lst\<lparr>sn_cached := True\<rparr>, d)
                 else let (snap, d1) = next_snapshot d
                      in (snap\<lparr>sn_cached := False\<rparr>, d1\<lparr>da_last := Some (snap\<lparr>sn_cached := False\<rparr>)\<rparr>)
             | None \<Rightarrow>
                 let (snap, d1) = next_snapshot d
                 in (snap\<lparr>sn_cached := False\<rparr>, d1\<lparr>da_last := Some (snap\<lparr>sn_cached := False\<rparr>)\<rparr>))
      in (bindE (funding_flags (da_gates d') (sn_funding_8h snap)) (\<lambda>flags.
            Inr (s\<lparr>ag_derivatives := Some \<lparr>dv_snapshot = snap, dv_flags = flags\<rparr>\<rparr>)), d'))"

section \<open>Volume-delta divergence\<close>

definition detect_divergence :: "candle list \<Rightarrow> real list \<Rightarrow> divergence res" where
  "detect_divergence candles cvd =
     (if length candles < 5 then Inr DivNone
      else let p_slice = map c_low (last_n 5 candles); c_slice = last_n 5 cvd;
               p_hi_slice = map c_high (last_n 5 candles)
      in bindE (py_min (butlast p_slice)) (\<lambda>p_min.
         bindE (py_min (butlast c_slice)) (\<lambda>c_min.
           if last p_slice < p_min \<and> c_min < last c_slice then Inr Bullish
           else bindE (py_max (butlast p_hi_slice)) (\<lambda>p_max.
                bindE (py_max (butlast c_slice)) (\<lambda>c_max.
                  if p_max < last p_hi_slice \<and> last c_slice < c_max then Inr Bearish
                  else Inr DivNone)))))"

definition cvd_run :: "nat \<Rightarrow> agent_state \<Rightarrow> agent_state res" where
  "cvd_run lookback s =
     (let candles = ag_candles s
      in if length candles < lookback then Inr s
      else let cvd = cvd_indicator candles
      in if cvd = [] then Inl IndexError
      else bindE (detect_divergence candles cvd) (\<lambda>d.
        Inr (s\<lparr>ag_cvd := Some \<lparr>cv_values = cvd, cv_last = last cvd, cv_divergence = d\<rparr>\<rparr>)))"

section \<open>Setups\<close>

record setup_cfg =
  sc_pullback_enabled :: bool
  sc_entry_band_pct :: real
  sc_pullback_stop_mult :: real
  sc_pullback_tp_mult :: real
  sc_sweep_enabled :: bool
  sc_lookback_bars :: nat
  sc_require_cvd :: bool
  sc_min_vol_ratio :: real
  sc_sweep_stop_mult :: real

definition no_setup :: "string \<Rightarrow> trade_setup" where
  "no_setup reason = \<lparr>su_name = ''NONE'', su_side = OtherSide ''FLAT'', su_reason = Some reason,
     su_entry_type = None, su_entry = None, su_band = None, su_sl = 0, su_tp = 0, su_level = None,
     su_vwap = None, su_cvd_confirmation = None, su_trigger = None\<rparr>"

definition pullback_setup :: "setup_cfg \<Rightarrow> real \<Rightarrow> real \<Rightarrow> real \<Rightarrow> trend \<Rightarrow> trade_setup" where
  "pullback_setup cfg price ema20 a trend =
     (let band = price * sc_entry_band_pct cfg;
          entry = ema20;
          sl = (if trend = TrendUp then entry - a * sc_pullback_stop_mult cfg
                else entry + a * sc_pullback_stop_mult cfg);
          tp = (if trend = TrendUp then entry + \<bar>entry - sl\<bar> * sc_pullback_tp_mult cfg
                else entry - \<bar>entry - sl\<bar> * sc_pullback_tp_mult cfg)
      in \<lparr>su_name = ''pullback_ribbon'', su_side = (if trend = TrendUp then LONG else SHORT),
          su_reason = None, su_entry_type = Some ''limit'', su_entry = Some entry,
          su_band = Some (entry - band, entry + band), su_sl = sl, su_tp = tp, su_level = None,
          su_vwap = None, su_cvd_confirmation = None, su_trigger = None\<rparr>)"

definition sweep_reclaim :: "string \<Rightarrow> side \<Rightarrow> real \<Rightarrow> real \<Rightarrow> real \<Rightarrow> real \<Rightarrow> bool \<Rightarrow> trade_setup" where
  "sweep_reclaim name sd price sl tp level cvd_confirmed =
     \<lparr>su_name = name, su_side = sd, su_reason = None, su_entry_type = Some ''market'',
      su_entry = Some price, su_band = None, su_sl = sl, su_tp = tp, su_level = Some level,
      su_vwap = Some tp, su_cvd_confirmation = Some cvd_confirmed, su_trigger = None\<rparr>"

definition avg_volume :: "candle list \<Rightarrow> real" where
  "avg_volume candles =
     (if 20 \<le> length candles then sum_list (map c_volume (last_n 20 candles)) / 20 else 0)"

definition sweep_choice ::
  "setup_cfg \<Rightarrow> sweep_side option \<Rightarrow> real \<Rightarrow> real \<Rightarrow> real \<Rightarrow> real \<Rightarrow> bool \<Rightarrow> bool \<Rightarrow> bool \<Rightarrow> divergence
   \<Rightarrow> trade_setup" where
  "sweep_choice cfg swept level price a session_vwap trend_up trend_down vol_ok cvd_div =
     (case swept of
        Some SweptLow \<Rightarrow>
          if trend_down then no_setup ''ema_filter_blocked''
          else if \<not> vol_ok then no_setup ''volume_filter_blocked''
          else if \<not> sc_require_cvd cfg \<or> cvd_div = Bullish
          then sweep_reclaim ''sweep_reclaim_long'' LONG price
                 (level - a * sc_sweep_stop_mult cfg) session_vwap level (cvd_div = Bullish)
          else no_setup ''cvd_confirmation_failed''
      | Some SweptHigh \<Rightarrow>
          if trend_up then no_setup ''ema_filter_blocked''
          else if \<not> vol_ok then no_setup ''volume_filter_blocked''
          else if \<not> sc_require_cvd cfg \<or> cvd_div = Bearish
          then sweep_reclaim ''sweep_reclaim_short'' SHORT price
                 (level + a * sc_sweep_stop_mult cfg) session_vwap level (cvd_div = Bearish)
          else no_setup ''cvd_confirmation_failed''
      | None \<Rightarrow> no_setup ''no_conditions'')"

definition sweep_setup :: "setup_cfg \<Rightarrow> agent_state \<Rightarrow> real \<Rightarrow> real \<Rightarrow> trade_setup res" where
  "sweep_setup cfg s price a =
     (let candles = ag_candles s
      in bindE (detect_sweep candles (sc_lookback_bars cfg)) (\<lambda>sweep.
         if \<not> sw_reclaimed sweep then Inr (no_setup ''no_conditions'')
         else let level = (case sw_level sweep of None \<Rightarrow> 0 | Some l \<Rightarrow> l);
                  session_vwap = (if candles = [] then price else last (vwap (last_n 60 candles)));
                  e9_vals = map c_close candles;
                  ema9 = ema e9_vals 9; ema20 = ema e9_vals 20;
                  trend_up = (truthy ema9 \<and> truthy ema20 \<and> the ema20 < the ema9);
                  trend_down = (truthy ema9 \<and> truthy ema20 \<and> the ema9 < the ema20);
                  cvd_div = (case ag_cvd s of None \<Rightarrow> DivNone | Some r \<Rightarrow> cv_divergence r);
                  curr_vol = (if candles = [] then 0 else c_volume (last candles));
                  vol_ok = (avg_volume candles * sc_min_vol_ratio cfg \<le> curr_vol)
         in Inr (sweep_choice cfg (sw_swept sweep) level price a session_vwap trend_up trend_down
                   vol_ok cvd_div)))"

definition setup_run :: "setup_cfg \<Rightarrow> agent_state \<Rightarrow> agent_state res" where
  "setup_run cfg s =
     (case ag_context s of None \<Rightarrow> Inl (KeyError ''price'')
      | Some ctx \<Rightarrow>
        let price = mc_price ctx
        in bindE (if truthy (mc_atr ctx) then Inr (mc_atr ctx) else atr (ag_candles s) 14) (\<lambda>a0.
           let a = float_or a0 (price * 0.004)
           in bindE (py_div a price) (\<lambda>vol.
              if vol < 0.0001 then Inr (s\<lparr>ag_setup := Some (no_setup ''low_volatility'')\<rparr>)
              else if sc_pullback_enabled cfg \<and> truthy (mc_ema20 ctx)
                      \<and> (mc_trend ctx = TrendUp \<or> mc_trend ctx = TrendDown)
              then Inr (s\<lparr>ag_setup :=
                     Some (pullback_setup cfg price (the (mc_ema20 ctx)) a (mc_trend ctx))\<rparr>)
              else if sc_sweep_enabled cfg
              then bindE (sweep_setup cfg s price a) (\<lambda>st. Inr (s\<lparr>ag_setup := Some st\<rparr>))
              else Inr (s\<lparr>ag_setup := Some (no_setup ''no_conditions'')\<rparr>))))"

section \<open>Execution and risk sentinel\<close>

record risk_cfg =
  rc_rr_min :: real
  rc_equity :: real
  rc_risk_pct :: real

record instrument_info =
  ii_lot_size :: "real option"
  ii_min_notional :: "real option"

definition size_multiplier :: "string list \<Rightarrow> real" where
  "size_multiplier flags =
     (let m = (if ''HALF_SIZE_funding_warm'' \<in> set flags then 0.5 else 1)
      in if ''funding_missing'' \<in> set flags then min m 0.5 else m)"

definition state_flags :: "agent_state \<Rightarrow> string list" where
  "state_flags s = (case ag_derivatives s of None \<Rightarrow> [] | Some d \<Rightarrow> dv_flags d)"

definition execution_risk_run :: "risk_cfg \<Rightarrow> instrument_info \<Rightarrow> agent_state \<Rightarrow> agent_state" where
  "execution_risk_run cfg info s0 =
     (case ag_setup s0 of None \<Rightarrow> s0\<lparr>ag_order := NoGo ''no_setup'' []\<rparr>
      | Some su \<Rightarrow>
        if su_name su = ''NONE''
        then s0\<lparr>ag_order := NoGo (case su_reason su of None \<Rightarrow> ''no_setup'' | Some r \<Rightarrow> r) []\<rparr>
        else
        let flags = state_flags s0;
            current_bar = int (length (ag_candles s0));
            last_trade_bar = me_last_trade_bar (ag_meta s0);
            has_trade = (case ag_trade_id s0 of None \<Rightarrow> False | Some t \<Rightarrow> t \<noteq> []);
            s = (if has_trade then s0\<lparr>ag_meta := (ag_meta s0)\<lparr>me_last_trade_bar := current_bar\<rparr>\<rparr> else s0)
        in if current_bar - last_trade_bar < 5 \<and> \<not> has_trade
           then s\<lparr>ag_order := NoGo ''cooldown_active'' []\<rparr>
           else if ''NO_TRADE_funding_hot'' \<in> set flags
           then s\<lparr>ag_order := NoGo ''funding_hot_no_trade'' []\<rparr>
           else let ty = su_entry_type su
           in if ty \<noteq> Some ''limit'' \<and> ty \<noteq> Some ''market_on_trigger'' \<and> ty \<noteq> Some ''market''
           then s\<lparr>ag_order := NoGo ''unknown_entry_type'' []\<rparr>
           else let entry = (if ty = Some ''limit'' then su_entry su else None)
           in case (ii_lot_size info, ii_min_notional info) of
                (Some lot, Some min_notional) \<Rightarrow>
                  s\<lparr>ag_order := Plan
                     \<lparr>pl_pending_trigger = (entry = None), pl_side = su_side su,
                      pl_entry_type = (if entry \<noteq> None then ''limit'' else ''market''),
                      pl_entry = entry, pl_sl = su_sl su, pl_tp = su_tp su, pl_rr_min = rc_rr_min cfg,
                      pl_size_mult = size_multiplier flags, pl_risk_pct = rc_risk_pct cfg,
                      pl_equity = rc_equity cfg, pl_lot_step = lot, pl_min_notional = min_notional,
                      pl_setup = su\<rparr>\<rparr>
              | _ \<Rightarrow> s\<lparr>ag_order := NoGo ''missing_instrument_info_for_limits'' []\<rparr>)"

section \<open>Risk gate\<close>

text \<open>\<open>order.get("risk_pct", 0.0)\<close>: only a plan carries the key.\<close>

fun order_risk_pct :: "agent_order \<Rightarrow> real" where
  "order_risk_pct (Plan p) = pl_risk_pct p"
| "order_risk_pct ord = 0"

definition blockers :: "string list \<Rightarrow> string list" where
  "blockers flags = filter (\<lambda>f. str_contains ''NO_TRADE'' f \<or> str_contains ''HALT'' f) flags"

definition risk_gate_run :: "agent_state \<Rightarrow> agent_state" where
  "risk_gate_run s =
     (if \<not> order_go (ag_order s) then s
      else let bs = blockers (state_flags s)
      in if bs \<noteq> [] then s\<lparr>ag_order := NoGo ''risk_gate_blocked'' bs\<rparr>
      else if 0.02 < order_risk_pct (ag_order s)
      then s\<lparr>ag_order := NoGo ''risk_gate_blocked: risk_pct'' []\<rparr>
      else s)"

end
