(* ===== verification/Supervisor.thy ===== *)
theory Supervisor
  imports Agents Paper_Broker
begin

text \<open>
  \<^verbatim>\<open>agents/supervisor.py\<close> and \<^verbatim>\<open>agents/journal_coach.py\<close>: one step of the pipeline. The state and the
  objects the supervisor owns (the derivatives agent, the paper broker, the journal) are a pair,
  mutated in place: what was assigned before an exception stays assigned.
\<close>

section \<open>From plan to order\<close>

definition trigger_entry :: "trade_setup \<Rightarrow> candle \<Rightarrow> real option" where
  "trigger_entry su c =
     (case su_trigger su of None \<Rightarrow> None
      | Some t \<Rightarrow>
        if tg_type t = ''sweep_and_close_back_below'' then
          (if tg_level t + tg_tol t < c_high c \<and> c_close c < tg_level t then Some (c_close c) else None)
        else if tg_type t = ''sweep_and_close_back_above'' then
          (if c_low c < tg_level t - tg_tol t \<and> tg_level t < c_close c then Some (c_close c) else None)
        else None)"

definition floor_to_step :: "real \<Rightarrow> real \<Rightarrow> real res" where
  "floor_to_step qty lot_step =
     bindE (py_div qty lot_step) (\<lambda>n. Inr (of_int (py_int n) * lot_step))"

text \<open>Sizing, once type and entry are settled.\<close>

definition size_order :: "limits \<Rightarrow> plan \<Rightarrow> string \<Rightarrow> real \<Rightarrow> resolved option res" where
  "size_order L p ty entry =
     (let risk_dollars = pl_equity p * pl_risk_pct p * pl_size_mult p;
          stop_dist = \<bar>entry - pl_sl p\<bar>
      in if stop_dist \<le> 0 then Inr None
      else let rr = \<bar>pl_tp p - entry\<bar> / stop_dist
      in if rr < pl_rr_min p then Inr None
      else let qty0 = risk_dollars / stop_dist;
               max_qty_abs = (if 0 < entry then MAX_POSITION_SIZE_USD L / entry else 0);
               max_qty_lev = (if 0 < entry then pl_equity p * MAX_LEVERAGE L / entry else 0);
               qty1 = min qty0 (min max_qty_abs max_qty_lev)
      in bindE (floor_to_step qty1 (pl_lot_step p)) (\<lambda>qty.
         if qty * entry < pl_min_notional p then Inr None
         else Inr (Some \<lparr>rs_side = pl_side p, rs_entry_type = ty, rs_entry = entry, rs_sl = pl_sl p,
                rs_tp = pl_tp p, rs_qty = qty, rs_rr = rr, rs_setup = su_name (pl_setup p)\<rparr>)))"

definition resolve_order :: "limits \<Rightarrow> agent_order \<Rightarrow> candle \<Rightarrow> resolved option res" where
  "resolve_order L ord c =
     (case ord of
        Plan p \<Rightarrow>
          if su_entry_type (pl_setup p) = Some ''market_on_trigger'' then
            (case trigger_entry (pl_setup p) c of None \<Rightarrow> Inr None
             | Some entry \<Rightarrow> size_order L p ''market'' entry)
          else (case pl_entry p of
              Some entry \<Rightarrow> size_order L p (pl_entry_type p) entry
            | None \<Rightarrow> if pl_entry_type p = ''market'' then size_order L p ''market'' (c_close c)
                      else Inl TypeError)
      | Resolved r \<Rightarrow> Inl (KeyError ''equity'')
      | _ \<Rightarrow> Inr None)"

section \<open>Journal and coach\<close>

datatype journal_line =
    TradeLine string string side "market_context option" "derivatives option" "trade_setup option" agent_order
  | PlanCreated string "string \<times> side \<times> int option \<times> int \<times> int"
  | Canceled string nat string
  | FillLine string bevent
  | ExitLine string exit_rec "string list"

record journal =
  jn_lines :: "journal_line list"
  jn_ids :: "nat \<Rightarrow> string"

definition journal_append :: "journal_line \<Rightarrow> journal \<Rightarrow> journal" where
  "journal_append l j = j\<lparr>jn_lines := jn_lines j @ [l]\<rparr>"

text \<open>Two decimals: the nearest hundredth, ties to the even one.\<close>

definition cents :: "real \<Rightarrow> int" where
  "cents x = (let y = 100 * x; k = \<lfloor>y\<rfloor>; d = y - of_int k
     in if d < 1 / 2 then k else if 1 / 2 < d then k + 1 else if even k then k else k + 1)"

definition plan_key :: "agent_state \<Rightarrow> resolved \<Rightarrow> string \<times> side \<times> int option \<times> int \<times> int" where
  "plan_key s r =
     ((case ag_setup s of None \<Rightarrow> ''None'' | Some su \<Rightarrow> su_name su), rs_side r,
      Some (cents (rs_entry r)), cents (rs_sl r), cents (rs_tp r))"

definition coach_tags :: "exit_rec \<Rightarrow> string list" where
  "coach_tags x =
     (if er_r x \<le> - 0.9 \<and> er_bars_open x \<le> 3 then [''stopped_fast''] else [])
     @ (if 1 \<le> er_r x then [''followed_plan_profit''] else [])"

record step_events =
  se_fills :: "bevent list"
  se_exits :: "exit_rec list"
  se_cancels :: "(nat \<times> string) list"

definition open_plan :: "agent_state \<Rightarrow> journal \<Rightarrow> agent_state \<times> journal" where
  "open_plan s j =
     (case ag_order s of
        Resolved r \<Rightarrow>
          let k = plan_key s r
          in if ag_trade_id s = None \<and> me_last_plan_key (ag_meta s) \<noteq> Some k then
               (let tid = jn_ids j 0; j1 = j\<lparr>jn_ids := \<lambda>n. jn_ids j (Suc n)\<rparr>
                in (s\<lparr>ag_meta := (ag_meta s)\<lparr>me_last_plan_key := Some k\<rparr>, ag_trade_id := Some tid\<rparr>,
                    journal_append (PlanCreated tid k)
                      (journal_append (TradeLine tid (ag_instrument s) (rs_side r) (ag_context s)
                         (ag_derivatives s) (ag_setup s) (ag_order s)) j1)))
             else (s, j)
      | _ \<Rightarrow> (s, j))"

definition journal_run :: "step_events \<Rightarrow> agent_state \<Rightarrow> journal \<Rightarrow> agent_state \<times> journal" where
  "journal_run ev s0 j0 =
     (let (s, j) = open_plan s0 j0
      in case ag_trade_id s of None \<Rightarrow> (s, j)
      | Some tid \<Rightarrow>
        if tid = [] then (s, j)
        else if se_cancels ev \<noteq> []
        then (s\<lparr>ag_trade_id := None, ag_pending_bars := 0\<rparr>,
              fold (\<lambda>(bars, ts). journal_append (Canceled tid bars ts)) (se_cancels ev) j)
        else let j1 = fold (\<lambda>f. journal_append (FillLine tid f)) (se_fills ev) j;
                 j2 = fold (\<lambda>x. journal_append (ExitLine tid x (coach_tags x))) (se_exits ev) j1
             in (if se_exits ev = [] then s
                 else s\<lparr>ag_trade_id := None, ag_pending_bars := 0\<rparr>, j2))"

section \<open>The step\<close>

record supervisor =
  sp_limits :: limits
  sp_overrides :: "string \<rightharpoonup> real"
  sp_cvd_lookback :: nat
  sp_setups :: setup_cfg
  sp_risk :: risk_cfg
  sp_info :: instrument_info
  sp_pending_max :: nat
  sp_min_history :: nat
  sp_deriv :: deriv_agent
  sp_broker :: broker
  sp_journal :: journal

type_synonym world = "supervisor \<times> agent_state"

definition on_state :: "(agent_state \<Rightarrow> agent_state res) \<Rightarrow> (world, unit) py" where
  "on_state f = (\<lambda>(sv, s). case f s of Inl e \<Rightarrow> (Inl e, (sv, s)) | Inr s' \<Rightarrow> (Inr (), (sv, s')))"

definition max_keep :: "supervisor \<Rightarrow> nat" where
  "max_keep sv = max 800 (sp_min_history sv + 100)"

definition take_candle :: "candle \<Rightarrow> (world, unit) py" where
  "take_candle c = modifyS (\<lambda>(sv, s).
     (sv, s\<lparr>ag_candles := last_n (max_keep sv) (ag_candles s @ [c])\<rparr>))"

definition run_derivatives :: "(world, unit) py" where
  "run_derivatives = (\<lambda>(sv, s). case derivatives_run (sp_deriv sv) s of
      (Inl e, d) \<Rightarrow> (Inl e, (sv\<lparr>sp_deriv := d\<rparr>, s)) | (Inr s', d) \<Rightarrow> (Inr (), (sv\<lparr>sp_deriv := d\<rparr>, s')))"

definition pending_trigger :: "candle \<Rightarrow> nat \<Rightarrow> agent_state \<Rightarrow> (nat \<times> string) list \<times> agent_state" where
  "pending_trigger c max_bars s =
     (case ag_order s of
        Plan p \<Rightarrow>
          if pl_pending_trigger p then
            (let n = Suc (ag_pending_bars s); s1 = s\<lparr>ag_pending_bars := n\<rparr>
             in if max_bars \<le> n
                then ([(n, c_ts c)], s1\<lparr>ag_order := NoGo ''pending_trigger_expired'' []\<rparr>)
                else ([], s1))
          else ([], s\<lparr>ag_pending_bars := 0\<rparr>)
      | _ \<Rightarrow> ([], s\<lparr>ag_pending_bars := 0\<rparr>))"

definition as_agent_order :: "resolved option \<Rightarrow> agent_order" where
  "as_agent_order r = (case r of None \<Rightarrow> EmptyOrder | Some r \<Rightarrow> Resolved r)"

definition broker_order :: "agent_order \<Rightarrow> order option" where
  "broker_order ord =
     (case ord of
        Resolved r \<Rightarrow> Some \<lparr>o_client_id = None, o_go = True, o_side = rs_side r,
          o_type = (if rs_entry_type r = ''market'' then Market
                    else if rs_entry_type r = ''limit'' then Limit else OtherType (rs_entry_type r)),
          o_entry = Fin (rs_entry r), o_qty = Fin (rs_qty r), o_sl = Fin (rs_sl r), o_tp = Fin (rs_tp r),
          o_equity = None, o_created_at = None\<rparr>
      | _ \<Rightarrow> None)"

definition trade_bar :: "candle \<Rightarrow> bool \<Rightarrow> (world, events) py" where
  "trade_bar c skip_broker = (\<lambda>(sv, s).
     if skip_broker then (Inr \<lparr>evs_fills = [], evs_exits = []\<rparr>, (sv, s))
     else case on_candle (sp_limits sv) c (broker_order (ag_order s)) None (sp_broker sv) of
            (r, b) \<Rightarrow> (r, (sv\<lparr>sp_broker := b\<rparr>, s)))"

text \<open>The step returns \<open>broker_events\<close>, which the source leaves in the state.\<close>

definition supervisor_run :: "candle \<Rightarrow> bool \<Rightarrow> (world, events) py" where
  "supervisor_run c skip_broker =
     bindS (take_candle c) (\<lambda>_.
     bindS (\<lambda>w. on_state (market_intake_run (sp_overrides (fst w))) w) (\<lambda>_.
     bindS run_derivatives (\<lambda>_.
     bindS (\<lambda>w. on_state (cvd_run (sp_cvd_lookback (fst w))) w) (\<lambda>_.
     bindS (\<lambda>w. on_state (setup_run (sp_setups (fst w))) w) (\<lambda>_.
     bindS (modifyS (\<lambda>(sv, s). (sv, execution_risk_run (sp_risk sv) (sp_info sv) s))) (\<lambda>_.
     bindS (\<lambda>(sv, s). let (cancels, s') = pending_trigger c (sp_pending_max sv) s
                      in (Inr cancels, (sv, s'))) (\<lambda>cancels.
     bindS (\<lambda>w. on_state (\<lambda>s. bindE (resolve_order (sp_limits (fst w)) (ag_order s) c)
                 (\<lambda>r. Inr (risk_gate_run (s\<lparr>ag_order := as_agent_order r\<rparr>)))) w) (\<lambda>_.
     bindS (trade_bar c skip_broker) (\<lambda>ev.
     bindS (modifyS (\<lambda>(sv, s).
       let (s', j) = journal_run \<lparr>se_fills = evs_fills ev, se_exits = evs_exits ev, se_cancels = cancels\<rparr>
                       s (sp_journal sv)
       in (sv\<lparr>sp_journal := j\<rparr>, s'))) (\<lambda>_. returnS ev))))))))))"

definition supervisor_step :: "candle \<Rightarrow> bool \<Rightarrow> (world, unit) py" where
  "supervisor_step c skip_broker = bindS (supervisor_run c skip_broker) (\<lambda>_. returnS ())"

lemma bindS_unit: "bindS m (\<lambda>_. returnS ()) = m"
  by (auto simp: bindS_def returnS_def fun_eq_iff split: prod.splits sum.splits)

lemma supervisor_step_unfold: "supervisor_step c skip_broker =
     bindS (take_candle c) (\<lambda>_.
     bindS (\<lambda>w. on_state (market_intake_run (sp_overrides (fst w))) w) (\<lambda>_.
     bindS run_derivatives (\<lambda>_.
     bindS (\<lambda>w. on_state (cvd_run (sp_cvd_lookback (fst w))) w) (\<lambda>_.
     bindS (\<lambda>w. on_state (setup_run (sp_setups (fst w))) w) (\<lambda>_.
     bindS (modifyS (\<lambda>(sv, s). (sv, execution_risk_run (sp_risk sv) (sp_info sv) s))) (\<lambda>_.
     bindS (\<lambda>(sv, s). let (cancels, s') = pending_trigger c (sp_pending_max sv) s
                      in (Inr cancels, (sv, s'))) (\<lambda>cancels.
     bindS (\<lambda>w. on_state (\<lambda>s. bindE (resolve_order (sp_limits (fst w)) (ag_order s) c)
                 (\<lambda>r. Inr (risk_gate_run (s\<lparr>ag_order := as_agent_order r\<rparr>)))) w) (\<lambda>_.
     bindS (trade_bar c skip_broker) (\<lambda>ev.
     modifyS (\<lambda>(sv, s).
       let (s', j) = journal_run \<lparr>se_fills = evs_fills ev, se_exits = evs_exits ev, se_cancels = cancels\<rparr>
                       s (sp_journal sv)
       in (sv\<lparr>sp_journal := j\<rparr>, s')))))))))))"
  by (simp only: supervisor_step_def supervisor_run_def bindS_assoc bindS_returnS bindS_unit)

text \<open>The part of the step before the broker sees the order.\<close>

definition supervisor_plan :: "candle \<Rightarrow> (world, (nat \<times> string) list) py" where
  "supervisor_plan c =
     bindS (take_candle c) (\<lambda>_.
     bindS (\<lambda>w. on_state (market_intake_run (sp_overrides (fst w))) w) (\<lambda>_.
     bindS run_derivatives (\<lambda>_.
     bindS (\<lambda>w. on_state (cvd_run (sp_cvd_lookback (fst w))) w) (\<lambda>_.
     bindS (\<lambda>w. on_state (setup_run (sp_setups (fst w))) w) (\<lambda>_.
     bindS (modifyS (\<lambda>(sv, s). (sv, execution_risk_run (sp_risk sv) (sp_info sv) s))) (\<lambda>_.
     bindS (\<lambda>(sv, s). let (cancels, s') = pending_trigger c (sp_pending_max sv) s
                      in (Inr cancels, (sv, s'))) (\<lambda>cancels.
     bindS (\<lambda>w. on_state (\<lambda>s. bindE (resolve_order (sp_limits (fst w)) (ag_order s) c)
                 (\<lambda>r. Inr (risk_gate_run (s\<lparr>ag_order := as_agent_order r\<rparr>)))) w) (\<lambda>_.
     returnS cancels))))))))"

lemma supervisor_run_plan:
  "supervisor_run c skip_broker =
     bindS (supervisor_plan c) (\<lambda>cancels.
     bindS (trade_bar c skip_broker) (\<lambda>ev.
     bindS (modifyS (\<lambda>(sv, s).
       let (s', j) = journal_run \<lparr>se_fills = evs_fills ev, se_exits = evs_exits ev, se_cancels = cancels\<rparr>
                       s (sp_journal sv)
       in (sv\<lparr>sp_journal := j\<rparr>, s'))) (\<lambda>_. returnS ev)))"
  by (simp only: supervisor_run_def supervisor_plan_def bindS_assoc bindS_returnS)

end
