(* ===== verification/Agent_Properties.thy ===== *)
theory Agent_Properties
  imports Supervisor Paper_Properties
begin

text \<open>
  What the pipeline guarantees about the orders it hands to the broker, and where its guards do not
  reach.
\<close>

section \<open>Sizing\<close>

lemma floor_to_step_bounds:
  assumes "floor_to_step q lot = Inr q'" "0 < lot" "0 \<le> q"
  shows "0 \<le> q' \<and> q' \<le> q \<and> q < q' + lot \<and> (\<exists>n::int. q' = of_int n * lot)"
proof -
  have q': "q' = of_int \<lfloor>q / lot\<rfloor> * lot" using assms by (simp add: floor_to_step_def py_int_def)
  have "of_int \<lfloor>q / lot\<rfloor> \<le> q / lot" "q / lot < of_int \<lfloor>q / lot\<rfloor> + 1" by linarith+
  then have "of_int \<lfloor>q / lot\<rfloor> * lot \<le> q" "q < (of_int \<lfloor>q / lot\<rfloor> + 1) * lot"
    using assms(2) by (metis pos_le_divide_eq, metis pos_divide_less_eq)
  moreover have "0 \<le> of_int \<lfloor>q / lot\<rfloor> * lot" using assms(2,3) by simp
  ultimately show ?thesis using q' by (auto simp: distrib_right)
qed

text \<open>C33: An order the supervisor sizes respects every cap: its notional is within the absolute limit
  and the leverage limit, the loss at its stop is within the risk budget, its quantity is a multiple
  of the lot step, its notional reaches the exchange's minimum and its reward-to-risk ratio the
  configured one; entry, stop, target and side are the plan's.\<close>

theorem sized_orders_respect_caps:
  assumes "size_order L p ty entry = Inr (Some r)"
    and "0 < entry" "0 < pl_lot_step p" "0 \<le> pl_equity p" "0 \<le> pl_risk_pct p" "0 \<le> pl_size_mult p"
    and "0 \<le> MAX_POSITION_SIZE_USD L" "0 \<le> MAX_LEVERAGE L"
  shows "rs_qty r * entry \<le> MAX_POSITION_SIZE_USD L
    \<and> rs_qty r * entry \<le> pl_equity p * MAX_LEVERAGE L
    \<and> rs_qty r * \<bar>entry - pl_sl p\<bar> \<le> pl_equity p * pl_risk_pct p * pl_size_mult p
    \<and> (\<exists>n::int. rs_qty r = of_int n * pl_lot_step p) \<and> 0 \<le> rs_qty r
    \<and> pl_min_notional p \<le> rs_qty r * entry \<and> pl_rr_min p \<le> rs_rr r
    \<and> rs_entry r = entry \<and> rs_sl r = pl_sl p \<and> rs_tp r = pl_tp p \<and> rs_side r = pl_side p"
proof -
  define d where "d = \<bar>entry - pl_sl p\<bar>"
  define q0 where "q0 = pl_equity p * pl_risk_pct p * pl_size_mult p / d"
  define q1 where "q1 = min q0 (min (MAX_POSITION_SIZE_USD L / entry) (pl_equity p * MAX_LEVERAGE L / entry))"
  from assms(1,2) have d: "0 < d" and f: "floor_to_step q1 (pl_lot_step p) = Inr (rs_qty r)"
    and r: "pl_min_notional p \<le> rs_qty r * entry" "pl_rr_min p \<le> rs_rr r"
      "rs_entry r = entry" "rs_sl r = pl_sl p" "rs_tp r = pl_tp p" "rs_side r = pl_side p"
    by (auto simp: size_order_def Let_def bindE_Inr_iff q1_def q0_def d_def split: if_splits)
  have "0 \<le> q1" using assms d by (simp add: q1_def q0_def)
  from floor_to_step_bounds [OF f assms(3) this] have q: "0 \<le> rs_qty r" "rs_qty r \<le> q1"
    "\<exists>n::int. rs_qty r = of_int n * pl_lot_step p" by auto
  have "rs_qty r \<le> q0" "rs_qty r \<le> MAX_POSITION_SIZE_USD L / entry"
    "rs_qty r \<le> pl_equity p * MAX_LEVERAGE L / entry" using q(2) by (auto simp: q1_def)
  then have "rs_qty r * d \<le> pl_equity p * pl_risk_pct p * pl_size_mult p"
    "rs_qty r * entry \<le> MAX_POSITION_SIZE_USD L" "rs_qty r * entry \<le> pl_equity p * MAX_LEVERAGE L"
    using d assms(2) by (simp_all add: q0_def pos_le_divide_eq)
  with q r show ?thesis by (simp add: d_def)
qed

definition sample_plan :: plan where
  "sample_plan = \<lparr>pl_pending_trigger = True, pl_side = LONG, pl_entry_type = ''market'', pl_entry = None,
     pl_sl = 99, pl_tp = 97, pl_rr_min = 3 / 2, pl_size_mult = 1, pl_risk_pct = 1 / 100,
     pl_equity = 10000, pl_lot_step = 1 / 1000, pl_min_notional = 5, pl_setup = no_setup []\<rparr>"

lemma sample_plan_sized:
  "size_order std_limits sample_plan ''market'' 100 = Inr (Some \<lparr>rs_side = LONG,
     rs_entry_type = ''market'', rs_entry = 100, rs_sl = 99, rs_tp = 97, rs_qty = 100, rs_rr = 3,
     rs_setup = ''NONE''\<rparr>)"
  by (simp add: size_order_def sample_plan_def floor_to_step_def py_int_def Let_def no_setup_def)

theorem sized_orders_respect_caps_witness:
  "\<exists>n::int. (100::real) = of_int n * (1 / 1000)"
  using sized_orders_respect_caps [OF sample_plan_sized] by (simp add: sample_plan_def)

text \<open>Resolving a plan does not look at which side of the entry the target is: reflecting the
  target at the entry changes nothing but the target, so that a long order whose target is below
  its entry passes the reward-to-risk check like its mirror image.\<close>

theorem target_side_is_not_checked:
  assumes "size_order L p ty entry = Inr (Some r)"
  shows "size_order L (p\<lparr>pl_tp := 2 * entry - pl_tp p\<rparr>) ty entry
    = Inr (Some (r\<lparr>rs_tp := 2 * entry - rs_tp r\<rparr>))"
proof -
  have "\<bar>2 * entry - pl_tp p - entry\<bar> = \<bar>pl_tp p - entry\<bar>" by linarith
  with assms show ?thesis
    by (auto simp: size_order_def Let_def bindE_Inr_iff split: if_splits)
qed

theorem target_side_is_not_checked_witness:
  "size_order std_limits (sample_plan\<lparr>pl_tp := 103\<rparr>) ''market'' 100 = Inr (Some \<lparr>rs_side = LONG,
     rs_entry_type = ''market'', rs_entry = 100, rs_sl = 99, rs_tp = 103, rs_qty = 100, rs_rr = 3,
     rs_setup = ''NONE''\<rparr>)"
  using target_side_is_not_checked [OF sample_plan_sized] by (simp add: sample_plan_def)

section \<open>What each stage leaves alone\<close>

lemmas stage_defs = take_candle_def on_state_def run_derivatives_def trade_bar_def modifyS_def

lemma market_intake_frame:
  "market_intake_run ov s = Inr s' \<Longrightarrow> \<exists>x. s' = s\<lparr>ag_context := x\<rparr>"
  by (auto simp: market_intake_run_def Let_def bindE_Inr_iff split: if_splits prod.splits)

lemma derivatives_frame:
  "derivatives_run d s = (Inr s', d') \<Longrightarrow> \<exists>x. s' = s\<lparr>ag_derivatives := x\<rparr>"
  by (auto simp: derivatives_run_def Let_def bindE_Inr_iff split: prod.splits)

lemma cvd_frame: "cvd_run n s = Inr s' \<Longrightarrow> \<exists>x. s' = s\<lparr>ag_cvd := x\<rparr>"
proof -
  have "\<exists>x. s = s\<lparr>ag_cvd := x\<rparr>" by (rule exI [of _ "ag_cvd s"]) simp
  then show "cvd_run n s = Inr s' \<Longrightarrow> \<exists>x. s' = s\<lparr>ag_cvd := x\<rparr>"
    by (auto simp: cvd_run_def Let_def bindE_Inr_iff split: if_splits)
qed

lemma setup_frame: "setup_run cfg s = Inr s' \<Longrightarrow> \<exists>x. s' = s\<lparr>ag_setup := x\<rparr>"
  by (auto simp: setup_run_def Let_def bindE_Inr_iff split: if_splits option.splits)

lemma journal_frame:
  "journal_run ev s j = (s', j') \<Longrightarrow> ag_order s' = ag_order s \<and> ag_derivatives s' = ag_derivatives s
     \<and> ag_candles s' = ag_candles s \<and> me_last_trade_bar (ag_meta s') = me_last_trade_bar (ag_meta s)"
  by (auto simp: journal_run_def open_plan_def Let_def split: prod.splits option.splits if_splits
      agent_order.splits)

lemma journal_idle:
  "\<not> order_go (ag_order s) \<Longrightarrow> ag_trade_id s = None \<Longrightarrow> journal_run ev s j = (s, j)"
  by (cases "ag_order s") (auto simp: journal_run_def open_plan_def)

lemma risk_gate_result:
  "\<not> order_go (ag_order (risk_gate_run s)) \<or> blockers (state_flags (risk_gate_run s)) = []"
  by (simp add: risk_gate_run_def Let_def)

section \<open>Gates\<close>

text \<open>Whatever the step's outcome, the order it leaves when the derivatives flags contain a
  blocker (a NO_TRADE or HALT flag) is not a go, so the broker was handed no order.\<close>

theorem blocked_flags_stop_orders:
  assumes "supervisor_step c skip (sv, s) = (Inr (), (sv', s'))"
    and "blockers (state_flags s') \<noteq> []"
  shows "\<not> order_go (ag_order s')"
proof -
  from assms(1) obtain sv1 s1 sv2 s2 ev j where
    g: "\<not> order_go (ag_order s1) \<or> blockers (state_flags s1) = []"
    and t: "trade_bar c skip (sv1, s1) = (Inr ev, (sv2, s2))"
    and j: "\<exists>cs. journal_run \<lparr>se_fills = evs_fills ev, se_exits = evs_exits ev, se_cancels = cs\<rparr> s2 (sp_journal sv2)
      = (s', j)"
    unfolding supervisor_step_unfold
    by (elim bindS_cases) (use risk_gate_result in \<open>force simp: on_state_def bindE_Inr_iff modifyS_def
      split: prod.splits sum.splits\<close>)+
  have "s2 = s1" using t by (auto simp: trade_bar_def split: if_splits prod.splits)
  with g j assms(2) show ?thesis
    using journal_frame by (fastforce simp: state_flags_def)
qed

definition calm_candle :: candle where
  "calm_candle = \<lparr>c_ts = ''1'', c_open = 100, c_high = 102, c_low = 98, c_close = 100, c_volume = 10\<rparr>"

definition sweep_candle :: candle where
  "sweep_candle = \<lparr>c_ts = ''2'', c_open = 99, c_high = 100, c_low = 97, c_close = 99, c_volume = 10\<rparr>"

definition hot_funding :: snapshot where
  "hot_funding = \<lparr>sn_funding_8h = Some (1 / 2), sn_open_interest = None, sn_basis = None, sn_error = None,
     sn_cached = False\<rparr>"

definition sample_setups :: setup_cfg where
  "sample_setups = \<lparr>sc_pullback_enabled = False, sc_entry_band_pct = 1 / 1000, sc_pullback_stop_mult = 3 / 2,
     sc_pullback_tp_mult = 2, sc_sweep_enabled = True, sc_lookback_bars = 1, sc_require_cvd = False,
     sc_min_vol_ratio = 1 / 2, sc_sweep_stop_mult = 1 / 2\<rparr>"

definition sample_supervisor :: supervisor where
  "sample_supervisor = \<lparr>sp_limits = std_limits, sp_overrides = Map.empty, sp_cvd_lookback = 20,
     sp_setups = sample_setups, sp_risk = \<lparr>rc_rr_min = 0, rc_equity = 10000, rc_risk_pct = 1\<rparr>,
     sp_info = \<lparr>ii_lot_size = Some (1 / 1000), ii_min_notional = Some 5\<rparr>, sp_pending_max = 24,
     sp_min_history = 100, sp_deriv = new_deriv_agent (Some (\<lambda>k. Inr hot_funding)) Map.empty 6,
     sp_broker = sample_broker, sp_journal = \<lparr>jn_lines = [], jn_ids = \<lambda>k. ''PT''\<rparr>\<rparr>"

definition sample_state :: agent_state where
  "sample_state = \<lparr>ag_instrument = ''BTCUSDT'', ag_candles = [calm_candle], ag_context = None,
     ag_derivatives = None, ag_setup = None, ag_cvd = None, ag_order = EmptyOrder, ag_trade_id = None,
     ag_pending_bars = 0, ag_meta = \<lparr>me_last_trade_bar = - 10, me_last_plan_key = None\<rparr>\<rparr>"

definition filled_state :: agent_state where
  "filled_state = sample_state\<lparr>ag_candles := [calm_candle, sweep_candle]\<rparr>"

definition sample_context :: market_context where
  "sample_context = \<lparr>mc_price = 99, mc_trend = TrendUnknown, mc_regime = RegimeUnknown, mc_ema20 = None,
     mc_ema50 = None, mc_swing_high = Some 102, mc_swing_low = Some 97, mc_eq_high = None,
     mc_eq_low = None, mc_bullets = [TrendRegime TrendUnknown RegimeUnknown, SwingRange 97 102],
     mc_atr = None, mc_atr_pct = None\<rparr>"

lemma sample_supervisor_fields:
  "sp_limits sample_supervisor = std_limits" "sp_overrides sample_supervisor = Map.empty"
  "sp_cvd_lookback sample_supervisor = 20" "sp_setups sample_supervisor = sample_setups"
  "sp_pending_max sample_supervisor = 24"
  by (simp_all add: sample_supervisor_def)

lemma sample_take:
  "take_candle sweep_candle (sample_supervisor, sample_state) = (Inr (), (sample_supervisor, filled_state))"
  by (simp add: take_candle_def modifyS_def max_keep_def sample_supervisor_def sample_state_def filled_state_def)

lemma sample_intake: "market_intake_run Map.empty filled_state = Inr (filled_state\<lparr>ag_context := Some sample_context\<rparr>)"
  by (simp add: market_intake_run_def filled_state_def sample_state_def calm_candle_def sweep_candle_def
      ema_def atr_def swing_high_low_def equal_level_def py_max_def py_min_def classify_trend_def
      classify_regime_def Let_def sample_context_def)

lemma sample_derivatives:
  "\<exists>d. derivatives_run (sp_deriv sample_supervisor) s = (Inr (s\<lparr>ag_derivatives := Some
     \<lparr>dv_snapshot = hot_funding, dv_flags = [''HALT_funding_extreme'']\<rparr>\<rparr>), d)"
  by (simp add: derivatives_run_def sample_supervisor_def new_deriv_agent_def next_snapshot_def
      hot_funding_def funding_flags_def Let_def)

lemma sample_setup:
  assumes "ag_candles s = [calm_candle, sweep_candle]" "ag_context s = Some sample_context"
  shows "setup_run sample_setups s = Inr (s\<lparr>ag_setup := Some (sweep_reclaim ''sweep_reclaim_long'' LONG 99
     (98 - 99 * 0.004 / 2) (298 / 3) 98 (case ag_cvd s of None \<Rightarrow> False | Some r \<Rightarrow> cv_divergence r = Bullish))\<rparr>)"
  using assms
  by (simp add: setup_run_def sample_context_def sample_setups_def atr_def sweep_setup_def
      detect_sweep_def sweep_choice_def calm_candle_def sweep_candle_def py_max_def py_min_def no_sweep_def ema_def
      avg_volume_def vwap_def Let_def last_n_def split: option.splits)

lemma sample_resolve: "\<exists>r. size_order std_limits p ty entry = Inr r" if "pl_lot_step p = 1 / 1000"
  using that by (simp add: size_order_def floor_to_step_def Let_def)

lemma sample_bar:
  "b_pos b = None \<Longrightarrow> b_working_orders b = [] \<Longrightarrow> on_candle L c None tk b = (Inr \<lparr>evs_fills = [], evs_exits = []\<rparr>, b)"
  by (simp add: on_candle_def bindS_def process_working_orders_def process_loop.simps)

lemma halt_blocks: "blockers [''HALT_funding_extreme''] = [''HALT_funding_extreme'']"
  by code_simp

lemma sample_step:
  "\<exists>w'. supervisor_step sweep_candle False (sample_supervisor, sample_state) = (Inr (), w')
     \<and> state_flags (snd w') = [''HALT_funding_extreme'']"
proof -
  define s1 where "s1 = filled_state\<lparr>ag_context := Some sample_context\<rparr>"
  obtain d where d: "derivatives_run (sp_deriv sample_supervisor) s1 = (Inr (s1\<lparr>ag_derivatives := Some
     \<lparr>dv_snapshot = hot_funding, dv_flags = [''HALT_funding_extreme'']\<rparr>\<rparr>), d)"
    using sample_derivatives by blast
  define s2 where "s2 = s1\<lparr>ag_derivatives := Some
     \<lparr>dv_snapshot = hot_funding, dv_flags = [''HALT_funding_extreme'']\<rparr>\<rparr>"
  define sv where "sv = sample_supervisor\<lparr>sp_deriv := d\<rparr>"
  have svf: "sp_limits sv = std_limits" "sp_cvd_lookback sv = 20" "sp_setups sv = sample_setups"
    "sp_pending_max sv = 24"
    by (simp_all add: sv_def sample_supervisor_fields)
  have c2: "cvd_run 20 s2 = Inr s2"
    by (simp add: cvd_run_def s2_def s1_def filled_state_def)
  have "ag_candles s2 = [calm_candle, sweep_candle]" "ag_context s2 = Some sample_context" "ag_cvd s2 = None"
    by (simp_all add: s2_def s1_def filled_state_def sample_state_def)
  from sample_setup [OF this(1,2)] this(3) obtain su where
    su: "setup_run sample_setups s2 = Inr (s2\<lparr>ag_setup := Some su\<rparr>)"
    "su = sweep_reclaim ''sweep_reclaim_long'' LONG 99 (98 - 99 * 0.004 / 2) (298 / 3) 98 False" by auto
  define s3 where "s3 = s2\<lparr>ag_setup := Some su\<rparr>"
  define s4 where "s4 = execution_risk_run (sp_risk sv) (sp_info sv) s3"
  have s4: "\<exists>p. s4 = s3\<lparr>ag_order := Plan p\<rparr> \<and> pl_pending_trigger p \<and> pl_lot_step p = 1 / 1000
      \<and> pl_entry_type p = ''market'' \<and> pl_entry p = None \<and> pl_setup p = su"
    by (simp add: s4_def s3_def s2_def s1_def filled_state_def sample_state_def execution_risk_run_def
        su(2) sweep_reclaim_def state_flags_def sv_def sample_supervisor_def Let_def)
  then obtain p where p: "s4 = s3\<lparr>ag_order := Plan p\<rparr>" "pl_pending_trigger p" "pl_lot_step p = 1 / 1000"
    "pl_entry_type p = ''market''" "pl_entry p = None" "pl_setup p = su" by blast
  define s5 where "s5 = s4\<lparr>ag_pending_bars := 1\<rparr>"
  have s5: "pending_trigger sweep_candle 24 s4 = ([], s5)"
    using p by (simp add: pending_trigger_def s5_def s3_def s2_def s1_def filled_state_def sample_state_def Let_def)
  obtain r where "size_order std_limits p ''market'' 99 = Inr r" using sample_resolve [OF p(3)] by blast
  then have r: "resolve_order std_limits (ag_order s5) sweep_candle = Inr r"
    using p by (simp add: resolve_order_def s5_def su(2) sweep_reclaim_def sweep_candle_def)
  define s6 where "s6 = risk_gate_run (s5\<lparr>ag_order := as_agent_order r\<rparr>)"
  have fl: "state_flags s6 = [''HALT_funding_extreme'']"
    using p(1) by (simp add: s6_def risk_gate_run_def state_flags_def s5_def s3_def s2_def Let_def)
  with fl halt_blocks have ng: "\<not> order_go (ag_order s6)" using risk_gate_result [of "s5\<lparr>ag_order := as_agent_order r\<rparr>"]
    by (auto simp: s6_def)
  then have bo: "broker_order (ag_order s6) = None" by (cases "ag_order s6") (auto simp: broker_order_def)
  have tid: "ag_trade_id s6 = None"
    using p(1) by (simp add: s6_def risk_gate_run_def s5_def s3_def s2_def s1_def filled_state_def sample_state_def Let_def)
  have bar: "trade_bar sweep_candle False (sv, s6) = (Inr \<lparr>evs_fills = [], evs_exits = []\<rparr>, (sv, s6))"
    using bo by (simp add: trade_bar_def sample_bar sv_def sample_supervisor_def)
  have "supervisor_step sweep_candle False (sample_supervisor, sample_state) =
      (Inr (), (sv\<lparr>sp_journal := sp_journal sv\<rparr>, s6))"
    using d c2 su(1) s5 r bar journal_idle [OF ng tid]
    by (simp add: supervisor_step_unfold bindS_def sample_take on_state_def sample_intake run_derivatives_def
        modifyS_def s1_def [symmetric] s2_def [symmetric] s3_def [symmetric] s4_def [symmetric]
        s6_def [symmetric] sv_def [symmetric] svf sample_supervisor_fields)
  with fl show ?thesis by auto
qed

theorem blocked_flags_stop_orders_witness:
  "\<exists>w'. supervisor_step sweep_candle False (sample_supervisor, sample_state) = (Inr (), w')
     \<and> \<not> order_go (ag_order (snd w'))"
proof -
  obtain sv' s' where w: "supervisor_step sweep_candle False (sample_supervisor, sample_state) = (Inr (), (sv', s'))"
    and f: "state_flags s' = [''HALT_funding_extreme'']" using sample_step by force
  have "blockers (state_flags s') \<noteq> []" by (simp add: f halt_blocks)
  from blocked_flags_stop_orders [OF w this] w show ?thesis by auto
qed

text \<open>With the thresholds of the shipped strategies, where no extreme threshold is configured and
  the other two are above its default of 0.001, the half-size and no-trade flags never appear:
  any funding that would reach them is flagged as a halt.\<close>

theorem funding_tiers_are_shadowed:
  assumes "gates ''extreme_funding_8h'' = None"
    and "gates ''no_trade_funding_8h'' = Some n" "0.001 \<le> n"
    and "gates ''half_size_funding_8h'' = Some h" "0.001 \<le> h"
  shows "funding_flags gates f = Inr (case f of None \<Rightarrow> [''funding_missing'']
    | Some x \<Rightarrow> if 0.001 \<le> \<bar>x\<bar> then [''HALT_funding_extreme''] else [])"
  using assms by (auto simp: funding_flags_def gate_def split: option.splits)

theorem funding_tiers_are_shadowed_witness:
  "funding_flags [''no_trade_funding_8h'' \<mapsto> 0.05, ''half_size_funding_8h'' \<mapsto> 0.03] (Some 0.04)
     = Inr [''HALT_funding_extreme'']"
  using funding_tiers_are_shadowed [of "[''no_trade_funding_8h'' \<mapsto> 0.05, ''half_size_funding_8h'' \<mapsto> 0.03]"
      "0.05" "0.03" "Some 0.04"] by simp

text \<open>The gate's limit of two percent on the requested risk never applies to the orders the
  supervisor passes to it: resolving an order drops the requested percentage, so without blocking
  flags the gate returns its state unchanged whatever the plan asked for.\<close>

theorem risk_percentage_gate_is_dead:
  assumes "resolve_order L (Plan p) c = Inr r" "blockers (state_flags s) = []"
  shows "risk_gate_run (s\<lparr>ag_order := as_agent_order r\<rparr>) = s\<lparr>ag_order := as_agent_order r\<rparr>"
proof -
  have "state_flags (s\<lparr>ag_order := o'\<rparr>) = state_flags s" for o' by (simp add: state_flags_def)
  with assms(2) show ?thesis
    by (cases r) (simp_all add: risk_gate_run_def as_agent_order_def Let_def)
qed

theorem risk_percentage_gate_is_dead_witness:
  "risk_gate_run (sample_state\<lparr>ag_order := as_agent_order (Some \<lparr>rs_side = LONG,
     rs_entry_type = ''market'', rs_entry = 100, rs_sl = 99, rs_tp = 97, rs_qty = 100, rs_rr = 3,
     rs_setup = ''NONE''\<rparr>)\<rparr>)
   = sample_state\<lparr>ag_order := as_agent_order (Some \<lparr>rs_side = LONG,
     rs_entry_type = ''market'', rs_entry = 100, rs_sl = 99, rs_tp = 97, rs_qty = 100, rs_rr = 3,
     rs_setup = ''NONE''\<rparr>)\<rparr>"
proof -
  have "resolve_order std_limits (Plan sample_plan) (calm_candle) = Inr (Some \<lparr>rs_side = LONG,
     rs_entry_type = ''market'', rs_entry = 100, rs_sl = 99, rs_tp = 97, rs_qty = 100, rs_rr = 3,
     rs_setup = ''NONE''\<rparr>)"
    using sample_plan_sized by (simp add: resolve_order_def sample_plan_def no_setup_def calm_candle_def)
  moreover have "blockers (state_flags sample_state) = []"
    by (simp add: state_flags_def sample_state_def blockers_def)
  ultimately show ?thesis by (rule risk_percentage_gate_is_dead)
qed

section \<open>The cooldown\<close>

text \<open>The candle buffer is full and the last trade was recorded at its full length.\<close>

definition cooldown_trap :: "supervisor \<Rightarrow> agent_state \<Rightarrow> bool" where
  "cooldown_trap sv s \<longleftrightarrow> length (ag_candles s) = max_keep sv
     \<and> me_last_trade_bar (ag_meta s) = int (max_keep sv) \<and> ag_trade_id s = None
     \<and> \<not> order_go (ag_order s)"

lemma trap_context [simp]:
  "cooldown_trap sv (s\<lparr>ag_context := x1\<rparr>) = cooldown_trap sv s"
  "cooldown_trap sv (s\<lparr>ag_derivatives := x2\<rparr>) = cooldown_trap sv s"
  "cooldown_trap sv (s\<lparr>ag_cvd := x3\<rparr>) = cooldown_trap sv s"
  "cooldown_trap sv (s\<lparr>ag_setup := x4\<rparr>) = cooldown_trap sv s"
  "cooldown_trap (sv\<lparr>sp_deriv := x5\<rparr>) s = cooldown_trap sv s"
  "cooldown_trap (sv\<lparr>sp_broker := x6\<rparr>) s = cooldown_trap sv s"
  "cooldown_trap (sv\<lparr>sp_journal := x7\<rparr>) s = cooldown_trap sv s"
  by (simp_all add: cooldown_trap_def max_keep_def)

lemma trap_risk: "cooldown_trap sv s \<Longrightarrow> cooldown_trap sv (execution_risk_run cfg info s)"
  by (auto simp: cooldown_trap_def execution_risk_run_def Let_def split: option.splits)

lemma trap_pending:
  "cooldown_trap sv s \<Longrightarrow> pending_trigger c n s = (cs, s') \<Longrightarrow> cooldown_trap sv s'"
  by (cases "ag_order s") (auto simp: pending_trigger_def cooldown_trap_def)

lemma trap_gate:
  "cooldown_trap sv s \<Longrightarrow> resolve_order L (ag_order s) c = Inr r
     \<Longrightarrow> cooldown_trap sv (risk_gate_run (s\<lparr>ag_order := as_agent_order r\<rparr>))"
  by (cases "ag_order s") (auto simp: resolve_order_def as_agent_order_def risk_gate_run_def cooldown_trap_def)

lemma bindS_invariant:
  assumes "bindS m f w = (r, w')" "T w" "\<And>q w1. m w = (q, w1) \<Longrightarrow> T w1"
    and "\<And>a w1. m w = (Inr a, w1) \<Longrightarrow> T w1 \<Longrightarrow> f a w1 = (r, w') \<Longrightarrow> T w'"
  shows "T w'"
  using assms by (elim bindS_cases) auto

abbreviation trapped :: "world \<Rightarrow> bool" where
  "trapped w \<equiv> cooldown_trap (fst w) (snd w)"

lemma trap_on_state:
  assumes "on_state f w = (r, w')" "trapped w" "\<And>s'. f (snd w) = Inr s' \<Longrightarrow> cooldown_trap (fst w) s'"
  shows "trapped w'"
  using assms by (auto simp: on_state_def split: prod.splits sum.splits)

lemma trap_step:
  assumes "supervisor_step c skip w = (r, w')" "trapped w"
  shows "trapped w'"
  using assms unfolding supervisor_step_unfold
proof (elim bindS_invariant [where T = trapped])
  fix q w1 assume "take_candle c w = (q, w1)" "trapped w"
  then show "trapped w1"
    by (auto simp: take_candle_def modifyS_def cooldown_trap_def max_keep_def split: prod.splits)
next
  show "trapped w2" if "on_state (market_intake_run (sp_overrides (fst w1))) w1 = (q, w2)" "trapped w1" for w1 w2 q
    using that by (rule trap_on_state) (use that(2) in \<open>auto dest!: market_intake_frame\<close>)
  show "trapped w2" if "run_derivatives w1 = (q, w2)" "trapped w1" for w1 w2 q
    using that by (auto simp: run_derivatives_def dest!: derivatives_frame split: prod.splits sum.splits)
  show "trapped w2" if "on_state (cvd_run (sp_cvd_lookback (fst w1))) w1 = (q, w2)" "trapped w1" for w1 w2 q
    using that by (rule trap_on_state) (use that(2) in \<open>auto dest!: cvd_frame\<close>)
  show "trapped w2" if "on_state (setup_run (sp_setups (fst w1))) w1 = (q, w2)" "trapped w1" for w1 w2 q
    using that by (rule trap_on_state) (use that(2) in \<open>auto dest!: setup_frame\<close>)
  show "trapped w2" if "modifyS (\<lambda>(sv, s). (sv, execution_risk_run (sp_risk sv) (sp_info sv) s)) w1 = (q, w2)"
    "trapped w1" for w1 w2 q
    using that by (auto simp: modifyS_def trap_risk split: prod.splits)
  show "trapped w2" if "(case w1 of (sv, s) \<Rightarrow> let (cancels, s') = pending_trigger c (sp_pending_max sv) s
      in (Inr cancels, sv, s')) = (q, w2)" "trapped w1" for w1 w2 q
    using that by (auto split: prod.splits dest: trap_pending)
  show "trapped w2" if "on_state (\<lambda>s. bindE (resolve_order (sp_limits (fst w1)) (ag_order s) c)
      (\<lambda>r. Inr (risk_gate_run (s\<lparr>ag_order := as_agent_order r\<rparr>)))) w1 = (q, w2)" "trapped w1" for w1 w2 q
    using that by (rule trap_on_state) (use that(2) in \<open>auto simp: bindE_Inr_iff intro: trap_gate\<close>)
  show "trapped w2" if "trade_bar c skip w1 = (q, w2)" "trapped w1" for w1 w2 q
    using that by (auto simp: trade_bar_def split: if_splits prod.splits)
  show "trapped w2" if "trapped w1" "modifyS (\<lambda>(sv, s). let (s', j) = journal_run \<lparr>se_fills = evs_fills ev,
      se_exits = evs_exits ev, se_cancels = cs\<rparr> s (sp_journal sv) in (sv\<lparr>sp_journal := j\<rparr>, s')) w1 = (q, w2)"
    for w1 w2 q ev cs
    using that journal_idle [of "snd w1"]
    by (auto simp: modifyS_def split: prod.splits) (simp_all add: cooldown_trap_def)
qed auto

text \<open>C34: The cooldown after a trade never ends once the candle buffer is full: in a state whose
  buffer holds as many candles as are kept, with the last trade recorded at that length and no trade
  running, no step on any later candles ever hands the broker an order.\<close>

theorem cooldown_never_ends:
  assumes "cooldown_trap sv s"
  shows "\<not> order_go (ag_order (snd (fold (\<lambda>c w. snd (supervisor_step c skip w)) cs (sv, s))))"
proof -
  have "trapped w \<Longrightarrow> trapped (fold (\<lambda>c w. snd (supervisor_step c skip w)) cs w)" for w
  proof (induction cs arbitrary: w)
    case (Cons c cs)
    from trap_step [OF prod.collapse [symmetric] Cons.prems, of c skip] show ?case by (simp add: Cons.IH)
  qed simp
  from this [of "(sv, s)"] assms show ?thesis by (simp add: cooldown_trap_def)
qed

theorem cooldown_never_ends_witness:
  "\<not> order_go (ag_order (snd (fold (\<lambda>c w. snd (supervisor_step c False w)) [sweep_candle, calm_candle]
     (sample_supervisor, sample_state\<lparr>ag_candles := replicate 800 calm_candle,
        ag_meta := \<lparr>me_last_trade_bar = 800, me_last_plan_key = None\<rparr>\<rparr>))))"
  by (rule cooldown_never_ends) (simp add: cooldown_trap_def max_keep_def sample_supervisor_def sample_state_def)

section \<open>Setups\<close>

lemma sweep_setup_choice:
  assumes "sweep_setup cfg s price a = Inr su" "su_name su \<noteq> ''NONE''"
  shows "\<exists>sweep v up down vol d. detect_sweep (ag_candles s) (sc_lookback_bars cfg) = Inr sweep
    \<and> sw_reclaimed sweep \<and> sweep_choice cfg (sw_swept sweep)
        (case sw_level sweep of None \<Rightarrow> 0 | Some l \<Rightarrow> l) price a v up down vol d = su"
proof -
  from assms(1) obtain sweep where d: "detect_sweep (ag_candles s) (sc_lookback_bars cfg) = Inr sweep"
    by (auto simp: sweep_setup_def Let_def bindE_Inr_iff)
  have "sw_reclaimed sweep"
    by (rule ccontr) (use assms d in \<open>auto simp: sweep_setup_def Let_def no_setup_def\<close>)
  with d assms(1) show ?thesis
    unfolding sweep_setup_def Let_def by (simp split del: if_split) blast
qed

lemma sweep_choice_cases:
  assumes "sweep_choice cfg swept level price a v up down vol d = su" "su_name su \<noteq> ''NONE''"
  obtains (low) b where "swept = Some SweptLow"
      "su = sweep_reclaim ''sweep_reclaim_long'' LONG price (level - a * sc_sweep_stop_mult cfg) v level b"
  | (high) b where "swept = Some SweptHigh"
      "su = sweep_reclaim ''sweep_reclaim_short'' SHORT price (level + a * sc_sweep_stop_mult cfg) v level b"
  using assms by (auto simp: sweep_choice_def no_setup_def split: option.splits sweep_side.splits if_splits)

text \<open>Every setup the signal agent chooses has its stop strictly on the losing side of its entry,
  and a pullback also has its target strictly on the winning side, whenever the price is positive
  and the last close, and the configured multipliers are positive.\<close>

theorem setup_stops_are_protective:
  assumes "setup_run cfg s = Inr s'" "ag_setup s' = Some su" "su_name su \<noteq> ''NONE''"
    and "ag_context s = Some ctx" "0 < mc_price ctx" "mc_price ctx = c_close (last (ag_candles s))"
    and "0 < sc_pullback_stop_mult cfg" "0 < sc_pullback_tp_mult cfg" "0 < sc_sweep_stop_mult cfg"
  shows "\<exists>e. su_entry su = Some e
    \<and> (su_side su = LONG \<and> su_sl su < e \<or> su_side su = SHORT \<and> e < su_sl su)
    \<and> (su_name su = ''pullback_ribbon'' \<longrightarrow>
         su_side su = LONG \<and> e < su_tp su \<or> su_side su = SHORT \<and> su_tp su < e)"
proof -
  define pick where "pick = (\<lambda>a. if sc_pullback_enabled cfg \<and> truthy (mc_ema20 ctx)
      \<and> (mc_trend ctx = TrendUp \<or> mc_trend ctx = TrendDown)
    then Inr (s\<lparr>ag_setup := Some (pullback_setup cfg (mc_price ctx) (the (mc_ema20 ctx)) a (mc_trend ctx))\<rparr>)
    else if sc_sweep_enabled cfg
    then bindE (sweep_setup cfg s (mc_price ctx) a) (\<lambda>st. Inr (s\<lparr>ag_setup := Some st\<rparr>))
    else Inr (s\<lparr>ag_setup := Some (no_setup ''no_conditions'')\<rparr>))"
  obtain a where "(if a / mc_price ctx < 0.0001 then Inr (s\<lparr>ag_setup := Some (no_setup ''low_volatility'')\<rparr>)
      else pick a) = Inr s'"
    unfolding pick_def using assms(1,4,5)
    by (auto simp: setup_run_def Let_def bindE_Inr_iff split del: if_split)
  with assms(2,3) have a: "\<not> a / mc_price ctx < 0.0001" and c: "pick a = Inr s'"
    by (auto simp: no_setup_def split: if_splits)
  from c assms(2,3) have su: "su = pullback_setup cfg (mc_price ctx) (the (mc_ema20 ctx)) a (mc_trend ctx)
      \<or> sweep_setup cfg s (mc_price ctx) a = Inr su"
    by (auto simp: pick_def bindE_Inr_iff no_setup_def split: if_splits)
  have "0.0001 * mc_price ctx \<le> a" using a assms(5) by (simp add: not_less pos_le_divide_eq)
  moreover have "0 < 0.0001 * mc_price ctx" using assms(5) by simp
  ultimately have a0: "0 < a" by (rule order_less_le_trans [rotated])
  from su show ?thesis
  proof
    assume "su = pullback_setup cfg (mc_price ctx) (the (mc_ema20 ctx)) a (mc_trend ctx)"
    then show ?thesis using mult_pos_pos [OF a0 assms(7)] assms(8)
      by (cases "mc_trend ctx = TrendUp") (simp_all add: pullback_setup_def Let_def)
  next
    assume sw: "sweep_setup cfg s (mc_price ctx) a = Inr su"
    from sweep_setup_choice [OF this assms(3)] obtain sweep
      where d: "detect_sweep (ag_candles s) (sc_lookback_bars cfg) = Inr sweep" "sw_reclaimed sweep"
      and ch: "\<exists>v up down vol d. sweep_choice cfg (sw_swept sweep)
        (case sw_level sweep of None \<Rightarrow> 0 | Some l \<Rightarrow> l) (mc_price ctx) a v up down vol d = su"
      by blast
    from detect_sweep_reclaimed [OF d] obtain lvl where lvl: "sw_level sweep = Some lvl"
      "(sw_swept sweep = Some SweptHigh \<and> mc_price ctx < lvl) \<or> (sw_swept sweep = Some SweptLow \<and> lvl < mc_price ctx)"
      using assms(6) by auto
    have m: "0 < a * sc_sweep_stop_mult cfg" using a0 assms(9) by simp
    from ch obtain v up down vol dv where
      "sweep_choice cfg (sw_swept sweep) lvl (mc_price ctx) a v up down vol dv = su"
      using lvl(1) by auto
    then show ?thesis using assms(3)
    proof (cases rule: sweep_choice_cases)
      case (low b)
      with lvl(2) m show ?thesis by (simp add: sweep_reclaim_def)
    next
      case (high b)
      with lvl(2) m show ?thesis by (simp add: sweep_reclaim_def)
    qed
  qed
qed

theorem setup_stops_are_protective_witness:
  "\<exists>e su. setup_run sample_setups (filled_state\<lparr>ag_context := Some sample_context\<rparr>)
       = Inr (filled_state\<lparr>ag_context := Some sample_context, ag_setup := Some su\<rparr>)
     \<and> su_entry su = Some e \<and> su_sl su < e"
proof -
  let ?s = "filled_state\<lparr>ag_context := Some sample_context\<rparr>"
  have f: "ag_candles ?s = [calm_candle, sweep_candle]" "ag_context ?s = Some sample_context"
    by (simp_all add: filled_state_def)
  obtain su where su: "setup_run sample_setups ?s = Inr (?s\<lparr>ag_setup := Some su\<rparr>)"
    "su_name su \<noteq> ''NONE''" "su_side su = LONG"
    using sample_setup [OF f] by (auto simp: sweep_reclaim_def)
  have "\<exists>e. su_entry su = Some e \<and> (su_side su = LONG \<and> su_sl su < e \<or> su_side su = SHORT \<and> e < su_sl su)
    \<and> (su_name su = ''pullback_ribbon'' \<longrightarrow>
         su_side su = LONG \<and> e < su_tp su \<or> su_side su = SHORT \<and> su_tp su < e)"
    by (rule setup_stops_are_protective [OF su(1) _ su(2) f(2)])
      (simp_all add: f sample_context_def sample_setups_def sweep_candle_def filled_state_def)
  with su show ?thesis by auto
qed

end
