(* ===== verification/Resilience.thy ===== *)
theory Resilience
  imports Py_Prelude
begin

text \<open>
  The guards around calls to the exchange: \<^verbatim>\<open>resilience/error_circuit_breaker.py\<close> (a breaker that
  trips on a burst of failures), \<^verbatim>\<open>resilience/retry.py\<close> (retry with exponential back-off) and
  \<^verbatim>\<open>core/rate_limiter.py\<close> (a token bucket that hands out slots). Every reading of the clock is an
  argument; the breaker is also a step relation over the readings, for what holds of any
  interleaving of its operations.
\<close>

section \<open>The circuit breaker\<close>

datatype breaker_state = CLOSED | OPEN | HALF_OPEN

record breaker =
  failure_threshold :: nat
  recovery_timeout :: real
  time_window :: real
  failures :: "real list"
  br_state :: breaker_state
  opened_at :: real

definition init_breaker :: "nat \<Rightarrow> real \<Rightarrow> real \<Rightarrow> breaker" where
  "init_breaker threshold timeout window =
     \<lparr>failure_threshold = threshold, recovery_timeout = timeout, time_window = window,
      failures = [], br_state = CLOSED, opened_at = 0\<rparr>"

definition prune_failures :: "real \<Rightarrow> breaker \<Rightarrow> breaker" where
  "prune_failures now b = b\<lparr>failures := filter (\<lambda>t. now - t \<le> time_window b) (failures b)\<rparr>"

definition trip :: "real \<Rightarrow> breaker \<Rightarrow> breaker" where
  "trip now b = (if br_state b \<noteq> OPEN then b\<lparr>br_state := OPEN, opened_at := now\<rparr> else b)"

definition reset :: "breaker \<Rightarrow> breaker" where
  "reset b = b\<lparr>br_state := CLOSED, failures := []\<rparr>"

text \<open>\<open>record_failure\<close> reads the clock, and \<open>_trip\<close> reads it again.\<close>

definition record_failure :: "real \<Rightarrow> real \<Rightarrow> breaker \<Rightarrow> breaker" where
  "record_failure now now' b =
     (let b1 = prune_failures now (b\<lparr>failures := failures b @ [now]\<rparr>)
      in if failure_threshold b1 \<le> length (failures b1) then trip now' b1 else b1)"

definition record_success :: "breaker \<Rightarrow> breaker" where
  "record_success b = (if br_state b = HALF_OPEN then reset b else b)"

definition allow_request :: "real \<Rightarrow> breaker \<Rightarrow> bool \<times> breaker" where
  "allow_request now b =
     (case br_state b of
        CLOSED \<Rightarrow> (True, b)
      | OPEN \<Rightarrow> (if recovery_timeout b < now - opened_at b then (True, b\<lparr>br_state := HALF_OPEN\<rparr>)
                 else (False, b))
      | HALF_OPEN \<Rightarrow> (True, b))"

text \<open>
  A configuration is the last reading of the clock, the breaker, and, as a ghost, every failure
  since the breaker was last closed. Operations may come in any order; the clock never goes back.
\<close>

record breaker_run =
  clock :: real
  brk :: breaker
  since_reset :: "real list"

inductive breaker_step :: "breaker_run \<Rightarrow> breaker_run \<Rightarrow> bool" where
  step_failure: "clock c \<le> now \<Longrightarrow> now \<le> now' \<Longrightarrow>
     breaker_step c \<lparr>clock = now', brk = record_failure now now' (brk c),
       since_reset = since_reset c @ [now]\<rparr>"
| step_success: "breaker_step c \<lparr>clock = clock c, brk = record_success (brk c),
     since_reset = (if br_state (brk c) = HALF_OPEN then [] else since_reset c)\<rparr>"
| step_request: "clock c \<le> now \<Longrightarrow>
     breaker_step c \<lparr>clock = now, brk = snd (allow_request now (brk c)),
       since_reset = since_reset c\<rparr>"

definition breaker_reachable :: "nat \<Rightarrow> real \<Rightarrow> real \<Rightarrow> breaker_run \<Rightarrow> bool" where
  "breaker_reachable threshold timeout window c \<longleftrightarrow>
     breaker_step\<^sup>*\<^sup>* \<lparr>clock = 0, brk = init_breaker threshold timeout window, since_reset = []\<rparr> c"

text \<open>How many failures the \<open>n\<close>th one finds within the window that it ends, itself included.\<close>

definition burst_at :: "real \<Rightarrow> real list \<Rightarrow> nat \<Rightarrow> nat" where
  "burst_at window fs n = length (filter (\<lambda>f. fs ! n - f \<le> window) (take (Suc n) fs))"

subsection \<open>The breaker's invariant\<close>

definition breaker_inv :: "nat \<Rightarrow> real \<Rightarrow> real \<Rightarrow> breaker_run \<Rightarrow> bool" where
  "breaker_inv threshold timeout window c \<longleftrightarrow>
     failure_threshold (brk c) = threshold \<and> recovery_timeout (brk c) = timeout
     \<and> time_window (brk c) = window
     \<and> sorted (since_reset c)
     \<and> (\<forall>f\<in>set (since_reset c). f \<le> clock c)
     \<and> (since_reset c \<noteq> [] \<longrightarrow>
          failures (brk c) = filter (\<lambda>f. last (since_reset c) - f \<le> window) (since_reset c))
     \<and> (since_reset c = [] \<longrightarrow> failures (brk c) = [])
     \<and> (br_state (brk c) = CLOSED \<longrightarrow>
          (\<forall>n < length (since_reset c). burst_at window (since_reset c) n < threshold))
     \<and> (br_state (brk c) = OPEN \<longrightarrow> opened_at (brk c) \<le> clock c)"

lemma prune_failures_simps [simp]:
  "failure_threshold (prune_failures now b) = failure_threshold b"
  "recovery_timeout (prune_failures now b) = recovery_timeout b"
  "time_window (prune_failures now b) = time_window b"
  "br_state (prune_failures now b) = br_state b"
  "opened_at (prune_failures now b) = opened_at b"
  "failures (prune_failures now b) = filter (\<lambda>t. now - t \<le> time_window b) (failures b)"
  by (simp_all add: prune_failures_def)

lemma trip_simps [simp]:
  "failure_threshold (trip now b) = failure_threshold b"
  "recovery_timeout (trip now b) = recovery_timeout b"
  "time_window (trip now b) = time_window b"
  "br_state (trip now b) = OPEN"
  "failures (trip now b) = failures b"
  "opened_at (trip now b) = (if br_state b = OPEN then opened_at b else now)"
  by (auto simp: trip_def)

lemma record_failure_simps [simp]:
  "failure_threshold (record_failure now now' b) = failure_threshold b"
  "recovery_timeout (record_failure now now' b) = recovery_timeout b"
  "time_window (record_failure now now' b) = time_window b"
  "failures (record_failure now now' b)
     = filter (\<lambda>t. now - t \<le> time_window b) (failures b @ [now])"
  by (simp_all add: record_failure_def Let_def)

lemma record_failure_state:
  "br_state (record_failure now now' b) =
     (if failure_threshold b \<le> length (filter (\<lambda>t. now - t \<le> time_window b) (failures b @ [now]))
      then OPEN else br_state b)"
  by (simp add: record_failure_def Let_def)

lemma record_failure_opened_at:
  "opened_at (record_failure now now' b) = opened_at b \<or> opened_at (record_failure now now' b) = now'"
  by (auto simp: record_failure_def Let_def)

lemma record_failure_open:
  "br_state b = OPEN \<Longrightarrow> br_state (record_failure now now' b) = OPEN
     \<and> opened_at (record_failure now now' b) = opened_at b"
  by (simp add: record_failure_def Let_def)

lemma allow_request_simps [simp]:
  "failure_threshold (snd (allow_request now b)) = failure_threshold b"
  "recovery_timeout (snd (allow_request now b)) = recovery_timeout b"
  "time_window (snd (allow_request now b)) = time_window b"
  "failures (snd (allow_request now b)) = failures b"
  "opened_at (snd (allow_request now b)) = opened_at b"
  by (auto simp: allow_request_def split: breaker_state.splits)

lemma allow_request_state:
  "br_state (snd (allow_request now b)) = br_state b \<or> br_state (snd (allow_request now b)) = HALF_OPEN"
  by (auto simp: allow_request_def split: breaker_state.splits)

text \<open>Pruning at each failure keeps exactly the failures within the window of the last one.\<close>

lemma filter_window_again:
  fixes l :: real
  assumes "l \<le> now"
  shows "filter (\<lambda>f. now - f \<le> w) (filter (\<lambda>f. l - f \<le> w) xs) = filter (\<lambda>f. now - f \<le> w) xs"
  using assms by (induction xs) auto

lemma failures_kept:
  assumes I: "breaker_inv th to w c" and le: "clock c \<le> now"
  shows "filter (\<lambda>f. now - f \<le> w) (failures (brk c)) = filter (\<lambda>f. now - f \<le> w) (since_reset c)"
proof (cases "since_reset c = []")
  case True then show ?thesis using I by (simp add: breaker_inv_def)
next
  case False
  then have "last (since_reset c) \<le> now" using I le last_in_set by (fastforce simp: breaker_inv_def)
  from filter_window_again [OF this, of w "since_reset c"] I False show ?thesis
    by (simp add: breaker_inv_def del: filter_filter)
qed

lemma breaker_inv_failure:
  assumes I: "breaker_inv th to w c" and le: "clock c \<le> now" "now \<le> now'"
  shows "breaker_inv th to w \<lparr>clock = now', brk = record_failure now now' (brk c),
           since_reset = since_reset c @ [now]\<rparr>" (is "breaker_inv th to w ?d")
proof -
  let ?fs = "since_reset c"
  have params: "failure_threshold (brk c) = th" "time_window (brk c) = w" "recovery_timeout (brk c) = to"
    and below: "\<forall>f\<in>set ?fs. f \<le> clock c" and srt: "sorted ?fs"
    and closed: "br_state (brk c) = CLOSED \<Longrightarrow> n < length ?fs \<Longrightarrow>
      burst_at w ?fs n < th"
    and opn: "br_state (brk c) = OPEN \<Longrightarrow> opened_at (brk c) \<le> clock c" for n
    using I by (auto simp: breaker_inv_def)
  have kept: "failures (brk ?d) = filter (\<lambda>f. now - f \<le> w) (?fs @ [now])"
    using failures_kept [OF I le(1)] by (simp add: params)
  have burst: "burst_at w (?fs @ [now]) n < th"
    if n: "n < length (?fs @ [now])" and st: "br_state (brk ?d) = CLOSED" for n
  proof (cases "n < length ?fs")
    case True
    moreover have "br_state (brk c) = CLOSED" using st by (simp add: record_failure_state split: if_splits)
    ultimately show ?thesis using closed by (simp add: burst_at_def nth_append)
  next
    case False
    with n have "n = length ?fs" by simp
    then show ?thesis using st kept by (simp add: record_failure_state burst_at_def params split: if_splits)
  qed
  have "br_state (brk ?d) = OPEN \<longrightarrow> opened_at (brk ?d) \<le> now'"
    using opn le by (auto simp: record_failure_def Let_def split: if_splits)
  moreover have "sorted (?fs @ [now])" using srt below le by (fastforce simp: sorted_append)
  moreover have "\<forall>f\<in>set (?fs @ [now]). f \<le> now'" using below le by fastforce
  ultimately show ?thesis
    unfolding breaker_inv_def using kept burst params by simp
qed

lemma breaker_inv_success:
  "breaker_inv th to w c \<Longrightarrow> breaker_inv th to w \<lparr>clock = clock c, brk = record_success (brk c),
     since_reset = (if br_state (brk c) = HALF_OPEN then [] else since_reset c)\<rparr>"
  by (simp add: breaker_inv_def record_success_def reset_def)

lemma breaker_inv_request:
  assumes I: "breaker_inv th to w c" and le: "clock c \<le> now"
  shows "breaker_inv th to w \<lparr>clock = now, brk = snd (allow_request now (brk c)),
           since_reset = since_reset c\<rparr>"
proof -
  have "br_state (snd (allow_request now (brk c))) = CLOSED \<Longrightarrow> br_state (brk c) = CLOSED"
    "br_state (snd (allow_request now (brk c))) = OPEN \<Longrightarrow> br_state (brk c) = OPEN"
    using allow_request_state [of now "brk c"] by auto
  then show ?thesis using I le unfolding breaker_inv_def by fastforce
qed

lemma breaker_inv_reachable: "breaker_reachable th to w c \<Longrightarrow> breaker_inv th to w c"
  unfolding breaker_reachable_def
proof (induction rule: rtranclp_induct)
  case base
  show ?case by (simp add: breaker_inv_def init_breaker_def)
next
  case (step c d)
  from step.hyps(2) step.IH show ?case
    by (cases rule: breaker_step.cases)
       (simp_all only: breaker_inv_failure breaker_inv_success breaker_inv_request)
qed

subsection \<open>What the breaker guarantees\<close>

lemma record_failure_trips:
  assumes R: "breaker_reachable th to w c" and le: "clock c \<le> now"
  shows "br_state (record_failure now now' (brk c)) =
    (if th \<le> burst_at w (since_reset c @ [now]) (length (since_reset c)) then OPEN
     else br_state (brk c))"
proof -
  have I: "breaker_inv th to w c" using R by (rule breaker_inv_reachable)
  have "failure_threshold (brk c) = th" "time_window (brk c) = w" using I by (auto simp: breaker_inv_def)
  then show ?thesis
    using failures_kept [OF I le] by (simp add: record_failure_state burst_at_def)
qed

lemma closed_breaker_saw_no_burst:
  "breaker_reachable th to w c \<Longrightarrow> br_state (brk c) = CLOSED \<Longrightarrow> n < length (since_reset c) \<Longrightarrow>
     burst_at w (since_reset c) n < th"
  by (drule breaker_inv_reachable) (simp add: breaker_inv_def)

text \<open>Once tripped, the breaker stays as it is until the recovery time has passed.\<close>

lemma breaker_step_clock: "breaker_step c d \<Longrightarrow> clock c \<le> clock d"
  by (auto elim: breaker_step.cases)

lemma breaker_steps_clock: "breaker_step\<^sup>*\<^sup>* c d \<Longrightarrow> clock c \<le> clock d"
  by (induction rule: rtranclp_induct) (auto dest: breaker_step_clock)

lemma open_breaker_step:
  assumes "breaker_step c d" "br_state (brk c) = OPEN"
    "clock d \<le> opened_at (brk c) + recovery_timeout (brk c)"
  shows "br_state (brk d) = OPEN \<and> opened_at (brk d) = opened_at (brk c)
    \<and> recovery_timeout (brk d) = recovery_timeout (brk c)"
  using assms
  by (cases rule: breaker_step.cases)
     (auto simp: record_failure_open record_success_def allow_request_def)

lemma open_breaker_steps:
  assumes "breaker_step\<^sup>*\<^sup>* c d" "br_state (brk c) = OPEN"
    "clock d \<le> opened_at (brk c) + recovery_timeout (brk c)"
  shows "br_state (brk d) = OPEN \<and> opened_at (brk d) = opened_at (brk c)
    \<and> recovery_timeout (brk d) = recovery_timeout (brk c)"
  using assms
proof (induction rule: rtranclp_induct)
  case (step d e)
  have "clock d \<le> clock e" using step.hyps(2) by (rule breaker_step_clock)
  then have "br_state (brk d) = OPEN \<and> opened_at (brk d) = opened_at (brk c)
    \<and> recovery_timeout (brk d) = recovery_timeout (brk c)" using step.IH step.prems by simp
  then show ?case using open_breaker_step [OF step.hyps(2)] step.prems by simp
qed simp

text \<open>A failing probe finds an empty window when the recovery time exceeds it.\<close>

lemma probe_window_empty:
  fixes opened :: real
  assumes "\<forall>f\<in>set fs. f \<le> opened" "w \<le> to" "opened + to < now"
  shows "filter (\<lambda>f. now - f \<le> w) fs = []"
proof -
  have "\<not> now - f \<le> w" if "f \<in> set fs" for f using bspec [OF assms(1) that] assms(2,3) by simp
  then show ?thesis by (simp add: filter_empty_conv)
qed

section \<open>Retry with back-off\<close>

text \<open>
  The wrapped function acts on a state \<open>'s\<close> and returns or raises; the loop counts attempts
  upwards, sleeps \<open>base_delay * 2 ** attempt\<close> after every failed attempt but the last, and
  re-raises the last exception. The sleeps are returned beside the outcome.
\<close>

record retry_policy =
  max_attempts :: nat
  base_delay :: real

function retry_loop :: "retry_policy \<Rightarrow> string \<Rightarrow> ('s, 'a) py \<Rightarrow> nat \<Rightarrow> py_exc option \<Rightarrow> 's
    \<Rightarrow> 'a res \<times> 's \<times> real list" where
  "retry_loop policy op f attempt last_exception s =
     (if attempt < max_attempts policy
      then (case f s of
              (Inr a, s') \<Rightarrow> (Inr a, s', [])
            | (Inl e, s') \<Rightarrow>
                (let (r, t, sleeps) = retry_loop policy op f (attempt + 1) (Some e) s'
                 in (r, t, if attempt < max_attempts policy - 1
                           then base_delay policy * 2 ^ attempt # sleeps else sleeps)))
      else (case last_exception of
              Some e \<Rightarrow> (Inl e, s, [])
            | None \<Rightarrow> (Inl (RuntimeError (''Operation '' @ op @ '' failed without exception'')), s, [])))"
  by pat_completeness auto
termination
  by (relation "measure (\<lambda>(policy, op, f, attempt, e, s). max_attempts policy - attempt)") auto

declare retry_loop.simps [simp del]

definition with_retry :: "retry_policy \<Rightarrow> string \<Rightarrow> ('s, 'a) py \<Rightarrow> 's \<Rightarrow> 'a res \<times> 's \<times> real list" where
  "with_retry policy op f s = retry_loop policy op f 0 None s"

text \<open>The states before each attempt while the function keeps failing.\<close>

fun failing :: "('s, 'a) py \<Rightarrow> nat \<Rightarrow> 's \<Rightarrow> bool" where
  "failing f 0 s = True"
| "failing f (Suc n) s = (case f s of (Inl e, t) \<Rightarrow> failing f n t | (Inr a, t) \<Rightarrow> False)"

fun after_failures :: "('s, 'a) py \<Rightarrow> nat \<Rightarrow> 's \<Rightarrow> 's" where
  "after_failures f 0 s = s"
| "after_failures f (Suc n) s = after_failures f n (snd (f s))"

definition backoff :: "retry_policy \<Rightarrow> nat \<Rightarrow> nat \<Rightarrow> real list" where
  "backoff policy attempt n = map (\<lambda>i. base_delay policy * 2 ^ i) [attempt..<attempt + n]"

lemma retry_loop_success:
  assumes "attempt + n < max_attempts policy" "failing f n s" "f (after_failures f n s) = (Inr a, t)"
  shows "retry_loop policy op f attempt e s = (Inr a, t, backoff policy attempt n)"
  using assms
proof (induction n arbitrary: attempt e s)
  case 0
  then show ?case by (simp add: retry_loop.simps [of policy op f attempt] backoff_def)
next
  case (Suc n)
  then obtain e' s' where fs: "f s = (Inl e', s')" "failing f n s'"
    by (auto split: prod.splits sum.splits)
  have "attempt < max_attempts policy - 1" using Suc.prems by simp
  moreover have "retry_loop policy op f (attempt + 1) (Some e') s' = (Inr a, t, backoff policy (attempt + 1) n)"
    using Suc.IH [of "attempt + 1" s' "Some e'"] Suc.prems fs by simp
  moreover have "[attempt..<attempt + Suc n] = attempt # [attempt + 1..<attempt + 1 + n]"
    by (simp add: upt_conv_Cons del: upt_Suc)
  ultimately show ?case using Suc.prems fs
    by (simp add: retry_loop.simps [of policy op f attempt] backoff_def del: upt_Suc)
qed

lemma retry_loop_all_fail:
  assumes "attempt + Suc n = max_attempts policy" "failing f n s"
    "f (after_failures f n s) = (Inl x, t)"
  shows "retry_loop policy op f attempt e s = (Inl x, t, backoff policy attempt n)"
  using assms
proof (induction n arbitrary: attempt e s)
  case 0
  then show ?case
    by (simp add: retry_loop.simps [of policy op f attempt]
        retry_loop.simps [of policy op f "max_attempts policy"] backoff_def)
next
  case (Suc n)
  then obtain e' s' where fs: "f s = (Inl e', s')" "failing f n s'"
    by (auto split: prod.splits sum.splits)
  have "attempt < max_attempts policy - 1" using Suc.prems by simp
  moreover have "retry_loop policy op f (attempt + 1) (Some e') s' = (Inl x, t, backoff policy (attempt + 1) n)"
    using Suc.IH [of "attempt + 1" s' "Some e'"] Suc.prems fs by simp
  moreover have "[attempt..<attempt + Suc n] = attempt # [attempt + 1..<attempt + 1 + n]"
    by (simp add: upt_conv_Cons del: upt_Suc)
  ultimately show ?case using Suc.prems fs
    by (simp add: retry_loop.simps [of policy op f attempt] backoff_def del: upt_Suc)
qed

lemma sum_backoff: "sum_list (backoff policy 0 n) = base_delay policy * (2 ^ n - 1)"
  by (induction n) (simp_all add: backoff_def algebra_simps)

section \<open>The token bucket\<close>

record rate_limiter =
  sustained_rps :: real
  burst :: real
  tokens :: real
  last_update :: real
  total_wait_seconds :: real

definition init_limiter :: "real \<Rightarrow> real \<Rightarrow> real \<Rightarrow> rate_limiter" where
  "init_limiter rps b now =
     \<lparr>sustained_rps = rps, burst = b, tokens = b, last_update = now, total_wait_seconds = 0\<rparr>"

text \<open>
  \<open>_reserve_slot\<close> under its lock, with the reading \<open>now\<close>: the delay to wait. \<open>sustained_rps\<close> is
  the 20 of the shared instance or another positive constant of the caller.
\<close>

definition reserve_slot :: "real \<Rightarrow> rate_limiter \<Rightarrow> real \<times> rate_limiter" where
  "reserve_slot now l =
     (let effective_now = max now (last_update l);
          elapsed = effective_now - last_update l;
          tok = min (burst l) (tokens l + elapsed * sustained_rps l)
      in if 1 \<le> tok
         then (0, l\<lparr>tokens := tok - 1,
                   last_update := (if effective_now = now then effective_now else last_update l)\<rparr>)
         else (let needed = 1 - tok;
                   delay_from_now = (effective_now - now) + needed / sustained_rps l
               in (delay_from_now, l\<lparr>last_update := now + delay_from_now, tokens := 0\<rparr>)))"

text \<open>\<open>wait\<close> and \<open>wait_sync\<close> sleep for the delay when it is over a millisecond.\<close>

definition wait_slot :: "real \<Rightarrow> rate_limiter \<Rightarrow> real \<times> rate_limiter" where
  "wait_slot now l =
     (let (delay, l') = reserve_slot now l
      in if 1 / 1000 < delay
         then (delay, l'\<lparr>total_wait_seconds := total_wait_seconds l' + delay\<rparr>)
         else (0, l'))"

text \<open>The instants at which a sequence of reservations may go ahead.\<close>

fun slots :: "real list \<Rightarrow> rate_limiter \<Rightarrow> real list" where
  "slots [] l = []"
| "slots (now # nows) l = (let (delay, l') = reserve_slot now l in (now + delay) # slots nows l')"

text \<open>A limiter between calls: a slot reserved in the future leaves no token.\<close>

definition limiter_ok :: "real \<Rightarrow> rate_limiter \<Rightarrow> bool" where
  "limiter_ok now l \<longleftrightarrow> 0 < sustained_rps l \<and> 1 \<le> burst l \<and> 0 \<le> tokens l \<and> tokens l \<le> burst l
     \<and> (now < last_update l \<longrightarrow> tokens l = 0)"

lemma reserve_slot_params [simp]:
  "sustained_rps (snd (reserve_slot now l)) = sustained_rps l"
  "burst (snd (reserve_slot now l)) = burst l"
  by (simp_all add: reserve_slot_def Let_def)

text \<open>
  One reservation: the slot is the new \<open>last_update\<close>, not before the call nor before the previous
  slot, and the bucket's credit \<open>tokens - rate * last_update\<close> drops by at least one.
\<close>

lemma reserve_slot_step:
  assumes ok: "limiter_ok now l"
  shows "now + fst (reserve_slot now l) = last_update (snd (reserve_slot now l))"
    "0 \<le> fst (reserve_slot now l)"
    "last_update l \<le> last_update (snd (reserve_slot now l))"
    "tokens (snd (reserve_slot now l)) - sustained_rps l * last_update (snd (reserve_slot now l))
       \<le> tokens l - sustained_rps l * last_update l - 1"
    "0 \<le> tokens (snd (reserve_slot now l)) \<and> tokens (snd (reserve_slot now l)) \<le> burst l"
    "now < last_update (snd (reserve_slot now l)) \<Longrightarrow> tokens (snd (reserve_slot now l)) = 0"
proof -
  let ?tok = "min (burst l) (tokens l + (max now (last_update l) - last_update l) * sustained_rps l)"
  have r: "0 < sustained_rps l" and t: "0 \<le> tokens l" "tokens l \<le> burst l" and b: "1 \<le> burst l"
    and fut: "now < last_update l \<Longrightarrow> tokens l = 0" using ok by (auto simp: limiter_ok_def)
  have tok: "0 \<le> ?tok" using r t b by (simp add: min_def max_def)
  show "now + fst (reserve_slot now l) = last_update (snd (reserve_slot now l))"
    using fut by (auto simp: reserve_slot_def Let_def max_def min_def split: if_splits)
  show "0 \<le> fst (reserve_slot now l)"
    using r by (auto simp: reserve_slot_def Let_def max_def)
  have "0 \<le> (1 - ?tok) / sustained_rps l" if "\<not> 1 \<le> ?tok" using that r by (intro divide_nonneg_pos; linarith)
  then show "last_update l \<le> last_update (snd (reserve_slot now l))"
    by (auto simp: reserve_slot_def Let_def)
  show "0 \<le> tokens (snd (reserve_slot now l)) \<and> tokens (snd (reserve_slot now l)) \<le> burst l"
    using b by (auto simp: reserve_slot_def Let_def)
  show "now < last_update (snd (reserve_slot now l)) \<Longrightarrow> tokens (snd (reserve_slot now l)) = 0"
    using fut by (auto simp: reserve_slot_def Let_def max_def min_def split: if_splits)
  show "tokens (snd (reserve_slot now l)) - sustained_rps l * last_update (snd (reserve_slot now l))
       \<le> tokens l - sustained_rps l * last_update l - 1"
  proof (cases "1 \<le> ?tok")
    case True
    have "last_update l \<le> now"
    proof (rule ccontr)
      assume "\<not> last_update l \<le> now"
      then have "tokens l = 0" "max now (last_update l) = last_update l" using fut by auto
      with True show False by simp
    qed
    then have "max now (last_update l) = now" by simp
    with True show ?thesis by (auto simp: reserve_slot_def Let_def algebra_simps)
  next
    case False
    have "sustained_rps l * ((1 - ?tok) / sustained_rps l) = 1 - ?tok" using r by simp
    then have "sustained_rps l * (max now (last_update l) + (1 - ?tok) / sustained_rps l)
        = sustained_rps l * max now (last_update l) + 1 - ?tok"
      by (simp only: distrib_left add_diff_eq)
    moreover have "?tok \<le> tokens l + sustained_rps l * max now (last_update l) - sustained_rps l * last_update l"
      by (simp add: min_def algebra_simps)
    moreover have "snd (reserve_slot now l) = l\<lparr>last_update :=
        now + ((max now (last_update l) - now) + (1 - ?tok) / sustained_rps l), tokens := 0\<rparr>"
      unfolding reserve_slot_def Let_def if_not_P [OF False] by simp
    ultimately show ?thesis by simp
  qed
qed

lemma limiter_ok_step: "limiter_ok now l \<Longrightarrow> now \<le> now' \<Longrightarrow> limiter_ok now' (snd (reserve_slot now l))"
  using reserve_slot_step(5,6) [of now l] by (auto simp: limiter_ok_def)

lemma length_slots [simp]: "length (slots nows l) = length nows"
  by (induction nows arbitrary: l) (simp_all add: case_prod_beta)

lemma slots_credit:
  assumes "sorted (now # nows)" "limiter_ok now l" "n < length (now # nows)"
  shows "real (Suc n) \<le> tokens l + sustained_rps l * (slots (now # nows) l ! n - last_update l)"
  using assms
proof (induction n arbitrary: now nows l)
  case 0
  then show ?case using reserve_slot_step(1,4,5) [of now l]
    by (simp add: case_prod_beta algebra_simps)
next
  case (Suc n)
  then obtain m ms where nows: "nows = m # ms" by (cases nows) auto
  let ?l = "snd (reserve_slot now l)"
  have "limiter_ok m ?l" using Suc.prems nows by (intro limiter_ok_step) auto
  then have "real (Suc n) \<le> tokens ?l + sustained_rps ?l * (slots nows ?l ! n - last_update ?l)"
    using Suc.IH [of m ms ?l] Suc.prems nows by simp
  with reserve_slot_step(4) [OF Suc.prems(2)] show ?case
    by (simp add: case_prod_beta algebra_simps)
qed

lemma slots_window:
  assumes "sorted nows" "nows \<noteq> [] \<Longrightarrow> limiter_ok (hd nows) l" "i < j" "j < length nows"
  shows "real (j - i) \<le> burst l + sustained_rps l * (slots nows l ! j - slots nows l ! i)"
  using assms
proof (induction i arbitrary: j nows l)
  case 0
  then obtain m ms k where nows: "nows = m # ms" and j: "j = Suc k" by (cases nows; cases j) auto
  then obtain m' ms' where ms: "ms = m' # ms'" using 0 by (cases ms) auto
  let ?l = "snd (reserve_slot m l)"
  have ok: "limiter_ok m l" using 0 nows by simp
  have "limiter_ok m' ?l" using 0 nows ms ok by (intro limiter_ok_step) auto
  then have "real (Suc k) \<le> tokens ?l + sustained_rps ?l * (slots ms ?l ! k - last_update ?l)"
    using slots_credit [of m' ms' ?l k] 0 nows ms j by simp
  with reserve_slot_step(1,5) [OF ok] show ?case by (simp add: nows j case_prod_beta)
next
  case (Suc i)
  then obtain m ms k where nows: "nows = m # ms" and j: "j = Suc k" by (cases nows; cases j) auto
  let ?l = "snd (reserve_slot m l)"
  have "limiter_ok (hd ms) ?l" if "ms \<noteq> []"
    using Suc.prems nows that by (cases ms) (auto intro!: limiter_ok_step)
  then show ?case using Suc.IH [of ms ?l k] Suc.prems nows j by (simp add: case_prod_beta)
qed

lemma slots_from_last:
  assumes "sorted (now # nows)" "limiter_ok now l" "n < length (now # nows)"
  shows "last_update l \<le> slots (now # nows) l ! n"
  using assms
proof (induction n arbitrary: now nows l)
  case 0
  then show ?case using reserve_slot_step(1,3) [of now l] by (simp add: case_prod_beta)
next
  case (Suc n)
  then obtain m ms where nows: "nows = m # ms" by (cases nows) auto
  let ?l = "snd (reserve_slot now l)"
  have "limiter_ok m ?l" using Suc.prems nows by (intro limiter_ok_step) auto
  then have "last_update ?l \<le> slots nows ?l ! n" using Suc.IH [of m ms ?l] Suc.prems nows by simp
  with reserve_slot_step(3) [OF Suc.prems(2)] show ?case by (simp add: case_prod_beta)
qed

lemma slots_mono:
  assumes "sorted nows" "nows \<noteq> [] \<Longrightarrow> limiter_ok (hd nows) l" "i < j" "j < length nows"
  shows "slots nows l ! i \<le> slots nows l ! j"
  using assms
proof (induction i arbitrary: j nows l)
  case 0
  then obtain m ms k where nows: "nows = m # ms" and j: "j = Suc k" by (cases nows; cases j) auto
  then obtain m' ms' where ms: "ms = m' # ms'" using 0 by (cases ms) auto
  let ?l = "snd (reserve_slot m l)"
  have ok: "limiter_ok m l" using 0 nows by simp
  have "limiter_ok m' ?l" using 0 nows ms ok by (intro limiter_ok_step) auto
  then have "last_update ?l \<le> slots ms ?l ! k" using slots_from_last [of m' ms' ?l k] 0 nows ms j by simp
  with reserve_slot_step(1) [OF ok] show ?case by (simp add: nows j case_prod_beta)
next
  case (Suc i)
  then obtain m ms k where nows: "nows = m # ms" and j: "j = Suc k" by (cases nows; cases j) auto
  have "limiter_ok (hd ms) (snd (reserve_slot m l))" if "ms \<noteq> []"
    using Suc.prems nows that by (cases ms) (auto intro!: limiter_ok_step)
  then show ?case using Suc.IH [of ms "snd (reserve_slot m l)" k] Suc.prems nows j by (simp add: case_prod_beta)
qed

lemma slots_after:
  assumes "sorted nows" "nows \<noteq> [] \<Longrightarrow> limiter_ok (hd nows) l" "i < length nows"
  shows "nows ! i \<le> slots nows l ! i"
  using assms
proof (induction nows arbitrary: i l)
  case (Cons now nows)
  have "limiter_ok (hd nows) (snd (reserve_slot now l))" if "nows \<noteq> []"
    using Cons.prems that by (cases nows) (auto intro!: limiter_ok_step)
  then show ?case using Cons reserve_slot_step(2) [of now l]
    by (cases i) (auto simp: case_prod_beta)
qed simp

end
