(* ===== verification/Resilience_Properties.thy ===== *)
theory Resilience_Properties
  imports Resilience
begin

text \<open>
  The properties of the guards: the breaker trips exactly on bursts and blocks while it is open,
  retrying returns the first success, and the token bucket bounds the rate over every window.
\<close>

definition probed_breaker :: breaker_run where
  "probed_breaker = \<lparr>clock = 2, brk = record_failure 2 2 (record_failure 1 1 (init_breaker 2 120 60)),
     since_reset = [1, 2]\<rparr>"

lemma probed_breaker_reachable: "breaker_reachable 2 120 60 probed_breaker"
proof -
  let ?c = "\<lparr>clock = 0, brk = init_breaker 2 120 60, since_reset = []\<rparr>"
  let ?d = "\<lparr>clock = 1, brk = record_failure 1 1 (init_breaker 2 120 60), since_reset = [1]\<rparr>"
  have "breaker_step ?c ?d" using step_failure [of ?c 1 1] by simp
  moreover have "breaker_step ?d probed_breaker"
    using step_failure [of ?d 2 2] by (simp add: probed_breaker_def)
  ultimately show ?thesis unfolding breaker_reachable_def
    by (rule rtranclp.rtrancl_into_rtrancl [OF r_into_rtranclp])
qed

lemma probed_breaker_open:
  "br_state (brk probed_breaker) = OPEN" "opened_at (brk probed_breaker) = 2"
  "since_reset probed_breaker = [1, 2]" "clock probed_breaker = 2"
  by (simp_all add: probed_breaker_def record_failure_def init_breaker_def trip_def
      prune_failures_def Let_def)

section \<open>Properties\<close>

text \<open>C36: The circuit breaker trips exactly on bursts: over any interleaving of failures, successes
  and requests, a failure opens it if and only if at least \<open>failure_threshold\<close> of all the failures
  since it was last closed, that one included, lie within \<open>time_window\<close> before it. The list the code keeps
  pruned at every failure never loses one that counts, and a breaker that is still closed has seen
  no burst at any of its failures.\<close>

theorem breaker_trips_exactly_on_bursts:
  assumes "breaker_reachable th to w c" and "clock c \<le> now"
  shows "br_state (record_failure now now' (brk c)) =
      (if th \<le> burst_at w (since_reset c @ [now]) (length (since_reset c)) then OPEN
       else br_state (brk c))
    \<and> (br_state (brk c) = CLOSED \<longrightarrow>
        (\<forall>n < length (since_reset c). burst_at w (since_reset c) n < th))"
  using record_failure_trips [OF assms] closed_breaker_saw_no_burst [OF assms(1)] by blast

theorem breaker_trips_exactly_on_bursts_witness:
  "br_state (record_failure 3 3 (brk probed_breaker)) = OPEN"
  using conjunct1 [OF breaker_trips_exactly_on_bursts [OF probed_breaker_reachable, of 3 3]]
  by (simp add: probed_breaker_open)

text \<open>An open breaker blocks for the whole recovery time: whatever failures, successes and requests
  follow, it stays open with the same \<open>opened_at\<close> and refuses every request up to
  \<open>opened_at + recovery_timeout\<close>; the first request after that is let through as a probe, so the
  breaker never stays shut for good.\<close>

theorem open_breaker_blocks_then_probes:
  assumes "breaker_step\<^sup>*\<^sup>* c d" and "br_state (brk c) = OPEN"
    and "clock d \<le> opened_at (brk c) + recovery_timeout (brk c)"
  shows "allow_request now (brk d) =
    (if now \<le> opened_at (brk c) + recovery_timeout (brk c) then (False, brk d)
     else (True, (brk d)\<lparr>br_state := HALF_OPEN\<rparr>))"
  using open_breaker_steps [OF assms] by (auto simp: allow_request_def)

theorem open_breaker_blocks_then_probes_witness:
  "allow_request 100 (brk probed_breaker) = (False, brk probed_breaker)
   \<and> fst (allow_request 200 (brk probed_breaker))"
proof -
  have "recovery_timeout (brk probed_breaker) = 120" by (simp add: probed_breaker_def init_breaker_def)
  then show ?thesis
    using open_breaker_blocks_then_probes [of probed_breaker probed_breaker 100]
      open_breaker_blocks_then_probes [of probed_breaker probed_breaker 200]
    by (simp add: probed_breaker_open)
qed

text \<open>A failed probe does not reopen the breaker: with a recovery time at least as long as the
  failure window, as in every breaker the program builds, the failures that tripped it have left the window by
  the time of the probe, so after a failing probe the breaker is still half open and lets every
  further request through.\<close>

theorem failed_probe_stays_half_open:
  assumes "br_state b = OPEN" and "\<forall>f\<in>set (failures b). f \<le> opened_at b"
    and "time_window b \<le> recovery_timeout b" and "2 \<le> failure_threshold b"
    and "allow_request now b = (True, b1)" and "now \<le> failed"
    and "record_failure failed failed' b1 = b2"
  shows "br_state b2 = HALF_OPEN \<and> allow_request later b2 = (True, b2)"
proof -
  have passed: "recovery_timeout b < now - opened_at b" and b1: "b1 = b\<lparr>br_state := HALF_OPEN\<rparr>"
    using assms(1,5) by (auto simp: allow_request_def split: if_splits)
  have "filter (\<lambda>f. failed - f \<le> time_window b) (failures b) = []"
    using probe_window_empty [OF assms(2,3), of failed] passed assms(6) by simp
  then have "br_state b2 = HALF_OPEN"
    using assms(4,7) by (auto simp: b1 record_failure_state)
  then show ?thesis by (simp add: allow_request_def)
qed

theorem failed_probe_stays_half_open_witness:
  "let b = brk probed_breaker; b1 = snd (allow_request 130 b); b2 = record_failure 131 131 b1
   in br_state b2 = HALF_OPEN \<and> allow_request 132 b2 = (True, b2)"
proof -
  have f: "failures (brk probed_breaker) = [1, 2]" "recovery_timeout (brk probed_breaker) = 120"
    "time_window (brk probed_breaker) = 60" "failure_threshold (brk probed_breaker) = 2"
    by (simp_all add: probed_breaker_def init_breaker_def)
  then have "fst (allow_request 130 (brk probed_breaker))"
    by (simp add: allow_request_def probed_breaker_open)
  then show ?thesis unfolding Let_def
    by (intro failed_probe_stays_half_open [of "brk probed_breaker" 130 _ 131 131])
       (simp_all add: f probed_breaker_open prod_eq_iff)
qed

text \<open>C37: Retrying is exact: if the wrapped call fails \<open>n\<close> times and then returns, with \<open>n\<close> below
  \<open>max_attempts\<close>, the wrapper returns that result in the state the call left, having slept
  \<open>base_delay * (2 ^ n - 1)\<close> in all; if all \<open>max_attempts\<close> calls fail it raises the last exception,
  having slept after every attempt but the last.\<close>

theorem retry_returns_first_success:
  assumes "failing f n s" and "n < max_attempts policy"
  shows "(f (after_failures f n s) = (Inr a, t) \<longrightarrow>
      (\<exists>sleeps. with_retry policy op f s = (Inr a, t, sleeps)
         \<and> sum_list sleeps = base_delay policy * (2 ^ n - 1)))
    \<and> (f (after_failures f n s) = (Inl x, t) \<and> Suc n = max_attempts policy \<longrightarrow>
      (\<exists>sleeps. with_retry policy op f s = (Inl x, t, sleeps)
         \<and> length sleeps = max_attempts policy - 1
         \<and> sum_list sleeps = base_delay policy * (2 ^ n - 1)))"
proof (intro conjI impI)
  assume "f (after_failures f n s) = (Inr a, t)"
  then have "with_retry policy op f s = (Inr a, t, backoff policy 0 n)"
    using retry_loop_success [of 0 n policy f s a t op None] assms by (simp add: with_retry_def)
  then show "\<exists>sleeps. with_retry policy op f s = (Inr a, t, sleeps)
      \<and> sum_list sleeps = base_delay policy * (2 ^ n - 1)" by (simp add: sum_backoff)
next
  assume "f (after_failures f n s) = (Inl x, t) \<and> Suc n = max_attempts policy"
  then have "with_retry policy op f s = (Inl x, t, backoff policy 0 n)" "max_attempts policy - 1 = n"
    using retry_loop_all_fail [of 0 n policy f s x t op None] assms by (auto simp: with_retry_def)
  then show "\<exists>sleeps. with_retry policy op f s = (Inl x, t, sleeps)
      \<and> length sleeps = max_attempts policy - 1
      \<and> sum_list sleeps = base_delay policy * (2 ^ n - 1)"
    by (simp add: sum_backoff) (simp add: backoff_def)
qed

definition flaky :: "(nat, string) py" where
  "flaky s = (if s < 2 then (Inl OSError, Suc s) else (Inr ''ok'', s))"

theorem retry_returns_first_success_witness:
  "\<exists>sleeps. with_retry \<lparr>max_attempts = 3, base_delay = 1\<rparr> ''ping'' flaky 0 = (Inr ''ok'', 2, sleeps)
    \<and> sum_list sleeps = 3"
  using retry_returns_first_success [of flaky 2 0 "\<lparr>max_attempts = 3, base_delay = 1\<rparr>" "''ok''" 2 "''ping''"]
  by (simp add: flaky_def eval_nat_numeral)

text \<open>C38: The token bucket bounds the request rate over every window: with a clock that does not go
  back, the \<open>i\<close>th to \<open>j\<close>th reservations are granted in order, none before it is asked for, and between
  the slots of two of them at most \<open>burst + sustained_rps * (slot j - slot i)\<close> requests go ahead,
  however the calls are spaced and however far ahead slots have been reserved.\<close>

theorem rate_limiter_bounds_every_window:
  assumes "sorted nows" and "limiter_ok (hd nows) l" and "i < j" and "j < length nows"
  shows "real (j - i) \<le> burst l + sustained_rps l * (slots nows l ! j - slots nows l ! i)
    \<and> slots nows l ! i \<le> slots nows l ! j \<and> nows ! i \<le> slots nows l ! i"
  using slots_window [of nows l i j] slots_mono [of nows l i j] slots_after [of nows l i] assms by simp

theorem rate_limiter_bounds_every_window_witness:
  "1 \<le> 50 + 20 * (slots [0, 0] (init_limiter 20 50 0) ! 1 - slots [0, 0] (init_limiter 20 50 0) ! 0)"
  using rate_limiter_bounds_every_window [of "[0, 0]" "init_limiter 20 50 0" 0 1]
  by (simp add: limiter_ok_def init_limiter_def)

end
