(* ===== verification/Backtest_Engine.thy ===== *)
theory Backtest_Engine
  imports Trading_Helpers
begin

text \<open>
  \<^verbatim>\<open>backtest/engine.py\<close>: the candidate grid, the Sharpe ratio, the segment backtest with its loop
  as a step over a state record, the bar and position modes and the walk-forward validation.
  Trade ids and timestamps, which nothing computes with, and the files the modes write (whose
  errors the code swallows) are left out; \<open>LATEST_DIR\<close> is a flag that tells whether it is set.
\<close>

section \<open>The candidate grid\<close>

record candidate =
  fast_sma :: int
  slow_sma :: int
  stop_bps :: real
  tp_r :: real

text \<open>\<open>xs[::k]\<close> for a positive step.\<close>

fun every_nth :: "nat \<Rightarrow> 'a list \<Rightarrow> 'a list" where
  "every_nth k [] = []"
| "every_nth k (x # xs) = x # every_nth k (drop (k - 1) xs)"

definition grid_size :: "(int \<times> int) list \<Rightarrow> real list \<Rightarrow> real list \<Rightarrow> nat" where
  "grid_size smas stops tps = length smas * length stops * length tps"

definition reduction_factor :: "nat \<Rightarrow> nat \<Rightarrow> nat" where
  "reduction_factor combos max_candidates = nat \<lceil>sqrt (real combos / real max_candidates)\<rceil>"

definition combinations :: "(int \<times> int) list \<Rightarrow> real list \<Rightarrow> real list \<Rightarrow> candidate list" where
  "combinations smas stops tps =
     concat (map (\<lambda>p. concat (map (\<lambda>s. map (\<lambda>t.
       \<lparr>fast_sma = fst p, slow_sma = snd p, stop_bps = s, tp_r = t\<rparr>) tps) stops)) smas)"

text \<open>
  \<open>parse_grid\<close> once the text is parsed into its three lists. A bound of zero candidates divides by
  zero.
\<close>

definition grid_candidates :: "(int \<times> int) list \<Rightarrow> real list \<Rightarrow> real list \<Rightarrow> nat \<Rightarrow> candidate list res" where
  "grid_candidates smas stops tps max_candidates =
     (let total_combos = grid_size smas stops tps
      in bindE (if max_candidates < total_combos
                then (if max_candidates = 0 then Inl ZeroDivisionError
                      else let k = reduction_factor total_combos max_candidates
                           in Inr (every_nth k smas, every_nth k stops, every_nth k tps))
                else Inr (smas, stops, tps)) (\<lambda>(smas, stops, tps).
         let cs = combinations smas stops tps
         in if cs = [] then Inl (ValueError ''Grid parsing resulted in 0 combinations.'') else Inr cs))"

section \<open>Sharpe ratio\<close>

record equity_point =
  ep_ts :: string
  ep_equity :: real

fun returns_of :: "real list \<Rightarrow> real list" where
  "returns_of (prev # cur # es) =
     (if 0 < prev then [(cur - prev) / prev] else []) @ returns_of (cur # es)"
| "returns_of es = []"

definition mean :: "real list \<Rightarrow> real" where
  "mean xs = sum_list xs / real (length xs)"

text \<open>\<open>statistics.stdev\<close>: the sample standard deviation.\<close>

definition stdev :: "real list \<Rightarrow> real" where
  "stdev xs = sqrt ((\<Sum>x\<leftarrow>xs. (x - mean xs)\<^sup>2) / (real (length xs) - 1))"

definition calculate_sharpe_ratio :: "equity_point list \<Rightarrow> real \<Rightarrow> real" where
  "calculate_sharpe_ratio hist periods_per_year =
     (if length hist < 2 then 0
      else let returns = returns_of (map ep_equity hist)
           in if length returns < 2 then 0
              else let std_ret = stdev returns
                   in if std_ret = 0 then 0
                      else (mean returns / std_ret) * sqrt periods_per_year)"

section \<open>The segment backtest\<close>

record seg_params =
  sg_fees_bps :: real
  sg_slip_bps :: real
  sg_risk_pct :: real
  sg_fast :: int
  sg_slow :: int
  sg_stop_bps :: real
  sg_tp_r :: real
  sg_max_leverage :: real
  sg_conservative :: bool

record seg_trade =
  st_side :: side
  st_buy :: bool
  st_entry :: real
  st_exit :: real
  st_qty :: real
  st_pnl :: real
  st_fees :: real
  st_entry_ts :: string
  st_exit_ts :: string
  st_reason :: string
  st_stop :: real
  st_tp :: real

text \<open>The local variables of the loop.\<close>

record seg =
  s_equity :: real
  s_history :: "equity_point list"
  s_trades :: "seg_trade list"
  s_long :: "bool option"
  s_entry_price :: real
  s_entry_ts :: string
  s_qty :: real
  s_stop :: real
  s_tp :: real
  s_wins :: nat
  s_losses :: nat
  s_fees :: real
  s_max_equity :: real
  s_max_drawdown :: real

definition seg_init :: "real \<Rightarrow> seg" where
  "seg_init starting_balance =
     \<lparr>s_equity = starting_balance, s_history = [], s_trades = [], s_long = None, s_entry_price = 0,
      s_entry_ts = [], s_qty = 0, s_stop = 0, s_tp = 0, s_wins = 0, s_losses = 0, s_fees = 0,
      s_max_equity = starting_balance, s_max_drawdown = 0\<rparr>"

text \<open>
  Opening at the close. The first entry tests \<open>qty is not None\<close>, the flip after a reversal tests
  \<open>qty\<close>, which differ only for a size of zero.
\<close>

definition seg_open :: "seg_params \<Rightarrow> bool \<Rightarrow> bool \<Rightarrow> candle \<Rightarrow> seg \<Rightarrow> seg res" where
  "seg_open g flip is_long c s =
     bindE (calculate_position_size (s_equity s) (c_close c) (sg_risk_pct g) (sg_stop_bps g) (sg_tp_r g)
              (sg_max_leverage g) is_long) (\<lambda>sized.
       case sized of
         None \<Rightarrow> Inr s
       | Some (qty, sp, tp) \<Rightarrow>
         if flip \<and> qty = 0 then Inr s
         else let entry = apply_slippage (c_close c) True is_long (sg_slip_bps g);
                  fees = calculate_fees (entry * qty) (sg_fees_bps g)
              in Inr (s\<lparr>s_long := Some is_long, s_entry_price := entry, s_entry_ts := c_ts c,
                       s_qty := qty, s_stop := sp, s_tp := tp,
                       s_equity := s_equity s - fees, s_fees := s_fees s + fees\<rparr>))"

definition seg_exit_at :: "seg_params \<Rightarrow> bool \<Rightarrow> candle \<Rightarrow> seg \<Rightarrow> (string \<times> real) option" where
  "seg_exit_at g is_long c s =
     (let stop_hit = (if is_long then c_low c \<le> s_stop s else s_stop s \<le> c_high c);
          tp_hit = (if is_long then s_tp s \<le> c_high c else c_low c \<le> s_tp s)
      in if stop_hit \<and> tp_hit
         then (if sg_conservative g then Some (''STOP'', s_stop s) else Some (''TP'', s_tp s))
         else if stop_hit then Some (''STOP'', s_stop s)
         else if tp_hit then Some (''TP'', s_tp s) else None)"

text \<open>The two exit blocks (at a level, and on a crossover reversal) book the same trade.\<close>

definition seg_close :: "seg_params \<Rightarrow> bool \<Rightarrow> string \<Rightarrow> real \<Rightarrow> candle \<Rightarrow> seg \<Rightarrow> seg" where
  "seg_close g is_long reason px c s =
     (let exit_slipped = apply_slippage px False is_long (sg_slip_bps g);
          pnl = (if is_long then (exit_slipped - s_entry_price s) * s_qty s
                 else (s_entry_price s - exit_slipped) * s_qty s);
          fees = calculate_fees (exit_slipped * s_qty s) (sg_fees_bps g);
          trade = \<lparr>st_side = (if is_long then LONG else SHORT), st_buy = is_long,
            st_entry = s_entry_price s, st_exit = exit_slipped, st_qty = s_qty s, st_pnl = pnl - fees,
            st_fees = fees, st_entry_ts = s_entry_ts s, st_exit_ts = c_ts c, st_reason = reason,
            st_stop = s_stop s, st_tp = s_tp s\<rparr>
      in s\<lparr>s_trades := s_trades s @ [trade],
           s_wins := (if 0 \<le> pnl - fees then s_wins s + 1 else s_wins s),
           s_losses := (if 0 \<le> pnl - fees then s_losses s else s_losses s + 1),
           s_equity := s_equity s + (pnl - fees), s_fees := s_fees s + fees, s_long := None\<rparr>)"

definition seg_trade_step :: "seg_params \<Rightarrow> bool \<Rightarrow> candle \<Rightarrow> seg \<Rightarrow> seg res" where
  "seg_trade_step g buy c s =
     (case s_long s of
        None \<Rightarrow> seg_open g False buy c s
      | Some is_long \<Rightarrow>
        (case seg_exit_at g is_long c s of
           Some (reason, px) \<Rightarrow> Inr (seg_close g is_long reason px c s)
         | None \<Rightarrow>
           (if (is_long \<and> \<not> buy) \<or> (\<not> is_long \<and> buy)
            then seg_open g True buy c (seg_close g is_long ''REVERSE'' (c_close c) c s)
            else Inr s)))"

definition note_equity :: "candle \<Rightarrow> seg \<Rightarrow> seg" where
  "note_equity c s = s\<lparr>s_history := s_history s @ [\<lparr>ep_ts = c_ts c, ep_equity = s_equity s\<rparr>]\<rparr>"

definition note_drawdown :: "seg \<Rightarrow> seg" where
  "note_drawdown s =
     (let m = max (s_max_equity s) (s_equity s); dd = (if 0 < m then (m - s_equity s) / m else 0)
      in s\<lparr>s_max_equity := m, s_max_drawdown := max (s_max_drawdown s) dd\<rparr>)"

text \<open>One iteration: \<open>seen\<close> are the candles up to and including the current one.\<close>

definition seg_step :: "seg_params \<Rightarrow> candle list \<Rightarrow> candle \<Rightarrow> seg \<Rightarrow> seg res" where
  "seg_step g seen c s =
     (let closes = map c_close seen
      in bindE (sma closes (sg_fast g)) (\<lambda>fast_val.
         bindE (sma closes (sg_slow g)) (\<lambda>slow_val.
           case (fast_val, slow_val) of
             (Some f, Some w) \<Rightarrow>
               bindE (seg_trade_step g (w < f) c s) (\<lambda>s'. Inr (note_drawdown (note_equity c s')))
           | _ \<Rightarrow> Inr (note_equity c s))))"

fun seg_loop :: "seg_params \<Rightarrow> candle list \<Rightarrow> candle list \<Rightarrow> seg \<Rightarrow> seg res" where
  "seg_loop g seen [] s = Inr s"
| "seg_loop g seen (c # cs) s =
     bindE (seg_step g (seen @ [c]) c s) (seg_loop g (seen @ [c]) cs)"

text \<open>The result dictionary; the early return leaves \<open>"sharpe"\<close> out.\<close>

record seg_result =
  r_net_pnl :: real
  r_max_drawdown :: real
  r_sharpe :: "real option"
  r_trades :: nat
  r_wins :: nat
  r_losses :: nat
  r_fees_total :: real
  r_history :: "equity_point list"
  r_trades_list :: "seg_trade list"

definition run_backtest_on_segment :: "candle list \<Rightarrow> real \<Rightarrow> seg_params \<Rightarrow> seg_result res" where
  "run_backtest_on_segment candles starting_balance g =
     (if int (length candles) < max (sg_fast g) (sg_slow g) + 1
      then Inr \<lparr>r_net_pnl = 0, r_max_drawdown = 0, r_sharpe = None, r_trades = 0, r_wins = 0,
                r_losses = 0, r_fees_total = 0, r_history = [], r_trades_list = []\<rparr>
      else bindE (seg_loop g [] (normalize_candle_order candles) (seg_init starting_balance)) (\<lambda>s.
             Inr \<lparr>r_net_pnl = s_equity s - starting_balance, r_max_drawdown = s_max_drawdown s,
                  r_sharpe = Some (calculate_sharpe_ratio (s_history s) 252),
                  r_trades = length (s_trades s), r_wins = s_wins s, r_losses = s_losses s,
                  r_fees_total = s_fees s, r_history = s_history s, r_trades_list = s_trades s\<rparr>))"

section \<open>Bar mode\<close>

record bar_state =
  bar_equity :: real
  bar_history :: "equity_point list"
  bar_trades :: "bar_trade list"
  bar_wins :: nat
  bar_losses :: nat
  bar_fees :: real
  bar_max_equity :: real
  bar_max_drawdown :: real

record bt_stats =
  bs_trades :: nat
  bs_wins :: nat
  bs_losses :: nat
  bs_win_rate :: real
  bs_net_pnl :: real
  bs_fees_total :: real
  bs_max_drawdown :: real
  bs_sharpe :: real
  bs_starting_balance :: real
  bs_ending_balance :: real

definition bar_init :: "real \<Rightarrow> bar_state" where
  "bar_init starting_balance =
     \<lparr>bar_equity = starting_balance, bar_history = [], bar_trades = [], bar_wins = 0, bar_losses = 0,
      bar_fees = 0, bar_max_equity = starting_balance, bar_max_drawdown = 0\<rparr>"

definition bar_book :: "candle \<Rightarrow> bar_trade \<Rightarrow> bar_state \<Rightarrow> bar_state" where
  "bar_book c t s =
     (let eq = bar_equity s + bt_pnl t; m = max (bar_max_equity s) eq
      in s\<lparr>bar_equity := eq, bar_fees := bar_fees s + bt_fees t, bar_max_equity := m,
           bar_max_drawdown := max (bar_max_drawdown s) (if 0 < m then (m - eq) / m else 0),
           bar_wins := (if 0 \<le> bt_pnl t then bar_wins s + 1 else bar_wins s),
           bar_losses := (if 0 \<le> bt_pnl t then bar_losses s else bar_losses s + 1),
           bar_trades := bar_trades s @ [t],
           bar_history := bar_history s @ [\<lparr>ep_ts = c_ts c, ep_equity = eq\<rparr>]\<rparr>)"

text \<open>The bar at index \<open>i\<close>: the signal of the bars before it, traded from close to close.\<close>

definition bar_step :: "real \<Rightarrow> real \<Rightarrow> candle list \<Rightarrow> nat \<Rightarrow> bar_state \<Rightarrow> bar_state res" where
  "bar_step fees_bps slip_bps candles i s =
     (let closes = map c_close candles
      in bindE (sma (take i closes) 10) (\<lambda>fast_val.
         bindE (sma (take i closes) 30) (\<lambda>slow_val.
           case (fast_val, slow_val) of
             (Some f, Some w) \<Rightarrow>
               Inr (bar_book (candles ! i)
                 (simulate_trade_one_bar (w < f) (c_close (candles ! (i - 1))) (c_close (candles ! i))
                    (bar_equity s) fees_bps slip_bps) s)
           | _ \<Rightarrow> Inr s)))"

fun bar_loop :: "real \<Rightarrow> real \<Rightarrow> candle list \<Rightarrow> nat list \<Rightarrow> bar_state \<Rightarrow> bar_state res" where
  "bar_loop fees_bps slip_bps candles [] s = Inr s"
| "bar_loop fees_bps slip_bps candles (i # is) s =
     bindE (bar_step fees_bps slip_bps candles i s) (bar_loop fees_bps slip_bps candles is)"

definition run_backtest_bar_mode :: "bool \<Rightarrow> candle list \<Rightarrow> real \<Rightarrow> real \<Rightarrow> real
    \<Rightarrow> (bar_trade list \<times> equity_point list \<times> bt_stats \<times> real) res" where
  "run_backtest_bar_mode context_set candles starting_balance fees_bps slip_bps =
     (if \<not> context_set then Inl (RuntimeError ''Context LATEST_DIR not set.'')
      else if length candles < 31 then Inl (ValueError ''Need at least 31 candles'')
      else let cs = normalize_candle_order candles
           in bindE (bar_loop fees_bps slip_bps cs [30..<length cs] (bar_init starting_balance)) (\<lambda>s.
                Inr (bar_trades s, bar_history s,
                  \<lparr>bs_trades = length (bar_trades s), bs_wins = bar_wins s, bs_losses = bar_losses s,
                   bs_win_rate = (if 0 < bar_wins s + bar_losses s
                     then real (bar_wins s) / real (bar_wins s + bar_losses s) else 0),
                   bs_net_pnl = bar_equity s - starting_balance, bs_fees_total = bar_fees s,
                   bs_max_drawdown = bar_max_drawdown s,
                   bs_sharpe = calculate_sharpe_ratio (bar_history s) 252,
                   bs_starting_balance = starting_balance, bs_ending_balance = bar_equity s\<rparr>,
                  bar_equity s)))"

section \<open>Position mode\<close>

definition run_backtest_position_mode :: "bool \<Rightarrow> candle list \<Rightarrow> real \<Rightarrow> seg_params
    \<Rightarrow> (seg_trade list \<times> equity_point list \<times> bt_stats \<times> real) res" where
  "run_backtest_position_mode context_set candles starting_balance g =
     (if \<not> context_set then Inl (RuntimeError ''Context LATEST_DIR not set.'')
      else bindE (run_backtest_on_segment candles starting_balance g) (\<lambda>r.
        bindE (if 0 < r_trades r
               then py_div (real (r_wins r)) (real (r_wins r + r_losses r)) else Inr 0) (\<lambda>win_rate.
        case r_sharpe r of
          None \<Rightarrow> Inl (KeyError ''sharpe'')
        | Some sharpe \<Rightarrow>
          let stats = \<lparr>bs_trades = r_trades r, bs_wins = r_wins r, bs_losses = r_losses r,
                bs_win_rate = win_rate, bs_net_pnl = r_net_pnl r, bs_fees_total = r_fees_total r,
                bs_max_drawdown = r_max_drawdown r, bs_sharpe = sharpe,
                bs_starting_balance = starting_balance,
                bs_ending_balance = starting_balance + r_net_pnl r\<rparr>
          in Inr (r_trades_list r, r_history r, stats, bs_ending_balance stats))))"

section \<open>Walk-forward validation\<close>

record validation_setup =
  v_balance :: real
  v_params :: seg_params
  v_splits :: int
  v_train :: int
  v_test :: int

definition with_candidate :: "seg_params \<Rightarrow> candidate \<Rightarrow> seg_params" where
  "with_candidate g p = g\<lparr>sg_fast := fast_sma p, sg_slow := slow_sma p,
     sg_stop_bps := stop_bps p, sg_tp_r := tp_r p\<rparr>"

definition objective :: "real \<Rightarrow> seg_result \<Rightarrow> real" where
  "objective starting_balance r = r_net_pnl r - 0.5 * r_max_drawdown r * starting_balance"

record train_result =
  tr_result :: seg_result
  tr_objective :: real
  tr_params :: candidate

text \<open>
  The inner loop over the candidates: a candidate whose evaluation raises is logged and skipped;
  \<open>None\<close> stands for the initial \<open>best_obj = -inf\<close> with no \<open>best_params\<close>.
\<close>

fun train_loop :: "(candidate \<Rightarrow> seg_result res) \<Rightarrow> real \<Rightarrow> candidate list
    \<Rightarrow> (candidate \<times> real) option \<Rightarrow> train_result list \<Rightarrow> (candidate \<times> real) option \<times> train_result list" where
  "train_loop eval bal [] best acc = (best, acc)"
| "train_loop eval bal (p # ps) best acc =
     (case eval p of
        Inl e \<Rightarrow> train_loop eval bal ps best acc
      | Inr r \<Rightarrow>
        let obj = objective bal r;
            acc' = acc @ [\<lparr>tr_result = r, tr_objective = obj, tr_params = p\<rparr>];
            best' = (case best of None \<Rightarrow> Some (p, obj)
                     | Some (q, b) \<Rightarrow> if b < obj then Some (p, obj) else best)
        in train_loop eval bal ps best' acc')"

record fold_result =
  fd_index :: int
  fd_params :: candidate
  fd_test :: seg_result

text \<open>\<open>candles[a:b]\<close> for bounds that are not negative.\<close>

definition slice :: "int \<Rightarrow> int \<Rightarrow> 'a list \<Rightarrow> 'a list" where
  "slice a b xs = drop (nat a) (take (nat b) xs)"

definition validate_fold :: "validation_setup \<Rightarrow> candidate list \<Rightarrow> candle list \<Rightarrow> int
    \<Rightarrow> (fold_result \<times> train_result list) res" where
  "validate_fold v candidates candles k =
     (let train_start = k * v_test v;
          train_end = train_start + v_train v;
          test_end = train_end + v_test v;
          train_c = slice train_start train_end candles;
          test_c = slice train_end test_end candles;
          (best, trained) = train_loop
            (\<lambda>p. run_backtest_on_segment train_c (v_balance v) (with_candidate (v_params v) p))
            (v_balance v) candidates None [];
          best_params = (case best of None \<Rightarrow> hd candidates | Some (p, b) \<Rightarrow> p)
      in bindE (run_backtest_on_segment test_c (v_balance v) (with_candidate (v_params v) best_params))
           (\<lambda>r. Inr (\<lparr>fd_index = k, fd_params = best_params, fd_test = r\<rparr>, trained)))"

fun validate_loop :: "validation_setup \<Rightarrow> candidate list \<Rightarrow> candle list \<Rightarrow> int list
    \<Rightarrow> fold_result list \<Rightarrow> train_result list \<Rightarrow> (fold_result list \<times> train_result list) res" where
  "validate_loop v candidates candles [] folds acc = Inr (folds, acc)"
| "validate_loop v candidates candles (k # ks) folds acc =
     (if int (length candles) < k * v_test v + v_train v + v_test v then Inr (folds, acc)
      else bindE (validate_fold v candidates candles k) (\<lambda>(f, trained).
             validate_loop v candidates candles ks (folds @ [f]) (acc @ trained)))"

record validation_report =
  vr_leaderboard :: "train_result list"
  vr_total_os_pnl :: real
  vr_avg_os_pnl :: real
  vr_folds :: "fold_result list"

definition run_validation :: "candle list \<Rightarrow> validation_setup \<Rightarrow> (int \<times> int) list \<Rightarrow> real list
    \<Rightarrow> real list \<Rightarrow> nat \<Rightarrow> validation_report res" where
  "run_validation candles v smas stops tps max_candidates =
     bindE (grid_candidates smas stops tps max_candidates) (\<lambda>candidates.
       let cs = normalize_candle_order candles;
           required = v_train v + v_splits v * v_test v
       in if int (length cs) < required then Inl (ValueError ''Insufficient candles'')
          else bindE (validate_loop v candidates cs [0..v_splits v - 1] [] []) (\<lambda>(folds, trained).
            let os_pnl = (\<Sum>f\<leftarrow>folds. r_net_pnl (fd_test f))
            in Inr \<lparr>vr_leaderboard = take 10 (sort_key (\<lambda>r. - tr_objective r) trained),
                    vr_total_os_pnl = os_pnl,
                    vr_avg_os_pnl = (if folds \<noteq> [] then os_pnl / real (length folds) else 0),
                    vr_folds = folds\<rparr>))"

end
