(* ===== verification/Backtest_Broker.thy ===== *)
theory Backtest_Broker
  imports Paper_Broker Exchange
begin

text \<open>
  The in-memory broker of the backtest: \<^verbatim>\<open>backtest/backtest_broker.py\<close>'s \<open>BacktestBroker\<close> with the
  price model of \<^verbatim>\<open>backtest/fill_simulator.py\<close>. It shares the position engine with the paper
  broker, has no risk checks and no persistence. The generator behind \<open>random.Random\<close> and
  \<open>uuid4\<close> are sequences the reads consume. Configuration values are finite floats.
\<close>

section \<open>The fill simulator\<close>

record simulator =
  slippage_model :: string
  slippage_bps :: real
  spread_bps :: real
  latency_ms :: int
  sim_rng :: "nat \<Rightarrow> real"

definition init_simulator :: "string option \<Rightarrow> real option \<Rightarrow> real option \<Rightarrow> real option
    \<Rightarrow> (nat \<Rightarrow> real) \<Rightarrow> simulator" where
  "init_simulator model slip spread latency rng =
     \<lparr>slippage_model = (case model of None \<Rightarrow> ''fixed_bps'' | Some m \<Rightarrow> m),
      slippage_bps = (case slip of None \<Rightarrow> 2 | Some s \<Rightarrow> s),
      spread_bps = (case spread of None \<Rightarrow> 1 | Some s \<Rightarrow> s),
      latency_ms = (case latency of None \<Rightarrow> 0 | Some l \<Rightarrow> py_int l),
      sim_rng = rng\<rparr>"

definition sim_factor :: "simulator \<Rightarrow> real \<times> simulator" where
  "sim_factor s =
     (if slippage_model s = ''fixed_bps'' then (slippage_bps s, s)
      else if slippage_model s = ''random''
      then (slippage_bps s * (1 / 2 + (3 / 2 - 1 / 2) * sim_rng s 0),
            s\<lparr>sim_rng := \<lambda>k. sim_rng s (Suc k)\<rparr>)
      else (slippage_bps s, s))"

definition sim_slippage :: "real \<Rightarrow> side \<Rightarrow> bool \<Rightarrow> simulator \<Rightarrow> real \<times> simulator" where
  "sim_slippage price sd is_entry s =
     (let (factor, s') = sim_factor s; rate = factor / 10000
      in (if sd = LONG
          then (if is_entry then price * (1 + rate) else price * (1 - rate))
          else (if is_entry then price * (1 - rate) else price * (1 + rate)), s'))"

text \<open>The order dictionary with its optional keys.\<close>

record sim_order =
  so_client_id :: "string option"
  so_go :: bool
  so_side :: side
  so_type :: "entry_type option"
  so_entry :: "real option"
  so_qty :: real
  so_sl :: "real option"
  so_tp :: "real option"

definition so_is_market :: "sim_order \<Rightarrow> bool" where
  "so_is_market ord \<longleftrightarrow> (case so_type ord of None \<Rightarrow> True | Some t \<Rightarrow> t = Market)"

definition get_or_zero :: "real option \<Rightarrow> real" where
  "get_or_zero x = (case x of None \<Rightarrow> 0 | Some r \<Rightarrow> r)"

definition should_fill :: "sim_order \<Rightarrow> candle \<Rightarrow> bool" where
  "should_fill ord c \<longleftrightarrow> so_is_market ord
     \<or> (c_low c \<le> get_or_zero (so_entry ord) \<and> get_or_zero (so_entry ord) \<le> c_high c)"

section \<open>The broker\<close>

record bt_fill_rec =
  bf_trade_id :: string
  bf_side :: side
  bf_price :: real
  bf_qty :: real
  bf_sl :: real
  bf_tp :: real
  bf_at :: string
  bf_fees :: real

record bt_exit_rec =
  bx_trade_id :: string
  bx_reason :: string
  bx_entry :: real
  bx_exit :: real
  bx_price :: real
  bx_qty :: real
  bx_pnl :: real
  bx_at :: string
  bx_fees :: real
  bx_side :: side

datatype bt_event = BtFill bt_fill_rec | BtExit bt_exit_rec

fun bt_ev_pnl :: "bt_event \<Rightarrow> real" where
  "bt_ev_pnl (BtFill f) = 0"
| "bt_ev_pnl (BtExit x) = bx_pnl x"

record bt_broker =
  bt_symbol :: string
  bt_pos :: "position option"
  bt_is_inverse :: bool
  bt_starting_equity :: real
  bt_current_equity :: real
  bt_maker :: real
  bt_taker :: real
  bt_simulator :: simulator
  bt_order_history :: "bt_event list"
  bt_processed :: "string set"
  bt_uuid :: "nat \<Rightarrow> string"

definition init_bt :: "string \<Rightarrow> real \<Rightarrow> real \<Rightarrow> simulator \<Rightarrow> (nat \<Rightarrow> string) \<Rightarrow> bt_broker" where
  "init_bt symbol fees_bps starting_equity sim uuid =
     \<lparr>bt_symbol = symbol, bt_pos = None, bt_is_inverse = ends_usd_not_usdt symbol,
      bt_starting_equity = starting_equity, bt_current_equity = starting_equity,
      bt_maker = fees_bps / 10000, bt_taker = fees_bps / 10000, bt_simulator = sim,
      bt_order_history = [], bt_processed = {}, bt_uuid = uuid\<rparr>"

text \<open>\<open>order.get("client_order_id") or uuid.uuid4().hex\<close>\<close>

definition bt_order_id :: "sim_order \<Rightarrow> bt_broker \<Rightarrow> string \<times> bt_broker" where
  "bt_order_id ord b =
     (case so_client_id ord of
        Some cid \<Rightarrow> (if cid \<noteq> [] then (cid, b) else (bt_uuid b 0, b\<lparr>bt_uuid := \<lambda>k. bt_uuid b (Suc k)\<rparr>))
      | None \<Rightarrow> (bt_uuid b 0, b\<lparr>bt_uuid := \<lambda>k. bt_uuid b (Suc k)\<rparr>))"

definition bt_new_position :: "sim_order \<Rightarrow> candle \<Rightarrow> string \<Rightarrow> real \<Rightarrow> lot \<Rightarrow> position" where
  "bt_new_position ord c trade_id qty new_lot =
     \<lparr>p_side = so_side ord, p_qty = qty, p_sl = get_or_zero (so_sl ord),
      p_tp = get_or_zero (so_tp ord), p_opened_at = c_ts c, p_lots = [new_lot],
      p_trade_id = trade_id, p_bars_open = 0, p_trail_active = False, p_trail_stop = 0\<rparr>"

definition bt_try_fill :: "candle \<Rightarrow> sim_order \<Rightarrow> bt_broker \<Rightarrow> bt_fill_rec option \<times> bt_broker" where
  "bt_try_fill c ord b0 =
     (if \<not> should_fill ord c then (None, b0)
      else let (trade_id, b1) = bt_order_id ord b0;
               px = (if so_is_market ord then c_close c else get_or_zero (so_entry ord));
               (fill_px, sim) = sim_slippage px (so_side ord) True (bt_simulator b1);
               b2 = b1\<lparr>bt_simulator := sim\<rparr>;
               notional = so_qty ord * fill_px;
               fees = notional * bt_taker b2;
               pos_qty = (if bt_is_inverse b2 then notional else so_qty ord);
               new_lot = \<lparr>l_qty = pos_qty, l_price = fill_px, l_fees = fees\<rparr>;
               ev = \<lparr>bf_trade_id = trade_id, bf_side = so_side ord, bf_price = fill_px,
                     bf_qty = pos_qty, bf_sl = get_or_zero (so_sl ord),
                     bf_tp = get_or_zero (so_tp ord), bf_at = c_ts c, bf_fees = fees\<rparr>;
               booked = (\<lambda>p. (Some ev, b2\<lparr>bt_pos := Some p,
                                bt_order_history := bt_order_history b2 @ [BtFill ev]\<rparr>))
           in case bt_pos b2 of
                Some p \<Rightarrow> (if so_side ord = p_side p
                           then booked (p\<lparr>p_lots := p_lots p @ [new_lot], p_qty := p_qty p + pos_qty\<rparr>)
                           else (None, b2))
              | None \<Rightarrow> booked (bt_new_position ord c trade_id pos_qty new_lot))"

definition bt_exit :: "string \<Rightarrow> real \<Rightarrow> string \<Rightarrow> (bt_broker, bt_exit_rec) py" where
  "bt_exit ts px reason = (\<lambda>b.
     case bt_pos b of None \<Rightarrow> (Inl AssertionError, b)
     | Some p \<Rightarrow>
       let (px_slipped, sim) = sim_slippage px (p_side p) False (bt_simulator b);
           b1 = b\<lparr>bt_simulator := sim\<rparr>
       in case calculate_full_exit_pnl p px_slipped (bt_taker b1) (bt_is_inverse b1) of
            (Inl e, p') \<Rightarrow> (Inl e, b1\<lparr>bt_pos := Some p'\<rparr>)
          | (Inr x, p') \<Rightarrow>
            let ev = \<lparr>bx_trade_id = p_trade_id p', bx_reason = reason, bx_entry = x_avg_entry x,
                  bx_exit = px, bx_price = px, bx_qty = p_qty p', bx_pnl = x_net_pnl x, bx_at = ts,
                  bx_fees = x_total_fees x, bx_side = p_side p'\<rparr>
            in (Inr ev, b1\<lparr>bt_pos := Some p', bt_current_equity := bt_current_equity b1 + x_net_pnl x,
                  bt_order_history := bt_order_history b1 @ [BtExit ev]\<rparr>))"

text \<open>The level and reason a candle takes the position out at.\<close>

definition bt_exit_at :: "position \<Rightarrow> candle \<Rightarrow> (real \<times> string) option" where
  "bt_exit_at p c =
     (if p_side p = LONG then
        (let sl_hit = (c_low c \<le> p_sl p); tp_hit = (p_tp p \<le> c_high c)
         in if sl_hit then Some (p_sl p, ''SL'') else if tp_hit then Some (p_tp p, ''TP'') else None)
      else
        (let sl_hit = (p_sl p \<le> c_high c); tp_hit = (c_low c \<le> p_tp p)
         in if sl_hit then Some (p_sl p, ''SL'') else if tp_hit then Some (p_tp p, ''TP'') else None))"

definition bt_check_exit :: "candle \<Rightarrow> (bt_broker, bt_exit_rec option) py" where
  "bt_check_exit c = (\<lambda>b.
     case bt_pos b of None \<Rightarrow> (Inl AssertionError, b)
     | Some p \<Rightarrow>
       (case bt_exit_at p c of
          None \<Rightarrow> (Inr None, b)
        | Some (px, reason) \<Rightarrow> bindS (bt_exit (c_ts c) px reason) (\<lambda>x. returnS (Some x)) b))"

definition bt_manage :: "candle \<Rightarrow> (bt_broker, bt_exit_rec list) py" where
  "bt_manage c = (\<lambda>b.
     case bt_pos b of None \<Rightarrow> (Inr [], b)
     | Some p \<Rightarrow>
       bindS (bt_check_exit c) (\<lambda>x b2.
         case x of None \<Rightarrow> (Inr [], b2) | Some ev \<Rightarrow> (Inr [ev], b2\<lparr>bt_pos := None\<rparr>))
         (b\<lparr>bt_pos := Some (p\<lparr>p_bars_open := p_bars_open p + 1\<rparr>)\<rparr>))"

text \<open>The result is the \<open>fills\<close> and the \<open>exits\<close> of the dictionary the method returns.\<close>

definition bt_on_candle :: "candle \<Rightarrow> sim_order option
    \<Rightarrow> (bt_broker, bt_fill_rec list \<times> bt_exit_rec list) py" where
  "bt_on_candle c ord = bindS (bt_manage c) (\<lambda>exits b.
     case ord of
       Some o' \<Rightarrow> (if bt_pos b = None \<and> so_go o'
                  then (case bt_try_fill c o' b of
                          (None, b') \<Rightarrow> (Inr ([], exits), b')
                        | (Some f, b') \<Rightarrow> (Inr ([f], exits), b'))
                  else (Inr ([], exits), b))
     | None \<Rightarrow> (Inr ([], exits), b))"

definition bt_on_tick :: "tick \<Rightarrow> (bt_broker, bt_exit_rec list) py" where
  "bt_on_tick t = returnS []"

definition bt_unrealized :: "real \<Rightarrow> bt_broker \<Rightarrow> real res" where
  "bt_unrealized px b = calculate_unrealized_pnl (bt_pos b) px (bt_is_inverse b)"

definition bt_close_all :: "string \<Rightarrow> real \<Rightarrow> (bt_broker, bt_exit_rec list) py" where
  "bt_close_all now_iso px = (\<lambda>b.
     if bt_pos b = None then (Inr [], b)
     else bindS (bt_exit now_iso px ''FORCE_CLOSE'') (\<lambda>x b2. (Inr [x], b2\<lparr>bt_pos := None\<rparr>)) b)"

section \<open>The books\<close>

definition bt_books :: "bt_broker \<Rightarrow> bt_broker \<Rightarrow> bool" where
  "bt_books b b' \<longleftrightarrow> (\<exists>evs. bt_order_history b' = bt_order_history b @ evs
     \<and> bt_current_equity b' = bt_current_equity b + (\<Sum>e\<leftarrow>evs. bt_ev_pnl e))"

lemma bt_books_refl [simp, intro]: "bt_books b b"
  by (simp add: bt_books_def)

lemma bt_books_trans: "bt_books a b \<Longrightarrow> bt_books b c \<Longrightarrow> bt_books a c"
  by (force simp: bt_books_def)

lemma bt_books_pos [simp]: "bt_books b (b'\<lparr>bt_pos := p\<rparr>) = bt_books b b'"
  "bt_books (b\<lparr>bt_pos := p\<rparr>) b' = bt_books b b'"
  by (simp_all add: bt_books_def)

lemma bt_order_id_fields:
  "bt_order_id ord b = (cid, b') \<Longrightarrow> bt_order_history b' = bt_order_history b
     \<and> bt_current_equity b' = bt_current_equity b \<and> bt_pos b' = bt_pos b \<and> bt_taker b' = bt_taker b
     \<and> bt_is_inverse b' = bt_is_inverse b \<and> bt_simulator b' = bt_simulator b"
  by (auto simp: bt_order_id_def split: option.splits if_splits)

lemma bt_try_fill_books: "bt_books b (snd (bt_try_fill c ord b))"
proof -
  obtain cid b1 where id: "bt_order_id ord b = (cid, b1)" by fastforce
  from bt_order_id_fields [OF id] show ?thesis
    by (auto simp: bt_try_fill_def id bt_books_def Let_def split: prod.splits option.splits)
qed

lemma bt_exit_books: "bt_exit ts px reason b = (r, b') \<Longrightarrow> bt_books b b'"
  by (auto simp: bt_exit_def bt_books_def Let_def split: option.splits prod.splits sum.splits)

lemma bt_check_exit_books: "bt_check_exit c b = (r, b') \<Longrightarrow> bt_books b b'"
  by (auto simp: bt_check_exit_def dest: bt_exit_books elim!: bindS_cases split: option.splits)

lemma bt_manage_books: "bt_manage c b = (r, b') \<Longrightarrow> bt_books b b'"
  by (auto simp: bt_manage_def dest!: bt_check_exit_books elim!: bindS_cases split: option.splits)

lemma bt_on_candle_books: "bt_on_candle c ord b = (r, b') \<Longrightarrow> bt_books b b'"
  unfolding bt_on_candle_def
proof (erule bindS_cases)
  fix e assume "bt_manage c b = (Inl e, b')"
  then show "bt_books b b'" by (rule bt_manage_books)
next
  fix exits b1
  assume m: "bt_manage c b = (Inr exits, b1)"
    and k: "(case ord of None \<Rightarrow> (Inr ([], exits), b1)
       | Some o' \<Rightarrow> if bt_pos b1 = None \<and> so_go o'
          then case bt_try_fill c o' b1 of (None, b') \<Rightarrow> (Inr ([], exits), b')
             | (Some f, b') \<Rightarrow> (Inr ([f], exits), b')
          else (Inr ([], exits), b1)) = (r, b')"
  have "b' = b1 \<or> (\<exists>o'. b' = snd (bt_try_fill c o' b1))"
    using k by (auto split: option.splits prod.splits if_splits) (metis snd_conv)+
  then have "bt_books b1 b'" using bt_try_fill_books by auto
  with bt_manage_books [OF m] show "bt_books b b'" by (rule bt_books_trans)
qed

lemma bt_close_all_books: "bt_close_all ts px b = (r, b') \<Longrightarrow> bt_books b b'"
  by (auto simp: bt_close_all_def dest: bt_exit_books elim!: bindS_cases split: if_splits)

datatype bt_op = BtCandle candle "sim_order option" | BtTick tick | BtCloseAll string real

fun bt_step :: "bt_op \<Rightarrow> bt_broker \<Rightarrow> bt_broker" where
  "bt_step (BtCandle c ord) b = snd (bt_on_candle c ord b)"
| "bt_step (BtTick t) b = snd (bt_on_tick t b)"
| "bt_step (BtCloseAll ts px) b = snd (bt_close_all ts px b)"

lemma bt_step_books: "bt_books b (bt_step op b)"
  by (cases op) (auto simp: bt_on_tick_def intro: bt_on_candle_books bt_close_all_books
      prod.collapse [symmetric])

interpretation bt: exchange bt_current_equity bt_order_history bt_ev_pnl bt_step
  by unfold_locales (use bt_step_books in \<open>simp add: bt_books_def\<close>)

end
