(* ===== verification/Backtest_Properties.thy ===== *)
theory Backtest_Properties
  imports Backtest_Engine Backtest_Broker "HOL-Library.Sublist"
begin

text \<open>
  What the backtest engine and the backtest broker guarantee: the report adds up, no bar sees a
  later candle, a stop costs the risk it was sized for, validation is walk-forward, and the
  broker's exits are those of the paper broker.
\<close>

section \<open>The loop\<close>

lemma seg_open_cases:
  assumes "seg_open g flip is_long c s = Inr s'"
  obtains (stay) "s' = s"
  | (opened) qty sp tp fees where
      "calculate_position_size (s_equity s) (c_close c) (sg_risk_pct g) (sg_stop_bps g) (sg_tp_r g)
         (sg_max_leverage g) is_long = Inr (Some (qty, sp, tp))"
      "fees = calculate_fees (apply_slippage (c_close c) True is_long (sg_slip_bps g) * qty) (sg_fees_bps g)"
      "s' = s\<lparr>s_long := Some is_long,
          s_entry_price := apply_slippage (c_close c) True is_long (sg_slip_bps g),
          s_entry_ts := c_ts c, s_qty := qty, s_stop := sp, s_tp := tp,
          s_equity := s_equity s - fees, s_fees := s_fees s + fees\<rparr>"
proof -
  from assms obtain sized where sized: "calculate_position_size (s_equity s) (c_close c)
      (sg_risk_pct g) (sg_stop_bps g) (sg_tp_r g) (sg_max_leverage g) is_long = Inr sized"
    by (auto simp: seg_open_def bindE_Inr_iff)
  show thesis
  proof (cases sized)
    case None
    then show ?thesis using assms sized stay by (simp add: seg_open_def)
  next
    case (Some t)
    obtain qty sp tp where t: "t = (qty, sp, tp)" by (cases t)
    show ?thesis
    proof (cases "flip \<and> qty = 0")
      case True
      then show ?thesis using assms sized Some t stay by (simp add: seg_open_def)
    next
      case False
      show ?thesis
        by (rule opened [of qty sp tp], use sized Some t in simp, rule refl)
           (use assms sized Some t False in \<open>simp add: seg_open_def Let_def\<close>)
    qed
  qed
qed

lemma seg_close_simps [simp]:
  "s_history (seg_close g l reason px c s) = s_history s"
  "s_max_equity (seg_close g l reason px c s) = s_max_equity s"
  "s_max_drawdown (seg_close g l reason px c s) = s_max_drawdown s"
  "s_long (seg_close g l reason px c s) = None"
  by (simp_all add: seg_close_def Let_def)

text \<open>
  The accounts: every trade is counted as a win or a loss, and equity is the start plus the
  trades' profits less the fees that no trade carries, those paid on entry.
\<close>

definition seg_accounts :: "real \<Rightarrow> seg \<Rightarrow> bool" where
  "seg_accounts bal s \<longleftrightarrow>
     s_equity s = bal + (\<Sum>t\<leftarrow>s_trades s. st_pnl t) - (s_fees s - (\<Sum>t\<leftarrow>s_trades s. st_fees t))
     \<and> s_wins s = length (filter (\<lambda>t. 0 \<le> st_pnl t) (s_trades s))
     \<and> s_losses s = length (filter (\<lambda>t. st_pnl t < 0) (s_trades s))"

lemma seg_open_accounts:
  "seg_open g flip is_long c s = Inr s' \<Longrightarrow> seg_accounts bal s \<Longrightarrow> seg_accounts bal s'"
  by (erule seg_open_cases) (auto simp: seg_accounts_def)

lemma seg_close_accounts: "seg_accounts bal s \<Longrightarrow> seg_accounts bal (seg_close g l reason px c s)"
  by (auto simp: seg_accounts_def seg_close_def Let_def)

text \<open>A trading step keeps the recorded history and only appends trades.\<close>

lemma seg_open_keeps:
  "seg_open g flip is_long c s = Inr s' \<Longrightarrow> s_history s' = s_history s
     \<and> s_max_equity s' = s_max_equity s \<and> s_max_drawdown s' = s_max_drawdown s
     \<and> s_trades s' = s_trades s"
  by (erule seg_open_cases) auto

lemma seg_close_trades: "prefix (s_trades s) (s_trades (seg_close g l reason px c s))"
  by (simp add: seg_close_def Let_def)

lemma seg_trade_step_cases:
  assumes "seg_trade_step g buy c s = Inr s'"
  obtains (opened) "seg_open g False buy c s = Inr s'"
  | (closed) l reason px where "s' = seg_close g l reason px c s"
  | (flipped) l where "seg_open g True buy c (seg_close g l ''REVERSE'' (c_close c) c s) = Inr s'"
  | (held) "s' = s"
proof (cases "s_long s")
  case None
  then have "seg_open g False buy c s = Inr s'" using assms by (simp add: seg_trade_step_def)
  then show ?thesis by (rule opened)
next
  case (Some l)
  show ?thesis
  proof (cases "seg_exit_at g l c s")
    case None
    with assms Some have "seg_open g True buy c (seg_close g l ''REVERSE'' (c_close c) c s) = Inr s' \<or> s' = s"
      by (auto simp: seg_trade_step_def split: if_splits)
    then show ?thesis using flipped held by blast
  next
    case (Some x)
    then have "s' = seg_close g l (fst x) (snd x) c s" using assms \<open>s_long s = Some l\<close>
      by (simp add: seg_trade_step_def case_prod_beta)
    then show ?thesis by (rule closed)
  qed
qed

lemma seg_trade_step_accounts:
  "seg_trade_step g buy c s = Inr s' \<Longrightarrow> seg_accounts bal s \<Longrightarrow> seg_accounts bal s'"
  by (erule seg_trade_step_cases) (auto intro: seg_open_accounts seg_close_accounts)

lemma seg_trade_step_keeps:
  assumes "seg_trade_step g buy c s = Inr s'"
  shows "s_history s' = s_history s \<and> s_max_equity s' = s_max_equity s
    \<and> s_max_drawdown s' = s_max_drawdown s \<and> prefix (s_trades s) (s_trades s')"
  using assms
proof (cases rule: seg_trade_step_cases)
  case (flipped l)
  then show ?thesis
    using seg_open_keeps [OF flipped] seg_close_trades [of s g l "''REVERSE''" "c_close c" c] by simp
qed (auto dest: seg_open_keeps simp: seg_close_trades)

lemma note_simps [simp]:
  "s_trades (note_equity c s) = s_trades s" "s_equity (note_equity c s) = s_equity s"
  "s_history (note_equity c s) = s_history s @ [\<lparr>ep_ts = c_ts c, ep_equity = s_equity s\<rparr>]"
  "s_max_equity (note_equity c s) = s_max_equity s"
  "s_max_drawdown (note_equity c s) = s_max_drawdown s"
  "s_trades (note_drawdown s) = s_trades s" "s_equity (note_drawdown s) = s_equity s"
  "s_history (note_drawdown s) = s_history s"
  "seg_accounts bal (note_equity c s) = seg_accounts bal s"
  "seg_accounts bal (note_drawdown s) = seg_accounts bal s"
  by (simp_all add: note_equity_def note_drawdown_def seg_accounts_def Let_def)

lemma seg_step_cases:
  assumes "seg_step g seen c s = Inr s'"
  obtains (warmup) "s' = note_equity c s"
  | (traded) buy s1 where "seg_trade_step g buy c s = Inr s1" "s' = note_drawdown (note_equity c s1)"
proof -
  from assms obtain fv wv where v: "sma (map c_close seen) (sg_fast g) = Inr fv"
      "sma (map c_close seen) (sg_slow g) = Inr wv"
    by (auto simp: seg_step_def bindE_Inr_iff Let_def)
  show thesis
  proof (cases "fv = None \<or> wv = None")
    case True
    then show ?thesis using assms v warmup by (auto simp: seg_step_def split: option.splits)
  next
    case False
    then obtain f w where "fv = Some f" "wv = Some w" by auto
    then show ?thesis using assms v traded [of "w < f"] by (auto simp: seg_step_def bindE_Inr_iff)
  qed
qed

subsection \<open>The drawdown\<close>

text \<open>
  The specification: at every bar, the fall from the highest equity so far, relative to it; the
  reported drawdown is the largest.
\<close>

definition peak_at :: "real \<Rightarrow> real list \<Rightarrow> nat \<Rightarrow> real" where
  "peak_at bal es j = Max (insert bal (set (take (Suc j) es)))"

definition drawdown_at :: "real \<Rightarrow> real list \<Rightarrow> nat \<Rightarrow> real" where
  "drawdown_at bal es j =
     (if 0 < peak_at bal es j then (peak_at bal es j - es ! j) / peak_at bal es j else 0)"

definition worst_drawdown :: "real \<Rightarrow> real list \<Rightarrow> real" where
  "worst_drawdown bal es = Max (insert 0 (drawdown_at bal es ` {..<length es}))"

lemma drawdown_at_append: "j < length es \<Longrightarrow> drawdown_at bal (es @ [e]) j = drawdown_at bal es j"
  by (simp add: drawdown_at_def peak_at_def nth_append)

lemma worst_drawdown_snoc:
  "worst_drawdown bal (es @ [e]) = max (worst_drawdown bal es) (drawdown_at bal (es @ [e]) (length es))"
proof -
  have "drawdown_at bal (es @ [e]) ` {..<length (es @ [e])} =
      insert (drawdown_at bal (es @ [e]) (length es)) (drawdown_at bal es ` {..<length es})"
    by (auto simp: drawdown_at_append lessThan_Suc image_iff)
  then have "worst_drawdown bal (es @ [e]) = Max (insert (drawdown_at bal (es @ [e]) (length es))
      (insert 0 (drawdown_at bal es ` {..<length es})))"
    unfolding worst_drawdown_def by (simp add: insert_commute)
  then show ?thesis unfolding worst_drawdown_def by (simp add: max.commute)
qed

lemma Max_snoc: "Max (insert b (set (es @ [e]))) = max (Max (insert b (set es))) (e::real)"
proof -
  have "insert b (set (es @ [e])) = insert e (insert b (set es))" by auto
  then show ?thesis by (simp add: max.commute)
qed

lemma drawdown_at_last:
  assumes "m = Max (insert bal (set es))"
  shows "drawdown_at bal (es @ [e]) (length es) =
    (if 0 < max m e then (max m e - e) / max m e else 0)"
proof -
  have "peak_at bal (es @ [e]) (length es) = Max (insert bal (set (es @ [e])))"
    by (simp add: peak_at_def)
  then have "peak_at bal (es @ [e]) (length es) = max m e" unfolding Max_snoc assms .
  then show ?thesis by (simp add: drawdown_at_def)
qed

definition equities :: "seg \<Rightarrow> real list" where
  "equities s = map ep_equity (s_history s)"

definition seg_curve :: "real \<Rightarrow> seg \<Rightarrow> bool" where
  "seg_curve bal s \<longleftrightarrow> s_max_equity s = Max (insert bal (set (equities s)))
     \<and> s_max_drawdown s = worst_drawdown bal (equities s)
     \<and> s_equity s = (if equities s = [] then bal else last (equities s))"

lemma seg_curve_traded:
  assumes I: "seg_curve bal s" and "seg_trade_step g buy c s = Inr s1"
  shows "seg_curve bal (note_drawdown (note_equity c s1))"
proof -
  have k: "s_history s1 = s_history s" "s_max_equity s1 = s_max_equity s"
    "s_max_drawdown s1 = s_max_drawdown s" using seg_trade_step_keeps [OF assms(2)] by auto
  let ?s = "note_drawdown (note_equity c s1)"
  have e: "equities ?s = equities s @ [s_equity s1]" by (simp add: equities_def k)
  have m: "s_max_equity s = Max (insert bal (set (equities s)))" using I by (simp add: seg_curve_def)
  have "s_max_equity ?s = max (s_max_equity s) (s_equity s1)"
    by (simp add: note_drawdown_def Let_def k)
  also have "\<dots> = Max (insert bal (set (equities ?s)))"
    unfolding e m Max_snoc ..
  finally have peak: "s_max_equity ?s = Max (insert bal (set (equities ?s)))" .
  have "s_max_drawdown ?s = max (s_max_drawdown s)
      (if 0 < max (s_max_equity s) (s_equity s1)
       then (max (s_max_equity s) (s_equity s1) - s_equity s1) / max (s_max_equity s) (s_equity s1) else 0)"
    by (simp add: note_drawdown_def Let_def k)
  also have "\<dots> = worst_drawdown bal (equities ?s)"
    unfolding e worst_drawdown_snoc drawdown_at_last [OF m] using I by (simp add: seg_curve_def)
  finally show ?thesis using peak e by (simp add: seg_curve_def)
qed

lemma seg_curve_warmup:
  assumes I: "seg_curve bal s"
  shows "seg_curve bal (note_equity c s)"
proof -
  let ?e = "s_equity s"
  have e: "equities (note_equity c s) = equities s @ [?e]" by (simp add: equities_def)
  have m: "s_max_equity s = Max (insert bal (set (equities s)))" using I by (simp add: seg_curve_def)
  have known: "?e \<in> insert bal (set (equities s))" using I by (auto simp: seg_curve_def split: if_splits)
  then have le: "?e \<le> s_max_equity s" unfolding m by (intro Max_ge) auto
  have "drawdown_at bal (equities s @ [?e]) (length (equities s)) \<le> worst_drawdown bal (equities s)"
  proof (cases "equities s = []")
    case True
    then have "s_max_equity s = bal" "?e = bal" using I by (auto simp: seg_curve_def)
    then show ?thesis using True by (simp add: drawdown_at_def peak_at_def worst_drawdown_def)
  next
    case False
    let ?j = "length (equities s) - 1"
    have "take (Suc ?j) (equities s) = equities s" "equities s ! ?j = ?e"
      using False I by (auto simp: seg_curve_def last_conv_nth)
    then have "drawdown_at bal (equities s) ?j = drawdown_at bal (equities s @ [?e]) (length (equities s))"
      using le unfolding drawdown_at_last [OF m] by (simp add: drawdown_at_def peak_at_def m max_absorb1)
    moreover have "drawdown_at bal (equities s) ?j \<le> worst_drawdown bal (equities s)"
      unfolding worst_drawdown_def using False by (intro Max_ge) auto
    ultimately show ?thesis by simp
  qed
  then have "worst_drawdown bal (equities (note_equity c s)) = s_max_drawdown s"
    unfolding e worst_drawdown_snoc using I by (simp add: seg_curve_def max_absorb1)
  moreover have "insert bal (set (equities s @ [?e])) = insert bal (set (equities s))"
    using known by auto
  ultimately show ?thesis using m e by (simp add: seg_curve_def)
qed

subsection \<open>The loop's invariant\<close>

definition seg_inv :: "real \<Rightarrow> seg \<Rightarrow> bool" where
  "seg_inv bal s \<longleftrightarrow> seg_accounts bal s \<and> seg_curve bal s"

lemma seg_init_inv: "seg_inv bal (seg_init bal)"
  by (simp add: seg_inv_def seg_init_def seg_accounts_def seg_curve_def equities_def worst_drawdown_def)

lemma seg_step_inv: "seg_step g seen c s = Inr s' \<Longrightarrow> seg_inv bal s \<Longrightarrow> seg_inv bal s'"
  by (erule seg_step_cases)
    (auto simp: seg_inv_def intro: seg_curve_warmup seg_curve_traded seg_trade_step_accounts)

lemma seg_loop_inv: "seg_loop g seen cs s = Inr s' \<Longrightarrow> seg_inv bal s \<Longrightarrow> seg_inv bal s'"
  by (induction cs arbitrary: seen s) (auto simp: bindE_Inr_iff dest: seg_step_inv)

text \<open>Each bar appends one point and trades only at the end: later bars never rewrite earlier ones.\<close>

lemma seg_step_extends:
  "seg_step g seen c s = Inr s' \<Longrightarrow> prefix (s_trades s) (s_trades s')
     \<and> (\<exists>p. s_history s' = s_history s @ [p])"
  by (erule seg_step_cases) (auto dest: seg_trade_step_keeps)

lemma seg_loop_extends:
  "seg_loop g seen cs s = Inr s' \<Longrightarrow> prefix (s_trades s) (s_trades s')
     \<and> prefix (s_history s) (s_history s') \<and> length (s_history s') = length (s_history s) + length cs"
proof (induction cs arbitrary: seen s)
  case (Cons c cs)
  then obtain s1 where s1: "seg_step g (seen @ [c]) c s = Inr s1" "seg_loop g (seen @ [c]) cs s1 = Inr s'"
    by (auto simp: bindE_Inr_iff)
  then obtain p where "prefix (s_trades s) (s_trades s1)" "s_history s1 = s_history s @ [p]"
    using seg_step_extends by blast
  with Cons.IH [OF s1(2)] show ?case
    by (auto intro: prefix_order.trans dest: append_prefixD)
qed simp

lemma seg_loop_append:
  "seg_loop g seen (cs @ ds) s = bindE (seg_loop g seen cs s) (seg_loop g (seen @ cs) ds)"
proof (induction cs arbitrary: seen s)
  case (Cons c cs)
  then show ?case by (cases "seg_step g (seen @ [c]) c s") simp_all
qed simp

subsection \<open>Totality\<close>

lemma sma_total: "1 \<le> window \<Longrightarrow> \<exists>v. sma vals window = Inr v"
  by (auto simp: sma_def Let_def)

lemma sma_some: "1 \<le> window \<Longrightarrow> window \<le> int (length vals) \<Longrightarrow> \<exists>v. sma vals window = Inr (Some v)"
  using sma_window_mean by fastforce

lemma position_size_total:
  "0 < tp \<Longrightarrow> \<exists>r. calculate_position_size eq px risk stop tp lev l = Inr r"
  by (auto simp: calculate_position_size_def Let_def not_less intro!: mult_pos_pos)

lemma seg_open_total: "0 < sg_tp_r g \<Longrightarrow> \<exists>s'. seg_open g flip l c s = Inr s'"
  using position_size_total [of "sg_tp_r g" "s_equity s" "c_close c" "sg_risk_pct g" "sg_stop_bps g"
      "sg_max_leverage g" l]
  by (auto simp: seg_open_def Let_def split: option.splits prod.splits)

lemma seg_trade_step_total: "0 < sg_tp_r g \<Longrightarrow> \<exists>s'. seg_trade_step g buy c s = Inr s'"
  using seg_open_total unfolding seg_trade_step_def by (auto split: option.splits)

lemma seg_step_total:
  assumes "1 \<le> sg_fast g" "1 \<le> sg_slow g" "0 < sg_tp_r g"
  shows "\<exists>s'. seg_step g seen c s = Inr s'"
proof -
  obtain f w where "sma (map c_close seen) (sg_fast g) = Inr f" "sma (map c_close seen) (sg_slow g) = Inr w"
    using sma_total assms by blast
  then show ?thesis using seg_trade_step_total [OF assms(3)]
    by (auto simp: seg_step_def bindE_def Let_def split: option.splits sum.splits) (metis Inr_Inl_False)
qed

lemma seg_loop_total:
  assumes "1 \<le> sg_fast g" "1 \<le> sg_slow g" "0 < sg_tp_r g"
  shows "\<exists>s'. seg_loop g seen cs s = Inr s'"
proof (induction cs arbitrary: seen s)
  case (Cons c cs)
  obtain s1 where "seg_step g (seen @ [c]) c s = Inr s1" using seg_step_total [OF assms] by blast
  with Cons.IH show ?case by simp
qed simp

subsection \<open>Sizing\<close>

lemma divide_times_cancel: "0 < d \<Longrightarrow> a / d * d = (a :: real)"
  by simp

lemma position_size_bounds:
  assumes "calculate_position_size eq px risk stop tp lev l = Inr (Some (qty, sp, tgt))" "0 < px"
  shows "0 < qty" "qty * \<bar>px - sp\<bar> \<le> eq * (risk / 100)" "qty * px \<le> eq * lev"
    "if l then sp < px \<and> px < tgt else tgt < px \<and> px < sp"
    "\<bar>px - sp\<bar> = px * (stop / 10000)"
proof -
  let ?d = "px * (stop / 10000)"
  have d: "0 < ?d" and q: "qty = min (eq * (risk / 100) / ?d) (eq * lev / px)" "0 < qty"
    and lv: "sp = (if l then px - ?d else px + ?d)" "if l then sp < px \<and> px < tgt else tgt < px \<and> px < sp"
    using assms by (auto simp: calculate_position_size_def Let_def split: if_splits)
  show "0 < qty" "if l then sp < px \<and> px < tgt else tgt < px \<and> px < sp" by fact+
  show dist: "\<bar>px - sp\<bar> = ?d" using lv(1) d by (simp split: if_splits)
  have "qty * ?d \<le> (eq * (risk / 100) / ?d) * ?d" using q(1) d by (intro mult_right_mono) simp_all
  also have "\<dots> = eq * (risk / 100)" using d by (rule divide_times_cancel)
  finally show "qty * \<bar>px - sp\<bar> \<le> eq * (risk / 100)" unfolding dist .
  have "qty * px \<le> (eq * lev / px) * px" using q(1) assms(2) by (intro mult_right_mono) simp_all
  then show "qty * px \<le> eq * lev" using assms(2) by simp
qed

text \<open>The change of equity from an opening at the close to an exit at the level \<open>px\<close>.\<close>

lemma open_close_equity:
  assumes "calculate_position_size (s_equity s) (c_close c) (sg_risk_pct g) (sg_stop_bps g) (sg_tp_r g)
      (sg_max_leverage g) l = Inr (Some (qty, sp, tgt))"
    and "\<not> flip \<or> qty \<noteq> 0" and "seg_open g flip l c s = Inr s1" and "s2 = seg_close g l reason px d s1"
  shows "s_equity s2 - s_equity s = (if l then px - c_close c else c_close c - px) * qty
      - qty * (sg_slip_bps g / 10000) * (c_close c + px) - (s_fees s2 - s_fees s)"
    "s_stop s1 = sp" "s_qty s1 = qty"
  using assms
  by (auto simp: seg_open_def seg_close_def Let_def apply_slippage_def algebra_simps split: if_splits)

section \<open>Validation\<close>

lemma train_loop_best:
  assumes "train_loop eval bal ps best acc = (best', acc')"
  shows "(\<forall>q b. best = Some (q, b) \<longrightarrow> (\<exists>q' b'. best' = Some (q', b') \<and> b \<le> b'))
    \<and> (\<forall>p\<in>set ps. \<forall>r. eval p = Inr r \<longrightarrow> (\<exists>q' b'. best' = Some (q', b') \<and> objective bal r \<le> b'))
    \<and> (\<forall>q' b'. best' = Some (q', b') \<longrightarrow> best = Some (q', b') \<or>
         (q' \<in> set ps \<and> (\<exists>r. eval q' = Inr r \<and> objective bal r = b')))"
  using assms
proof (induction ps arbitrary: best acc)
  case (Cons p ps)
  show ?case
  proof (cases "eval p")
    case (Inl e)
    with Cons.prems have "train_loop eval bal ps best acc = (best', acc')" by simp
    from Cons.IH [OF this] Inl show ?thesis by auto
  next
    case (Inr r)
    let ?o = "objective bal r"
    let ?b = "case best of None \<Rightarrow> Some (p, ?o) | Some (q, b) \<Rightarrow> if b < ?o then Some (p, ?o) else best"
    obtain acc1 where "train_loop eval bal ps ?b acc1 = (best', acc')"
      using Cons.prems Inr by (simp add: Let_def)
    note ih = Cons.IH [OF this]
    have "\<exists>q b. ?b = Some (q, b) \<and> ?o \<le> b \<and> (\<forall>q' b'. best = Some (q', b') \<longrightarrow> b' \<le> b)
        \<and> (best = Some (q, b) \<or> (q = p \<and> b = ?o))"
      by (auto split: option.splits)
    then obtain q b where b: "?b = Some (q, b)" "?o \<le> b" "\<And>q' b'. best = Some (q', b') \<Longrightarrow> b' \<le> b"
      "best = Some (q, b) \<or> (q = p \<and> b = ?o)" by blast
    from ih b(1) obtain q' b' where b': "best' = Some (q', b')" "b \<le> b'" by blast
    show ?thesis
    proof (intro conjI allI impI ballI)
      show "\<exists>q' b'. best' = Some (q', b') \<and> a \<le> b'" if "best = Some (x, a)" for x a
        using b(3) [OF that] b' by force
      show "\<exists>q' b'. best' = Some (q', b') \<and> objective bal ra \<le> b'"
        if "x \<in> set (p # ps)" "eval x = Inr ra" for x ra
        using that Inr b(2) b' ih by (cases "x = p") force+
      show "best = Some (x, a) \<or> (x \<in> set (p # ps) \<and> (\<exists>r. eval x = Inr r \<and> objective bal r = a))"
        if "best' = Some (x, a)" for x a
      proof -
        from ih that have "?b = Some (x, a) \<or> (x \<in> set ps \<and> (\<exists>r. eval x = Inr r \<and> objective bal r = a))"
          by blast
        then show ?thesis using b(1,4) Inr by auto
      qed
    qed
  qed
qed simp

lemma validate_fold_best:
  assumes "validate_fold v cands cs k = Inr (f, trained)" and "cands \<noteq> []"
  defines "train \<equiv> slice (k * v_test v) (k * v_test v + v_train v) cs"
    and "test \<equiv> slice (k * v_test v + v_train v) (k * v_test v + v_train v + v_test v) cs"
  shows "fd_index f = k \<and> fd_params f \<in> set cands
    \<and> run_backtest_on_segment test (v_balance v) (with_candidate (v_params v) (fd_params f)) = Inr (fd_test f)
    \<and> (\<forall>p\<in>set cands. \<forall>r. run_backtest_on_segment train (v_balance v) (with_candidate (v_params v) p) = Inr r \<longrightarrow>
         (\<exists>rb. run_backtest_on_segment train (v_balance v) (with_candidate (v_params v) (fd_params f)) = Inr rb
            \<and> objective (v_balance v) r \<le> objective (v_balance v) rb))"
proof -
  let ?eval = "\<lambda>p. run_backtest_on_segment train (v_balance v) (with_candidate (v_params v) p)"
  obtain best tr where t: "train_loop ?eval (v_balance v) cands None [] = (best, tr)" by fastforce
  let ?p = "case best of None \<Rightarrow> hd cands | Some (p, b) \<Rightarrow> p"
  have f: "fd_index f = k" "fd_params f = ?p"
    "run_backtest_on_segment test (v_balance v) (with_candidate (v_params v) ?p) = Inr (fd_test f)"
    using assms(1) t by (auto simp: validate_fold_def Let_def bindE_Inr_iff train_def test_def)
  note b = train_loop_best [OF t]
  have "?p \<in> set cands" using b assms(2) by (auto split: option.splits)
  moreover have "\<exists>rb. ?eval ?p = Inr rb \<and> objective (v_balance v) r \<le> objective (v_balance v) rb"
    if p: "p \<in> set cands" "?eval p = Inr r" for p r
  proof -
    obtain q a where q: "best = Some (q, a)" "objective (v_balance v) r \<le> a" using b p by blast
    then obtain rq where "?eval q = Inr rq" "objective (v_balance v) rq = a" using b by blast
    with q show ?thesis by auto
  qed
  ultimately show ?thesis using f by simp
qed

lemma validate_loop_folds:
  assumes "validate_loop v cands cs ks folds acc = Inr (folds', acc')"
    and "\<And>k. k \<in> set ks \<Longrightarrow> k * v_test v + v_train v + v_test v \<le> int (length cs)"
  shows "\<exists>fs. folds' = folds @ fs \<and> length fs = length ks
    \<and> (\<forall>i < length ks. \<exists>tr. validate_fold v cands cs (ks ! i) = Inr (fs ! i, tr))"
  using assms
proof (induction ks arbitrary: folds acc)
  case (Cons k ks)
  have "\<not> int (length cs) < k * v_test v + v_train v + v_test v" using Cons.prems(2) [of k] by simp
  with Cons.prems(1) obtain f tr where f: "validate_fold v cands cs k = Inr (f, tr)"
    "validate_loop v cands cs ks (folds @ [f]) (acc @ tr) = Inr (folds', acc')"
    by (auto simp: bindE_Inr_iff)
  from Cons.IH [OF f(2)] Cons.prems(2) obtain fs where fs: "folds' = (folds @ [f]) @ fs" "length fs = length ks"
    "\<forall>i < length ks. \<exists>tr. validate_fold v cands cs (ks ! i) = Inr (fs ! i, tr)" by auto
  then have "\<forall>i < length (k # ks). \<exists>tr. validate_fold v cands cs ((k # ks) ! i) = Inr ((f # fs) ! i, tr)"
    using f(1) by (auto simp: nth_Cons split: nat.splits)
  then show ?case using fs(1,2) by (intro exI [of _ "f # fs"]) simp
qed simp

lemma grid_candidates_nonempty: "grid_candidates smas stops tps m = Inr cs \<Longrightarrow> cs \<noteq> []"
  by (auto simp: grid_candidates_def Let_def bindE_Inr_iff split: if_splits)

section \<open>The grid\<close>

lemma length_every_nth: "0 < k \<Longrightarrow> length (every_nth k xs) = (length xs + k - 1) div k"
proof (induction k xs rule: every_nth.induct)
  case (2 k x xs)
  let ?n = "length (drop (k - 1) xs)"
  have step: "length (every_nth k (x # xs)) = Suc ((?n + k - 1) div k)" using 2 by simp
  have shift: "(m + k) div k = Suc (m div k)" for m using 2(2) by simp
  show ?case
  proof (cases "length xs < k - 1")
    case True
    have "(?n + k - 1) div k = 0" using True 2(2) by (intro div_less) simp
    moreover have "length (x # xs) + k - 1 = length xs + k" using 2(2) by simp
    moreover have "(length xs + k) div k = Suc (length xs div k)" by (rule shift)
    moreover have "length xs div k = 0" using True by (intro div_less) simp
    ultimately have "(?n + k - 1) div k = 0" "(length (x # xs) + k - 1) div k = 1" by simp_all
    then show ?thesis using step by simp
  next
    case False
    then have "length (x # xs) + k - 1 = (?n + k - 1) + k" using 2(2) by simp
    then have "(length (x # xs) + k - 1) div k = Suc ((?n + k - 1) div k)" by (simp only: shift)
    then show ?thesis using step by (rule trans [OF _ sym, rotated])
  qed
qed simp

lemma length_combinations: "length (combinations smas stops tps) = grid_size smas stops tps"
proof -
  have one: "length (concat (map (\<lambda>s. map (f s) tps) stops)) = length stops * length tps"
    for f :: "real \<Rightarrow> real \<Rightarrow> candidate" by (induction stops) simp_all
  show ?thesis unfolding combinations_def grid_size_def
    by (induction smas) (simp_all add: one algebra_simps)
qed

section \<open>Properties\<close>

definition flat_candle :: "real \<Rightarrow> candle" where
  "flat_candle px = \<lparr>c_ts = ''t'', c_open = px, c_high = px, c_low = px, c_close = px, c_volume = 1\<rparr>"

definition quick_params :: seg_params where
  "quick_params = \<lparr>sg_fees_bps = 2, sg_slip_bps = 1, sg_risk_pct = 1, sg_fast = 1, sg_slow = 1,
     sg_stop_bps = 100, sg_tp_r = 2, sg_max_leverage = 1, sg_conservative = True\<rparr>"

lemma quick_params_simps [simp]:
  "sg_fast quick_params = 1" "sg_slow quick_params = 1" "sg_tp_r quick_params = 2"
  "sg_stop_bps quick_params = 100" "sg_risk_pct quick_params = 1" "sg_max_leverage quick_params = 1"
  "sg_slip_bps quick_params = 1" "sg_fees_bps quick_params = 2"
  by (simp_all add: quick_params_def)

lemma quick_segment: "\<exists>s. seg_loop quick_params seen cs s0 = Inr s"
  by (rule seg_loop_total) simp_all



text \<open>The segment backtest sees no future: running it over more candles leaves every equity point and
  every trade of the earlier candles as they were, so a decision at a bar depends only on the
  candles up to that bar.\<close>

theorem segment_sees_no_future:
  assumes "seg_loop g [] (cs @ ds) (seg_init bal) = Inr s'"
  shows "\<exists>s. seg_loop g [] cs (seg_init bal) = Inr s
    \<and> s_history s = take (length cs) (s_history s') \<and> length (s_history s') = length (cs @ ds)
    \<and> (\<exists>later. s_trades s' = s_trades s @ later)"
proof -
  from assms obtain s where s: "seg_loop g [] cs (seg_init bal) = Inr s" "seg_loop g cs ds s = Inr s'"
    by (auto simp: seg_loop_append bindE_Inr_iff)
  have "length (s_history s) = length cs" using seg_loop_extends [OF s(1)] by (simp add: seg_init_def)
  with seg_loop_extends [OF s(2)] s(1) show ?thesis by (auto simp: prefix_def)
qed

theorem segment_sees_no_future_witness:
  "\<exists>s s'. seg_loop quick_params [] [flat_candle 1] (seg_init 1000) = Inr s
     \<and> seg_loop quick_params [] [flat_candle 1, flat_candle 2] (seg_init 1000) = Inr s'
     \<and> s_history s = take 1 (s_history s')"
proof -
  obtain s' where "seg_loop quick_params [] ([flat_candle 1] @ [flat_candle 2]) (seg_init 1000) = Inr s'"
    using quick_segment by blast
  from this segment_sees_no_future [OF this] show ?thesis by auto
qed

text \<open>A stop costs the risk it was sized for: when the backtest opens at a close and is stopped out,
  equity falls by at most \<open>risk_pct\<close> percent of the equity at entry, plus exactly the slippage on the two prices and
  the fees charged; the position's notional never exceeds \<open>max_leverage\<close> times equity, and stop,
  entry and target are in order.\<close>

theorem stop_loss_costs_the_risk:
  assumes "calculate_position_size (s_equity s) (c_close c) (sg_risk_pct g) (sg_stop_bps g) (sg_tp_r g)
      (sg_max_leverage g) l = Inr (Some (qty, sp, tgt))"
    and "0 < c_close c" and "seg_open g flip l c s = Inr s1"
    and "s2 = seg_close g l ''STOP'' (s_stop s1) d s1"
  shows "s_equity s2 \<ge> s_equity s - s_equity s * (sg_risk_pct g / 100)
      - qty * (sg_slip_bps g / 10000) * (c_close c + sp) - (s_fees s2 - s_fees s)
    \<and> qty * c_close c \<le> s_equity s * sg_max_leverage g
    \<and> (if l then sp < c_close c \<and> c_close c < tgt else tgt < c_close c \<and> c_close c < sp)"
proof -
  note b = position_size_bounds [OF assms(1,2)]
  have q: "\<not> flip \<or> qty \<noteq> 0" using b(1) by simp
  note d = open_close_equity [OF assms(1) q assms(3,4)]
  have "(if l then sp - c_close c else c_close c - sp) * qty = - (qty * \<bar>c_close c - sp\<bar>)"
    using b(4) by (cases l) (simp_all add: algebra_simps)
  then have "(if l then sp - c_close c else c_close c - sp) * qty \<ge> - (s_equity s * (sg_risk_pct g / 100))"
    using b(2) by simp
  then have "s_equity s2 \<ge> s_equity s - s_equity s * (sg_risk_pct g / 100)
      - qty * (sg_slip_bps g / 10000) * (c_close c + sp) - (s_fees s2 - s_fees s)"
    using d(1) unfolding d(2) by linarith
  with b(3,4) show ?thesis by blast
qed

theorem stop_loss_costs_the_risk_witness:
  "\<exists>s1. seg_open quick_params False True (flat_candle 100) (seg_init 1000) = Inr s1 \<and>
    s_equity (seg_close quick_params True ''STOP'' (s_stop s1) (flat_candle 99) s1)
      \<ge> 1000 - 10 - 10 * (1 / 10000) * (100 + 99)
        - s_fees (seg_close quick_params True ''STOP'' (s_stop s1) (flat_candle 99) s1)"
proof -
  have size: "calculate_position_size (s_equity (seg_init 1000)) (c_close (flat_candle 100))
      (sg_risk_pct quick_params) (sg_stop_bps quick_params) (sg_tp_r quick_params)
      (sg_max_leverage quick_params) True = Inr (Some (10, 99, 102))"
    by (simp add: calculate_position_size_def seg_init_def flat_candle_def Let_def)
  obtain s1 where s1: "seg_open quick_params False True (flat_candle 100) (seg_init 1000) = Inr s1"
    using seg_open_total by fastforce
  have "0 < c_close (flat_candle 100)" by (simp add: flat_candle_def)
  from stop_loss_costs_the_risk [OF size this s1 refl, of "flat_candle 99"] s1 show ?thesis
    by (simp add: seg_init_def flat_candle_def)
qed

text \<open>The segment backtest never raises for windows of at least one bar and a positive reward ratio, and
  the position mode built on it reports \<open>ending_balance = starting_balance + net_pnl\<close>, except that
  on too few candles for the slow window it raises \<open>KeyError\<close>, because the early return of the
  segment backtest has no \<open>sharpe\<close> entry.\<close>

theorem position_mode_needs_the_slow_window:
  assumes "1 \<le> sg_fast g" and "1 \<le> sg_slow g" and "0 < sg_tp_r g"
  shows "\<exists>r. run_backtest_on_segment cs bal g = Inr r \<and>
    (if int (length cs) < max (sg_fast g) (sg_slow g) + 1
     then run_backtest_position_mode True cs bal g = Inl (KeyError ''sharpe'')
     else \<exists>stats. run_backtest_position_mode True cs bal g
        = Inr (r_trades_list r, r_history r, stats, bal + r_net_pnl r)
        \<and> bs_ending_balance stats = bal + r_net_pnl r \<and> 0 \<le> bs_win_rate stats \<and> bs_win_rate stats \<le> 1)"
proof (cases "int (length cs) < max (sg_fast g) (sg_slow g) + 1")
  case True
  then show ?thesis by (simp add: run_backtest_on_segment_def run_backtest_position_mode_def)
next
  case False
  obtain s where s: "seg_loop g [] (normalize_candle_order cs) (seg_init bal) = Inr s"
    using seg_loop_total [OF assms] by blast
  have acc: "seg_accounts bal s" using seg_loop_inv [OF s seg_init_inv] by (simp add: seg_inv_def)
  have "length (filter (\<lambda>t. 0 \<le> st_pnl t) ts) + length (filter (\<lambda>t. st_pnl t < 0) ts) = length ts"
    for ts by (induction ts) auto
  then have n: "s_wins s + s_losses s = length (s_trades s)" using acc by (simp add: seg_accounts_def)
  obtain r where r: "run_backtest_on_segment cs bal g = Inr r" "r_trades r = length (s_trades s)"
      "r_wins r = s_wins s" "r_losses r = s_losses s" "r_sharpe r \<noteq> None"
    using False s by (simp add: run_backtest_on_segment_def)
  then obtain sh where sh: "r_sharpe r = Some sh" by blast
  have "\<exists>rate. (if 0 < r_trades r then py_div (real (r_wins r)) (real (r_wins r + r_losses r)) else Inr 0)
      = Inr rate \<and> 0 \<le> rate \<and> rate \<le> 1"
    using n by (auto simp: r)
  then show ?thesis using False r(1) sh
    by (auto simp: run_backtest_position_mode_def Let_def)
qed

theorem position_mode_needs_the_slow_window_witness:
  "run_backtest_position_mode True [] 1000 quick_params = Inl (KeyError ''sharpe'')"
  using position_mode_needs_the_slow_window [of quick_params "[]" 1000] by simp

text \<open>C40: Validation is walk-forward: it reports one fold per split, and in fold \<open>k\<close> the chosen parameters
  are among the candidates and have the highest objective on the training candles
  \<open>[k * test, k * test + train)\<close> of all candidates that can be evaluated there, while the reported test
  result is the backtest of those parameters on the candles that follow, none of which the choice
  saw.\<close>

theorem validation_is_walk_forward:
  assumes "run_validation candles v smas stops tps m = Inr rep" and "0 \<le> v_test v"
    and "grid_candidates smas stops tps m = Inr cands" and "k < nat (v_splits v)"
  defines "cs \<equiv> normalize_candle_order candles" and "from \<equiv> int k * v_test v"
  defines "on_train p \<equiv> run_backtest_on_segment (slice from (from + v_train v) cs)
      (v_balance v) (with_candidate (v_params v) p)"
  shows "length (vr_folds rep) = nat (v_splits v)
    \<and> fd_index (vr_folds rep ! k) = int k \<and> fd_params (vr_folds rep ! k) \<in> set cands
    \<and> run_backtest_on_segment (slice (from + v_train v) (from + v_train v + v_test v) cs) (v_balance v)
        (with_candidate (v_params v) (fd_params (vr_folds rep ! k))) = Inr (fd_test (vr_folds rep ! k))
    \<and> (\<forall>p\<in>set cands. \<forall>r. on_train p = Inr r \<longrightarrow>
        (\<exists>rb. on_train (fd_params (vr_folds rep ! k)) = Inr rb
           \<and> objective (v_balance v) r \<le> objective (v_balance v) rb))"
proof -
  let ?ks = "[0..v_splits v - 1]"
  obtain folds trained where loop: "validate_loop v cands cs ?ks [] [] = Inr (folds, trained)"
    and folds: "vr_folds rep = folds" and enough: "v_train v + v_splits v * v_test v \<le> int (length cs)"
    using assms(1,3) unfolding cs_def
    by (auto simp: run_validation_def bindE_Inr_iff Let_def split: if_splits)
  have "k' * v_test v + v_train v + v_test v \<le> int (length cs)" if "k' \<in> set ?ks" for k'
  proof -
    have "(k' + 1) * v_test v \<le> v_splits v * v_test v" using that assms(2) by (intro mult_right_mono) auto
    with enough show ?thesis by (simp add: algebra_simps)
  qed
  from validate_loop_folds [OF loop this] obtain fs where fs: "folds = fs" "length fs = length ?ks"
    "\<And>i. i < length ?ks \<Longrightarrow> \<exists>tr. validate_fold v cands cs (?ks ! i) = Inr (fs ! i, tr)" by auto
  have len: "length ?ks = nat (v_splits v)" by simp
  have "?ks ! k = int k" using assms(4) by (subst nth_upto) auto
  then obtain tr where "validate_fold v cands cs (int k) = Inr (fs ! k, tr)" using fs(3) [of k] len assms(4) by auto
  from validate_fold_best [OF this grid_candidates_nonempty [OF assms(3)]] fs len folds show ?thesis
    unfolding from_def on_train_def by simp
qed

definition quick_validation :: validation_setup where
  "quick_validation = \<lparr>v_balance = 1000, v_params = quick_params, v_splits = 1, v_train = 1, v_test = 1\<rparr>"

theorem validation_is_walk_forward_witness:
  "\<exists>rep. run_validation [flat_candle 1, flat_candle 2] quick_validation [(1, 1)] [100] [2] 5 = Inr rep
     \<and> length (vr_folds rep) = 1 \<and> fd_index (vr_folds rep ! 0) = 0"
proof -
  let ?cs = "[flat_candle 1, flat_candle 2]"
  have grid: "grid_candidates [(1, 1)] [100] [2] 5
      = Inr [\<lparr>fast_sma = 1, slow_sma = 1, stop_bps = 100, tp_r = 2\<rparr>]"
    by (simp add: grid_candidates_def grid_size_def combinations_def)
  have "\<exists>rep. run_validation ?cs quick_validation [(1, 1)] [100] [2] 5 = Inr rep"
    by (simp add: run_validation_def grid quick_validation_def validate_fold_def slice_def
        run_backtest_on_segment_def with_candidate_def Let_def)
  then obtain rep where rep: "run_validation ?cs quick_validation [(1, 1)] [100] [2] 5 = Inr rep" by blast
  have "0 \<le> v_test quick_validation" "0 < nat (v_splits quick_validation)"
    by (simp_all add: quick_validation_def)
  from validation_is_walk_forward [OF rep this(1) grid this(2)] rep show ?thesis
    by (intro exI [of _ rep]) (simp add: quick_validation_def)
qed

text \<open>The candidate grid is the product of its lists when that is within \<open>max_candidates\<close>. Above it each
  list is thinned by the ceiling of the square root of the excess, as if two of the lists shared it: one long list is
  thinned too little, and a thousand stops against the default bound of 200 leave 334 candidates.\<close>

theorem grid_reduction_can_exceed_the_bound:
  "(grid_size smas stops tps \<le> m \<and> grid_size smas stops tps \<noteq> 0 \<longrightarrow>
      (\<exists>cs. grid_candidates smas stops tps m = Inr cs \<and> length cs = grid_size smas stops tps))
   \<and> (length stops = 1000 \<longrightarrow>
      (\<exists>cs. grid_candidates [(10, 30)] stops [t] 200 = Inr cs \<and> length cs = 334))"
proof
  show "grid_size smas stops tps \<le> m \<and> grid_size smas stops tps \<noteq> 0 \<longrightarrow>
      (\<exists>cs. grid_candidates smas stops tps m = Inr cs \<and> length cs = grid_size smas stops tps)"
  proof
    assume a: "grid_size smas stops tps \<le> m \<and> grid_size smas stops tps \<noteq> 0"
    then have "combinations smas stops tps \<noteq> []" using length_combinations [of smas stops tps] by auto
    with a show "\<exists>cs. grid_candidates smas stops tps m = Inr cs \<and> length cs = grid_size smas stops tps"
      by (simp add: grid_candidates_def length_combinations Let_def)
  qed
  show "length stops = 1000 \<longrightarrow>
      (\<exists>cs. grid_candidates [(10, 30)] stops [t] 200 = Inr cs \<and> length cs = 334)"
  proof
    assume len: "length stops = 1000"
    have "sqrt 5 \<le> 3" "2 < sqrt (5 :: real)"
      by (rule real_le_lsqrt, simp_all) (rule real_less_rsqrt, simp)
    then have "\<lceil>sqrt (5 :: real)\<rceil> = 3" by (simp add: ceiling_eq_iff)
    then have k: "reduction_factor 1000 200 = 3" by (simp add: reduction_factor_def)
    let ?cs = "combinations (every_nth 3 [(10, 30)]) (every_nth 3 stops) (every_nth 3 [t])"
    have "length ?cs = 334"
      by (simp add: length_combinations grid_size_def length_every_nth len)
    moreover from this have "?cs \<noteq> []" by auto
    ultimately show "\<exists>cs. grid_candidates [(10, 30)] stops [t] 200 = Inr cs \<and> length cs = 334"
      by (simp add: grid_candidates_def grid_size_def len k Let_def)
  qed
qed

theorem grid_reduction_can_exceed_the_bound_witness:
  "\<exists>cs. grid_candidates [(10, 30)] (replicate 1000 25) [2] 200 = Inr cs \<and> length cs = 334"
  using conjunct2 [OF grid_reduction_can_exceed_the_bound, of "replicate 1000 25" 2]
  by simp

text \<open>The books of the backtest broker balance: after any sequence of candles, ticks and forced closes on
  a new broker, also when a call raised, equity is the starting equity plus the profits of the exits
  in the order history, which only ever grows.\<close>

theorem backtest_ledger_balances:
  "bt_current_equity (bt.run ops (init_bt symbol fees start sim uuid))
     = start + (\<Sum>e\<leftarrow>bt_order_history (bt.run ops (init_bt symbol fees start sim uuid)). bt_ev_pnl e)
   \<and> (\<exists>evs. bt_order_history (bt.run (ops @ later) (init_bt symbol fees start sim uuid))
        = bt_order_history (bt.run ops (init_bt symbol fees start sim uuid)) @ evs)"
proof -
  let ?b = "init_bt symbol fees start sim uuid"
  have "bt_current_equity (bt.run ops ?b) - bt_current_equity ?b
      = (\<Sum>e\<leftarrow>bt_order_history (bt.run ops ?b). bt_ev_pnl e)"
    by (rule bt.run_net_profit) (simp add: init_bt_def)
  then have "bt_current_equity (bt.run ops ?b)
      = start + (\<Sum>e\<leftarrow>bt_order_history (bt.run ops ?b). bt_ev_pnl e)" by (simp add: init_bt_def)
  moreover have "bt.run (ops @ later) ?b = bt.run later (bt.run ops ?b)" by (simp add: bt.run_def)
  ultimately show ?thesis using bt.run_history_prefix [of later "bt.run ops ?b"] by simp
qed

text \<open>The backtest broker takes a position out on exactly the candles on which the paper broker's stop and
  target rules do, at the same price, except when the candle opens beyond the stop: then the paper
  broker fills at the worse open and the backtest still at the stop, so the backtest overstates the
  result of gaps.\<close>

theorem backtest_exits_match_paper_but_for_gaps:
  "(bt_exit_at p c = None \<longleftrightarrow> sl_tp_exit p c = None)
   \<and> (\<forall>px r px' r'. bt_exit_at p c = Some (px, r) \<and> sl_tp_exit p c = Some (px', r') \<longrightarrow>
        (if p_side p = LONG then px' \<le> px else px \<le> px')
        \<and> (px = px' \<or> (px = p_sl p \<and> px' = c_open c
             \<and> (if p_side p = LONG then c_open c < p_sl p else p_sl p < c_open c))))"
  by (auto simp: bt_exit_at_def sl_tp_exit_def Let_def)

theorem backtest_exits_match_paper_but_for_gaps_witness:
  "\<exists>r r'. let p = bt_new_position \<lparr>so_client_id = None, so_go = True, so_side = LONG, so_type = None,
        so_entry = None, so_qty = 1, so_sl = Some 95, so_tp = Some 120\<rparr> (flat_candle 100) ''id'' 1
        \<lparr>l_qty = 1, l_price = 100, l_fees = 0\<rparr>
     in bt_exit_at p (flat_candle 90) = Some (95, r) \<and> sl_tp_exit p (flat_candle 90) = Some (90, r')
        \<and> (90 :: real) \<le> 95"
proof -
  let ?p = "bt_new_position \<lparr>so_client_id = None, so_go = True, so_side = LONG, so_type = None,
        so_entry = None, so_qty = 1, so_sl = Some 95, so_tp = Some 120\<rparr> (flat_candle 100) ''id'' 1
        \<lparr>l_qty = 1, l_price = 100, l_fees = 0\<rparr>"
  have e: "bt_exit_at ?p (flat_candle 90) = Some (95, ''SL'')" "sl_tp_exit ?p (flat_candle 90) = Some (90, ''SL'')"
    "p_side ?p = LONG"
    by (simp_all add: bt_exit_at_def sl_tp_exit_def bt_new_position_def get_or_zero_def flat_candle_def)
  with conjunct2 [OF backtest_exits_match_paper_but_for_gaps [of ?p "flat_candle 90"]]
  have "(90 :: real) \<le> 95" by fastforce
  with e show ?thesis unfolding Let_def by blast
qed

end
