(* ===== verification/Trade_Repository.thy ===== *)
theory Trade_Repository
  imports Trading_Helpers
begin

text \<open>
  \<^verbatim>\<open>storage/trade_repository.py\<close>: the SQLite tables as maps from their primary keys, each
  \<open>INSERT OR REPLACE\<close> an update. \<open>now\<close> is the reading of the clock inside the call; a key the caller's
  dictionary lacks is \<open>None\<close>. The database itself (SQLite accepting the statement) is trusted;
  the code logs and swallows its errors on every table but \<open>state\<close>.
\<close>

section \<open>Rows\<close>

record order_row =
  or_symbol :: string
  or_side :: string
  or_qty :: real
  or_type :: string
  or_status :: string
  or_price :: "real option"
  or_created_at :: real
  or_updated_at :: real

record fill_row =
  fl_order_id :: string
  fl_symbol :: string
  fl_price :: real
  fl_qty :: real
  fl_fee :: real
  fl_filled_at :: real

record position_row =
  pr_side :: "string option"
  pr_qty :: real
  pr_avg_entry :: "real option"
  pr_unrealized :: "real option"
  pr_updated_at :: real

record log_row =
  lg_session :: string
  lg_type :: string
  lg_payload :: string
  lg_at :: real

record 'd repo =
  orders :: "string \<rightharpoonup> order_row"
  fills :: "string \<rightharpoonup> fill_row"
  positions :: "string \<rightharpoonup> position_row"
  session_log :: "log_row list"
  states :: "string \<rightharpoonup> 'd"

section \<open>What the callers pass\<close>

record order_data =
  od_order_id :: string
  od_symbol :: string
  od_side :: string
  od_qty :: real
  od_type :: string
  od_status :: string
  od_price :: "real option"
  od_created_at :: "real option"

record fill_data =
  fi_fill_id :: string
  fi_order_id :: string
  fi_symbol :: string
  fi_price :: real
  fi_qty :: real
  fi_fee :: real
  fi_filled_at :: "real option"

record position_data =
  pd_side :: "string option"
  pd_qty :: "real option"
  pd_avg_entry :: "real option"
  pd_unrealized :: "real option"

section \<open>Operations\<close>

definition empty_repo :: "'d repo" where
  "empty_repo = \<lparr>orders = Map.empty, fills = Map.empty, positions = Map.empty, session_log = [],
     states = Map.empty\<rparr>"

definition save_order :: "real \<Rightarrow> order_data \<Rightarrow> 'd repo \<Rightarrow> 'd repo" where
  "save_order now d r = r\<lparr>orders := (orders r)(od_order_id d \<mapsto>
     \<lparr>or_symbol = od_symbol d, or_side = od_side d, or_qty = od_qty d, or_type = od_type d,
      or_status = od_status d, or_price = od_price d,
      or_created_at = (case od_created_at d of None \<Rightarrow> now | Some t \<Rightarrow> t), or_updated_at = now\<rparr>)\<rparr>"

definition save_fill :: "real \<Rightarrow> fill_data \<Rightarrow> 'd repo \<Rightarrow> 'd repo" where
  "save_fill now d r = r\<lparr>fills := (fills r)(fi_fill_id d \<mapsto>
     \<lparr>fl_order_id = fi_order_id d, fl_symbol = fi_symbol d, fl_price = fi_price d, fl_qty = fi_qty d,
      fl_fee = fi_fee d, fl_filled_at = (case fi_filled_at d of None \<Rightarrow> now | Some t \<Rightarrow> t)\<rparr>)\<rparr>"

definition save_position :: "real \<Rightarrow> string \<Rightarrow> position_data \<Rightarrow> 'd repo \<Rightarrow> 'd repo" where
  "save_position now symbol d r = r\<lparr>positions := (positions r)(symbol \<mapsto>
     \<lparr>pr_side = pd_side d, pr_qty = (case pd_qty d of None \<Rightarrow> 0 | Some q \<Rightarrow> q),
      pr_avg_entry = pd_avg_entry d, pr_unrealized = pd_unrealized d, pr_updated_at = now\<rparr>)\<rparr>"

definition load_position :: "string \<Rightarrow> 'd repo \<Rightarrow> position_row option" where
  "load_position symbol r = positions r symbol"

definition log_session_event :: "real \<Rightarrow> string \<Rightarrow> string \<Rightarrow> string \<Rightarrow> 'd repo \<Rightarrow> 'd repo" where
  "log_session_event now session ty payload r = r\<lparr>session_log := session_log r @
     [\<lparr>lg_session = session, lg_type = ty, lg_payload = payload, lg_at = now\<rparr>]\<rparr>"

definition repo_save_state :: "string \<Rightarrow> 'd \<Rightarrow> 'd repo \<Rightarrow> 'd repo" where
  "repo_save_state symbol d r = r\<lparr>states := (states r)(symbol \<mapsto> d)\<rparr>"

definition repo_load_state :: "string \<Rightarrow> 'd repo \<Rightarrow> 'd option" where
  "repo_load_state symbol r = states r symbol"

section \<open>The store as an interface\<close>

text \<open>
  What the brokers rely on: a saved value is what a later load returns, and saving under one key
  leaves the others alone.
\<close>

locale keyed_store =
  fixes put :: "string \<Rightarrow> 'd \<Rightarrow> 's \<Rightarrow> 's"
    and look :: "string \<Rightarrow> 's \<Rightarrow> 'v option"
    and view :: "'d \<Rightarrow> 'v"
  assumes look_put: "look k (put k d s) = Some (view d)"
    and look_other: "k \<noteq> k' \<Longrightarrow> look k' (put k d s) = look k' s"
begin

lemma look_puts: "look k (fold (\<lambda>(k, d). put k d) kds s)
    = (case map_of (rev kds) k of None \<Rightarrow> look k s | Some d \<Rightarrow> Some (view d))"
  by (induction kds rule: rev_induct) (auto simp: look_put look_other split: option.splits)

lemma put_twice: "look k (put k d' (put k d s)) = Some (view d')"
  by (rule look_put)

end

interpretation state_table: keyed_store repo_save_state repo_load_state "\<lambda>d. d"
  by unfold_locales (simp_all add: repo_save_state_def repo_load_state_def)

interpretation position_table: keyed_store "\<lambda>s (now, d). save_position now s d" load_position
  "\<lambda>(now, d). \<lparr>pr_side = pd_side d, pr_qty = (case pd_qty d of None \<Rightarrow> 0 | Some q \<Rightarrow> q),
     pr_avg_entry = pd_avg_entry d, pr_unrealized = pd_unrealized d, pr_updated_at = now\<rparr>"
  by unfold_locales (auto simp: save_position_def load_position_def)

end
