(* ===== verification/Live_Broker.thy ===== *)
theory Live_Broker
  imports Trade_Repository Hard_Limits Exchange
begin

text \<open>
  The live broker: \<^verbatim>\<open>execution/bitunix_broker.py\<close>'s \<open>BitunixBroker\<close> over the order and position calls
  of \<^verbatim>\<open>data/providers/bitunix_futures.py\<close>. The exchange behind the signed requests is not code of the
  repository: it is a parameter, a record of its four calls acting on a world of any type \<open>'x\<close>, each of
  which may raise. The broker returns through its own exception handlers, so its methods return the
  state and never raise where the source catches everything.

  Numbers in the exchange's dictionaries are finite floats; a missing key is \<open>None\<close>. A reading of the
  clock whose value only goes to a log message is not consumed. \<open>lv_sent\<close> is a
  ghost: the order bodies posted so far.
\<close>

section \<open>Rounding\<close>

text \<open>\<open>round(x)\<close> rounds half to even; \<open>round(x, 8)\<close> does so at the eighth decimal.\<close>

definition py_round :: "real \<Rightarrow> int" where
  "py_round x = (let f = \<lfloor>x\<rfloor>; d = x - of_int f
     in if d < 1 / 2 then f else if 1 / 2 < d then f + 1 else if even f then f else f + 1)"

definition round8 :: "real \<Rightarrow> real" where
  "round8 x = of_int (py_round (x * 10 ^ 8)) / 10 ^ 8"

definition round_step :: "real \<Rightarrow> real \<Rightarrow> real" where
  "round_step val step = (if step \<le> 0 then val else round8 (of_int (py_round (val / step)) * step))"

lemma py_round_near: "\<bar>of_int (py_round x) - x\<bar> \<le> 1 / 2"
proof -
  have "of_int \<lfloor>x\<rfloor> \<le> x" "x < of_int \<lfloor>x\<rfloor> + 1" by linarith+
  then show ?thesis by (simp add: py_round_def Let_def)
qed

lemma round8_near: "\<bar>round8 x - x\<bar> \<le> 1 / (2 * 10 ^ 8)"
proof -
  let ?k = "real_of_int (py_round (x * 10 ^ 8))" and ?t = "10 ^ 8 :: real"
  have "round8 x - x = (?k - x * ?t) / ?t" by (simp add: round8_def diff_divide_distrib)
  then have "\<bar>round8 x - x\<bar> = \<bar>?k - x * ?t\<bar> / ?t" by (simp only: abs_divide) simp
  also have "\<dots> \<le> (1 / 2) / ?t" using py_round_near by (intro divide_right_mono) simp_all
  finally show ?thesis by simp
qed

lemma round_step_near:
  assumes "0 < step"
  shows "\<bar>round_step val step - val\<bar> \<le> step / 2 + 1 / (2 * 10 ^ 8)"
proof -
  let ?k = "of_int (py_round (val / step)) :: real"
  have "\<bar>?k - val / step\<bar> * step \<le> (1 / 2) * step"
    using py_round_near [of "val / step"] assms by (intro mult_right_mono) simp_all
  moreover have "(?k - val / step) * step = ?k * step - val" using assms by (simp add: left_diff_distrib)
  then have "\<bar>?k - val / step\<bar> * step = \<bar>?k * step - val\<bar>" using assms by (metis abs_mult abs_of_pos)
  ultimately have "\<bar>?k * step - val\<bar> \<le> step / 2" by simp
  moreover have "round_step val step = round8 (?k * step)" using assms by (simp add: round_step_def)
  ultimately show ?thesis using round8_near [of "?k * step"] by linarith
qed

section \<open>The exchange and its dictionaries\<close>

record ex_pos =
  xp_position_id :: "string option"
  xp_symbol :: "string option"
  xp_symbol_name :: "string option"
  xp_side :: "string option"
  xp_qty :: "real option"
  xp_amount :: "real option"
  xp_entry :: "real option"
  xp_avg :: "real option"
  xp_unrealized :: "real option"

text \<open>\<open>float(d.get("qty") or d.get("positionAmount") or 0)\<close> and its likes.\<close>

definition xp_quantity :: "ex_pos \<Rightarrow> real" where
  "xp_quantity d = float_or (xp_qty d) (float_or (xp_amount d) 0)"

definition xp_price :: "ex_pos \<Rightarrow> real" where
  "xp_price d = float_or (xp_entry d) (float_or (xp_avg d) 0)"

definition str_or :: "string option \<Rightarrow> string \<Rightarrow> string" where
  "str_or s d = (case s of None \<Rightarrow> d | Some t \<Rightarrow> if t = [] then d else t)"

definition xp_direction :: "ex_pos \<Rightarrow> string" where
  "xp_direction d = str_or (xp_side d) (if 0 < xp_quantity d then ''LONG'' else ''SHORT'')"

definition quantity_of :: "ex_pos option \<Rightarrow> real" where
  "quantity_of p = (case p of None \<Rightarrow> 0 | Some d \<Rightarrow> xp_quantity d)"

record trading_pair =
  tp_symbol :: "string option"
  tp_symbol_name :: "string option"
  tp_tick :: "real option"
  tp_lot :: "real option"
  tp_min_qty :: "real option"
  tp_max_qty :: "real option"

record instrument =
  in_tick :: real
  in_lot :: real
  in_min_qty :: real
  in_max_qty :: real
  in_min_notional :: real

record order_body =
  ob_symbol :: string
  ob_side :: string
  ob_qty :: real
  ob_type :: string
  ob_price :: "real option"
  ob_trade_side :: "string option"
  ob_sl :: "real option"
  ob_tp :: "real option"
  ob_client_id :: "string option"

text \<open>The answer to a posted order: no \<open>data\<close>, a null one, or one with or without an id.\<close>

datatype post_resp = NoData | NullData | WithData "string option"

record 'x venue =
  v_pairs :: "string \<Rightarrow> 'x \<Rightarrow> trading_pair list res \<times> 'x"
  v_pending :: "string \<Rightarrow> 'x \<Rightarrow> ex_pos list res \<times> 'x"
  v_post_order :: "order_body \<Rightarrow> 'x \<Rightarrow> post_resp res \<times> 'x"
  v_cancel_all :: "string \<Rightarrow> 'x \<Rightarrow> unit res \<times> 'x"

section \<open>The broker's state\<close>

text \<open>\<open>str(n)\<close> on an integer, for the ids \<open>f"live_{int(time.time())}"\<close>.\<close>

fun str_of_nat :: "nat \<Rightarrow> string" where
  "str_of_nat n = (if n < 10 then [char_of (48 + n)]
     else str_of_nat (n div 10) @ [char_of (48 + n mod 10)])"

declare str_of_nat.simps [simp del]

definition str_of_int :: "int \<Rightarrow> string" where
  "str_of_int i = (if i < 0 then CHR ''-'' # str_of_nat (nat (- i)) else str_of_nat (nat i))"

record live_fill =
  lf_trade_id :: string
  lf_side :: string
  lf_price :: real
  lf_qty :: real
  lf_at :: string
  lf_exchange_id :: "string option"
  lf_latency :: "real option"

record live_exit =
  lx_trade_id :: string
  lx_entry :: real
  lx_exit :: real
  lx_quantity :: real
  lx_pnl :: real
  lx_at :: string
  lx_side :: string

datatype live_event = LiveFill live_fill | LiveExitEv live_exit

fun live_pnl :: "live_event \<Rightarrow> real" where
  "live_pnl (LiveFill f) = 0"
| "live_pnl (LiveExitEv x) = lx_pnl x"

record ws_order =
  wo_order_id :: string
  wo_side :: string
  wo_qty :: real
  wo_status :: string
  wo_filled_qty :: real
  wo_avg_fill_price :: "real option"

record ('x, 'd) live =
  lv_symbol :: string
  lv_is_inverse :: bool
  lv_last_pos :: "ex_pos option"
  lv_initialized :: bool
  lv_info :: "instrument option"
  lv_generated_at :: "real option"
  lv_entry_price :: "real option"
  lv_entry_side :: "string option"
  lv_entry_qty :: "real option"
  lv_last_order_id :: "string option"
  lv_timestamps :: "real list"
  lv_starting_equity :: real
  lv_equity :: real
  lv_history :: "live_event list"
  lv_pending :: "string \<rightharpoonup> ws_order"
  lv_ws_cache :: "ex_pos option"
  lv_last_ws :: real
  lv_repo :: "'d repo option"
  lv_clock :: "nat \<Rightarrow> real"
  lv_world :: 'x
  lv_sent :: "order_body list"

definition live_time :: "('x, 'd) live \<Rightarrow> real \<times> ('x, 'd) live" where
  "live_time b = (lv_clock b 0, b\<lparr>lv_clock := \<lambda>k. lv_clock b (Suc k)\<rparr>)"

definition init_live :: "string \<Rightarrow> real \<Rightarrow> 'd repo option \<Rightarrow> (nat \<Rightarrow> real) \<Rightarrow> 'x \<Rightarrow> ('x, 'd) live" where
  "init_live symbol start repo clk world =
     \<lparr>lv_symbol = symbol,
      lv_is_inverse = (str_endswith ''USD'' symbol \<and> \<not> str_endswith ''USDT'' symbol),
      lv_last_pos = None, lv_initialized = False, lv_info = None, lv_generated_at = None,
      lv_entry_price = None, lv_entry_side = None, lv_entry_qty = None, lv_last_order_id = None,
      lv_timestamps = [], lv_starting_equity = start, lv_equity = start, lv_history = [],
      lv_pending = Map.empty, lv_ws_cache = None, lv_last_ws = clk 0, lv_repo = repo,
      lv_clock = (\<lambda>k. clk (Suc k)), lv_world = world, lv_sent = []\<rparr>"

section \<open>Provider calls\<close>

definition provider_call :: "('x \<Rightarrow> 'a res \<times> 'x) \<Rightarrow> (('x, 'd) live, 'a) py" where
  "provider_call f = (\<lambda>b. let (r, w) = f (lv_world b) in (r, b\<lparr>lv_world := w\<rparr>))"

definition either_price :: "real option \<Rightarrow> real option \<Rightarrow> real option" where
  "either_price a b = (if truthy a then a else if truthy b then b else None)"

definition provider_place_order :: "'x venue \<Rightarrow> string \<Rightarrow> real \<Rightarrow> string \<Rightarrow> real option \<Rightarrow> string option
    \<Rightarrow> real option \<Rightarrow> real option \<Rightarrow> real option \<Rightarrow> real option \<Rightarrow> string option
    \<Rightarrow> (('x, 'd) live, post_resp) py" where
  "provider_place_order V sd qty ty price trade_side sl_price tp_price sl tp cid = (\<lambda>b.
     let body = \<lparr>ob_symbol = lv_symbol b, ob_side = sd, ob_qty = qty, ob_type = ty,
           ob_price = (if truthy price then price else None),
           ob_trade_side = (if trade_side = Some [] then None else trade_side),
           ob_sl = either_price sl_price sl, ob_tp = either_price tp_price tp,
           ob_client_id = (if cid = Some [] then None else cid)\<rparr>
     in provider_call (v_post_order V body) (b\<lparr>lv_sent := lv_sent b @ [body]\<rparr>))"

definition instrument_of :: "trading_pair \<Rightarrow> instrument" where
  "instrument_of p = \<lparr>in_tick = (case tp_tick p of None \<Rightarrow> 1 / 100 | Some x \<Rightarrow> x),
     in_lot = (case tp_lot p of None \<Rightarrow> 1 / 1000 | Some x \<Rightarrow> x),
     in_min_qty = (case tp_min_qty p of None \<Rightarrow> 1 / 1000 | Some x \<Rightarrow> x),
     in_max_qty = (case tp_max_qty p of None \<Rightarrow> 100 | Some x \<Rightarrow> x),
     in_min_notional = 5\<rparr>"

definition get_instrument_info :: "'x venue \<Rightarrow> (('x, 'd) live, instrument) py" where
  "get_instrument_info V = (\<lambda>b. bindS (provider_call (v_pairs V (lv_symbol b))) (\<lambda>pairs.
     case find (\<lambda>p. tp_symbol p = Some (lv_symbol b) \<or> tp_symbol_name p = Some (lv_symbol b)) pairs of
       None \<Rightarrow> raiseS (RuntimeError ''Instrument info not found'')
     | Some p \<Rightarrow> returnS (instrument_of p)) b)"

definition get_info :: "'x venue \<Rightarrow> (('x, 'd) live, instrument) py" where
  "get_info V = (\<lambda>b. case lv_info b of
     Some i \<Rightarrow> (Inr i, b)
   | None \<Rightarrow> bindS (get_instrument_info V) (\<lambda>i b2. (Inr i, b2\<lparr>lv_info := Some i\<rparr>)) b)"

text \<open>The first pending position of the symbol with a quantity.\<close>

definition open_position :: "string \<Rightarrow> ex_pos list \<Rightarrow> ex_pos option" where
  "open_position symbol ps =
     find (\<lambda>p. str_or (xp_symbol p) (str_or (xp_symbol_name p) []) = symbol \<and> 0 < \<bar>xp_quantity p\<bar>) ps"

section \<open>Callbacks of the push channel\<close>

record order_event =
  oe_order_id :: string
  oe_symbol :: string
  oe_side :: string
  oe_type :: string
  oe_status :: string
  oe_qty :: real
  oe_price :: "real option"
  oe_filled_qty :: real
  oe_avg_fill_price :: "real option"
  oe_timestamp :: string

record position_event =
  pe_position_id :: string
  pe_symbol :: string
  pe_side :: string
  pe_qty :: real
  pe_entry_price :: real
  pe_unrealized :: real
  pe_timestamp :: string

definition with_repo :: "(real \<Rightarrow> 'd repo \<Rightarrow> 'd repo) \<Rightarrow> ('x, 'd) live \<Rightarrow> ('x, 'd) live" where
  "with_repo f b = (case lv_repo b of None \<Rightarrow> b
     | Some r \<Rightarrow> let (now, b1) = live_time b in b1\<lparr>lv_repo := Some (f now r)\<rparr>)"

definition on_order_update :: "order_event \<Rightarrow> ('x, 'd) live \<Rightarrow> ('x, 'd) live" where
  "on_order_update e b0 =
     (let (now, b) = live_time b0; b1 = b\<lparr>lv_last_ws := now\<rparr>;
          b2 = (if oe_status e \<in> {''FILLED'', ''CANCELLED'', ''REJECTED''}
                then b1\<lparr>lv_pending := (lv_pending b1)(oe_order_id e := None)\<rparr>
                else b1\<lparr>lv_pending := (lv_pending b1)(oe_order_id e \<mapsto>
                  \<lparr>wo_order_id = oe_order_id e, wo_side = oe_side e, wo_qty = oe_qty e,
                   wo_status = oe_status e, wo_filled_qty = oe_filled_qty e,
                   wo_avg_fill_price = oe_avg_fill_price e\<rparr>)\<rparr>)
      in with_repo (\<lambda>t. save_order t
           \<lparr>od_order_id = oe_order_id e, od_symbol = oe_symbol e, od_side = oe_side e,
            od_qty = oe_qty e, od_type = ''UNKNOWN'', od_status = oe_status e, od_price = oe_price e,
            od_created_at = None\<rparr>) b2)"

text \<open>The row the cache is saved as: it has no key named \<open>avg_entry\<close> or \<open>unrealized_pnl\<close>.\<close>

definition position_data_of :: "ex_pos option \<Rightarrow> position_data" where
  "position_data_of c = (case c of
     None \<Rightarrow> \<lparr>pd_side = None, pd_qty = Some 0, pd_avg_entry = None, pd_unrealized = None\<rparr>
   | Some d \<Rightarrow> \<lparr>pd_side = xp_side d, pd_qty = xp_qty d, pd_avg_entry = None, pd_unrealized = None\<rparr>)"

definition on_position_update :: "position_event \<Rightarrow> ('x, 'd) live \<Rightarrow> ('x, 'd) live" where
  "on_position_update e b0 =
     (let (now, b) = live_time b0;
          cache = (if \<bar>pe_qty e\<bar> < 1 / 10 ^ 8 then None
                   else Some \<lparr>xp_position_id = Some (pe_position_id e), xp_symbol = Some (pe_symbol e),
                     xp_symbol_name = None, xp_side = Some (pe_side e), xp_qty = Some (pe_qty e),
                     xp_amount = None, xp_entry = Some (pe_entry_price e), xp_avg = None,
                     xp_unrealized = Some (pe_unrealized e)\<rparr>);
          b1 = b\<lparr>lv_last_ws := now, lv_ws_cache := cache\<rparr>
      in with_repo (\<lambda>t. save_position t (lv_symbol b1) (position_data_of cache)) b1)"

section \<open>Submitting an order\<close>

record live_order =
  lo_go :: bool
  lo_side :: string
  lo_type :: "string option"
  lo_entry :: "real option"
  lo_qty :: "real option"
  lo_sl :: "real option"
  lo_tp :: "real option"
  lo_equity :: "real option"

definition rounded_level :: "real \<Rightarrow> real option \<Rightarrow> real option" where
  "rounded_level tick_size x = (if truthy x then map_option (\<lambda>v. round_step v tick_size) x else None)"

definition order_price :: "live_order \<Rightarrow> candle \<Rightarrow> instrument \<Rightarrow> real" where
  "order_price ord c i = round_step (float_or (lo_entry ord) (c_close c)) (in_tick i)"

definition order_qty :: "live_order \<Rightarrow> instrument \<Rightarrow> real" where
  "order_qty ord i =
     (let q = round_step (float_or (lo_qty ord) 0) (in_lot i)
      in if q < in_min_qty i then in_min_qty i else q)"

text \<open>From the instrument's limits to the posted order.\<close>

definition submit_checked :: "'x venue \<Rightarrow> limits \<Rightarrow> live_order \<Rightarrow> candle \<Rightarrow> instrument
    \<Rightarrow> (('x, 'd) live, post_resp) py" where
  "submit_checked V L ord c i =
     (let px = order_price ord c i; qty = order_qty ord i; notional = qty * px
      in if MAX_POSITION_SIZE_USD L < notional then raiseS (SafetyException ''notional'')
      else bindS (liftS (py_div notional (float_or (lo_equity ord) 10000))) (\<lambda>leverage.
        if MAX_LEVERAGE L < leverage then raiseS (SafetyException ''leverage'')
        else provider_place_order V (lo_side ord) qty
               (py_upper (case lo_type ord of None \<Rightarrow> ''MARKET'' | Some t \<Rightarrow> t)) (Some px) None
               (rounded_level (in_tick i) (lo_sl ord)) (rounded_level (in_tick i) (lo_tp ord))
               None None None))"

definition note_order_id :: "post_resp \<Rightarrow> (('x, 'd) live, unit) py" where
  "note_order_id r = (\<lambda>b. case r of
     WithData oid \<Rightarrow> (Inr (), b\<lparr>lv_last_order_id := oid\<rparr>)
   | NullData \<Rightarrow> (Inl AttributeError, b)
   | NoData \<Rightarrow> (Inr (), b))"

text \<open>The body of the first \<open>try\<close> when the broker thinks it is flat.\<close>

definition submit_order :: "'x venue \<Rightarrow> limits \<Rightarrow> live_order \<Rightarrow> candle
    \<Rightarrow> (('x, 'd) live, post_resp) py" where
  "submit_order V L ord c = (\<lambda>b0.
     let (now, b1) = live_time b0;
         recent = filter (\<lambda>t. now - t < 60) (lv_timestamps b1)
     in if MAX_ORDERS_PER_MINUTE L \<le> length recent
        then (Inl (SafetyException ''rate''), b1\<lparr>lv_timestamps := recent\<rparr>)
        else let b2 = b1\<lparr>lv_timestamps := recent @ [now]\<rparr>;
                 equity = float_or (lo_equity ord) 0;
                 start = lv_starting_equity b2
        in if start \<noteq> 0 \<and> 0 < equity \<and> MAX_DAILY_LOSS_PCT L < (start - equity) / start * 100
           then (Inl (SafetyException ''daily_loss''), b2)
           else let b3 = (case lv_generated_at b2 of
                            None \<Rightarrow> (let (t, b') = live_time b2 in b'\<lparr>lv_generated_at := Some t\<rparr>)
                          | Some _ \<Rightarrow> b2)
           in bindS (get_info V) (\<lambda>i. submit_checked V L ord c i) b3)"

text \<open>
  Phase 1 of \<open>on_candle\<close>: the errors and the response it adds to the events. The response is set
  before its id is read, so it is there even when reading the id fails.
\<close>

definition submit_phase :: "'x venue \<Rightarrow> limits \<Rightarrow> live_order option \<Rightarrow> candle \<Rightarrow> ('x, 'd) live
    \<Rightarrow> (py_exc list \<times> post_resp option) \<times> ('x, 'd) live" where
  "submit_phase V L ord c b =
     (case ord of
        None \<Rightarrow> (([], None), b)
      | Some o' \<Rightarrow>
        if \<not> lo_go o' \<or> lv_last_pos b \<noteq> None then (([], None), b)
        else (case submit_order V L o' c b of
                (Inl e, b1) \<Rightarrow> (([e], None), b1)
              | (Inr r, b1) \<Rightarrow>
                (case note_order_id r b1 of
                   (Inl e, b2) \<Rightarrow> (([e], Some r), b2)
                 | (Inr _, b2) \<Rightarrow> (([], Some r), b2))))"

section \<open>Synchronising with the exchange\<close>

text \<open>The position the broker believes in: the pushed or cached one while fresh, else a REST query.\<close>

definition sync_position :: "'x venue \<Rightarrow> (('x, 'd) live, ex_pos option) py" where
  "sync_position V = (\<lambda>b0.
     let (now, b1) = live_time b0
     in if now - lv_last_ws b1 < 30 then (Inr (lv_ws_cache b1), b1)
        else bindS (provider_call (v_pending V (lv_symbol b1))) (\<lambda>ps b3.
             let cur = open_position (lv_symbol b3) ps;
                 (t, b4) = live_time b3;
                 b5 = b4\<lparr>lv_ws_cache := cur, lv_last_ws := t\<rparr>
             in (Inr cur, with_repo (\<lambda>t. save_position t (lv_symbol b5) (position_data_of cur)) b5)) b1)"

text \<open>
  Drift: when the broker was flat and the exchange is not, the position is closed and forgotten; a
  failure to close is logged only.
\<close>

definition fix_drift :: "'x venue \<Rightarrow> ex_pos option \<Rightarrow> ('x, 'd) live \<Rightarrow> ex_pos option \<times> ('x, 'd) live" where
  "fix_drift V cur b =
     (let last_qty = quantity_of (lv_last_pos b); curr_qty = quantity_of cur
      in if 1 / 10 ^ 8 < \<bar>last_qty - curr_qty\<bar> \<and> lv_initialized b \<and> last_qty = 0 \<and> curr_qty \<noteq> 0
         then (case provider_place_order V (if 0 < curr_qty then ''SHORT'' else ''LONG'') \<bar>curr_qty\<bar>
                      ''MARKET'' None (Some ''CLOSE'') None None None None None b of
                 (Inl e, b') \<Rightarrow> (cur, b')
               | (Inr _, b') \<Rightarrow> (None, b'))
         else (cur, b))"

definition live_gain :: "bool \<Rightarrow> string option \<Rightarrow> real option \<Rightarrow> real option \<Rightarrow> real \<Rightarrow> real res" where
  "live_gain is_inv sd entry qty px =
     (case (entry, qty) of
        (Some e, Some q) \<Rightarrow>
          if 0 < e \<and> q \<noteq> 0
          then (if is_inv then
                  bindE (py_div 1 px) (\<lambda>inv_px.
                    let notional = q * e;
                        pnl_btc = (if sd = Some ''LONG'' then notional * (1 / e - inv_px)
                                   else notional * (inv_px - 1 / e))
                    in Inr (pnl_btc * px))
                else Inr (if sd = Some ''LONG'' then (px - e) * q else (e - px) * q))
          else Inr 0
      | _ \<Rightarrow> Inr 0)"

text \<open>A fill is synthesised when a position appears.\<close>

definition fill_trade_id :: "ex_pos \<Rightarrow> ('x, 'd) live \<Rightarrow> string \<times> ('x, 'd) live" where
  "fill_trade_id p b =
     (if str_or (xp_position_id p) [] \<noteq> [] then (str_or (xp_position_id p) [], b)
      else let (t, b') = live_time b in (''live_'' @ str_of_int (py_int t), b'))"

definition fill_latency :: "('x, 'd) live \<Rightarrow> real option \<times> ('x, 'd) live" where
  "fill_latency b =
     (if truthy (lv_generated_at b)
      then let (t, b') = live_time b in (Some (t - the (lv_generated_at b)), b'\<lparr>lv_generated_at := None\<rparr>)
      else (None, b))"

definition record_fill :: "candle \<Rightarrow> ex_pos \<Rightarrow> ('x, 'd) live \<Rightarrow> live_fill \<times> ('x, 'd) live" where
  "record_fill c p b0 =
     (let qty = xp_quantity p; px = xp_price p; sd = xp_direction p;
          (tid, b1) = fill_trade_id p b0;
          (latency, b2) = fill_latency b1;
          f = \<lparr>lf_trade_id = tid, lf_side = sd, lf_price = px, lf_qty = \<bar>qty\<bar>, lf_at = c_ts c,
               lf_exchange_id = xp_position_id p, lf_latency = latency\<rparr>;
          b3 = b2\<lparr>lv_entry_price := Some px, lv_entry_side := Some sd, lv_entry_qty := Some \<bar>qty\<bar>,
                  lv_history := lv_history b2 @ [LiveFill f]\<rparr>
      in (f, with_repo (\<lambda>t. save_fill t
            \<lparr>fi_fill_id = tid, fi_order_id = str_or (lv_last_order_id b3) ''UNKNOWN'', fi_symbol = lv_symbol b3,
             fi_price = px, fi_qty = \<bar>qty\<bar>, fi_fee = 0, fi_filled_at = Some t\<rparr>) b3))"

text \<open>An exit is synthesised when it disappears; the profit may divide by a zero close.\<close>

definition record_exit :: "candle \<Rightarrow> ex_pos \<Rightarrow> (('x, 'd) live, live_exit) py" where
  "record_exit c p = (\<lambda>b.
     case live_gain (lv_is_inverse b) (lv_entry_side b) (lv_entry_price b) (lv_entry_qty b) (c_close c) of
       Inl e \<Rightarrow> (Inl e, b)
     | Inr pnl \<Rightarrow>
       let x = \<lparr>lx_trade_id = str_or (xp_position_id p) ''live_exit'',
                lx_entry = float_or (lv_entry_price b) 0, lx_exit = c_close c,
                lx_quantity = float_or (lv_entry_qty b) 0, lx_pnl = pnl, lx_at = c_ts c,
                lx_side = str_or (lv_entry_side b) ''N/A''\<rparr>
       in (Inr x, b\<lparr>lv_history := lv_history b @ [LiveExitEv x], lv_equity := lv_equity b + pnl,
                    lv_entry_price := None, lv_entry_side := None, lv_entry_qty := None\<rparr>))"

record live_events =
  le_fills :: "live_fill list"
  le_exits :: "live_exit list"
  le_errors :: "py_exc list"
  le_submission :: "post_resp option"

text \<open>Phases 2 and 3, the body of the second \<open>try\<close>.\<close>

definition synthesize :: "candle \<Rightarrow> ex_pos option
    \<Rightarrow> (('x, 'd) live, live_fill list \<times> live_exit list) py" where
  "synthesize c cur = (\<lambda>b.
     if \<not> lv_initialized b then (Inr ([], []), b\<lparr>lv_last_pos := cur, lv_initialized := True\<rparr>)
     else (case (lv_last_pos b, cur) of
             (None, Some p) \<Rightarrow>
               (let (f, b1) = record_fill c p b in (Inr ([f], []), b1\<lparr>lv_last_pos := cur\<rparr>))
           | (Some p, None) \<Rightarrow>
               bindS (record_exit c p) (\<lambda>x b1. (Inr ([], [x]), b1\<lparr>lv_last_pos := cur\<rparr>)) b
           | _ \<Rightarrow> (Inr ([], []), b\<lparr>lv_last_pos := cur\<rparr>)))"

definition sync_phase :: "'x venue \<Rightarrow> candle \<Rightarrow> (('x, 'd) live, live_fill list \<times> live_exit list) py" where
  "sync_phase V c = bindS (sync_position V) (\<lambda>cur b.
     let (cur', b1) = fix_drift V cur b in synthesize c cur' b1)"

definition live_on_candle :: "'x venue \<Rightarrow> limits \<Rightarrow> bool \<Rightarrow> candle \<Rightarrow> live_order option \<Rightarrow> ('x, 'd) live
    \<Rightarrow> live_events \<times> ('x, 'd) live" where
  "live_on_candle V L kill c ord b =
     (if kill then (\<lparr>le_fills = [], le_exits = [], le_errors = [RuntimeError ''KILL_SWITCH_ACTIVE''],
                     le_submission = None\<rparr>, b)
      else let ((errs, resp), b1) = submit_phase V L ord c b
      in case sync_phase V c b1 of
           (Inl e, b2) \<Rightarrow> (\<lparr>le_fills = [], le_exits = [], le_errors = errs @ [e], le_submission = resp\<rparr>, b2)
         | (Inr (fs, xs), b2) \<Rightarrow>
           (\<lparr>le_fills = fs, le_exits = xs, le_errors = errs, le_submission = resp\<rparr>, b2))"

section \<open>The other methods\<close>

definition live_on_tick :: "tick \<Rightarrow> ('x, 'd) live \<Rightarrow> live_exit list \<times> ('x, 'd) live" where
  "live_on_tick t b = ([], b)"

definition live_place_order :: "'x venue \<Rightarrow> string \<Rightarrow> real \<Rightarrow> string \<Rightarrow> real option \<Rightarrow> real option
    \<Rightarrow> real option \<Rightarrow> string option \<Rightarrow> (('x, 'd) live, post_resp) py" where
  "live_place_order V sd qty ty price sl tp cid =
     provider_place_order V sd qty ty price None None None sl tp cid"

definition live_cancel_all :: "'x venue \<Rightarrow> ('x, 'd) live \<Rightarrow> ('x, 'd) live" where
  "live_cancel_all V b = snd (provider_call (v_cancel_all V (lv_symbol b)) b)"

definition close_open_position :: "'x venue \<Rightarrow> (('x, 'd) live, unit) py" where
  "close_open_position V = (\<lambda>b. bindS (provider_call (v_pending V (lv_symbol b))) (\<lambda>ps.
     case open_position (lv_symbol b) ps of
       None \<Rightarrow> returnS ()
     | Some p \<Rightarrow>
       bindS (provider_place_order V (if 0 < xp_quantity p then ''SHORT'' else ''LONG'') \<bar>xp_quantity p\<bar>
                ''MARKET'' None (Some ''CLOSE'') None None None None None) (\<lambda>_. returnS ())) b)"

definition live_shutdown :: "'x venue \<Rightarrow> ('x, 'd) live \<Rightarrow> ('x, 'd) live" where
  "live_shutdown V b = snd (close_open_position V (live_cancel_all V b))"

definition live_close_all :: "'x venue \<Rightarrow> real \<Rightarrow> ('x, 'd) live \<Rightarrow> live_exit list \<times> ('x, 'd) live" where
  "live_close_all V px b = ([], live_shutdown V b)"

definition live_unrealized :: "real \<Rightarrow> ('x, 'd) live \<Rightarrow> real" where
  "live_unrealized px b = (case lv_last_pos b of None \<Rightarrow> 0
     | Some p \<Rightarrow>
       let qty = xp_quantity p; entry = xp_price p; sd = xp_direction p
       in if entry \<le> 0 \<or> px \<le> 0 then 0
          else if lv_is_inverse b then
            (let notional = \<bar>qty\<bar> * entry;
                 pnl_btc = (if sd = ''LONG'' then notional * (1 / entry - 1 / px)
                            else notional * (1 / px - 1 / entry))
             in pnl_btc * px)
          else if sd = ''LONG'' then (px - entry) * \<bar>qty\<bar> else (entry - px) * \<bar>qty\<bar>)"

end
