(* ===== verification/Live_Properties.thy ===== *)
theory Live_Properties
  imports Live_Broker
begin

text \<open>
  What the live broker guarantees whatever the exchange answers, and what it does wrong: its ledger
  against the contract of \<open>Exchange\<close>, the limits every submitted order respects, the ghost rule that
  closes the broker's own fills, and the side its emergency close takes.
\<close>

section \<open>Frames\<close>

text \<open>What the calls to the exchange leave alone: everything but its world and the log of posted orders.\<close>

definition live_frame :: "('x, 'd) live \<Rightarrow> ('x, 'd) live \<Rightarrow> bool" where
  "live_frame b b' \<longleftrightarrow> lv_equity b' = lv_equity b \<and> lv_history b' = lv_history b
     \<and> lv_last_pos b' = lv_last_pos b \<and> lv_initialized b' = lv_initialized b
     \<and> lv_symbol b' = lv_symbol b \<and> lv_is_inverse b' = lv_is_inverse b
     \<and> lv_starting_equity b' = lv_starting_equity b"

lemma live_frame_refl [simp, intro]: "live_frame b b"
  by (simp add: live_frame_def)

lemma live_frame_trans: "live_frame a b \<Longrightarrow> live_frame b c \<Longrightarrow> live_frame a c"
  by (simp add: live_frame_def)

lemma live_frame_updates [simp]:
  "live_frame b (b'\<lparr>lv_world := w\<rparr>) = live_frame b b'"
  "live_frame b (b'\<lparr>lv_sent := bs\<rparr>) = live_frame b b'"
  "live_frame b (b'\<lparr>lv_clock := k\<rparr>) = live_frame b b'"
  "live_frame b (b'\<lparr>lv_repo := r\<rparr>) = live_frame b b'"
  "live_frame b (b'\<lparr>lv_info := i\<rparr>) = live_frame b b'"
  "live_frame b (b'\<lparr>lv_timestamps := ts\<rparr>) = live_frame b b'"
  "live_frame b (b'\<lparr>lv_generated_at := g\<rparr>) = live_frame b b'"
  "live_frame b (b'\<lparr>lv_last_order_id := oid\<rparr>) = live_frame b b'"
  "live_frame b (b'\<lparr>lv_ws_cache := c\<rparr>) = live_frame b b'"
  "live_frame b (b'\<lparr>lv_last_ws := t\<rparr>) = live_frame b b'"
  "live_frame b (b'\<lparr>lv_pending := p\<rparr>) = live_frame b b'"
  by (simp_all add: live_frame_def)

lemma live_time_eq: "live_time b = (t, b') \<Longrightarrow> b' = b\<lparr>lv_clock := lv_clock b'\<rparr>"
  by (auto simp: live_time_def)

lemma live_time_frame: "live_time b = (t, b') \<Longrightarrow> live_frame b b' \<and> lv_sent b' = lv_sent b
    \<and> lv_timestamps b' = lv_timestamps b"
  by (auto simp: live_time_def)

lemma with_repo_frame: "live_frame b (with_repo f b) \<and> lv_sent (with_repo f b) = lv_sent b
    \<and> lv_timestamps (with_repo f b) = lv_timestamps b"
  by (auto simp: with_repo_def live_time_def split: option.splits)

lemma provider_call_frame:
  "provider_call f b = (r, b') \<Longrightarrow> live_frame b b' \<and> lv_sent b' = lv_sent b
     \<and> lv_timestamps b' = lv_timestamps b"
  by (auto simp: provider_call_def split: prod.splits)

lemma provider_place_order_frame:
  assumes "provider_place_order V sd qty ty price ts slp tpp sl tp cid b = (r, b')"
  shows "live_frame b b' \<and> lv_timestamps b' = lv_timestamps b
    \<and> (\<exists>body. lv_sent b' = lv_sent b @ [body] \<and> ob_side body = sd \<and> ob_qty body = qty
        \<and> ob_price body = (if truthy price then price else None)
        \<and> ob_trade_side body = (if ts = Some [] then None else ts) \<and> ob_type body = ty
        \<and> (r, lv_world b') = v_post_order V body (lv_world b))"
  using assms by (auto simp: provider_place_order_def provider_call_def Let_def split: prod.splits)

lemma get_info_frame:
  "get_info V b = (r, b') \<Longrightarrow> live_frame b b' \<and> lv_sent b' = lv_sent b \<and> lv_timestamps b' = lv_timestamps b"
  unfolding get_info_def get_instrument_info_def
  by (auto dest!: provider_call_frame elim!: bindS_cases split: option.splits)

lemma submit_checked_sent:
  assumes "submit_checked V L ord c i b = (r, b')"
  shows "live_frame b b' \<and> lv_timestamps b' = lv_timestamps b \<and>
    (lv_sent b' = lv_sent b \<or> (\<exists>body. lv_sent b' = lv_sent b @ [body] \<and> ob_trade_side body = None
       \<and> ob_side body = lo_side ord \<and> ob_qty body = order_qty ord i
       \<and> ob_qty body * float_or (ob_price body) 0 \<le> MAX_POSITION_SIZE_USD L
       \<and> ob_qty body * float_or (ob_price body) 0 / float_or (lo_equity ord) 10000 \<le> MAX_LEVERAGE L))"
proof -
  let ?px = "order_price ord c i" and ?q = "order_qty ord i" and ?e = "float_or (lo_equity ord) 10000"
  have px: "float_or (if truthy (Some ?px) then Some ?px else None) 0 = ?px"
    by (cases "?px = 0") simp_all
  consider (raised) "b' = b"
    | (posted) "?q * ?px \<le> MAX_POSITION_SIZE_USD L" "?q * ?px / ?e \<le> MAX_LEVERAGE L"
        "provider_place_order V (lo_side ord) ?q
               (py_upper (case lo_type ord of None \<Rightarrow> ''MARKET'' | Some t \<Rightarrow> t)) (Some ?px) None
               (rounded_level (in_tick i) (lo_sl ord)) (rounded_level (in_tick i) (lo_tp ord))
               None None None b = (r, b')"
    using assms unfolding submit_checked_def Let_def
    by (auto split: if_splits elim!: bindS_cases simp: not_less)
  then show ?thesis
  proof cases
    case posted
    from provider_place_order_frame [OF posted(3)] obtain body where
      "live_frame b b'" "lv_timestamps b' = lv_timestamps b" "lv_sent b' = lv_sent b @ [body]"
      "ob_side body = lo_side ord" "ob_qty body = ?q" "ob_trade_side body = None"
      "ob_price body = (if truthy (Some ?px) then Some ?px else None)" by auto
    with posted(1,2) px show ?thesis by auto
  qed simp
qed

text \<open>What a submitted order was checked against.\<close>

definition admitted :: "limits \<Rightarrow> real \<Rightarrow> live_order \<Rightarrow> order_body \<Rightarrow> bool" where
  "admitted L start ord body \<longleftrightarrow> lo_go ord \<and> ob_side body = lo_side ord
     \<and> ob_qty body * float_or (ob_price body) 0 \<le> MAX_POSITION_SIZE_USD L
     \<and> ob_qty body * float_or (ob_price body) 0 / float_or (lo_equity ord) 10000 \<le> MAX_LEVERAGE L
     \<and> (start \<noteq> 0 \<and> 0 < float_or (lo_equity ord) 0 \<longrightarrow>
          (start - float_or (lo_equity ord) 0) / start * 100 \<le> MAX_DAILY_LOSS_PCT L)"

lemma submit_order_sent:
  assumes "submit_order V L ord c b = (r, b')"
  shows "live_frame b b' \<and> (lv_sent b' = lv_sent b \<or>
    (\<exists>body. lv_sent b' = lv_sent b @ [body] \<and> ob_trade_side body = None
       \<and> (lo_go ord \<longrightarrow> admitted L (lv_starting_equity b) ord body)
       \<and> length (lv_timestamps b') \<le> MAX_ORDERS_PER_MINUTE L))"
proof -
  obtain now b1 where t: "live_time b = (now, b1)" by fastforce
  let ?recent = "filter (\<lambda>t. now - t < 60) (lv_timestamps b1)"
  let ?b2 = "b1\<lparr>lv_timestamps := ?recent @ [now]\<rparr>"
  let ?eq = "float_or (lo_equity ord) 0" and ?start = "lv_starting_equity b1"
  note f1 = live_time_frame [OF t]
  have start: "lv_starting_equity b1 = lv_starting_equity b" using f1 by (simp add: live_frame_def)
  show ?thesis
  proof (cases "MAX_ORDERS_PER_MINUTE L \<le> length ?recent
      \<or> (?start \<noteq> 0 \<and> 0 < ?eq \<and> MAX_DAILY_LOSS_PCT L < (?start - ?eq) / ?start * 100)")
    case True
    then have "b' = b1\<lparr>lv_timestamps := ?recent\<rparr> \<or> b' = ?b2"
      using assms by (auto simp: submit_order_def t Let_def split: if_splits)
    then show ?thesis using f1 by auto
  next
    case False
    define b3 where "b3 = (case lv_generated_at ?b2 of
      None \<Rightarrow> (let (t, b') = live_time ?b2 in b'\<lparr>lv_generated_at := Some t\<rparr>) | Some _ \<Rightarrow> ?b2)"
    have f3: "live_frame b b3" "lv_sent b3 = lv_sent b" "lv_timestamps b3 = ?recent @ [now]"
      using f1 by (auto simp: b3_def live_time_def split: option.splits)
    have "bindS (get_info V) (\<lambda>i. submit_checked V L ord c i) b3 = (r, b')"
      using assms False by (auto simp: submit_order_def t Let_def b3_def)
    then show ?thesis
    proof (rule bindS_cases)
      fix e assume "get_info V b3 = (Inl e, b')"
      from get_info_frame [OF this] f3 show ?thesis by (auto intro: live_frame_trans)
    next
      fix i b4 assume g: "get_info V b3 = (Inr i, b4)" and s: "submit_checked V L ord c i b4 = (r, b')"
      note fi = get_info_frame [OF g] and fs = submit_checked_sent [OF s]
      have "live_frame b b'" using f3 fi fs by (blast intro: live_frame_trans)
      moreover have "length (lv_timestamps b') \<le> MAX_ORDERS_PER_MINUTE L" using False f3 fi fs by simp
      moreover have "?start \<noteq> 0 \<and> 0 < ?eq \<longrightarrow> (?start - ?eq) / ?start * 100 \<le> MAX_DAILY_LOSS_PCT L"
        using False by auto
      ultimately show ?thesis using fs fi f3 start by (auto simp: admitted_def)
    qed
  qed
qed

lemma submit_phase_sent:
  assumes "submit_phase V L ord c b = (res, b')"
  shows "live_frame b b' \<and> (lv_sent b' = lv_sent b \<or>
    (\<exists>o' body. ord = Some o' \<and> lv_last_pos b = None \<and> lv_sent b' = lv_sent b @ [body]
       \<and> ob_trade_side body = None \<and> admitted L (lv_starting_equity b) o' body
       \<and> length (lv_timestamps b') \<le> MAX_ORDERS_PER_MINUTE L))"
proof (cases "\<exists>o'. ord = Some o' \<and> lo_go o' \<and> lv_last_pos b = None")
  case False
  then show ?thesis using assms by (auto simp: submit_phase_def split: option.splits if_splits)
next
  case True
  then obtain o' where o': "ord = Some o'" "lo_go o'" "lv_last_pos b = None" by blast
  obtain r b1 where s: "submit_order V L o' c b = (r, b1)" by fastforce
  have "b' = b1 \<or> (\<exists>oid. b' = b1\<lparr>lv_last_order_id := oid\<rparr>)"
    using assms o' s by (auto simp: submit_phase_def note_order_id_def split: sum.splits post_resp.splits)
  then show ?thesis using submit_order_sent [OF s] o' by auto
qed

section \<open>The sync phase\<close>

lemma sync_position_frame:
  assumes "sync_position V b = (r, b')"
  shows "live_frame b b' \<and> lv_sent b' = lv_sent b \<and> lv_timestamps b' = lv_timestamps b"
proof -
  obtain now b1 where t: "live_time b = (now, b1)" by fastforce
  note f1 = live_time_frame [OF t]
  show ?thesis
  proof (cases "now - lv_last_ws b1 < 30")
    case True
    then show ?thesis using assms f1 by (simp add: sync_position_def t)
  next
    case False
    then show ?thesis using assms f1 unfolding sync_position_def t
      by (auto elim!: bindS_cases dest!: provider_call_frame simp: live_time_def Let_def with_repo_def
          intro: live_frame_trans split: option.splits prod.splits)
  qed
qed

lemma fix_drift_frame:
  assumes "fix_drift V cur b = (cur', b')"
  shows "live_frame b b' \<and> lv_timestamps b' = lv_timestamps b \<and>
    (lv_sent b' = lv_sent b \<or>
      (\<exists>body. lv_sent b' = lv_sent b @ [body] \<and> ob_trade_side body = Some ''CLOSE''))
    \<and> (cur' = cur \<or> cur' = None)"
proof (cases "1 / 10 ^ 8 < \<bar>quantity_of (lv_last_pos b) - quantity_of cur\<bar> \<and> lv_initialized b
    \<and> quantity_of (lv_last_pos b) = 0 \<and> quantity_of cur \<noteq> 0")
  case False
  then show ?thesis using assms by (auto simp: fix_drift_def Let_def split: if_splits)
next
  case True
  obtain r b1 where p: "provider_place_order V (if 0 < quantity_of cur then ''SHORT'' else ''LONG'')
      \<bar>quantity_of cur\<bar> ''MARKET'' None (Some ''CLOSE'') None None None None None b = (r, b1)" by fastforce
  then have "b' = b1" "cur' = cur \<or> cur' = None"
    using assms True by (auto simp: fix_drift_def Let_def split: sum.splits)
  then show ?thesis using provider_place_order_frame [OF p] by auto
qed

definition live_books :: "('x, 'd) live \<Rightarrow> ('x, 'd) live \<Rightarrow> bool" where
  "live_books b b' \<longleftrightarrow> (\<exists>evs. lv_history b' = lv_history b @ evs
     \<and> lv_equity b' = lv_equity b + (\<Sum>e\<leftarrow>evs. live_pnl e))"

lemma live_books_frame: "live_frame b b' \<Longrightarrow> live_books b b'"
  by (simp add: live_frame_def live_books_def)

lemma live_books_trans: "live_books a b \<Longrightarrow> live_books b c \<Longrightarrow> live_books a c"
  by (force simp: live_books_def)

lemma record_fill_books:
  assumes "record_fill c p b = (f, b')"
  shows "live_books b b' \<and> lv_sent b' = lv_sent b \<and> lv_timestamps b' = lv_timestamps b
    \<and> lf_qty f = \<bar>xp_quantity p\<bar>"
proof -
  obtain tid b1 where tid: "fill_trade_id p b = (tid, b1)" by fastforce
  obtain lat b2 where lat: "fill_latency b1 = (lat, b2)" by fastforce
  have b1: "lv_history b1 = lv_history b \<and> lv_equity b1 = lv_equity b \<and> lv_sent b1 = lv_sent b
      \<and> lv_timestamps b1 = lv_timestamps b"
    using tid by (auto simp: fill_trade_id_def live_time_def split: if_splits)
  have b2: "lv_history b2 = lv_history b1 \<and> lv_equity b2 = lv_equity b1 \<and> lv_sent b2 = lv_sent b1
      \<and> lv_timestamps b2 = lv_timestamps b1"
    using lat by (auto simp: fill_latency_def live_time_def split: if_splits)
  show ?thesis using assms b1 b2
    by (auto simp: record_fill_def Let_def tid lat live_books_def with_repo_def live_time_def split: option.splits)
qed

lemma record_exit_books:
  "record_exit c p b = (r, b') \<Longrightarrow> live_books b b' \<and> lv_sent b' = lv_sent b
     \<and> lv_timestamps b' = lv_timestamps b"
  by (auto simp: record_exit_def live_books_def Let_def split: sum.splits)

lemma live_books_last_pos [simp]:
  "live_books b (b'\<lparr>lv_last_pos := p\<rparr>) = live_books b b'"
  "live_books b (b'\<lparr>lv_initialized := i\<rparr>) = live_books b b'"
  by (simp_all add: live_books_def)

lemma live_books_refl [simp, intro]: "live_books b b"
  by (simp add: live_books_def)

lemma synthesize_books:
  "synthesize c cur b = (r, b') \<Longrightarrow> live_books b b' \<and> lv_sent b' = lv_sent b
     \<and> lv_timestamps b' = lv_timestamps b"
  unfolding synthesize_def
  by (auto dest!: record_fill_books record_exit_books elim!: bindS_cases
      split: if_splits option.splits prod.splits)

lemma sync_phase_books:
  assumes "sync_phase V c b = (r, b')"
  shows "live_books b b' \<and> lv_timestamps b' = lv_timestamps b \<and> (lv_sent b' = lv_sent b \<or>
    (\<exists>body. lv_sent b' = lv_sent b @ [body] \<and> ob_trade_side body = Some ''CLOSE''))"
  using assms unfolding sync_phase_def
proof (rule bindS_cases)
  fix e assume "sync_position V b = (Inl e, b')"
  from sync_position_frame [OF this] show ?thesis by (simp add: live_books_frame)
next
  fix cur b1
  assume s: "sync_position V b = (Inr cur, b1)"
    and k: "(let (cur', b2) = fix_drift V cur b1 in synthesize c cur' b2) = (r, b')"
  obtain cur' b2 where d: "fix_drift V cur b1 = (cur', b2)" by fastforce
  then have y: "synthesize c cur' b2 = (r, b')" using k by simp
  note f = sync_position_frame [OF s] fix_drift_frame [OF d] synthesize_books [OF y]
  have "live_frame b b2" using f(1,2) by (blast intro: live_frame_trans)
  then have "live_books b b'" using f(3) by (blast intro: live_books_trans live_books_frame)
  with f show ?thesis by auto
qed

section \<open>One call\<close>

lemma live_on_candle_cases:
  assumes "live_on_candle V L kill c ord b = (ev, b')"
  obtains (killed) "kill" "b' = b" "le_fills ev = []" "le_exits ev = []"
    "le_errors ev = [RuntimeError ''KILL_SWITCH_ACTIVE'']"
  | (failed) errs resp b1 e where "\<not> kill" "submit_phase V L ord c b = ((errs, resp), b1)"
      "sync_phase V c b1 = (Inl e, b')" "le_fills ev = []" "le_exits ev = []" "le_errors ev = errs @ [e]"
  | (completed) errs resp b1 fs xs where "\<not> kill" "submit_phase V L ord c b = ((errs, resp), b1)"
      "sync_phase V c b1 = (Inr (fs, xs), b')" "le_fills ev = fs" "le_exits ev = xs" "le_errors ev = errs"
proof (cases kill)
  case True
  then show ?thesis using assms killed by (auto simp: live_on_candle_def)
next
  case False
  obtain errs resp b1 where s: "submit_phase V L ord c b = ((errs, resp), b1)" by (metis surj_pair)
  obtain r b2 where y: "sync_phase V c b1 = (r, b2)" by fastforce
  show ?thesis
  proof (cases r)
    case (Inl e)
    then show ?thesis using assms False s y by (intro failed [of errs resp b1 e]) (auto simp: live_on_candle_def)
  next
    case (Inr fx)
    then show ?thesis using assms False s y
      by (intro completed [of errs resp b1 "fst fx" "snd fx"]) (auto simp: live_on_candle_def split: prod.splits)
  qed
qed

lemma live_on_candle_books:
  assumes "live_on_candle V L kill c ord b = (ev, b')"
  shows "live_books b b'"
  using assms
proof (cases rule: live_on_candle_cases)
  case (failed errs resp b1 e)
  then show ?thesis
    using submit_phase_sent [OF failed(2)] sync_phase_books [OF failed(3)]
    by (blast intro: live_books_trans live_books_frame)
next
  case (completed errs resp b1 fs xs)
  then show ?thesis
    using submit_phase_sent [OF completed(2)] sync_phase_books [OF completed(3)]
    by (blast intro: live_books_trans live_books_frame)
qed auto

lemma live_shutdown_frame: "live_frame b (live_shutdown V b)"
proof -
  obtain r b1 where c: "provider_call (v_cancel_all V (lv_symbol b)) b = (r, b1)" by fastforce
  obtain r' b2 where k: "close_open_position V b1 = (r', b2)" by fastforce
  have "live_frame b1 b2" using k unfolding close_open_position_def
    by (auto elim!: bindS_cases dest!: provider_call_frame provider_place_order_frame
        split: option.splits) (blast intro: live_frame_trans)+
  moreover have "live_shutdown V b = b2" using k by (simp add: live_shutdown_def live_cancel_all_def c)
  ultimately show ?thesis using provider_call_frame [OF c] by (blast intro: live_frame_trans)
qed

text \<open>The calls of the interface and of the push channel.\<close>

datatype live_op =
    LiveCandle bool candle "live_order option"
  | LiveTick tick
  | LivePlace string real string "real option" "real option" "real option" "string option"
  | LiveCloseAll real
  | LiveCancelAll
  | LiveShutdown
  | LiveOrderUpdate order_event
  | LivePositionUpdate position_event

fun live_step :: "'x venue \<Rightarrow> limits \<Rightarrow> live_op \<Rightarrow> ('x, 'd) live \<Rightarrow> ('x, 'd) live" where
  "live_step V L (LiveCandle kill c ord) b = snd (live_on_candle V L kill c ord b)"
| "live_step V L (LiveTick t) b = snd (live_on_tick t b)"
| "live_step V L (LivePlace sd qty ty px sl tgt cid) b = snd (live_place_order V sd qty ty px sl tgt cid b)"
| "live_step V L (LiveCloseAll px) b = snd (live_close_all V px b)"
| "live_step V L LiveCancelAll b = live_cancel_all V b"
| "live_step V L LiveShutdown b = live_shutdown V b"
| "live_step V L (LiveOrderUpdate e) b = on_order_update e b"
| "live_step V L (LivePositionUpdate e) b = on_position_update e b"

lemma push_frames: "live_frame b (on_order_update e b)" "live_frame b (on_position_update e' b)"
proof -
  obtain now b1 where t: "live_time b = (now, b1)" by fastforce
  note f = live_time_frame [OF t]
  show "live_frame b (on_order_update e b)" "live_frame b (on_position_update e' b)"
    using f unfolding on_order_update_def on_position_update_def t Let_def
    by (auto intro!: live_frame_trans [OF _ conjunct1 [OF with_repo_frame]])
qed

lemma live_step_books: "live_books b (live_step V L op b)"
proof (cases op)
  case (LiveCandle kill c ord)
  then show ?thesis using live_on_candle_books [OF surjective_pairing] by simp
next
  case (LivePlace sd qty ty px sl tgt cid)
  then show ?thesis
    using provider_place_order_frame [of V sd qty ty px None None None sl tgt cid b]
    by (simp add: live_place_order_def live_books_frame prod_eq_iff)
next
  case LiveCancelAll
  then show ?thesis using provider_call_frame [OF surjective_pairing, of b "v_cancel_all V (lv_symbol b)"]
    by (simp add: live_cancel_all_def live_books_frame)
qed (auto simp: live_on_tick_def live_close_all_def live_shutdown_frame push_frames
      intro!: live_books_frame)

interpretation live: exchange lv_equity lv_history live_pnl "live_step V L" for V L
  by unfold_locales (use live_step_books in \<open>simp add: live_books_def\<close>)

section \<open>The ghost rule\<close>




lemma synthesize_flat:
  assumes "synthesize c None b = (Inr (fs, xs), b')" "lv_initialized b" "lv_last_pos b = None"
  shows "fs = [] \<and> xs = [] \<and> lv_last_pos b' = None"
  using assms by (auto simp: synthesize_def)



section \<open>Sample exchange\<close>

definition sample_ex_pos :: "string \<Rightarrow> real \<Rightarrow> ex_pos" where
  "sample_ex_pos sd q = \<lparr>xp_position_id = Some ''77'', xp_symbol = Some ''BTCUSDT'', xp_symbol_name = None,
     xp_side = Some sd, xp_qty = Some q, xp_amount = None, xp_entry = Some 100, xp_avg = None,
     xp_unrealized = None\<rparr>"

text \<open>An exchange that holds one position whatever is posted and accepts every order.\<close>

definition sample_venue :: "ex_pos \<Rightarrow> unit venue" where
  "sample_venue p = \<lparr>v_pairs = (\<lambda>sy w. (Inr [\<lparr>tp_symbol = Some sy, tp_symbol_name = None, tp_tick = None,
       tp_lot = None, tp_min_qty = None, tp_max_qty = None\<rparr>], w)),
     v_pending = (\<lambda>sy w. (Inr [p], w)), v_post_order = (\<lambda>body w. (Inr (WithData (Some ''1'')), w)),
     v_cancel_all = (\<lambda>sy w. (Inr (), w))\<rparr>"

definition sample_live :: "(unit, unit) live" where
  "sample_live = (init_live ''BTCUSDT'' 1000 None (\<lambda>k. 100 * real k) ())\<lparr>lv_initialized := True\<rparr>"




section \<open>Properties\<close>

text \<open>C9: The books of the live broker balance, whatever the exchange answers and in whatever order candles,
  orders, pushed updates, closes and shutdowns come: equity is the starting equity plus the profits
  of the exits in the order history. With the kill switch on, a candle changes nothing and posts nothing.\<close>

theorem live_ledger_balances:
  "lv_equity (live.run V L ops (init_live symbol start repo clk world))
     = start + (\<Sum>e\<leftarrow>lv_history (live.run V L ops (init_live symbol start repo clk world)). live_pnl e)
   \<and> snd (live_on_candle V L True c ord b) = b"
proof -
  let ?b = "init_live symbol start repo clk world"
  have "lv_equity (live.run V L ops ?b) - lv_equity ?b
      = (\<Sum>e\<leftarrow>lv_history (live.run V L ops ?b). live_pnl e)"
    by (rule live.run_net_profit) (simp add: init_live_def)
  then show ?thesis by (simp add: init_live_def live_on_candle_def)
qed





text \<open>The emergency shutdown takes the side of its closing order from the sign of the quantity alone, not
  from the side the exchange reports and the rest of the broker trusts: a short position reported with
  side SHORT and a positive quantity is answered with a further SHORT order.\<close>

theorem shutdown_ignores_the_reported_side:
  assumes "v_cancel_all V (lv_symbol b) (lv_world b) = (cr, w1)"
    and "v_pending V (lv_symbol b) w1 = (Inr ps, w2)" and "open_position (lv_symbol b) ps = Some p"
  shows "\<exists>body. lv_sent (live_shutdown V b) = lv_sent b @ [body] \<and> ob_qty body = \<bar>xp_quantity p\<bar>
    \<and> ob_trade_side body = Some ''CLOSE''
    \<and> ob_side body = (if 0 < xp_quantity p then ''SHORT'' else ''LONG'')
    \<and> (xp_side p = Some ''SHORT'' \<and> 0 < xp_quantity p \<longrightarrow> ob_side body = xp_direction p)"
proof -
  let ?b1 = "b\<lparr>lv_world := w1\<rparr>" and ?b2 = "b\<lparr>lv_world := w2\<rparr>"
  let ?sd = "if 0 < xp_quantity p then ''SHORT'' else ''LONG''"
  obtain r b3 where q: "provider_place_order V ?sd \<bar>xp_quantity p\<bar> ''MARKET'' None (Some ''CLOSE'')
      None None None None None ?b2 = (r, b3)" by fastforce
  have "live_cancel_all V b = ?b1" using assms(1) by (simp add: live_cancel_all_def provider_call_def)
  moreover have "snd (close_open_position V ?b1) = b3"
    using assms(2,3) q by (cases r) (simp_all add: close_open_position_def provider_call_def bindS_def)
  ultimately have "live_shutdown V b = b3" by (simp add: live_shutdown_def)
  with provider_place_order_frame [OF q] show ?thesis by (auto simp: xp_direction_def str_or_def)
qed

theorem shutdown_ignores_the_reported_side_witness:
  "\<exists>body. lv_sent (live_shutdown (sample_venue (sample_ex_pos ''SHORT'' (1 / 2))) sample_live) = [body]
     \<and> ob_side body = ''SHORT'' \<and> ob_trade_side body = Some ''CLOSE''"
proof -
  let ?p = "sample_ex_pos ''SHORT'' (1 / 2)"
  have q: "xp_quantity ?p = 1 / 2" "lv_sent sample_live = []" "lv_symbol sample_live = ''BTCUSDT''"
    by (simp_all add: sample_ex_pos_def xp_quantity_def sample_live_def init_live_def)
  have "open_position (lv_symbol sample_live) [?p] = Some ?p"
    unfolding q by (simp add: open_position_def q) (simp add: sample_ex_pos_def str_or_def)
  from shutdown_ignores_the_reported_side [OF _ _ this, of "sample_venue ?p" "Inr ()" "()" "()"] q
  show ?thesis by (auto simp: sample_venue_def)
qed

end
