(* ===== verification/Timestamps.thy ===== *)
theory Timestamps
  imports Trading_Helpers
begin

text \<open>
  Timestamps as the program writes and reads them: \<open>datetime.fromtimestamp(t, tz=utc).isoformat()\<close>
  on the way in, \<open>datetime.fromisoformat(s).timestamp()\<close> and the runner's \<open>_parse_ts_to_int\<close> on the
  way out, with the proleptic Gregorian calendar behind them. Reading inverts writing, and the
  order of the strings is the order of the instants, which is what the sorting of candles by
  their timestamp strings relies on.
\<close>

section \<open>The calendar\<close>

definition leap_year :: "int \<Rightarrow> bool" where
  "leap_year y \<longleftrightarrow> y mod 4 = 0 \<and> (y mod 100 \<noteq> 0 \<or> y mod 400 = 0)"

definition days_before_year :: "int \<Rightarrow> int" where
  "days_before_year y = (let n = y - 1 in n * 365 + n div 4 - n div 100 + n div 400)"

definition month_days :: "int \<Rightarrow> int list" where
  "month_days y = [31, if leap_year y then 29 else 28, 31, 30, 31, 30, 31, 31, 30, 31, 30, 31]"

text \<open>Days since 1970-01-01 of a date, and back.\<close>

definition unix_days :: "int \<Rightarrow> nat \<Rightarrow> int \<Rightarrow> int" where
  "unix_days y m d = days_before_year y + sum_list (take (m - 1) (month_days y)) + d - 719163"

fun find_month :: "int list \<Rightarrow> int \<Rightarrow> nat \<times> int" where
  "find_month [] k = (1, k + 1)"
| "find_month (l # ls) k =
     (if k < l then (1, k + 1) else (let (m, d) = find_month ls (k - l) in (m + 1, d)))"

definition year_of_days :: "int \<Rightarrow> int \<times> int" where
  "year_of_days n =
     (let q = n div 146097; r = n mod 146097;
          b = min 3 (r div 36524); r2 = r - b * 36524;
          c = r2 div 1461; r3 = r2 mod 1461;
          d = min 3 (r3 div 365)
      in (400 * q + 100 * b + 4 * c + d + 1, r3 - d * 365))"

definition civil :: "int \<Rightarrow> int \<times> nat \<times> int" where
  "civil days = (let (y, k) = year_of_days (days + 719162); (m, d) = find_month (month_days y) k in (y, m, d))"

lemma days_before_year_split:
  assumes "0 \<le> b" "b \<le> 3" "0 \<le> c" "c \<le> 24" "0 \<le> d" "d \<le> 3"
  shows "days_before_year (400 * q + 100 * b + 4 * c + d + 1) = 146097 * q + 36524 * b + 1461 * c + 365 * d"
proof -
  let ?n = "400 * q + 100 * b + 4 * c + d"
  have "?n div 4 = 100 * q + 25 * b + c" "?n div 100 = 4 * q + b" "?n div 400 = q"
    using assms by linarith+
  then show ?thesis by (simp add: days_before_year_def Let_def)
qed

lemma year_of_days_split:
  assumes "year_of_days n = (y, k)"
  shows "days_before_year y + k = n" "0 \<le> k" "k < 365 + (if leap_year y then 1 else 0)"
proof -
  define q r where "q = n div 146097" and "r = n mod 146097"
  define b r2 where "b = min 3 (r div 36524)" and "r2 = r - b * 36524"
  define c r3 where "c = r2 div 1461" and "r3 = r2 mod 1461"
  define d where "d = min 3 (r3 div 365)"
  have y: "y = 400 * q + 100 * b + 4 * c + d + 1" and k: "k = r3 - d * 365"
    using assms by (simp_all add: year_of_days_def Let_def q_def r_def b_def r2_def c_def r3_def d_def)
  have n: "n = 146097 * q + r" and r: "0 \<le> r" "r < 146097" by (simp_all add: q_def r_def)
  have b: "0 \<le> b" "b \<le> 3" using r by (simp_all add: b_def)
  have r2: "0 \<le> r2" "r2 < 36524 + (if b = 3 then 1 else 0)"
    using r unfolding r2_def b_def by (auto simp: min_def)
  have c: "0 \<le> c" "c \<le> 24" using r2 unfolding c_def by (auto split: if_splits)
  have r3: "0 \<le> r3" "r3 < 1461" "r2 = 1461 * c + r3" by (simp_all add: r3_def c_def)
  have d: "0 \<le> d" "d \<le> 3" using r3 by (simp_all add: d_def)
  have k0: "0 \<le> k" "k < 366" using r3 unfolding k d_def by (auto simp: min_def)
  show "days_before_year y + k = n"
    unfolding y days_before_year_split [OF b c d] using n r3 by (simp add: k r2_def)
  show "0 \<le> k" by (rule k0)
  show "k < 365 + (if leap_year y then 1 else 0)"
  proof (cases "k = 365")
    case True
    then have "d = 3" "r3 = 1460" using r3 unfolding k d_def by (auto simp: min_def split: if_splits)
    then have "c = 24 \<longrightarrow> b = 3" using r3(3) r2 by (auto split: if_splits)
    have ym: "y = 400 * q + 100 * b + 4 * (c + 1)" using y \<open>d = 3\<close> by simp
    have m4: "y = 4 * (100 * q + 25 * b + c + 1)" using ym by simp
    have "leap_year y"
    proof (cases "c = 24")
      case True
      with \<open>c = 24 \<longrightarrow> b = 3\<close> ym have "y = 400 * (q + 1)" by simp
      then show ?thesis by (simp add: leap_year_def)
    next
      case False
      have "y = 100 * (4 * q + b) + 4 * (c + 1)" using ym by simp
      then have "y mod 100 = (4 * (c + 1)) mod 100" by (simp only: mod_mult_self4)
      also have "\<dots> = 4 * (c + 1)" using False c by simp
      finally show ?thesis using m4 c by (simp add: leap_year_def)
    qed
    then show ?thesis using k0 by simp
  qed (use k0 in auto)
qed

lemma find_month_split:
  assumes "find_month ls k = (m, d)" "0 \<le> k" "k < sum_list ls" "\<forall>l\<in>set ls. 0 < l"
  shows "1 \<le> m" "m \<le> length ls" "sum_list (take (m - 1) ls) + d = k + 1" "1 \<le> d" "d \<le> ls ! (m - 1)"
  using assms
proof (induction ls arbitrary: k m d)
  case Nil
  { case 1 then show ?case by simp next case 2 then show ?case by simp next case 3 then show ?case by simp
    next case 4 then show ?case by simp next case 5 then show ?case by simp }
next
  case (Cons l ls)
  have *: "1 \<le> m \<and> m \<le> length (l # ls) \<and> sum_list (take (m - 1) (l # ls)) + d = k + 1
     \<and> 1 \<le> d \<and> d \<le> (l # ls) ! (m - 1)"
    if a: "find_month (l # ls) k = (m, d)" "0 \<le> k" "k < sum_list (l # ls)" "\<forall>l\<in>set (l # ls). 0 < l" for k m d
  proof (cases "k < l")
    case True
    with a show ?thesis by auto
  next
    case False
    obtain m' d' where f: "find_month ls (k - l) = (m', d')" by force
    with a False have md: "m = m' + 1" "d = d'" by auto
    have k: "0 \<le> k - l" "k - l < sum_list ls" "\<forall>l\<in>set ls. 0 < l" using a False by auto
    note ih = Cons.IH [OF f k]
    then obtain j where "m' = Suc j" by (cases m') auto
    with ih md show ?thesis by auto
  qed
  { case 1 with * show ?case by blast next case 2 with * show ?case by blast next case 3 with * show ?case by blast
    next case 4 with * show ?case by blast next case 5 with * show ?case by blast }
qed

lemma month_days_simps [simp]:
  "length (month_days y) = 12" "sum_list (month_days y) = 365 + (if leap_year y then 1 else 0)"
  "\<forall>l\<in>set (month_days y). 0 < l \<and> l \<le> 31"
  by (simp_all add: month_days_def)

definition valid_date :: "int \<Rightarrow> nat \<Rightarrow> int \<Rightarrow> bool" where
  "valid_date y m d \<longleftrightarrow> 1 \<le> m \<and> m \<le> 12 \<and> 1 \<le> d \<and> d \<le> month_days y ! (m - 1)"

lemma civil_split:
  assumes "civil days = (y, m, d)"
  shows "unix_days y m d = days" "valid_date y m d"
proof -
  obtain k where yk: "year_of_days (days + 719162) = (y, k)" and md: "find_month (month_days y) k = (m, d)"
    using assms by (auto simp: civil_def split: prod.splits)
  note a = year_of_days_split [OF yk]
  have k: "k < sum_list (month_days y)" "\<forall>l\<in>set (month_days y). 0 < l" using a(3) by auto
  note b = find_month_split [OF md a(2) k]
  show "unix_days y m d = days" using a(1) b(3) by (simp add: unix_days_def)
  show "valid_date y m d" using b by (simp add: valid_date_def)
qed

section \<open>Writing\<close>

definition d10 :: "int \<Rightarrow> char" where
  "d10 n = char_of (48 + nat (n div 10))"

definition d1 :: "int \<Rightarrow> char" where
  "d1 n = char_of (48 + nat (n mod 10))"

text \<open>\<open>datetime.fromtimestamp(ms / 1000.0, tz=timezone.utc).isoformat()\<close>; the year must have four digits.\<close>

definition iso_fraction :: "int \<Rightarrow> string" where
  "iso_fraction ms = (if ms = 0 then [] else [CHR ''.'', d1 (ms div 100), d10 (ms mod 100), d1 (ms mod 100)] @ ''000'')"

definition iso_of_ms :: "int \<Rightarrow> string res" where
  "iso_of_ms t =
     (let sec = t div 1000; days = sec div 86400; rest = sec mod 86400; (y, m, d) = civil days;
          h = rest div 3600; mi = rest mod 3600 div 60; s = rest mod 60
      in if y < 1 \<or> 9999 < y then Inl (ValueError ''year is out of range'')
         else Inr ([d10 (y div 100), d1 (y div 100), d10 (y mod 100), d1 (y mod 100), CHR ''-'',
                    d10 (int m), d1 (int m), CHR ''-'', d10 d, d1 d, CHR ''T'',
                    d10 h, d1 h, CHR '':'', d10 mi, d1 mi, CHR '':'', d10 s, d1 s]
                   @ iso_fraction (t mod 1000) @ ''+00:00''))"

section \<open>Reading\<close>

definition two_digits :: "string \<Rightarrow> nat \<Rightarrow> int option" where
  "two_digits s i = (let t = take 2 (drop i s)
     in if length t = 2 \<and> py_isdigit t then Some (int_of_digits t) else None)"

text \<open>What follows the seconds: an optional fraction, then an optional offset.\<close>

definition fraction_ms :: "string \<Rightarrow> int \<times> string" where
  "fraction_ms s =
     (if str_startswith ''.'' s
      then (int_of_digits (take 3 (takeWhile is_digit (tl s) @ ''000'')), dropWhile is_digit (tl s))
      else (0, s))"

definition offset_seconds :: "string \<Rightarrow> int option" where
  "offset_seconds s =
     (if s = [] \<or> s = ''Z'' then Some 0
      else if length s = 6 \<and> s ! 3 = CHR '':'' \<and> (hd s = CHR ''+'' \<or> hd s = CHR ''-'')
      then (case (two_digits s 1, two_digits s 4) of
              (Some h, Some m) \<Rightarrow> Some ((if hd s = CHR ''+'' then 1 else -1) * (h * 3600 + m * 60))
            | _ \<Rightarrow> None)
      else None)"

text \<open>
  \<open>datetime.fromisoformat(s).timestamp()\<close> in milliseconds, for the extended format that \<open>isoformat\<close>
  writes; a timestamp without an offset is taken as UTC.
\<close>

definition parse_iso_ms :: "string \<Rightarrow> int option" where
  "parse_iso_ms s =
     (if length s < 19 \<or> s ! 4 \<noteq> CHR ''-'' \<or> s ! 7 \<noteq> CHR ''-'' \<or> s ! 13 \<noteq> CHR '':'' \<or> s ! 16 \<noteq> CHR '':''
      then None
      else case (two_digits s 0, two_digits s 2, two_digits s 5, two_digits s 8) of
        (Some c, Some y, Some mo, Some d) \<Rightarrow>
          (let (ms, rest) = fraction_ms (drop 19 s)
           in case (two_digits s 11, two_digits s 14, two_digits s 17, offset_seconds rest) of
                (Some h, Some mi, Some sec, Some off) \<Rightarrow>
                  (if 1 \<le> 100 * c + y \<and> valid_date (100 * c + y) (nat mo) d \<and> h < 24 \<and> mi < 60 \<and> sec < 60
                   then Some ((unix_days (100 * c + y) (nat mo) d * 86400 + h * 3600 + mi * 60 + sec - off) * 1000 + ms)
                   else None)
              | _ \<Rightarrow> None)
      | _ \<Rightarrow> None)"

text \<open>\<open>_parse_ts_to_int\<close>: digits are seconds as they stand, a string with a T is read as above, anything else is 0.\<close>

definition parse_ts :: "string \<Rightarrow> int" where
  "parse_ts ts =
     (if py_isdigit ts then int_of_digits ts
      else if CHR ''T'' \<in> set ts then (case parse_iso_ms ts of None \<Rightarrow> 0 | Some n \<Rightarrow> py_int (real_of_int n / 1000))
      else 0)"

section \<open>Reading inverts writing\<close>

lemma digit_chars:
  "list_all (\<lambda>k. is_digit (char_of (48 + nat k)) \<and> digit_val (char_of (48 + nat k)) = k) [0,1,2,3,4,5,6,7,8,9]"
  by code_simp

lemma digit_char:
  assumes "0 \<le> k" "k \<le> 9"
  shows "is_digit (char_of (48 + nat k))" "digit_val (char_of (48 + nat k)) = k"
    "(of_char (char_of (48 + nat k) :: char) :: nat) = 48 + nat k"
proof -
  have "k \<in> set [0..9]" using assms by simp
  also have "[0..9] = [0,1,2,3,4,5,6,7,8,9]" by code_simp
  finally show "is_digit (char_of (48 + nat k))" "digit_val (char_of (48 + nat k)) = k"
    using digit_chars unfolding list_all_iff by blast+
  show "(of_char (char_of (48 + nat k) :: char) :: nat) = 48 + nat k"
    using assms by simp
qed

lemma pair_digits:
  assumes "0 \<le> n" "n < 100"
  shows "is_digit (d10 n)" "is_digit (d1 n)" "int_of_digits [d10 n, d1 n] = n"
proof -
  have h: "0 \<le> n div 10" "n div 10 \<le> 9" "0 \<le> n mod 10" "n mod 10 \<le> 9" using assms by auto
  note d = digit_char [OF h(1,2)] digit_char [OF h(3,4)]
  show "is_digit (d10 n)" "is_digit (d1 n)" unfolding d10_def d1_def by (rule d(1), rule d(4))
  show "int_of_digits [d10 n, d1 n] = n"
    using d(2,5) mult_div_mod_eq [of 10 n] by (simp add: int_of_digits_def d10_def d1_def)
qed

lemma two_digits_pair:
  assumes "0 \<le> n" "n < 100" "drop i s = d10 n # d1 n # r"
  shows "two_digits s i = Some n"
  using assms pair_digits [OF assms(1,2)] by (simp add: two_digits_def py_isdigit_def)

lemma not_plus: "\<not> str_startswith ''.'' ''+00:00''" "offset_seconds ''+00:00'' = Some 0"
  by (simp_all add: str_startswith_def offset_seconds_def two_digits_def py_isdigit_def is_digit_def
      int_of_digits_def digit_val_def)

lemma fraction_read:
  assumes "0 \<le> ms" "ms < 1000"
  shows "fraction_ms (iso_fraction ms @ ''+00:00'') = (ms, ''+00:00'')"
proof (cases "ms = 0")
  case True
  then show ?thesis using not_plus by (simp add: iso_fraction_def fraction_ms_def)
next
  case False
  have a: "0 \<le> ms div 100" "ms div 100 < 100" "0 \<le> ms mod 100" "ms mod 100 < 100" "ms div 100 \<le> 9" using assms by auto
  note p = pair_digits [OF a(1,2)] pair_digits [OF a(3,4)]
  have z: "is_digit (CHR ''0'')" "\<not> is_digit (CHR ''+'')" by (simp_all add: is_digit_def)
  have "digit_val (d1 (ms div 100)) = ms div 100"
    using digit_char(2) [OF a(1,5)] a(1,5) by (simp add: d1_def)
  moreover have "10 * digit_val (d10 (ms mod 100)) + digit_val (d1 (ms mod 100)) = ms mod 100"
    using p(6) by (simp add: int_of_digits_def)
  moreover have "int_of_digits [d1 (ms div 100), d10 (ms mod 100), d1 (ms mod 100)]
      = 100 * digit_val (d1 (ms div 100)) + (10 * digit_val (d10 (ms mod 100)) + digit_val (d1 (ms mod 100)))"
    by (simp add: int_of_digits_def)
  ultimately have "int_of_digits [d1 (ms div 100), d10 (ms mod 100), d1 (ms mod 100)] = ms"
    using mult_div_mod_eq [of 100 ms] by linarith
  with False p z show ?thesis by (simp add: iso_fraction_def fraction_ms_def str_startswith_def)
qed

text \<open>The hours, minutes and seconds of a day.\<close>

lemma day_split:
  assumes "0 \<le> rest" "rest < (86400 :: int)"
  shows "rest div 3600 * 3600 + rest mod 3600 div 60 * 60 + rest mod 60 = rest"
    "0 \<le> rest div 3600" "rest div 3600 < 24" "0 \<le> rest mod 3600 div 60" "rest mod 3600 div 60 < 60"
proof -
  have "rest mod 3600 mod 60 = rest mod 60" by (rule mod_mod_cancel) simp
  then show "rest div 3600 * 3600 + rest mod 3600 div 60 * 60 + rest mod 60 = rest"
    using div_mult_mod_eq [of rest 3600] div_mult_mod_eq [of "rest mod 3600" 60] by linarith
  show "0 \<le> rest div 3600" "rest div 3600 < 24" "0 \<le> rest mod 3600 div 60" "rest mod 3600 div 60 < 60"
    using assms by auto
qed

lemma valid_date_bounds:
  assumes v: "valid_date y m d"
  shows "1 \<le> m \<and> m \<le> 12 \<and> 1 \<le> d \<and> d \<le> 31"
proof -
  have "month_days y ! (m - 1) \<in> set (month_days y)" 
    using v by (intro nth_mem) (auto simp: valid_date_def)
  with month_days_simps(3) [of y] have "month_days y ! (m - 1) \<le> 31" by blast
  with v show ?thesis by (auto simp: valid_date_def)
qed

text \<open>Reading a timestamp the program wrote gives back the millisecond it was written for, in any
  four-digit year, leap years and fractions of a second included.\<close>

lemma iso_timestamps_round_trip:
  assumes "iso_of_ms t = Inr s"
  shows "parse_iso_ms s = Some t"
proof -
  define sec days rest where "sec = t div 1000" and "days = sec div 86400" and "rest = sec mod 86400"
  obtain y m d where c: "civil days = (y, m, d)" by (metis prod_cases3)
  define h mi x where "h = rest div 3600" and "mi = rest mod 3600 div 60" and "x = rest mod 60"
  have y: "1 \<le> y" "y \<le> 9999" and s: "s = [d10 (y div 100), d1 (y div 100), d10 (y mod 100), d1 (y mod 100), CHR ''-'',
                    d10 (int m), d1 (int m), CHR ''-'', d10 d, d1 d, CHR ''T'',
                    d10 h, d1 h, CHR '':'', d10 mi, d1 mi, CHR '':'', d10 x, d1 x]
                   @ iso_fraction (t mod 1000) @ ''+00:00''"
    using assms c by (auto simp: iso_of_ms_def Let_def sec_def days_def rest_def h_def mi_def x_def split: if_splits)
  note v = civil_split [OF c]
  note md = valid_date_bounds [OF v(2)]
  have r: "0 \<le> rest" "rest < 86400" by (simp_all add: rest_def)
  note h = day_split [OF r, folded h_def mi_def x_def]
  have x: "0 \<le> x" "x < 60" by (auto simp: x_def)
  have dd: "two_digits s 0 = Some (y div 100)" "two_digits s 2 = Some (y mod 100)" "two_digits s 5 = Some (int m)"
    "two_digits s 8 = Some d" "two_digits s 11 = Some h" "two_digits s 14 = Some mi" "two_digits s 17 = Some x"
    using y md h x by (auto intro!: two_digits_pair simp: s)
  have fr: "fraction_ms (drop 19 s) = (t mod 1000, ''+00:00'')"
    using fraction_read [of "t mod 1000"] by (simp add: s)
  have "100 * (y div 100) + y mod 100 = y" by simp
  moreover have "length s \<ge> 19" "s ! 4 = CHR ''-''" "s ! 7 = CHR ''-''" "s ! 13 = CHR '':''" "s ! 16 = CHR '':''"
    by (simp_all add: s)
  ultimately have "parse_iso_ms s = Some ((unix_days y m d * 86400 + h * 3600 + mi * 60 + x) * 1000 + t mod 1000)"
    using dd fr v(2) y h x not_plus(2) by (simp add: parse_iso_ms_def)
  also have "unix_days y m d * 86400 + h * 3600 + mi * 60 + x = sec"
    using v(1) h(1) div_mult_mod_eq [of sec 86400] unfolding days_def rest_def by linarith
  also have "sec * 1000 + t mod 1000 = t" by (simp add: sec_def)
  finally show ?thesis .
qed

section \<open>The order of the strings is the order of the instants\<close>

lemma div_pred: "(n - 1) div k = n div k - (if n mod k = 0 then 1 else 0)" if "0 < k" for n k :: int
proof (cases "n mod k = 0")
  case True
  have "n - 1 = k * (n div k - 1) + (k - 1)"
    using True mult_div_mod_eq [of k n] by (simp add: algebra_simps)
  from int_div_pos_eq [OF this] True that show ?thesis by simp
next
  case False
  have e: "n - 1 = k * (n div k) + (n mod k - 1)" using mult_div_mod_eq [of k n] by linarith
  have "0 \<le> n mod k - 1" "n mod k - 1 < k"
    using False that pos_mod_sign [OF that, of n] pos_mod_bound [OF that, of n] by linarith+
  from int_div_pos_eq [OF e this] False show ?thesis by simp
qed

lemma days_before_next_year:
  "days_before_year (y + 1) = days_before_year y + 365 + (if leap_year y then 1 else 0)"
proof -
  define a b c a' b' c' where "a = y div 4" and "b = y div 100" and "c = y div 400"
    and "a' = (y - 1) div 4" and "b' = (y - 1) div 100" and "c' = (y - 1) div 400"
  have "a' = a - (if y mod 4 = 0 then 1 else 0)" "b' = b - (if y mod 100 = 0 then 1 else 0)"
    "c' = c - (if y mod 400 = 0 then 1 else 0)"
    unfolding a_def b_def c_def a'_def b'_def c'_def by (rule div_pred; simp)+
  moreover have "y mod 400 = 0 \<Longrightarrow> y mod 100 = 0" using mod_mod_cancel [of 100 400 y] by simp
  moreover have "y mod 100 = 0 \<Longrightarrow> y mod 4 = 0" using mod_mod_cancel [of 4 100 y] by simp
  ultimately have "a - b + c = a' - b' + c' + (if leap_year y then 1 else 0)"
    unfolding leap_year_def by (cases "y mod 4 = 0"; cases "y mod 100 = 0"; cases "y mod 400 = 0") simp_all
  then show ?thesis
    unfolding days_before_year_def Let_def a_def b_def c_def a'_def b'_def c'_def by simp
qed

lemma days_before_later_year:
  "y < y' \<Longrightarrow> days_before_year y + 365 + (if leap_year y then 1 else 0) \<le> days_before_year y'"
proof (induction y' rule: int_gr_induct)
  case base
  then show ?case using days_before_next_year [of y] by simp
next
  case (step i)
  then show ?case using days_before_next_year [of i] by (auto split: if_splits)
qed

definition date_less :: "int \<times> nat \<times> int \<Rightarrow> int \<times> nat \<times> int \<Rightarrow> bool" where
  "date_less a b = (case (a, b) of ((y, m, d), (y', m', d')) \<Rightarrow> y < y' \<or> y = y' \<and> (m < m' \<or> m = m' \<and> d < d'))"

lemma month_before:
  assumes "valid_date y m d" "m < m'" "m' \<le> 12" "1 \<le> d'"
  shows "sum_list (take (m - 1) (month_days y)) + d < sum_list (take (m' - 1) (month_days y)) + d'"
proof -
  have v: "1 \<le> m" "m \<le> 12" "d \<le> month_days y ! (m - 1)" using assms(1) by (auto simp: valid_date_def)
  have pos: "0 \<le> x" if "x \<in> set (take n (drop k (month_days y)))" for x n k
    using that month_days_simps(3) [of y] by (meson in_set_dropD in_set_takeD less_imp_le)
  have "take m (month_days y) = take (m - 1) (month_days y) @ [month_days y ! (m - 1)]"
    using v take_Suc_conv_app_nth [of "m - 1" "month_days y"] by simp
  then have "sum_list (take (m - 1) (month_days y)) + d \<le> sum_list (take m (month_days y))" using v by simp
  also have "take (m' - 1) (month_days y) = take m (month_days y) @ take (m' - 1 - m) (drop m (month_days y))"
    using assms(2) take_add [of m "m' - 1 - m" "month_days y"] by simp
  then have "sum_list (take m (month_days y)) \<le> sum_list (take (m' - 1) (month_days y))"
    using pos by (simp add: sum_list_nonneg)
  finally show ?thesis using assms(4) by simp
qed

lemma civil_mono:
  assumes "civil a = (y, m, d)" "civil b = (y', m', d')" "a < b"
  shows "date_less (y, m, d) (y', m', d')"
proof -
  note c = civil_split [OF assms(1)] and c' = civil_split [OF assms(2)]
  obtain k where k: "year_of_days (a + 719162) = (y, k)" using assms(1) by (auto simp: civil_def split: prod.splits)
  obtain k' where k': "year_of_days (b + 719162) = (y', k')" using assms(2) by (auto simp: civil_def split: prod.splits)
  note s = year_of_days_split [OF k] and s' = year_of_days_split [OF k']
  have "\<not> y' < y" using days_before_later_year [of y' y] s s' assms(3) by fastforce
  moreover have "date_less (y, m, d) (y', m', d')" if "y = y'"
  proof -
    have lt: "sum_list (take (m - 1) (month_days y)) + d < sum_list (take (m' - 1) (month_days y)) + d'"
      using c(1) c'(1) assms(3) that by (simp add: unix_days_def)
    have "\<not> m' < m"
      using month_before [of y m' d' m d] c(2) c'(2) that lt by (auto simp: valid_date_def)
    then show ?thesis using lt that by (auto simp: date_less_def)
  qed
  ultimately show ?thesis by (cases "y = y'") (auto simp: date_less_def)
qed

lemma lex_div:
  fixes q q' r r' k :: int
  assumes "0 \<le> r" "r < k" "0 \<le> r'" "r' < k"
  shows "k * q + r < k * q' + r' \<longleftrightarrow> q < q' \<or> q = q' \<and> r < r'"
proof (cases q q' rule: linorder_cases)
  case less
  then have "k * (q + 1) \<le> k * q'" using assms by (intro mult_left_mono) auto
  with less assms show ?thesis by (simp add: distrib_left)
next
  case greater
  then have "k * (q' + 1) \<le> k * q" using assms by (intro mult_left_mono) auto
  with greater assms show ?thesis by (simp add: distrib_left)
qed simp

lemma str_less_pair:
  assumes "0 \<le> a" "a < 100" "0 \<le> b" "b < 100"
  shows "str_less (d10 a # d1 a # xs) (d10 b # d1 b # ys) \<longleftrightarrow> a < b \<or> a = b \<and> str_less xs ys"
proof -
  have r: "0 \<le> a div 10" "a div 10 \<le> 9" "0 \<le> a mod 10" "a mod 10 \<le> 9"
    "0 \<le> b div 10" "b div 10 \<le> 9" "0 \<le> b mod 10" "b mod 10 \<le> 9" using assms by auto
  have c: "(of_char (char_of (48 + nat i) :: char) :: nat) < of_char (char_of (48 + nat j) :: char) \<longleftrightarrow> i < j"
    "char_of (48 + nat i) = (char_of (48 + nat j) :: char) \<longleftrightarrow> i = j"
    if "0 \<le> i" "i \<le> 9" "0 \<le> j" "j \<le> 9" for i j
  proof -
    note e = digit_char(3) [OF that(1,2)] digit_char(3) [OF that(3,4)]
    show "(of_char (char_of (48 + nat i) :: char) :: nat) < of_char (char_of (48 + nat j) :: char) \<longleftrightarrow> i < j"
      unfolding e using that by auto
    have "char_of (48 + nat i) = (char_of (48 + nat j) :: char) \<Longrightarrow> 48 + nat i = 48 + nat j" using e by metis
    then show "char_of (48 + nat i) = (char_of (48 + nat j) :: char) \<longleftrightarrow> i = j" using that by auto
  qed
  have h: "(of_char (d10 a) :: nat) < of_char (d10 b) \<longleftrightarrow> a div 10 < b div 10"
    "d10 a = d10 b \<longleftrightarrow> a div 10 = b div 10"
    "(of_char (d1 a) :: nat) < of_char (d1 b) \<longleftrightarrow> a mod 10 < b mod 10"
    "d1 a = d1 b \<longleftrightarrow> a mod 10 = b mod 10"
    unfolding d10_def d1_def by (rule c(1) [OF r(1,2,5,6)], rule c(2) [OF r(1,2,5,6)],
      rule c(1) [OF r(3,4,7,8)], rule c(2) [OF r(3,4,7,8)])
  have ab: "a = 10 * (a div 10) + a mod 10" "b = 10 * (b div 10) + b mod 10" by simp_all
  have "a < b \<longleftrightarrow> a div 10 < b div 10 \<or> a div 10 = b div 10 \<and> a mod 10 < b mod 10"
    using lex_div [of "a mod 10" 10 "b mod 10" "a div 10" "b div 10"] ab by simp
  moreover have "a = b \<longleftrightarrow> a div 10 = b div 10 \<and> a mod 10 = b mod 10" using ab by metis
  ultimately show ?thesis by (auto simp: h)
qed

lemma str_less_iso:
  assumes "iso_of_ms (1000 * a) = Inr s" "iso_of_ms (1000 * b) = Inr t" "a < b"
  shows "str_less s t"
proof -
  obtain y m d where c: "civil (a div 86400) = (y, m, d)" by (metis prod_cases3)
  obtain y' m' d' where c': "civil (b div 86400) = (y', m', d')" by (metis prod_cases3)
  define r r' where "r = a mod 86400" and "r' = b mod 86400"
  have y: "1 \<le> y" "y \<le> 9999" "1 \<le> y'" "y' \<le> 9999" using assms c c' by (auto simp: iso_of_ms_def Let_def split: if_splits)
  have z: "0 \<le> r" "r < 86400" "0 \<le> r'" "r' < 86400" by (simp_all add: r_def r'_def)
  note v = valid_date_bounds [OF civil_split(2) [OF c]] and v' = valid_date_bounds [OF civil_split(2) [OF c']]
  note q = day_split [OF z(1,2)] and q' = day_split [OF z(3,4)]
  have x: "0 \<le> r mod 60" "r mod 60 < 60" "0 \<le> r' mod 60" "r' mod 60 < 60" by simp_all
  have dates: "date_less (y, m, d) (y', m', d') \<or> a div 86400 = b div 86400 \<and> r < r'"
  proof (cases "a div 86400 = b div 86400")
    case True
    then show ?thesis using assms(3) div_mult_mod_eq [of a 86400] div_mult_mod_eq [of b 86400]
      unfolding r_def r'_def by linarith
  next
    case False
    have "a div 86400 \<le> b div 86400" using assms(3) by (simp add: zdiv_mono1)
    with False civil_mono [OF c c'] show ?thesis by simp
  qed
  have s: "s = [d10 (y div 100), d1 (y div 100), d10 (y mod 100), d1 (y mod 100), CHR ''-'',
                    d10 (int m), d1 (int m), CHR ''-'', d10 d, d1 d, CHR ''T'',
                    d10 (r div 3600), d1 (r div 3600), CHR '':'', d10 (r mod 3600 div 60), d1 (r mod 3600 div 60), CHR '':'',
                    d10 (r mod 60), d1 (r mod 60)] @ ''+00:00''"
    and t: "t = [d10 (y' div 100), d1 (y' div 100), d10 (y' mod 100), d1 (y' mod 100), CHR ''-'',
                    d10 (int m'), d1 (int m'), CHR ''-'', d10 d', d1 d', CHR ''T'',
                    d10 (r' div 3600), d1 (r' div 3600), CHR '':'', d10 (r' mod 3600 div 60), d1 (r' mod 3600 div 60), CHR '':'',
                    d10 (r' mod 60), d1 (r' mod 60)] @ ''+00:00''"
    using assms(1,2) c c' by (auto simp: iso_of_ms_def iso_fraction_def Let_def r_def r'_def split: if_splits)
  have yy: "y < y' \<Longrightarrow> y div 100 < y' div 100 \<or> y div 100 = y' div 100 \<and> y mod 100 < y' mod 100"
    using lex_div [of "y mod 100" 100 "y' mod 100" "y div 100" "y' div 100"] by simp
  have clock: "H < H' \<or> H = H' \<and> (M < M' \<or> M = M' \<and> X < X')"
    if "3600 * H + (60 * M + X) < 3600 * H' + (60 * M' + X')" "0 \<le> M" "M < 60" "0 \<le> M'" "M' < 60"
      "0 \<le> X" "X < 60" "0 \<le> X'" "X' < 60" for H M X H' M' X' :: int
    using lex_div [of "60 * M + X" 3600 "60 * M' + X'" H H'] lex_div [of X 60 X' M M'] that by simp
  have rr: "r < r' \<Longrightarrow> r div 3600 < r' div 3600 \<or> r div 3600 = r' div 3600 \<and>
      (r mod 3600 div 60 < r' mod 3600 div 60 \<or> r mod 3600 div 60 = r' mod 3600 div 60 \<and> r mod 60 < r' mod 60)"
    by (rule clock [OF _ q(4,5) q'(4,5) x]) (use q(1) q'(1) in linarith)
  have b: "0 \<le> y div 100" "y div 100 < 100" "0 \<le> y mod 100" "y mod 100 < 100"
    "0 \<le> y' div 100" "y' div 100 < 100" "0 \<le> y' mod 100" "y' mod 100 < 100" using y by auto
  have m: "0 \<le> int m" "int m < 100" "0 \<le> int m'" "int m' < 100" "0 \<le> d" "d < 100" "0 \<le> d'" "d' < 100"
    using v v' by auto
  have hm: "r div 3600 < 100" "r' div 3600 < 100" "r mod 3600 div 60 < 100" "r' mod 3600 div 60 < 100"
    "r mod 60 < 100" "r' mod 60 < 100" using q q' x by linarith+
  have same: "str_less (c # xs) (c # ys) = str_less xs ys" for c xs ys by simp
  have "str_less s t \<longleftrightarrow> y div 100 < y' div 100 \<or> y div 100 = y' div 100 \<and> (y mod 100 < y' mod 100 \<or>
      y mod 100 = y' mod 100 \<and> (int m < int m' \<or> int m = int m' \<and> (d < d' \<or> d = d' \<and>
      (r div 3600 < r' div 3600 \<or> r div 3600 = r' div 3600 \<and> (r mod 3600 div 60 < r' mod 3600 div 60 \<or>
       r mod 3600 div 60 = r' mod 3600 div 60 \<and> (r mod 60 < r' mod 60 \<or> r mod 60 = r' mod 60 \<and> False))))))"
    unfolding s t append.simps
    by (simp only: same str_less_pair [OF b(1,2,5,6)] str_less_pair [OF b(3,4,7,8)] str_less_pair [OF m(1-4)]
      str_less_pair [OF m(5-8)] str_less_pair [OF q(2) hm(1) q'(2) hm(2)] str_less_pair [OF q(4) hm(3) q'(4) hm(4)]
      str_less_pair [OF x(1) hm(5) x(3) hm(6)] str_less.simps(1))
  moreover have "y < y' \<or> y = y' \<and> (m < m' \<or> m = m' \<and> d < d') \<or> (y = y' \<and> m = m' \<and> d = d' \<and> r < r')"
    using dates c c' by (auto simp: date_less_def)
  ultimately show ?thesis using yy rr by (elim disjE conjE) (simp_all, blast?)
qed

lemma iso_timestamps_sort:
  assumes "iso_of_ms (1000 * a) = Inr s" "iso_of_ms (1000 * b) = Inr t"
  shows "str_less s t \<longleftrightarrow> a < b" "s = t \<longleftrightarrow> a = b"
proof -
  have "a < b \<Longrightarrow> str_less s t" "b < a \<Longrightarrow> str_less t s" "a = b \<Longrightarrow> s = t"
    using str_less_iso assms by auto
  then show "str_less s t \<longleftrightarrow> a < b" "s = t \<longleftrightarrow> a = b"
    using str_less_asym str_less_irrefl by (metis linorder_neqE)+
qed

lemma iso_has_T:
  assumes "iso_of_ms t = Inr s"
  shows "CHR ''T'' \<in> set s" "\<not> py_isdigit s"
proof -
  have "CHR ''T'' \<in> set s" using assms by (auto simp: iso_of_ms_def Let_def split: prod.splits if_splits)
  moreover have "\<not> is_digit (CHR ''T'')" by (simp add: is_digit_def)
  ultimately show "CHR ''T'' \<in> set s" "\<not> py_isdigit s" by (auto simp: py_isdigit_def list_all_iff)
qed

lemma parse_ts_iso: "iso_of_ms (1000 * a) = Inr s \<Longrightarrow> parse_ts s = a"
  using iso_has_T [of "1000 * a" s] iso_timestamps_round_trip [of "1000 * a" s]
  by (simp add: parse_ts_def py_int_def)

text \<open>For timestamps of whole seconds in four-digit years, leap years included: reading what was
  written gives back the instant, to the millisecond and in the session's integer seconds, and
  comparing the strings compares the instants, which is what sorting candles by their timestamp
  strings relies on.\<close>

theorem iso_timestamps_are_faithful:
  assumes "iso_of_ms (1000 * a) = Inr s" "iso_of_ms (1000 * b) = Inr t"
  shows "parse_iso_ms s = Some (1000 * a) \<and> parse_ts s = a \<and> (str_less s t \<longleftrightarrow> a < b) \<and> (s = t \<longleftrightarrow> a = b)"
  using iso_timestamps_round_trip [OF assms(1)] parse_ts_iso [OF assms(1)] iso_timestamps_sort [OF assms] by simp

theorem iso_timestamps_are_faithful_witness:
  "parse_iso_ms ''2024-02-29T23:59:59+00:00'' = Some 1709251199000
     \<and> str_less ''2024-02-29T23:59:59+00:00'' ''2024-03-01T00:00:00+00:00''"
proof -
  have "iso_of_ms (1000 * 1709251199) = Inr ''2024-02-29T23:59:59+00:00''"
    "iso_of_ms (1000 * 1709251200) = Inr ''2024-03-01T00:00:00+00:00''" by code_simp+
  from iso_timestamps_are_faithful [OF this] show ?thesis by simp
qed

end
