(* ===== verification/Session.thy ===== *)
theory Session
  imports Supervisor Resilience Timestamps
begin

text \<open>
  The live session (\<^verbatim>\<open>session/\<close>): the \<open>AsyncRunner\<close> and the tasks that share it. Each task body between
  two awaits is one function on the runner, since asyncio runs it without interruption; where the
  body awaits in its middle (the back-fill, the REST poll, the provider restart) the model still
  takes it as one. The exception handlers are inside the functions, as they are inside the tasks.

  What a task reads from outside is a sequence in the runner that each read consumes: the clock,
  \<open>uuid4\<close>, the simulated latency, the answers of \<open>load_rest_candles\<close> to a number of bars, whether
  writing a state file succeeds, whether the provider's restart does and the memory in use. A
  reading of the clock that only goes into a log line or into a field nobody reads is left out.
\<close>

definition parse_opt :: "string option \<Rightarrow> int" where
  "parse_opt ts = (case ts of None \<Rightarrow> 0 | Some s \<Rightarrow> if s = [] then 0 else parse_ts s)"

section \<open>The runner\<close>

record queued =
  q_order :: order
  q_candle :: candle
  q_latency :: nat

datatype session_event =
    OrderDropped
  | ExecutionFill bevent
  | ExecutionExit exit_rec
  | CandleExit exit_rec
  | WatchdogExit exit_rec
  | AgentError
  | ExecutionTaskError
  | HeartbeatTaskError
  | RiskKillSwitch real real
  | AsyncHeartbeatEv real real
  | StaleDataRestart nat
  | StaleDataError
  | SessionStopped string nat

text \<open>Data points: of a heartbeat, with the error count, and of an exit by the watchdog, with its reason.\<close>

datatype metric = HeartbeatPoint real real real nat | ExitPoint real real string

text \<open>The state manager's dictionary, as far as the session writes it.\<close>

record unified =
  un_breaker :: "breaker_state option"
  un_starting :: "real option"

record runner =
  rn_symbol :: string
  rn_interval :: string
  rn_limits :: limits
  rn_strategy :: "supervisor option"
  rn_warmup :: nat
  rn_dry_run :: bool
  rn_agent :: agent_state
  rn_broker :: broker
  rn_starting_equity :: real
  rn_start_time :: real
  rn_candles :: "candle list"
  rn_latest_tick :: "tick option"
  rn_last_tick_ts :: "string option"
  rn_last_candle_ts :: "string option"
  rn_last_data_time :: real
  rn_last_heartbeat :: real
  rn_iterations :: nat
  rn_trades :: nat
  rn_errors :: nat
  rn_ws_errors :: nat
  rn_stale_attempts :: nat
  rn_max_stale :: nat
  rn_stale_timeout :: real
  rn_last_backfill :: real
  rn_last_rest_poll :: real
  rn_funding_hour :: "nat option"
  rn_max_equity :: real
  rn_max_drawdown :: real
  rn_metrics :: "metric list"
  rn_queue :: "queued list"
  rn_executing :: "queued option"
  rn_inflight :: "string set"
  rn_breaker :: breaker
  rn_shutdown :: bool
  rn_stopped_reason :: string
  rn_kill :: bool
  rn_kill_file :: bool
  rn_env_kill :: bool
  rn_shutting_down :: bool
  rn_stop_emitted :: bool
  rn_status :: string
  rn_unified :: unified
  rn_saved :: unified
  rn_events :: "session_event list"
  rn_clock :: "nat \<Rightarrow> real"
  rn_uuid :: "nat \<Rightarrow> string"
  rn_latency :: "nat \<Rightarrow> nat"
  rn_rest :: "nat \<Rightarrow> nat \<Rightarrow> candle list res"
  rn_disk :: "nat \<Rightarrow> bool"
  rn_restart :: "nat \<Rightarrow> bool"
  rn_memory :: "nat \<Rightarrow> real"
  rn_max_memory :: real

definition rn_time :: "runner \<Rightarrow> real \<times> runner" where
  "rn_time r = (rn_clock r 0, r\<lparr>rn_clock := \<lambda>k. rn_clock r (Suc k)\<rparr>)"

definition load_rest :: "nat \<Rightarrow> runner \<Rightarrow> candle list res \<times> runner" where
  "load_rest limit r = (rn_rest r 0 limit, r\<lparr>rn_rest := \<lambda>k. rn_rest r (Suc k)\<rparr>)"

definition disk_write :: "runner \<Rightarrow> bool \<times> runner" where
  "disk_write r = (rn_disk r 0, r\<lparr>rn_disk := \<lambda>k. rn_disk r (Suc k)\<rparr>)"

definition log_events :: "session_event list \<Rightarrow> runner \<Rightarrow> runner" where
  "log_events es r = r\<lparr>rn_events := rn_events r @ es\<rparr>"

section \<open>Shutdown requests and the error budget\<close>

definition request_shutdown :: "string \<Rightarrow> runner \<Rightarrow> runner" where
  "request_shutdown reason r =
     (if rn_shutdown r then r
      else r\<lparr>rn_stopped_reason :=
               (if rn_stopped_reason r = ''completed'' then reason else rn_stopped_reason r),
             rn_shutdown := True\<rparr>)"

definition error_budget :: "runner \<Rightarrow> runner" where
  "error_budget r =
     (if MAX_ERRORS_PER_SESSION (rn_limits r) \<le> rn_errors r \<and> \<not> rn_shutdown r
      then request_shutdown ''error_budget'' r else r)"

definition count_error :: "runner \<Rightarrow> runner" where
  "count_error r = error_budget (r\<lparr>rn_errors := rn_errors r + 1\<rparr>)"

definition handle_task_done :: "bool \<Rightarrow> bool \<Rightarrow> runner \<Rightarrow> runner" where
  "handle_task_done cancelled failed r =
     (if cancelled then r
      else if failed then request_shutdown ''task_failed'' (r\<lparr>rn_errors := rn_errors r + 1\<rparr>)
      else r)"

text \<open>The breaker reads the clock only when it is open; the model always lets it.\<close>

definition breaker_allows :: "runner \<Rightarrow> bool \<times> runner" where
  "breaker_allows r =
     (let (now, r1) = rn_time r; (ok, br) = allow_request now (rn_breaker r1)
      in (ok, r1\<lparr>rn_breaker := br\<rparr>))"

definition sm_save :: "runner \<Rightarrow> bool \<times> runner" where
  "sm_save r = (let (ok, r1) = disk_write r
     in (ok, if ok then r1\<lparr>rn_saved := rn_unified r1\<rparr> else r1))"

definition record_breaker :: "runner \<Rightarrow> runner" where
  "record_breaker r =
     r\<lparr>rn_unified := (rn_unified r)\<lparr>un_breaker := Some (br_state (rn_breaker r))\<rparr>\<rparr>"

definition record_starting :: "real \<Rightarrow> runner \<Rightarrow> runner" where
  "record_starting x r = r\<lparr>rn_unified := (rn_unified r)\<lparr>un_starting := Some x\<rparr>\<rparr>"

section \<open>A closed candle\<close>

text \<open>
  The strategy's turn. The agents' orders carry no symbol, so the runner's own is used and the
  symbol check passes; their prices are floats already, so \<open>safe_float\<close> leaves them. An exception of
  an agent keeps the state as far as it was changed in place.
\<close>

definition run_agents :: "candle \<Rightarrow> runner \<Rightarrow> bool \<times> runner" where
  "run_agents c r =
     (case rn_strategy r of
        None \<Rightarrow> (True, r)
      | Some sv \<Rightarrow>
        (case supervisor_step c True (sv, (rn_agent r)\<lparr>ag_candles := butlast (rn_candles r)\<rparr>) of
           (Inl e, (sv', s')) \<Rightarrow>
             (False, log_events [AgentError]
                (r\<lparr>rn_strategy := Some sv', rn_agent := s', rn_errors := rn_errors r + 1\<rparr>))
         | (Inr u, (sv', s')) \<Rightarrow> (True, r\<lparr>rn_strategy := Some sv', rn_agent := s'\<rparr>)))"

definition session_allows :: "runner \<Rightarrow> bool \<times> runner" where
  "session_allows r = (if rn_kill r \<or> rn_shutdown r then (False, r) else breaker_allows r)"

definition order_fault :: "order \<Rightarrow> string option" where
  "order_fault o' =
     (if o_side o' \<noteq> LONG \<and> o_side o' \<noteq> SHORT then Some ''Invalid side''
      else if pf_le (o_sl o') (Fin 0) \<or> pf_le (o_tp o') (Fin 0) then Some ''Non-positive SL/TP''
      else if \<not> list_all isfinite [o_entry o', o_qty o', o_sl o', o_tp o'] then Some ''Non-finite order fields''
      else if pf_le (o_qty o') (Fin 0) then Some ''Non-positive quantity''
      else if o_side o' = LONG
      then (if pf_lt (o_sl o') (o_entry o') \<and> pf_lt (o_entry o') (o_tp o') then None
            else Some ''Invalid LONG SL/TP ordering'')
      else (if pf_lt (o_tp o') (o_entry o') \<and> pf_lt (o_entry o') (o_sl o') then None
            else Some ''Invalid SHORT SL/TP ordering''))"

definition async_id :: "string \<Rightarrow> string" where
  "async_id hex = ''async_'' @ hex"

definition session_order :: "agent_order \<Rightarrow> runner \<Rightarrow> order option \<times> runner" where
  "session_order ao r =
     (case broker_order ao of
        None \<Rightarrow> (None, r)
      | Some o' \<Rightarrow>
        (let o'' = o'\<lparr>o_client_id := Some (async_id (rn_uuid r 0)),
                    o_equity := Some (b_current_equity (rn_broker r))\<rparr>;
             r1 = r\<lparr>rn_uuid := \<lambda>k. rn_uuid r (Suc k)\<rparr>
         in (case order_fault o'' of None \<Rightarrow> (Some o'', r1)
             | Some fault \<Rightarrow> (None, r1))))"

definition QUEUE_MAX :: nat where
  "QUEUE_MAX = 100"

definition put_order :: "order \<Rightarrow> candle \<Rightarrow> runner \<Rightarrow> runner" where
  "put_order o' c r =
     (let q = \<lparr>q_order = o', q_candle = c, q_latency = rn_latency r 0\<rparr>;
          r1 = r\<lparr>rn_latency := \<lambda>k. rn_latency r (Suc k)\<rparr>
      in if length (rn_queue r1) < QUEUE_MAX then r1\<lparr>rn_queue := rn_queue r1 @ [q]\<rparr>
         else count_error (log_events [OrderDropped] r1))"

text \<open>A candle without an order still goes to the broker, for its exits.\<close>

definition candle_exits :: "candle \<Rightarrow> runner \<Rightarrow> runner" where
  "candle_exits c r =
     (case on_candle (rn_limits r) c None (rn_latest_tick r) (rn_broker r) of
        (Inl e, b) \<Rightarrow> count_error (r\<lparr>rn_broker := b\<rparr>)
      | (Inr ev, b) \<Rightarrow> log_events (map CandleExit (evs_exits ev))
          (r\<lparr>rn_broker := b, rn_trades := rn_trades r + length (evs_exits ev)\<rparr>))"

definition act_on_signal :: "candle \<Rightarrow> runner \<Rightarrow> runner" where
  "act_on_signal c r =
     (let ao = (if rn_strategy r = None then EmptyOrder else ag_order (rn_agent r));
          (ok, r1) = session_allows r;
          (o', r2) = session_order (if ok then ao else EmptyOrder) r1
      in case o' of Some ord \<Rightarrow> put_order ord c r2 | None \<Rightarrow> candle_exits c r2)"

definition on_candle_closed :: "candle \<Rightarrow> runner \<Rightarrow> runner" where
  "on_candle_closed c r0 =
     (if c_close c \<le> 0 then r0
      else let r = r0\<lparr>rn_iterations := rn_iterations r0 + 1\<rparr>
           in if length (rn_candles r) < rn_warmup r then r
              else let (ok, r1) = run_agents c r in if ok then act_on_signal c r1 else r1)"

section \<open>Executing an order\<close>

text \<open>
  The execution task takes one order, waits out its latency and only then calls the broker. The wait
  is where other tasks run, so the two halves are two operations; in a dry run there is no wait.
\<close>

definition release_order :: "queued \<Rightarrow> runner \<Rightarrow> runner" where
  "release_order q r = r\<lparr>rn_executing := None, rn_inflight :=
     (case o_client_id (q_order q) of None \<Rightarrow> rn_inflight r | Some cid \<Rightarrow> rn_inflight r - {cid})\<rparr>"

definition after_execution :: "runner \<Rightarrow> runner" where
  "after_execution r =
     (let (ok, r1) = breaker_allows r;
          r2 = (if ok then r1 else request_shutdown ''circuit_breaker_open'' r1)
      in if rn_dry_run r2 then r2
         else let (saved, r3) = sm_save (record_breaker r2)
              in if saved then r3 else count_error (log_events [ExecutionTaskError] r3))"

definition execution_fire :: "queued \<Rightarrow> runner \<Rightarrow> runner" where
  "execution_fire q r =
     release_order q
       (case on_candle (rn_limits r) (q_candle q) (Some (q_order q)) (rn_latest_tick r) (rn_broker r) of
          (Inl e, b) \<Rightarrow> count_error (log_events [ExecutionTaskError] (r\<lparr>rn_broker := b\<rparr>))
        | (Inr ev, b) \<Rightarrow> after_execution
            (log_events (map ExecutionFill (evs_fills ev) @ map ExecutionExit (evs_exits ev))
              (r\<lparr>rn_broker := b,
                 rn_trades := rn_trades r + length (evs_fills ev) + length (evs_exits ev)\<rparr>)))"

definition lock_order :: "queued \<Rightarrow> runner \<Rightarrow> runner" where
  "lock_order q r = r\<lparr>rn_executing := Some q, rn_inflight :=
     (case o_client_id (q_order q) of None \<Rightarrow> rn_inflight r
      | Some cid \<Rightarrow> if cid = [] then rn_inflight r else insert cid (rn_inflight r))\<rparr>"

definition is_inflight :: "queued \<Rightarrow> runner \<Rightarrow> bool" where
  "is_inflight q r = (case o_client_id (q_order q) of None \<Rightarrow> False | Some cid \<Rightarrow> cid \<in> rn_inflight r)"

definition execution_take :: "runner \<Rightarrow> runner" where
  "execution_take r0 =
     (case rn_queue r0 of
        [] \<Rightarrow> r0
      | q # rest \<Rightarrow>
        (let r = r0\<lparr>rn_queue := rest\<rparr>
         in if rn_kill r then r
            else if \<not> o_go (q_order q) then r
            else if is_inflight q r then release_order q r
            else if rn_dry_run r then execution_fire q (lock_order q r)
            else lock_order q r))"

section \<open>Market data\<close>

text \<open>What the provider's stream yields; the numbers are unchecked floats.\<close>

record raw_tick =
  rt_symbol :: string
  rt_bid :: pyfloat
  rt_ask :: pyfloat
  rt_last :: pyfloat
  rt_ts :: string

record raw_candle =
  rc_ts :: string
  rc_open :: pyfloat
  rc_high :: pyfloat
  rc_low :: pyfloat
  rc_close :: pyfloat
  rc_volume :: pyfloat

datatype item = EventItem string | TickItem raw_tick | CandleItem raw_candle

definition positive_number :: "pyfloat \<Rightarrow> bool" where
  "positive_number x \<longleftrightarrow> isfinite x \<and> \<not> pf_le x (Fin 0)"

fun float_of :: "pyfloat \<Rightarrow> real" where
  "float_of (Fin x) = x"
| "float_of y = 0"

definition sound_tick :: "raw_tick \<Rightarrow> tick option" where
  "sound_tick t =
     (if \<not> list_all positive_number [rt_bid t, rt_ask t, rt_last t] \<or> pf_lt (rt_ask t) (rt_bid t) then None
      else Some \<lparr>t_symbol = rt_symbol t, t_bid = float_of (rt_bid t), t_ask = float_of (rt_ask t),
             t_last = float_of (rt_last t), t_ts = rt_ts t\<rparr>)"

definition sound_candle :: "raw_candle \<Rightarrow> candle option" where
  "sound_candle c =
     (if \<not> list_all positive_number [rc_open c, rc_high c, rc_low c, rc_close c]
         \<or> pf_lt (rc_high c) (rc_low c) \<or> \<not> isfinite (rc_volume c) \<or> pf_lt (rc_volume c) (Fin 0) then None
      else Some \<lparr>c_ts = rc_ts c, c_open = float_of (rc_open c), c_high = float_of (rc_high c),
             c_low = float_of (rc_low c), c_close = float_of (rc_close c), c_volume = float_of (rc_volume c)\<rparr>)"

text \<open>The guards on the timestamp, shared by ticks and candles: newer than the last, and not stale.\<close>

definition fresh :: "string \<Rightarrow> string option \<Rightarrow> runner \<Rightarrow> bool \<times> runner" where
  "fresh ts last_ts r =
     (if parse_ts ts \<le> 0 \<or> parse_ts ts \<le> parse_opt last_ts then (False, r)
      else let (now, r1) = rn_time r in (now - real_of_int (parse_ts ts) \<le> rn_stale_timeout r1, r1))"

definition data_arrived :: "runner \<Rightarrow> runner" where
  "data_arrived r = (let (now, r1) = rn_time r
     in r1\<lparr>rn_last_data_time := now, rn_stale_attempts := 0, rn_ws_errors := 0\<rparr>)"

definition handle_tick :: "raw_tick \<Rightarrow> runner \<Rightarrow> runner" where
  "handle_tick t r =
     (let (ok, r1) = fresh (rt_ts t) (rn_last_tick_ts r) r
      in if \<not> ok then r1
         else case sound_tick t of None \<Rightarrow> r1
           | Some tk \<Rightarrow> data_arrived (r1\<lparr>rn_latest_tick := Some tk, rn_last_tick_ts := Some (t_ts tk)\<rparr>))"

text \<open>
  The back-fill of a gap of more than one and a half bars, at most every thirty seconds. A failing
  fetch is logged and leaves the time of the last one.
\<close>

definition add_missing :: "int \<Rightarrow> int \<Rightarrow> candle list \<Rightarrow> candle list \<Rightarrow> candle list" where
  "add_missing lo hi fetched cs =
     foldl (\<lambda>acc f. if lo < parse_ts (c_ts f) \<and> parse_ts (c_ts f) < hi \<and> c_ts f \<notin> c_ts ` set acc
                    then acc @ [f] else acc) cs fetched"

definition bar_seconds :: "string \<Rightarrow> int" where
  "bar_seconds interval =
     (if interval = ''5m'' then 300 else if interval = ''15m'' then 900
      else if interval = ''1h'' then 3600 else 60)"

definition fetch_gap :: "int \<Rightarrow> int \<Rightarrow> int \<Rightarrow> runner \<Rightarrow> runner" where
  "fetch_gap prev new_ts missing r =
     (case load_rest (nat (min (missing + 5) 200)) r of
        (Inl e, r1) \<Rightarrow> r1
      | (Inr fetched, r1) \<Rightarrow>
        let (done_at, r2) = rn_time r1
        in r2\<lparr>rn_last_backfill := done_at,
             rn_candles := sort_key (\<lambda>x. parse_ts (c_ts x))
               (add_missing prev new_ts (normalize_candle_order fetched) (rn_candles r2))\<rparr>)"

definition backfill :: "string \<Rightarrow> runner \<Rightarrow> runner" where
  "backfill ts r0 =
     (if rn_candles r0 = [] then r0
      else let iv = bar_seconds (rn_interval r0);
               prev = parse_ts (c_ts (last (rn_candles r0)));
               gap = parse_ts ts - prev;
               missing = gap div iv
           in if 2 * gap \<le> 3 * iv then r0
              else let (now, r) = rn_time r0
                   in if missing \<le> 0 \<or> now - rn_last_backfill r < 30 then r
                      else fetch_gap prev (parse_ts ts) missing r)"

definition trim_candles :: "runner \<Rightarrow> runner" where
  "trim_candles r = r\<lparr>rn_candles := last_n (MAX_CANDLE_BUFFER (rn_limits r)) (rn_candles r)\<rparr>"

definition append_candle :: "candle \<Rightarrow> runner \<Rightarrow> runner" where
  "append_candle c r =
     (if rn_candles r = [] \<or> c_ts c \<noteq> c_ts (last (rn_candles r))
      then (let r1 = (if rn_candles r = [] then r else on_candle_closed (last (rn_candles r)) r)
            in trim_candles (r1\<lparr>rn_candles := rn_candles r1 @ [c]\<rparr>))
      else r\<lparr>rn_candles := butlast (rn_candles r) @ [c]\<rparr>)"

definition handle_candle :: "raw_candle \<Rightarrow> runner \<Rightarrow> runner" where
  "handle_candle c r =
     (let (ok, r1) = fresh (rc_ts c) (rn_last_candle_ts r) r
      in if \<not> ok then r1
         else case sound_candle c of None \<Rightarrow> r1
           | Some cd \<Rightarrow> append_candle cd (backfill (c_ts cd) (data_arrived (r1\<lparr>rn_last_candle_ts := Some (c_ts cd)\<rparr>))))"

definition handle_item :: "item \<Rightarrow> runner \<Rightarrow> runner" where
  "handle_item it r =
     (case it of
        EventItem ev \<Rightarrow> (if ev = ''ORDER_BOOK_STALE'' \<or> ev = ''CIRCUIT_TRIPPED''
                        then request_shutdown ''market_data_failed'' r else r)
      | TickItem t \<Rightarrow> handle_tick t r
      | CandleItem c \<Rightarrow> handle_candle c r)"

text \<open>An exception out of the stream: fatal, or one to back off from, ten times in a row at most.\<close>

definition market_error :: "bool \<Rightarrow> runner \<Rightarrow> runner" where
  "market_error fatal r0 =
     (if fatal then request_shutdown ''fatal_error'' (r0\<lparr>rn_errors := MAX_ERRORS_PER_SESSION (rn_limits r0)\<rparr>)
      else if rn_shutdown r0 then r0
      else let r = r0\<lparr>rn_errors := rn_errors r0 + 1, rn_ws_errors := rn_ws_errors r0 + 1\<rparr>
           in if 10 \<le> rn_ws_errors r then request_shutdown ''market_data_errors'' r else r)"

text \<open>The seed: the provider's own history when it has one, else up to five REST fetches.\<close>

fun seed_attempts :: "nat \<Rightarrow> nat \<Rightarrow> runner \<Rightarrow> runner" where
  "seed_attempts 0 min_history r = r"
| "seed_attempts (Suc n) min_history r =
     (case load_rest (max 100 min_history) r of
        (Inl e, r1) \<Rightarrow> seed_attempts n min_history r1
      | (Inr cs, r1) \<Rightarrow>
        let r2 = r1\<lparr>rn_candles := normalize_candle_order cs\<rparr>
        in if min_history \<le> length (rn_candles r2) then r2 else seed_attempts n min_history r2)"

definition seed_historical_candles :: "nat option \<Rightarrow> candle list option \<Rightarrow> runner \<Rightarrow> runner" where
  "seed_historical_candles configured history r =
     (let min_history = (if rn_strategy r = None then 100
                         else case configured of None \<Rightarrow> 100 | Some n \<Rightarrow> n)
      in case history of Some cs \<Rightarrow> r\<lparr>rn_candles := cs\<rparr>
         | None \<Rightarrow> seed_attempts 5 min_history r)"

section \<open>The watchers\<close>

text \<open>The position is checked against the latest tick; errors are not counted, only compared.\<close>

definition watchdog_tick :: "runner \<Rightarrow> runner" where
  "watchdog_tick r =
     (case rn_latest_tick r of None \<Rightarrow> r
      | Some t \<Rightarrow>
        if b_pos (rn_broker r) = None then r
        else case on_tick t (rn_broker r) of
            (Inl e, b) \<Rightarrow> (let r1 = r\<lparr>rn_broker := b\<rparr>
               in if MAX_ERRORS_PER_SESSION (rn_limits r1) \<le> rn_errors r1
                  then request_shutdown ''error_budget'' r1 else r1)
          | (Inr exits, b) \<Rightarrow> log_events (map WatchdogExit exits)
              (r\<lparr>rn_broker := b, rn_trades := rn_trades r + length exits,
                 rn_metrics := rn_metrics r @ map (\<lambda>x. ExitPoint (b_current_equity b)
                    (er_exit x) (er_reason x)) exits\<rparr>))"

definition hardware_watchdog :: "real \<Rightarrow> runner \<Rightarrow> bool \<times> runner" where
  "hardware_watchdog mem_mb r0 =
     (let (now, r) = rn_time r0
      in if 60 < now - rn_last_heartbeat r then (True, request_shutdown ''watchdog_frozen'' r)
         else if rn_max_memory r < mem_mb then (True, request_shutdown ''memory_limit'' r)
         else (False, r))"

definition current_price :: "runner \<Rightarrow> real" where
  "current_price r =
     (case rn_latest_tick r of Some t \<Rightarrow> t_last t
      | None \<Rightarrow> if rn_candles r = [] then 0 else c_close (last (rn_candles r)))"

definition track_drawdown :: "real \<Rightarrow> runner \<Rightarrow> runner" where
  "track_drawdown total_equity r0 =
     (let r = r0\<lparr>rn_max_equity := max (rn_max_equity r0) total_equity\<rparr>;
          dd = (if 0 < rn_max_equity r then (rn_max_equity r - total_equity) / rn_max_equity r else 0)
      in r\<lparr>rn_max_drawdown := max (rn_max_drawdown r) dd\<rparr>)"

text \<open>The time stamp of a forced close is the broker's; here it is an argument.\<close>

definition force_close :: "string \<Rightarrow> real \<Rightarrow> runner \<Rightarrow> unit res \<times> runner" where
  "force_close ts price r =
     (case close_all ts price (rn_broker r) of
        (Inl e, b) \<Rightarrow> (Inl e, r\<lparr>rn_broker := b\<rparr>) | (Inr xs, b) \<Rightarrow> (Inr (), r\<lparr>rn_broker := b\<rparr>))"

definition cancel_orders :: "runner \<Rightarrow> runner" where
  "cancel_orders r = r\<lparr>rn_broker := cancel_all_open_orders (rn_broker r)\<rparr>"

definition risk_kill :: "string \<Rightarrow> real \<Rightarrow> real \<Rightarrow> runner \<Rightarrow> runner" where
  "risk_kill ts price total_equity r =
     (let drawdown_usd = rn_starting_equity r - total_equity
      in if 0 < rn_starting_equity r \<and> MAX_DAILY_LOSS_USD (rn_limits r) \<le> drawdown_usd \<and> \<not> rn_kill r
         then (let r1 = cancel_orders (request_shutdown ''max_loss_usd''
                     (log_events [RiskKillSwitch total_equity drawdown_usd] r\<lparr>rn_kill := True\<rparr>))
               in if 0 < price then snd (force_close ts price r1) else r1)
         else r)"

text \<open>
  The end of a heartbeat: memory, the price cache (its write may fail silently), the heartbeat file
  (a failing write is an error of the task), then the journal and the metrics.
\<close>

definition heartbeat_error :: "runner \<Rightarrow> runner" where
  "heartbeat_error r = count_error (log_events [HeartbeatTaskError] r)"

definition heartbeat_report :: "real \<Rightarrow> real \<Rightarrow> real \<Rightarrow> runner \<Rightarrow> runner" where
  "heartbeat_report price unrealized total_equity r0 =
     (let mem = rn_memory r0 0;
          r1 = r0\<lparr>rn_memory := \<lambda>k. rn_memory r0 (Suc k)\<rparr>;
          r2 = (if rn_max_memory r1 < mem then request_shutdown ''memory_limit'' r1 else r1);
          r3 = (if rn_latest_tick r2 = None then r2 else snd (disk_write r2));
          (written, r4) = disk_write r3
      in if \<not> written then heartbeat_error r4
         else let (now, r5) = rn_time r4
              in log_events [AsyncHeartbeatEv price total_equity]
                   (r5\<lparr>rn_metrics := rn_metrics r5 @ [HeartbeatPoint total_equity price unrealized (rn_errors r5)],
                       rn_last_heartbeat := now\<rparr>))"

definition heartbeat :: "string \<Rightarrow> runner \<Rightarrow> runner" where
  "heartbeat ts r =
     (let price = current_price r
      in case get_unrealized_pnl price (rn_broker r) of
           Inl e \<Rightarrow> heartbeat_error r
         | Inr unrealized \<Rightarrow>
           let total = b_current_equity (rn_broker r) + unrealized
           in heartbeat_report price unrealized total (risk_kill ts price total (track_drawdown total r)))"

text \<open>The hard stop at eighty per cent of the equity the session started with.\<close>

definition equity_sentinel :: "string \<Rightarrow> real \<Rightarrow> runner \<Rightarrow> runner" where
  "equity_sentinel ts hard_stop r =
     (let price = (case rn_latest_tick r of Some t \<Rightarrow> t_last t | None \<Rightarrow> 0)
      in case (if 0 < price then get_unrealized_pnl price (rn_broker r) else Inr 0) of
           Inl e \<Rightarrow> r
         | Inr unrealized \<Rightarrow>
           if b_current_equity (rn_broker r) + unrealized < hard_stop
           then (case force_close ts price (r\<lparr>rn_env_kill := True\<rparr>) of
                   (Inl e, r1) \<Rightarrow> r1
                 | (Inr u, r1) \<Rightarrow> request_shutdown ''hard_stop_breached'' r1)
           else r)"

definition sentinel_threshold :: "runner \<Rightarrow> real" where
  "sentinel_threshold r = rn_starting_equity r * (8 / 10)"

definition kill_switch :: "bool \<Rightarrow> runner \<Rightarrow> runner" where
  "kill_switch unlinked r =
     (if rn_kill_file r \<or> rn_env_kill r
      then (let r1 = request_shutdown ''kill_switch'' r
            in r1\<lparr>rn_kill_file := rn_kill_file r1 \<and> \<not> unlinked, rn_kill := True\<rparr>)
      else r)"

definition timer :: "real \<Rightarrow> runner \<Rightarrow> runner" where
  "timer end_time r0 = (let (now, r) = rn_time r0
     in if now < end_time then r else request_shutdown ''duration_limit'' r)"

text \<open>
  The funding windows at 00:00, 08:00 and 16:00 UTC. \<open>rate\<close> is \<open>None\<close> when the provider has no
  coroutine function \<open>funding_rate\<close>, \<open>Some\<close> of what awaiting it gives otherwise.
\<close>

definition funding_tick :: "nat \<Rightarrow> nat \<Rightarrow> string \<Rightarrow> real res option \<Rightarrow> runner \<Rightarrow> runner" where
  "funding_tick hour minute ts rate r =
     (let r1 = (if hour \<in> {0, 8, 16} \<and> minute = 0 \<and> rn_funding_hour r \<noteq> Some hour
                then (case rate of Some (Inr x) \<Rightarrow> r\<lparr>rn_broker := apply_funding x ts (rn_broker r)\<rparr>
                      | _ \<Rightarrow> r)\<lparr>rn_funding_hour := Some hour\<rparr>
                else r)
      in if minute \<noteq> 0 then r1\<lparr>rn_funding_hour := None\<rparr> else r1)"

definition checkpoint :: "runner \<Rightarrow> runner" where
  "checkpoint r =
     (let (saved, r1) = sm_save (record_starting (rn_starting_equity r) (record_breaker r))
      in if saved then r1\<lparr>rn_broker := save_state' (rn_broker r1)\<rparr> else r1)"

section \<open>Stale data\<close>

definition rest_poll :: "runner \<Rightarrow> runner" where
  "rest_poll r0 =
     (let (now, r) = rn_time r0
      in if now - rn_last_rest_poll r < 15 then r
         else (case load_rest 2 r of
             (Inl e, r1) \<Rightarrow> r1
           | (Inr cs, r1) \<Rightarrow>
             (case rev (normalize_candle_order cs) of
                [] \<Rightarrow> r1
              | latest # older \<Rightarrow>
                let r2 = (if parse_opt (rn_last_candle_ts r1) < parse_ts (c_ts latest)
                          then (trim_candles (r1\<lparr>rn_candles := rn_candles r1 @ [latest]\<rparr>))
                                 \<lparr>rn_last_candle_ts := Some (c_ts latest)\<rparr>
                          else r1);
                    (t, r3) = rn_time r2
                in r3\<lparr>rn_last_data_time := t\<rparr>))\<lparr>rn_last_rest_poll := now\<rparr>)"

definition provider_restart :: "runner \<Rightarrow> runner" where
  "provider_restart r0 =
     (let r = r0\<lparr>rn_restart := \<lambda>k. rn_restart r0 (Suc k)\<rparr>
      in if rn_restart r0 0 then (let (now, r1) = rn_time r in r1\<lparr>rn_last_data_time := now, rn_ws_errors := 0\<rparr>)
         else r\<lparr>rn_errors := rn_errors r + 1\<rparr>)"

definition stale_check :: "runner \<Rightarrow> runner" where
  "stale_check r0 =
     (let (now, r1) = rn_time r0;
          age = now - rn_last_data_time r1;
          r2 = (if 15 < age then rest_poll r1 else r1)
      in if age \<le> min 30 (rn_stale_timeout r2) \<or> rn_shutdown r2 then r2
         else if rn_stale_attempts r2 < rn_max_stale r2
         then provider_restart (log_events [StaleDataRestart (rn_stale_attempts r2 + 1)]
                (r2\<lparr>rn_stale_attempts := rn_stale_attempts r2 + 1\<rparr>))
         else if rn_stale_timeout r2 < age
         then request_shutdown ''stale_data'' (log_events [StaleDataError]
                (r2\<lparr>rn_errors := rn_errors r2 + 1\<rparr>))
         else r2)"

section \<open>Shutdown\<close>

text \<open>
  \<open>perform_shutdown\<close> before and after its two-second wait for pending fills. The forced close is
  outside any handler, so its exception leaves the function before the state is saved.
\<close>

definition shutdown_begin :: "runner \<Rightarrow> runner" where
  "shutdown_begin r =
     (if rn_shutting_down r then r
      else cancel_orders
        (if rn_stop_emitted r then r\<lparr>rn_shutting_down := True, rn_status := ''shutting_down''\<rparr>
         else log_events [SessionStopped (rn_stopped_reason r) (rn_errors r)]
           (r\<lparr>rn_shutting_down := True, rn_status := ''shutting_down'', rn_stop_emitted := True\<rparr>)))"

definition drain_queue :: "runner \<Rightarrow> runner" where
  "drain_queue r =
     r\<lparr>rn_queue := [], rn_broker := (rn_broker r)\<lparr>b_working_orders :=
        b_working_orders (rn_broker r) @ map q_order (rn_queue r)\<rparr>\<rparr>"

definition final_save :: "runner \<Rightarrow> runner" where
  "final_save r = snd (sm_save (record_starting (rn_starting_equity r) (record_breaker
     (r\<lparr>rn_broker := shutdown_broker (rn_broker r)\<rparr>))))"

definition shutdown_finish :: "string \<Rightarrow> (runner, unit) py" where
  "shutdown_finish ts r0 =
     (let r = drain_queue r0; price = current_price r
      in case (if b_pos (rn_broker r) \<noteq> None \<and> 0 < price then force_close ts price r else (Inr (), r)) of
           (Inl e, r1) \<Rightarrow> (Inl e, r1)
         | (Inr u, r1) \<Rightarrow> (Inr (), final_save r1))"

record session_result =
  sr_iterations :: nat
  sr_trades :: nat
  sr_errors :: nat
  sr_starting :: real
  sr_ending :: real
  sr_duration :: real
  sr_drawdown :: real
  sr_reason :: string

definition build_session_result :: "runner \<Rightarrow> session_result" where
  "build_session_result r =
     \<lparr>sr_iterations = rn_iterations r, sr_trades = rn_trades r, sr_errors = rn_errors r,
      sr_starting = rn_starting_equity r, sr_ending = b_current_equity (rn_broker r),
      sr_duration = fst (rn_time r) - rn_start_time r, sr_drawdown = rn_max_drawdown r,
      sr_reason = rn_stopped_reason r\<rparr>"

section \<open>Start\<close>

definition restore_starting_balance :: "real option res option \<Rightarrow> real \<Rightarrow> real" where
  "restore_starting_balance state_file starting_balance =
     (case state_file of Some (Inr v) \<Rightarrow> float_or v starting_balance | _ \<Rightarrow> starting_balance)"

definition save_starting :: "real \<Rightarrow> (runner, unit) py" where
  "save_starting x r = (let (saved, r1) = sm_save (record_starting x r)
     in (if saved then Inr () else Inl OSError, r1))"

text \<open>
  The equity a session starts from: the saved one unless a balance other than the default was
  asked for; after a loss beyond the daily limit with no exposure left, the current one. Only the
  second save is inside a handler.
\<close>

definition startup_reset :: "real \<Rightarrow> runner \<Rightarrow> real \<times> runner" where
  "startup_reset x r =
     (let b = rn_broker r
      in if b_pos b = None \<and> b_working_orders b = [] \<and> 0 < x
            \<and> MAX_DAILY_LOSS_USD (rn_limits r) \<le> x - b_current_equity b
         then (b_current_equity b, snd (save_starting (b_current_equity b)
                (r\<lparr>rn_broker := b\<lparr>b_starting_equity := b_current_equity b\<rparr>\<rparr>)))
         else (x, r))"

definition sync_initial_state :: "real \<Rightarrow> (runner, real) py" where
  "sync_initial_state starting_balance r0 =
     (let (x, r) = (if starting_balance = 10000 then (b_starting_equity (rn_broker r0), r0)
                    else (starting_balance,
                          r0\<lparr>rn_broker := (rn_broker r0)\<lparr>b_starting_equity := starting_balance\<rparr>\<rparr>))
      in case save_starting x r of
           (Inl e, r1) \<Rightarrow> (Inl e, r1)
         | (Inr u, r1) \<Rightarrow> (let (y, r2) = startup_reset x r1 in (Inr y, r2\<lparr>rn_starting_equity := y\<rparr>)))"

text \<open>
  \<open>__init__\<close>: the fields a session starts with. The configuration, the broker and the sequences of
  the outside are arguments, as the record \<open>outside\<close>.
\<close>

record outside =
  ou_clock :: "nat \<Rightarrow> real"
  ou_uuid :: "nat \<Rightarrow> string"
  ou_latency :: "nat \<Rightarrow> nat"
  ou_rest :: "nat \<Rightarrow> nat \<Rightarrow> candle list res"
  ou_disk :: "nat \<Rightarrow> bool"
  ou_restart :: "nat \<Rightarrow> bool"
  ou_memory :: "nat \<Rightarrow> real"
  ou_max_memory :: real
  ou_kill_file :: bool
  ou_env_kill :: bool

definition init_runner ::
  "outside \<Rightarrow> limits \<Rightarrow> string \<Rightarrow> string \<Rightarrow> real \<Rightarrow> nat \<Rightarrow> bool \<Rightarrow> (supervisor \<times> nat) option \<Rightarrow> agent_state
   \<Rightarrow> broker \<Rightarrow> unified \<Rightarrow> runner" where
  "init_runner w L symbol interval starting_balance stale_timeout dry_run strategy agent b saved =
     (let t = ou_clock w 0
      in \<lparr>rn_symbol = symbol, rn_interval = interval, rn_limits = L,
          rn_strategy = map_option fst strategy,
          rn_warmup = (case strategy of None \<Rightarrow> 50 | Some (sv, bars) \<Rightarrow> bars),
          rn_dry_run = dry_run, rn_agent = agent, rn_broker = b, rn_starting_equity = starting_balance,
          rn_start_time = t, rn_candles = [], rn_latest_tick = None, rn_last_tick_ts = None,
          rn_last_candle_ts = None, rn_last_data_time = t, rn_last_heartbeat = t, rn_iterations = 0,
          rn_trades = 0, rn_errors = 0, rn_ws_errors = 0, rn_stale_attempts = 0, rn_max_stale = 3,
          rn_stale_timeout = real stale_timeout, rn_last_backfill = 0, rn_last_rest_poll = 0,
          rn_funding_hour = None, rn_max_equity = starting_balance, rn_max_drawdown = 0,
          rn_metrics = [], rn_queue = [], rn_executing = None, rn_inflight = {},
          rn_breaker = init_breaker 5 120 60, rn_shutdown = False, rn_stopped_reason = ''completed'',
          rn_kill = False, rn_kill_file = ou_kill_file w, rn_env_kill = ou_env_kill w,
          rn_shutting_down = False, rn_stop_emitted = False, rn_status = ''initializing'',
          rn_unified = saved, rn_saved = saved, rn_events = [],
          rn_clock = (\<lambda>k. ou_clock w (Suc k)), rn_uuid = ou_uuid w, rn_latency = ou_latency w,
          rn_rest = ou_rest w, rn_disk = ou_disk w, rn_restart = ou_restart w,
          rn_memory = ou_memory w, rn_max_memory = ou_max_memory w\<rparr>)"

text \<open>
  The start of \<open>run_session_lifecycle\<close>, up to the creation of the tasks; the funding task remembers
  the hour it starts in when that is at the full hour.
\<close>

definition start_lifecycle :: "nat \<Rightarrow> nat \<Rightarrow> nat option \<Rightarrow> candle list option \<Rightarrow> runner \<Rightarrow> runner" where
  "start_lifecycle hour minute configured history r0 =
     (let (ok, r) = breaker_allows (r0\<lparr>rn_status := ''running''\<rparr>);
          r1 = seed_historical_candles configured history
                 (if ok then r else request_shutdown ''circuit_breaker_open'' r)
      in r1\<lparr>rn_funding_hour := (if minute = 0 then Some hour else None)\<rparr>)"

end
