(* ===== verification/Session_Run.thy ===== *)
theory Session_Run
  imports Session Paper_Invariant
begin

text \<open>
  The interleaving of the session's tasks as a step relation, and what every step does to the
  broker: it only makes calls of the interface, and the orders it passes are the ones that were
  checked and queued.
\<close>

section \<open>The step relation\<close>

text \<open>
  A task that checks the shutdown event and acts without awaiting in between needs it unset; one
  that awaits after its check may still act once. The stop threshold was computed when the sentinel
  started. The kill file and the exception out of a task come from outside.
\<close>

inductive session_step :: "real \<Rightarrow> runner \<Rightarrow> runner \<Rightarrow> bool" for hard_stop where
  step_item: "session_step hard_stop r (handle_item it r)"
| step_market_error: "session_step hard_stop r (market_error fatal r)"
| step_take: "rn_executing r = None \<Longrightarrow> session_step hard_stop r (execution_take r)"
| step_fire: "rn_executing r = Some q \<Longrightarrow> session_step hard_stop r (execution_fire q r)"
| step_watchdog: "\<not> rn_shutdown r \<Longrightarrow> session_step hard_stop r (watchdog_tick r)"
| step_hardware: "\<not> rn_shutdown r \<Longrightarrow> session_step hard_stop r (snd (hardware_watchdog mem r))"
| step_heartbeat: "\<not> rn_shutdown r \<Longrightarrow> session_step hard_stop r (heartbeat ts r)"
| step_sentinel: "\<not> rn_shutdown r \<Longrightarrow> session_step hard_stop r (equity_sentinel ts hard_stop r)"
| step_kill: "\<not> rn_shutdown r \<Longrightarrow> session_step hard_stop r (kill_switch unlinked r)"
| step_kill_file: "session_step hard_stop r (r\<lparr>rn_kill_file := True\<rparr>)"
| step_timer: "session_step hard_stop r (timer end_time r)"
| step_stale: "session_step hard_stop r (stale_check r)"
| step_funding: "session_step hard_stop r (funding_tick hour minute ts rate r)"
| step_checkpoint: "session_step hard_stop r (checkpoint r)"
| step_task_done: "session_step hard_stop r (handle_task_done cancelled failed r)"
| step_shutdown: "rn_shutdown r \<Longrightarrow> session_step hard_stop r (shutdown_begin r)"

inductive_cases session_stepE: "session_step hard_stop r r'"

section \<open>Calls on the broker\<close>

fun call_order :: "paper_op \<Rightarrow> order option" where
  "call_order (Call (OpCandle c ord tk)) = ord"
| "call_order op = None"

fun interface_call :: "paper_op \<Rightarrow> bool" where
  "interface_call (Call (OpPlaceOrder sd q ty px sl tp cid)) = False"
| "interface_call op = True"

text \<open>
  \<open>calls S r r'\<close>: between the two states the broker only received calls, with the limits of the
  session, and every order among them is in \<open>S\<close>.
\<close>

definition calls :: "order set \<Rightarrow> runner \<Rightarrow> runner \<Rightarrow> bool" where
  "calls S r r' \<longleftrightarrow> rn_limits r' = rn_limits r
     \<and> (\<exists>ops. list_all interface_call ops \<and> (\<forall>op\<in>set ops. \<forall>o'. call_order op = Some o' \<longrightarrow> o' \<in> S)
          \<and> rn_broker r' = fold (paper_step (rn_limits r)) ops (rn_broker r))"

lemma calls_same: "rn_broker r' = rn_broker r \<Longrightarrow> rn_limits r' = rn_limits r \<Longrightarrow> calls S r r'"
  unfolding calls_def by (intro conjI exI [of _ "[]"]) simp_all

lemma calls_refl [simp, intro]: "calls S r r"
  by (simp add: calls_same)

lemma calls_one:
  assumes "interface_call op" "\<And>o'. call_order op = Some o' \<Longrightarrow> o' \<in> S"
    "rn_broker r' = paper_step (rn_limits r) op (rn_broker r)" "rn_limits r' = rn_limits r"
  shows "calls S r r'"
  unfolding calls_def using assms by (intro conjI exI [of _ "[op]"]) simp_all

lemma calls_trans [trans]:
  assumes "calls S r r1" "calls S r1 r2"
  shows "calls S r r2"
proof -
  obtain o1 o2 where "list_all interface_call o1" "\<forall>op\<in>set o1. \<forall>o'. call_order op = Some o' \<longrightarrow> o' \<in> S"
      "rn_broker r1 = fold (paper_step (rn_limits r)) o1 (rn_broker r)"
      "list_all interface_call o2" "\<forall>op\<in>set o2. \<forall>o'. call_order op = Some o' \<longrightarrow> o' \<in> S"
      "rn_broker r2 = fold (paper_step (rn_limits r1)) o2 (rn_broker r1)"
    using assms unfolding calls_def by blast
  then show ?thesis
    using assms unfolding calls_def by (intro conjI exI [of _ "o1 @ o2"]) auto
qed

lemma calls_mono: "calls S r r' \<Longrightarrow> S \<subseteq> T \<Longrightarrow> calls T r r'"
  unfolding calls_def by blast

section \<open>Steps that leave the work at hand alone\<close>

definition work :: "runner \<Rightarrow> limits \<times> queued list \<times> queued option \<times> string set \<times> candle list \<times> breaker
    \<times> supervisor option \<times> nat \<times> bool" where
  "work r = (rn_limits r, rn_queue r, rn_executing r, rn_inflight r, rn_candles r, rn_breaker r,
     rn_strategy r, rn_max_stale r, rn_dry_run r)"

definition later :: "runner \<Rightarrow> runner \<Rightarrow> bool" where
  "later r r' \<longleftrightarrow> (rn_shutdown r \<longrightarrow> rn_shutdown r' \<and> rn_stopped_reason r' = rn_stopped_reason r)
     \<and> (rn_kill r \<longrightarrow> rn_kill r')
     \<and> (\<not> rn_shutdown r' \<longrightarrow> rn_stopped_reason r' = rn_stopped_reason r)
     \<and> (rn_shutdown r' \<longrightarrow> \<not> rn_shutdown r \<longrightarrow> rn_stopped_reason r = ''completed''
          \<longrightarrow> rn_stopped_reason r' \<noteq> ''completed'')"

lemma later_refl [simp, intro]: "later r r"
  by (simp add: later_def)

lemma later_trans: "later r r1 \<Longrightarrow> later r1 r2 \<Longrightarrow> later r r2"
  unfolding later_def by auto

text \<open>
  A quiet step leaves the work at hand alone: it passes no order to the broker, and stop requests
  and the kill switch are only ever set.
\<close>

definition quiet :: "runner \<Rightarrow> runner \<Rightarrow> bool" where
  "quiet r r' \<longleftrightarrow> work r' = work r \<and> later r r' \<and> calls {} r r'"

lemmas quiet_defs = quiet_def work_def later_def

lemmas session_eval = rn_time_def load_rest_def disk_write_def log_events_def request_shutdown_def
  error_budget_def count_error_def sm_save_def record_breaker_def record_starting_def Let_def

lemma quiet_refl [simp, intro]: "quiet r r"
  by (simp add: quiet_defs)

lemma quiet_trans [trans]: "quiet r r1 \<Longrightarrow> quiet r1 r2 \<Longrightarrow> quiet r r2"
  unfolding quiet_def by (auto intro: later_trans calls_trans)

lemma quiet_same:
  assumes "work r' = work r" "later r r'" "rn_broker r' = rn_broker r"
  shows "quiet r r'"
  using assms by (auto simp: quiet_def work_def intro: calls_same)

lemma quiet_request: "reason \<noteq> ''completed'' \<Longrightarrow> quiet r (request_shutdown reason r)"
  by (rule quiet_same) (auto simp: work_def later_def request_shutdown_def)

lemma quiet_log: "quiet r (log_events es r)"
  by (rule quiet_same) (auto simp: work_def later_def log_events_def)

lemma quiet_count_error: "quiet r (count_error r)"
  by (rule quiet_same) (auto simp: work_def later_def session_eval)

lemma quiet_market_error: "quiet r (market_error fatal r)"
  by (rule quiet_same) (auto simp: work_def later_def market_error_def session_eval)

lemma quiet_hardware: "quiet r (snd (hardware_watchdog mem r))"
  by (rule quiet_same) (auto simp: work_def later_def hardware_watchdog_def session_eval)

lemma quiet_kill: "quiet r (kill_switch u r)"
  by (rule quiet_same) (auto simp: work_def later_def kill_switch_def session_eval)

lemma quiet_timer: "quiet r (timer e r)"
  by (rule quiet_same) (auto simp: work_def later_def timer_def session_eval)

lemma quiet_task_done: "quiet r (handle_task_done c f r)"
  by (rule quiet_same) (auto simp: work_def later_def handle_task_done_def session_eval)

lemma quiet_broker:
  assumes "interface_call op" "call_order op = None" "rn_broker r' = paper_step (rn_limits r) op (rn_broker r)"
    "work r' = work r" "later r r'"
  shows "quiet r r'"
  using assms by (auto simp: quiet_def work_def intro: calls_one)

lemma quiet_force_close: "quiet r (snd (force_close ts px r))"
proof -
  have "rn_broker (snd (force_close ts px r)) = snd (close_all ts px (rn_broker r))"
    by (simp add: force_close_def split: prod.splits sum.splits)
  then show ?thesis
    by (intro quiet_broker [where op = "Call (OpCloseAll ts px)"])
      (auto simp: force_close_def work_def later_def split: prod.splits sum.splits)
qed

lemma quiet_cancel: "quiet r (cancel_orders r)"
  by (rule quiet_broker [where op = "Call OpCancelAll"]) (auto simp: cancel_orders_def work_def later_def)

lemma quiet_watchdog: "quiet r (watchdog_tick r)"
proof (cases "rn_latest_tick r")
  case None
  then show ?thesis by (simp add: watchdog_tick_def)
next
  case (Some t)
  show ?thesis
  proof (cases "b_pos (rn_broker r) = None")
    case True
    with Some show ?thesis by (simp add: watchdog_tick_def)
  next
    case False
    obtain res b where eq: "on_tick t (rn_broker r) = (res, b)" by force
    have "rn_broker (watchdog_tick r) = b"
      using Some False eq by (cases res) (auto simp: watchdog_tick_def session_eval)
    moreover have "work (watchdog_tick r) = work r \<and> later r (watchdog_tick r)"
      using Some False eq by (cases res) (auto simp: watchdog_tick_def work_def later_def session_eval)
    ultimately show ?thesis
      using eq by (intro quiet_broker [where op = "Call (OpTick t)"]) auto
  qed
qed

lemma quiet_funding: "quiet r (funding_tick h m ts rate r)"
proof (cases "h \<in> {0, 8, 16} \<and> m = 0 \<and> rn_funding_hour r \<noteq> Some h \<and> (\<exists>x. rate = Some (Inr x))")
  case True
  then obtain x where "rate = Some (Inr x)" by blast
  with True show ?thesis
    by (intro quiet_broker [where op = "Funding x ts"]) (auto simp: funding_tick_def work_def later_def Let_def)
next
  case False
  then show ?thesis
    by (intro quiet_same) (auto simp: funding_tick_def work_def later_def Let_def split: option.splits sum.splits)
qed

lemma quiet_checkpoint: "quiet r (checkpoint r)"
proof (cases "rn_disk r 0")
  case True
  then show ?thesis
    by (intro quiet_broker [where op = Save]) (auto simp: checkpoint_def work_def later_def session_eval)
next
  case False
  then show ?thesis
    by (intro quiet_same) (auto simp: checkpoint_def work_def later_def session_eval)
qed

lemma quiet_update:
  "quiet r (r\<lparr>rn_kill := True\<rparr>)" "quiet r (r\<lparr>rn_kill_file := a\<rparr>)" "quiet r (r\<lparr>rn_env_kill := a\<rparr>)"
  "quiet r (track_drawdown e r)" "quiet r (snd (rn_time r))" "quiet r (snd (disk_write r))"
  by (rule quiet_same; simp add: work_def later_def track_drawdown_def session_eval)+

lemma quiet_risk_kill: "quiet r (risk_kill ts px e r)"
proof -
  let ?r1 = "cancel_orders (request_shutdown ''max_loss_usd''
     (log_events [RiskKillSwitch e (rn_starting_equity r - e)] r\<lparr>rn_kill := True\<rparr>))"
  have "quiet r ?r1"
    by (rule quiet_trans [OF quiet_trans [OF quiet_trans [OF quiet_log quiet_update(1)] quiet_request] quiet_cancel]) simp
  moreover have "quiet ?r1 (snd (force_close ts px ?r1))" by (rule quiet_force_close)
  ultimately show ?thesis
    unfolding risk_kill_def Let_def by (auto intro: quiet_trans)
qed

lemma quiet_report: "quiet r (heartbeat_report px u e r)"
  by (rule quiet_same) (auto simp: heartbeat_report_def heartbeat_error_def work_def later_def session_eval)

lemma quiet_heartbeat: "quiet r (heartbeat ts r)"
  unfolding heartbeat_def heartbeat_error_def Let_def
  by (auto split: sum.splits
      intro: quiet_trans [OF quiet_trans [OF quiet_update(4) quiet_risk_kill] quiet_report]
        quiet_trans [OF quiet_log quiet_count_error])

lemma quiet_sentinel: "quiet r (equity_sentinel ts h r)"
proof -
  let ?r = "r\<lparr>rn_env_kill := True\<rparr>"
  have q: "quiet r (snd (force_close ts px ?r))" for px
    by (rule quiet_trans [OF quiet_update(3) quiet_force_close])
  have "quiet r (case force_close ts px ?r of (Inl e, r1) \<Rightarrow> r1
      | (Inr u, r1) \<Rightarrow> request_shutdown ''hard_stop_breached'' r1)" for px
    using q [of px] by (auto split: prod.splits sum.splits intro: quiet_trans [OF _ quiet_request])
  then show ?thesis
    unfolding equity_sentinel_def Let_def by (auto split: sum.splits)
qed

lemma quiet_begin: "quiet r (shutdown_begin r)"
proof -
  have "quiet r (if rn_stop_emitted r then r\<lparr>rn_shutting_down := True, rn_status := s\<rparr>
     else log_events es (r\<lparr>rn_shutting_down := True, rn_status := s, rn_stop_emitted := True\<rparr>))" for s es
    by (rule quiet_same) (auto simp: work_def later_def log_events_def)
  then show ?thesis
    unfolding shutdown_begin_def by (auto intro: quiet_trans [OF _ quiet_cancel])
qed

lemma quiet_tick: "quiet r (handle_tick t r)"
  by (rule quiet_same)
    (auto simp: handle_tick_def fresh_def data_arrived_def work_def later_def session_eval split: option.splits)

section \<open>Steps that feed the queue\<close>

definition sound_entry :: "queued \<Rightarrow> bool" where
  "sound_entry q \<longleftrightarrow> o_go (q_order q) \<and> order_fault (q_order q) = None
     \<and> (\<exists>hex. o_client_id (q_order q) = Some (async_id hex))"

definition gear :: "runner \<Rightarrow> limits \<times> queued option \<times> string set \<times> nat \<times> bool \<times> breaker" where
  "gear r = (rn_limits r, rn_executing r, rn_inflight r, rn_max_stale r, rn_dry_run r, rn_breaker r)"

text \<open>
  \<open>feeds\<close>: the step passes no order to the broker and adds at most one to the queue, a checked one,
  with room left, and not after a stop.
\<close>

definition feeds :: "bool \<Rightarrow> runner \<Rightarrow> runner \<Rightarrow> bool" where
  "feeds may r r' \<longleftrightarrow> gear r' = gear r \<and> later r r' \<and> calls {} r r'
     \<and> (rn_queue r' = rn_queue r
        \<or> may \<and> (\<exists>q. rn_queue r' = rn_queue r @ [q] \<and> sound_entry q)
            \<and> length (rn_queue r) < QUEUE_MAX \<and> \<not> rn_kill r \<and> \<not> rn_shutdown r)"

lemma quiet_feeds: "quiet r r' \<Longrightarrow> feeds may r r'"
  by (auto simp: quiet_def feeds_def work_def gear_def)

lemma feeds_refl [simp, intro]: "feeds may r r"
  by (simp add: feeds_def)

lemma feeds_same:
  assumes "gear r' = gear r" "later r r'" "rn_broker r' = rn_broker r" "rn_queue r' = rn_queue r"
  shows "feeds may r r'"
  using assms by (auto simp: feeds_def gear_def intro: calls_same)

lemma feeds_trans:
  assumes "feeds False r r1" "feeds may r1 r2"
  shows "feeds may r r2"
  using assms unfolding feeds_def by (auto intro: later_trans calls_trans simp: later_def)

lemma feeds_trans':
  assumes "feeds may r r1" "feeds False r1 r2"
  shows "feeds may r r2"
  using assms unfolding feeds_def by (auto intro: later_trans calls_trans)

lemma feeds_may: "feeds False r r' \<Longrightarrow> feeds may r r'"
  by (auto simp: feeds_def)

lemma feeds_breaker:
  assumes "br_state (rn_breaker r) = CLOSED"
  shows "feeds may r (snd (breaker_allows r))" "fst (breaker_allows r)"
  using assms
  by (auto simp: breaker_allows_def allow_request_def rn_time_def Let_def later_def gear_def intro: feeds_same)

lemma feeds_allows:
  assumes "br_state (rn_breaker r) = CLOSED"
  shows "feeds may r (snd (session_allows r))"
  using feeds_breaker(1) [OF assms] by (simp add: session_allows_def)

lemma allows_not_stopped: "fst (session_allows r) \<Longrightarrow> \<not> rn_kill r \<and> \<not> rn_shutdown r"
  by (auto simp: session_allows_def split: if_splits)

lemma feeds_agents: "feeds may r (snd (run_agents c r))"
  by (rule feeds_same)
    (auto simp: run_agents_def log_events_def gear_def later_def split: option.splits prod.splits sum.splits)

lemma broker_order_go: "broker_order ao = Some o' \<Longrightarrow> o_go o'"
  by (auto simp: broker_order_def split: agent_order.splits)

lemma session_order_cases:
  assumes "session_order ao r = (x, r')"
  shows "quiet r r' \<and> (\<forall>o'. x = Some o' \<longrightarrow> (\<forall>c l. sound_entry \<lparr>q_order = o', q_candle = c, q_latency = l\<rparr>))"
proof (cases "broker_order ao")
  case None
  with assms show ?thesis by (auto simp: session_order_def)
next
  case (Some o1)
  have "rn_broker r' = rn_broker r" "work r' = work r" "later r r'"
    using assms Some by (auto simp: session_order_def Let_def log_events_def work_def later_def split: option.splits)
  then have "quiet r r'" by (intro quiet_same)
  moreover have "\<forall>o'. x = Some o' \<longrightarrow> (\<forall>c l. sound_entry \<lparr>q_order = o', q_candle = c, q_latency = l\<rparr>)"
    using assms Some broker_order_go [OF Some]
    by (auto simp: session_order_def Let_def sound_entry_def split: option.splits)
  ultimately show ?thesis by blast
qed

lemma feeds_put:
  assumes "\<And>c l. sound_entry \<lparr>q_order = o', q_candle = c, q_latency = l\<rparr>" "\<not> rn_kill r" "\<not> rn_shutdown r"
  shows "feeds True r (put_order o' c r)"
proof -
  let ?r1 = "r\<lparr>rn_latency := \<lambda>k. rn_latency r (Suc k)\<rparr>"
  have q1: "quiet r ?r1" by (rule quiet_same) (auto simp: work_def later_def)
  show ?thesis
  proof (cases "length (rn_queue r) < QUEUE_MAX")
    case True
    let ?q = "\<lparr>q_order = o', q_candle = c, q_latency = rn_latency r 0\<rparr>"
    let ?r2 = "?r1\<lparr>rn_queue := rn_queue r @ [?q]\<rparr>"
    have "put_order o' c r = ?r2" using True by (simp add: put_order_def Let_def)
    moreover have "gear ?r2 = gear r" "later r ?r2" by (simp_all add: gear_def later_def)
    moreover have "calls {} r ?r2" by (rule calls_same) simp_all
    moreover have "\<exists>q. rn_queue ?r2 = rn_queue r @ [q] \<and> sound_entry q"
      using assms(1) [of c "rn_latency r 0"] by simp
    ultimately show ?thesis unfolding feeds_def using True assms(2,3) by simp
  next
    case False
    then have "put_order o' c r = count_error (log_events [OrderDropped] ?r1)"
      by (simp add: put_order_def Let_def)
    then show ?thesis
      using quiet_trans [OF q1 quiet_trans [OF quiet_log quiet_count_error]] by (simp add: quiet_feeds)
  qed
qed

lemma quiet_candle_exits: "quiet r (candle_exits c r)"
proof -
  obtain res b where eq: "on_candle (rn_limits r) c None (rn_latest_tick r) (rn_broker r) = (res, b)" by force
  have "rn_broker (candle_exits c r) = b"
    using eq by (cases res) (auto simp: candle_exits_def session_eval)
  moreover have "work (candle_exits c r) = work r \<and> later r (candle_exits c r)"
    using eq by (cases res) (auto simp: candle_exits_def work_def later_def session_eval)
  ultimately show ?thesis
    using eq by (intro quiet_broker [where op = "Call (OpCandle c None (rn_latest_tick r))"]) auto
qed

lemma feeds_signal:
  assumes closed: "br_state (rn_breaker r) = CLOSED"
  shows "feeds True r (act_on_signal c r)"
proof -
  obtain ok r1 where al: "session_allows r = (ok, r1)" by force
  define ao where "ao = (if ok then if rn_strategy r = None then EmptyOrder else ag_order (rn_agent r) else EmptyOrder)"
  obtain x r2 where so: "session_order ao r1 = (x, r2)" by force
  have f1: "feeds False r r1" using feeds_allows [OF closed, of False] al by simp
  have f2: "feeds False r1 r2" using session_order_cases [OF so] quiet_feeds by blast
  have f: "feeds False r r2" by (rule feeds_trans [OF f1 f2])
  show ?thesis
  proof (cases x)
    case None
    then have "act_on_signal c r = candle_exits c r2"
      using al so by (simp add: act_on_signal_def ao_def Let_def)
    then show ?thesis using feeds_trans [OF f quiet_feeds [OF quiet_candle_exits]] by simp
  next
    case (Some o')
    have ok using so Some by (cases ok) (auto simp: ao_def session_order_def broker_order_def)
    then have ns: "\<not> rn_kill r \<and> \<not> rn_shutdown r" using allows_not_stopped [of r] al by simp
    have b: "breaker_allows r = (ok, r1)" using al ns by (simp add: session_allows_def)
    have "rn_kill r1 = rn_kill r" "rn_shutdown r1 = rn_shutdown r"
      using b by (auto simp: breaker_allows_def rn_time_def Let_def split: prod.splits)
    moreover have "rn_kill r2 = rn_kill r1" "rn_shutdown r2 = rn_shutdown r1"
      using so by (auto simp: session_order_def Let_def log_events_def split: option.splits)
    ultimately have "feeds True r2 (put_order o' c r2)"
      using ns session_order_cases [OF so] Some by (intro feeds_put) auto
    moreover have "act_on_signal c r = put_order o' c r2"
      using al so Some by (simp add: act_on_signal_def ao_def Let_def)
    ultimately show ?thesis using feeds_trans [OF f] by simp
  qed
qed

lemma feeds_closed:
  assumes "br_state (rn_breaker r) = CLOSED"
  shows "feeds True r (on_candle_closed c r)"
proof -
  let ?r = "r\<lparr>rn_iterations := rn_iterations r + 1\<rparr>"
  obtain ok r1 where ra: "run_agents c ?r = (ok, r1)" by force
  have f0: "feeds False r ?r" by (rule feeds_same) (simp_all add: gear_def later_def)
  have f1: "feeds False ?r r1" using feeds_agents [of False ?r c] ra by simp
  have f: "feeds False r r1" by (rule feeds_trans [OF f0 f1])
  then have "br_state (rn_breaker r1) = CLOSED" using assms by (simp add: feeds_def gear_def)
  from feeds_trans [OF f feeds_signal [OF this]] have "feeds True r (act_on_signal c r1)" .
  then show ?thesis
    using feeds_may [OF f] feeds_may [OF f0] ra unfolding on_candle_closed_def Let_def by simp
qed

lemma feeds_fresh: "feeds may r (snd (fresh ts l r))"
  by (rule feeds_same) (auto simp: fresh_def rn_time_def Let_def gear_def later_def)

lemma feeds_backfill: "feeds may r (backfill ts r)"
proof -
  have g: "feeds may s (fetch_gap p n m s)" for s p n m
    by (rule feeds_same; simp add: fetch_gap_def load_rest_def gear_def later_def split: sum.split)
      (simp_all add: rn_time_def)
  have t: "feeds False r (snd (rn_time r))" by (rule quiet_feeds [OF quiet_update(5)])
  have e: "feeds may r (fetch_gap p n m (snd (rn_time r)))" for p n m
    by (rule feeds_trans [OF t g])
  show ?thesis unfolding backfill_def Let_def case_prod_beta using e feeds_may [OF t] by simp
qed

lemma feeds_append:
  assumes "br_state (rn_breaker r) = CLOSED"
  shows "feeds True r (append_candle c r)"
proof -
  have t: "feeds False s (trim_candles (s\<lparr>rn_candles := cs\<rparr>))" for s cs
    by (rule feeds_same) (simp_all add: trim_candles_def gear_def later_def)
  have u: "feeds True r (r\<lparr>rn_candles := cs\<rparr>)" for cs
    by (rule feeds_same) (simp_all add: gear_def later_def)
  show ?thesis
    unfolding append_candle_def Let_def
    using feeds_trans' [OF feeds_closed [OF assms, of "last (rn_candles r)"] t] u feeds_trans' [OF feeds_refl t]
    by auto
qed

lemma feeds_candle:
  assumes "br_state (rn_breaker r) = CLOSED"
  shows "feeds True r (handle_candle c r)"
proof -
  obtain ok r1 where fr: "fresh (rc_ts c) (rn_last_candle_ts r) r = (ok, r1)" by force
  have f1: "feeds may r r1" for may using feeds_fresh [of may r "rc_ts c" "rn_last_candle_ts r"] fr by simp
  have f2: "feeds False r1 (data_arrived (r1\<lparr>rn_last_candle_ts := ts\<rparr>))" for ts
    by (rule feeds_same) (simp_all add: data_arrived_def rn_time_def Let_def gear_def later_def)
  show ?thesis
  proof (cases "sound_candle c")
    case None
    with fr f1 show ?thesis by (simp add: handle_candle_def)
  next
    case (Some cd)
    let ?r = "backfill (c_ts cd) (data_arrived (r1\<lparr>rn_last_candle_ts := Some (c_ts cd)\<rparr>))"
    have f: "feeds False r ?r" by (rule feeds_trans [OF feeds_trans [OF f1 f2] feeds_backfill])
    then have "br_state (rn_breaker ?r) = CLOSED" using assms by (simp add: feeds_def gear_def)
    from feeds_trans [OF f feeds_append [OF this]] Some fr f1 show ?thesis
      by (simp add: handle_candle_def)
  qed
qed

lemma feeds_item: "br_state (rn_breaker r) = CLOSED \<Longrightarrow> feeds True r (handle_item it r)"
  using feeds_candle quiet_feeds [OF quiet_tick] quiet_feeds [OF quiet_request]
  by (auto simp: handle_item_def split: item.splits)

lemma feeds_stale: "feeds may r (stale_check r)"
proof -
  have p: "feeds False s (rest_poll s)" for s
    by (rule feeds_same)
      (auto simp: rest_poll_def trim_candles_def session_eval gear_def later_def split: sum.splits list.splits)
  have q: "feeds False s (provider_restart s)" for s
    by (rule feeds_same) (auto simp: provider_restart_def session_eval gear_def later_def)
  have r: "feeds may s (snd (rn_time s))" for s may by (rule quiet_feeds [OF quiet_update(5)])
  have a: "feeds may s (if b then rest_poll s else s)" for s b may
    using feeds_trans [OF p feeds_refl] by auto
  have b: "feeds False s (log_events es (s\<lparr>rn_stale_attempts := n\<rparr>))" 
     "feeds False s (log_events es (s\<lparr>rn_errors := n\<rparr>))" for s es n
    by (rule feeds_same; simp add: log_events_def gear_def later_def)+
  have c: "feeds False s (request_shutdown ''stale_data'' s)" for s
    by (rule quiet_feeds [OF quiet_request]) simp
  define r1 where "r1 = snd (rn_time r)"
  define age where "age = fst (rn_time r) - rn_last_data_time r1"
  define r2 where "r2 = (if 15 < age then rest_poll r1 else r1)"
  have ra: "feeds may r r2" for may
    unfolding r2_def r1_def by (rule feeds_trans [OF r a])
  have eq: "stale_check r = (if age \<le> min 30 (rn_stale_timeout r2) \<or> rn_shutdown r2 then r2
         else if rn_stale_attempts r2 < rn_max_stale r2
         then provider_restart (log_events [StaleDataRestart (rn_stale_attempts r2 + 1)]
                (r2\<lparr>rn_stale_attempts := rn_stale_attempts r2 + 1\<rparr>))
         else if rn_stale_timeout r2 < age
         then request_shutdown ''stale_data'' (log_events [StaleDataError]
                (r2\<lparr>rn_errors := rn_errors r2 + 1\<rparr>))
         else r2)"
    by (simp only: stale_check_def Let_def case_prod_beta r1_def age_def r2_def)
  show ?thesis
    unfolding eq using ra feeds_trans' [OF ra feeds_trans [OF b(1) q]] feeds_trans' [OF ra feeds_trans [OF b(2) c]]
    by (simp only: split: if_split) blast
qed

end
