(* ===== verification/Session_Properties.thy ===== *)
theory Session_Properties
  imports Session_Run Agent_Properties
begin

text \<open>
  What holds of every session, however its tasks interleave: the broker sees checked orders only
  and its books explain the profit, a stop lets through at most the order that was already in its
  latency wait; and the behaviour of single steps: the frozen forming bar, the dead feed that REST
  polls hide, what shutting down leaves behind.
\<close>

section \<open>The session's invariant\<close>

definition lock_matches :: "queued option \<Rightarrow> string set \<Rightarrow> bool" where
  "lock_matches executing inflight =
     (case executing of None \<Rightarrow> inflight = {}
      | Some q \<Rightarrow> sound_entry q \<and> inflight = set_option (o_client_id (q_order q)))"

definition session_ok :: "runner \<Rightarrow> bool" where
  "session_ok r \<longleftrightarrow> br_state (rn_breaker r) = CLOSED
     \<and> length (rn_queue r) \<le> QUEUE_MAX \<and> (\<forall>q\<in>set (rn_queue r). sound_entry q)
     \<and> lock_matches (rn_executing r) (rn_inflight r)
     \<and> (rn_shutdown r \<longleftrightarrow> rn_stopped_reason r \<noteq> ''completed'')"

definition checked_orders :: "order set" where
  "checked_orders = {o'. o_go o' \<and> order_fault o' = None \<and> (\<exists>hex. o_client_id o' = Some (async_id hex))}"

lemma sound_entry_checked: "sound_entry q \<longleftrightarrow> q_order q \<in> checked_orders"
  by (auto simp: sound_entry_def checked_orders_def)

lemma later_reason:
  "later r r' \<Longrightarrow> (rn_shutdown r \<longleftrightarrow> rn_stopped_reason r \<noteq> ''completed'')
     \<Longrightarrow> (rn_shutdown r' \<longleftrightarrow> rn_stopped_reason r' \<noteq> ''completed'')"
  unfolding later_def by auto

lemma feeds_ok:
  assumes "feeds may r r'" "session_ok r"
  shows "session_ok r'"
proof -
  have "later r r'" using assms(1) by (simp add: feeds_def)
  from later_reason [OF this] assms(2)
  have "rn_shutdown r' \<longleftrightarrow> rn_stopped_reason r' \<noteq> ''completed''" by (simp add: session_ok_def)
  with assms show ?thesis unfolding session_ok_def feeds_def gear_def by auto
qed

section \<open>Taking and firing an order\<close>

lemma after_execution_quiet:
  assumes closed: "br_state (rn_breaker r) = CLOSED"
  shows "quiet r (after_execution r)"
proof -
  obtain r1 where ba: "breaker_allows r = (True, r1)"
    using feeds_breaker(2) [OF closed] by (metis prod.collapse)
  have q1: "quiet r r1"
    using ba closed
    by (intro quiet_same) (auto simp: breaker_allows_def allow_request_def rn_time_def work_def later_def Let_def)
  have "quiet s (snd (sm_save (record_breaker s)))" for s
    by (rule quiet_same) (auto simp: work_def later_def session_eval)
  then have s: "quiet s r3" if "sm_save (record_breaker s) = (ok, r3)" for s ok r3
    using that by (metis snd_conv)
  show ?thesis
    using ba q1 unfolding after_execution_def
    by (auto simp: Let_def split: prod.splits
        intro: quiet_trans [OF q1 s] quiet_trans [OF q1 quiet_trans [OF s quiet_trans [OF quiet_log quiet_count_error]]])
qed

lemma fire_effect:
  assumes closed: "br_state (rn_breaker r) = CLOSED"
  shows "calls {q_order q} r (execution_fire q r)" "later r (execution_fire q r)"
    "rn_queue (execution_fire q r) = rn_queue r" "rn_executing (execution_fire q r) = None"
    "rn_inflight (execution_fire q r) = rn_inflight r - set_option (o_client_id (q_order q))"
    "rn_breaker (execution_fire q r) = rn_breaker r" "rn_dry_run (execution_fire q r) = rn_dry_run r"
proof -
  obtain res b where oc: "on_candle (rn_limits r) (q_candle q) (Some (q_order q)) (rn_latest_tick r) (rn_broker r) = (res, b)"
    by force
  define r1 where "r1 = (case res of
        Inl e \<Rightarrow> count_error (log_events [ExecutionTaskError] (r\<lparr>rn_broker := b\<rparr>))
      | Inr ev \<Rightarrow> after_execution
            (log_events (map ExecutionFill (evs_fills ev) @ map ExecutionExit (evs_exits ev))
              (r\<lparr>rn_broker := b, rn_trades := rn_trades r + length (evs_fills ev) + length (evs_exits ev)\<rparr>)))"
  have fire: "execution_fire q r = release_order q r1"
    using oc by (simp add: execution_fire_def r1_def split: sum.splits)
  define r0 where "r0 = r\<lparr>rn_broker := b\<rparr>"
  have c0: "calls {q_order q} r r0"
    using oc by (intro calls_one [where op = "Call (OpCandle (q_candle q) (Some (q_order q)) (rn_latest_tick r))"])
      (auto simp: r0_def)
  have "quiet r0 r1"
  proof (cases res)
    case (Inl e)
    then show ?thesis unfolding r1_def r0_def using quiet_trans [OF quiet_log quiet_count_error] by simp
  next
    case (Inr ev)
    let ?es = "map ExecutionFill (evs_fills ev) @ map ExecutionExit (evs_exits ev)"
    let ?s = "log_events ?es (r\<lparr>rn_broker := b, rn_trades := rn_trades r + length (evs_fills ev) + length (evs_exits ev)\<rparr>)"
    have "quiet r0 ?s" by (rule quiet_same) (simp_all add: r0_def log_events_def work_def later_def)
    moreover have "quiet ?s (after_execution ?s)"
      by (rule after_execution_quiet) (simp add: log_events_def closed)
    ultimately show ?thesis using Inr by (auto simp: r1_def intro: quiet_trans)
  qed
  then have q1: "work r1 = work r0" "later r0 r1" "calls {} r0 r1" by (simp_all add: quiet_def)
  have "calls {q_order q} r r1" using c0 calls_mono [OF q1(3)] by (auto intro: calls_trans)
  moreover have "calls {q_order q} r1 (release_order q r1)" by (rule calls_same) (simp_all add: release_order_def)
  ultimately show "calls {q_order q} r (execution_fire q r)" unfolding fire by (rule calls_trans)
  show "later r (execution_fire q r)"
    using q1(2) by (auto simp: fire r0_def later_def release_order_def)
  show "rn_queue (execution_fire q r) = rn_queue r" "rn_executing (execution_fire q r) = None"
    "rn_inflight (execution_fire q r) = rn_inflight r - set_option (o_client_id (q_order q))"
    "rn_breaker (execution_fire q r) = rn_breaker r" "rn_dry_run (execution_fire q r) = rn_dry_run r"
    using q1(1) by (auto simp: fire r0_def work_def release_order_def split: option.splits)
qed

lemma fire_ok:
  assumes "session_ok r" "rn_inflight r = set_option (o_client_id (q_order q))"
  shows "session_ok (execution_fire q r)"
proof -
  have closed: "br_state (rn_breaker r) = CLOSED" using assms(1) by (simp add: session_ok_def)
  note e = fire_effect [OF closed, of q]
  have "rn_shutdown (execution_fire q r) \<longleftrightarrow> rn_stopped_reason (execution_fire q r) \<noteq> ''completed''"
    using later_reason [OF e(2)] assms(1) by (simp add: session_ok_def)
  then show ?thesis using assms e by (simp add: session_ok_def lock_matches_def)
qed

definition stopped_effect :: "runner \<Rightarrow> runner \<Rightarrow> bool" where
  "stopped_effect r r' \<longleftrightarrow> calls (q_order ` set_option (rn_executing r)) r r'
     \<and> (rn_executing r' = None \<or> rn_executing r' = rn_executing r)
     \<and> (\<exists>n. rn_queue r' = drop n (rn_queue r))"

lemma stopped_trans:
  assumes s1: "stopped_effect r r1" and s2: "stopped_effect r1 r2"
  shows "stopped_effect r r2"
proof -
  let ?S = "q_order ` set_option (rn_executing r)"
  have "q_order ` set_option (rn_executing r1) \<subseteq> ?S" using s1 by (auto simp: stopped_effect_def)
  moreover have "calls (q_order ` set_option (rn_executing r1)) r1 r2" using s2 by (simp add: stopped_effect_def)
  ultimately have "calls ?S r1 r2" by (rule calls_mono [rotated])
  moreover have "calls ?S r r1" using s1 by (simp add: stopped_effect_def)
  ultimately have c: "calls ?S r r2" by (rule calls_trans [rotated])
  obtain m n where "rn_queue r1 = drop m (rn_queue r)" "rn_queue r2 = drop n (rn_queue r1)"
    using s1 s2 unfolding stopped_effect_def by blast
  then have "rn_queue r2 = drop (n + m) (rn_queue r)" by simp
  then have "\<exists>k. rn_queue r2 = drop k (rn_queue r)" ..
  moreover have "rn_executing r2 = None \<or> rn_executing r2 = rn_executing r"
    using s1 s2 unfolding stopped_effect_def by auto
  ultimately show ?thesis using c by (simp add: stopped_effect_def)
qed

definition effect :: "runner \<Rightarrow> runner \<Rightarrow> bool" where
  "effect r r' \<longleftrightarrow> session_ok r' \<and> later r r' \<and> calls checked_orders r r'
     \<and> (rn_kill r \<longrightarrow> stopped_effect r r')"

lemma feeds_effect:
  assumes "feeds may r r'" "session_ok r"
  shows "effect r r'"
proof -
  have "calls S r r'" for S using assms(1) calls_mono [of "{}" r r' S] by (simp add: feeds_def)
  moreover have "rn_queue r' = drop 0 (rn_queue r)" if "rn_kill r"
    using assms(1) that by (auto simp: feeds_def)
  ultimately show ?thesis
    using assms feeds_ok [OF assms] unfolding effect_def stopped_effect_def feeds_def gear_def by blast
qed

lemma fire_step_effect:
  assumes "session_ok r" "rn_executing r = Some q"
  shows "effect r (execution_fire q r)"
proof -
  have closed: "br_state (rn_breaker r) = CLOSED" using assms(1) by (simp add: session_ok_def)
  have q: "sound_entry q" "rn_inflight r = set_option (o_client_id (q_order q))"
    using assms by (simp_all add: session_ok_def lock_matches_def)
  note e = fire_effect [OF closed, of q]
  have "calls checked_orders r (execution_fire q r)"
    using calls_mono [OF e(1)] q(1) by (simp add: sound_entry_checked)
  moreover have "stopped_effect r (execution_fire q r)"
    unfolding stopped_effect_def using e assms(2) by (auto intro: exI [of _ 0])
  ultimately show ?thesis using fire_ok [OF assms(1) q(2)] e(2) by (simp add: effect_def)
qed

lemma take_effect:
  assumes ok: "session_ok r" and idle: "rn_executing r = None"
  shows "effect r (execution_take r)"
proof (cases "rn_queue r")
  case Nil
  then have "execution_take r = r" by (simp add: execution_take_def)
  then show ?thesis using feeds_effect [OF feeds_refl ok] by simp
next
  case (Cons q rest)
  let ?r = "r\<lparr>rn_queue := rest\<rparr>"
  have free: "rn_inflight r = {}" using ok idle by (simp add: session_ok_def lock_matches_def)
  have q: "sound_entry q" and ok1: "session_ok ?r"
    using ok Cons by (simp_all add: session_ok_def)
  have c1: "calls S r ?r" for S by (rule calls_same) simp_all
  have l1: "later r ?r" by (simp add: later_def)
  show ?thesis
  proof (cases "rn_kill r")
    case True
    then have "execution_take r = ?r" using Cons by (simp add: execution_take_def)
    moreover have "stopped_effect r ?r"
      unfolding stopped_effect_def using c1 idle Cons by (auto intro: exI [of _ 1])
    ultimately show ?thesis using ok1 l1 c1 by (simp add: effect_def)
  next
    case False
    have go: "o_go (q_order q)" and not_dup: "\<not> is_inflight q ?r"
      using q free by (auto simp: sound_entry_def is_inflight_def)
    define r2 where "r2 = lock_order q ?r"
    have infl: "rn_inflight r2 = set_option (o_client_id (q_order q))"
      using q free by (auto simp: r2_def lock_order_def sound_entry_def async_id_def)
    have ok2: "session_ok r2"
      using ok1 infl q by (simp add: session_ok_def lock_matches_def r2_def lock_order_def)
    have c2: "calls S r r2" for S by (rule calls_same) (simp_all add: r2_def lock_order_def)
    have l2: "later r r2" by (simp add: later_def r2_def lock_order_def)
    have eq: "execution_take r = (if rn_dry_run r then execution_fire q r2 else r2)"
      using Cons False go not_dup by (simp add: execution_take_def r2_def)
    have "effect r2 (execution_fire q r2)"
      by (rule fire_step_effect [OF ok2]) (simp add: r2_def lock_order_def)
    then have "effect r (execution_fire q r2)"
      using c2 l2 False unfolding effect_def by (blast intro: calls_trans later_trans)
    moreover have "effect r r2" using ok2 c2 l2 False by (simp add: effect_def)
    ultimately show ?thesis unfolding eq by simp
  qed
qed

lemma step_effect:
  assumes step: "session_step hard_stop r r'" and ok: "session_ok r"
  shows "effect r r'"
proof -
  have closed: "br_state (rn_breaker r) = CLOSED" using ok by (simp add: session_ok_def)
  from step show ?thesis
  proof cases
    case (step_item it)
    then show ?thesis using feeds_effect [OF feeds_item [OF closed] ok] by simp
  next
    case step_take
    then show ?thesis using take_effect [OF ok] by simp
  next
    case (step_fire q)
    then show ?thesis using fire_step_effect [OF ok] by simp
  next
    case step_stale
    then show ?thesis using feeds_effect [OF feeds_stale ok] by simp
  qed (simp_all add: feeds_effect [OF quiet_feeds ok] quiet_market_error quiet_watchdog quiet_hardware
      quiet_heartbeat quiet_sentinel quiet_kill quiet_update quiet_timer quiet_funding quiet_checkpoint
      quiet_task_done quiet_begin)
qed

lemma run_effect:
  assumes "(session_step hard_stop)\<^sup>*\<^sup>* r r'" "session_ok r"
  shows "effect r r'"
  using assms
proof (induction rule: rtranclp_induct)
  case base
  then show ?case using feeds_effect [OF feeds_refl] by blast
next
  case (step r1 r2)
  then have e1: "effect r r1" and e2: "effect r1 r2"
    using step_effect by (auto simp: effect_def)
  have "stopped_effect r r2" if "rn_kill r"
    using e1 e2 that by (intro stopped_trans [of r r1 r2]) (simp_all add: effect_def later_def)
  with e1 e2 show ?case unfolding effect_def by (blast intro: later_trans calls_trans)
qed

section \<open>From the start of a session\<close>

lemma init_ok: "session_ok (init_runner w L symbol interval bal stale dry strategy agent b saved)"
  by (simp add: init_runner_def session_ok_def lock_matches_def init_breaker_def Let_def)

lemma save_starting_frame:
  assumes "save_starting x r = (res, r')"
  shows "rn_broker r' = rn_broker r" "session_ok r \<Longrightarrow> session_ok r'" "rn_limits r' = rn_limits r"
    "rn_starting_equity r' = rn_starting_equity r"
  using assms by (auto simp: save_starting_def session_eval session_ok_def split: if_splits)

lemma startup_reset_frame:
  assumes "startup_reset x r = (y, r')"
  shows "session_ok r \<Longrightarrow> session_ok r'" "rn_limits r' = rn_limits r"
    "b_current_equity (rn_broker r') = b_current_equity (rn_broker r)"
proof -
  define r1 where "r1 = r\<lparr>rn_broker := (rn_broker r)\<lparr>b_starting_equity := b_current_equity (rn_broker r)\<rparr>\<rparr>"
  obtain res r2 where s: "save_starting (b_current_equity (rn_broker r)) r1 = (res, r2)" by force
  have r': "r' = r2 \<or> r' = r"
    using assms s by (auto simp: startup_reset_def Let_def r1_def split: if_splits)
  have r1: "session_ok r \<Longrightarrow> session_ok r1" by (simp add: r1_def session_ok_def)
  show "session_ok r \<Longrightarrow> session_ok r'" "rn_limits r' = rn_limits r"
    "b_current_equity (rn_broker r') = b_current_equity (rn_broker r)"
    using r' r1 save_starting_frame [OF s] by (auto simp: r1_def)
qed

lemma sync_ok:
  assumes "sync_initial_state bal r0 = (res, r)" "session_ok r0"
  shows "session_ok r" "rn_limits r = rn_limits r0"
proof -
  obtain x r1 where x: "(if bal = 10000 then (b_starting_equity (rn_broker r0), r0)
      else (bal, r0\<lparr>rn_broker := (rn_broker r0)\<lparr>b_starting_equity := bal\<rparr>\<rparr>)) = (x, r1)" by force
  obtain sres r2 where s: "save_starting x r1 = (sres, r2)" by force
  obtain y r3 where y: "startup_reset x r2 = (y, r3)" by force
  have r1: "session_ok r1" "rn_limits r1 = rn_limits r0"
    using x assms(2) by (auto simp: session_ok_def split: if_splits)
  have r: "r = r2 \<or> r = r3\<lparr>rn_starting_equity := y\<rparr>"
    using assms(1) x s y by (cases sres) (auto simp: sync_initial_state_def Let_def split: if_splits)
  have "session_ok (r3\<lparr>rn_starting_equity := y\<rparr>) = session_ok r3" by (simp add: session_ok_def)
  then show "session_ok r" "rn_limits r = rn_limits r0"
    using r r1 save_starting_frame [OF s] startup_reset_frame [OF y] by auto
qed

lemma seed_ok: "session_ok r \<Longrightarrow> session_ok (seed_attempts n m r)
    \<and> rn_limits (seed_attempts n m r) = rn_limits r \<and> rn_broker (seed_attempts n m r) = rn_broker r"
proof (induction n arbitrary: r)
  case (Suc n)
  obtain res r1 where lr: "load_rest (max 100 m) r = (res, r1)" by force
  have r1: "session_ok (r1\<lparr>rn_candles := cs\<rparr>)" "session_ok r1"
     "rn_limits r1 = rn_limits r" "rn_broker r1 = rn_broker r" for cs
    using Suc.prems lr by (auto simp: load_rest_def session_ok_def)
  show ?case
  proof (cases res)
    case (Inl e)
    then show ?thesis using Suc.IH [OF r1(2)] r1 lr by simp
  next
    case (Inr cs)
    then show ?thesis using Suc.IH [OF r1(1) [of "normalize_candle_order cs"]] r1 lr by (simp add: Let_def)
  qed
qed simp

lemma start_ok:
  assumes "session_ok r"
  shows "session_ok (start_lifecycle hour minute cfg hist r)"
    "rn_broker (start_lifecycle hour minute cfg hist r) = rn_broker r"
    "rn_limits (start_lifecycle hour minute cfg hist r) = rn_limits r"
proof -
  let ?r = "r\<lparr>rn_status := ''running''\<rparr>"
  have ok0: "session_ok ?r" using assms by (simp add: session_ok_def)
  obtain ok r1 where ba: "breaker_allows ?r = (ok, r1)" by force
  have ok and f: "feeds False ?r r1"
    using feeds_breaker(1) [of ?r False] feeds_breaker(2) [of ?r] ok0 ba by (simp_all add: session_ok_def)
  have b: "rn_broker r1 = rn_broker r"
    using ba by (auto simp: breaker_allows_def rn_time_def Let_def split: prod.splits)
  have s: "session_ok (seed_historical_candles cfg hist r1)
     \<and> rn_limits (seed_historical_candles cfg hist r1) = rn_limits r1
     \<and> rn_broker (seed_historical_candles cfg hist r1) = rn_broker r1"
    using seed_ok [OF feeds_ok [OF f ok0]] feeds_ok [OF f ok0]
    by (auto simp: seed_historical_candles_def Let_def session_ok_def split: option.splits)
  have "start_lifecycle hour minute cfg hist r
      = (seed_historical_candles cfg hist r1)\<lparr>rn_funding_hour := (if minute = 0 then Some hour else None)\<rparr>"
    using ba \<open>ok\<close> by (simp add: start_lifecycle_def Let_def)
  then show "session_ok (start_lifecycle hour minute cfg hist r)"
    "rn_broker (start_lifecycle hour minute cfg hist r) = rn_broker r"
    "rn_limits (start_lifecycle hour minute cfg hist r) = rn_limits r"
    using s b f by (auto simp: session_ok_def feeds_def gear_def)
qed

definition sample_outside :: outside where
  "sample_outside = \<lparr>ou_clock = (\<lambda>k. 1000 + 5 * real k), ou_uuid = (\<lambda>k. ''f0''), ou_latency = (\<lambda>k. 200),
     ou_rest = (\<lambda>k n. Inr [sample_candle]), ou_disk = (\<lambda>k. True), ou_restart = (\<lambda>k. True),
     ou_memory = (\<lambda>k. 100), ou_max_memory = 1500, ou_kill_file = False, ou_env_kill = False\<rparr>"

definition sample_init :: runner where
  "sample_init = init_runner sample_outside std_limits ''BTCUSDT'' ''1m'' 10000 120 False None sample_state
     sample_broker \<lparr>un_breaker = None, un_starting = None\<rparr>"

lemma sample_sync: "\<exists>r0. sync_initial_state 10000 sample_init = (Inr 10000, r0) \<and> rn_broker r0 = sample_broker"
  by (simp add: sync_initial_state_def sample_init_def init_runner_def save_starting_def session_eval
      sample_outside_def startup_reset_def)

text \<open>C10: A session from its start, through any interleaving of its tasks, is for the broker a sequence
  of calls of its interface in which every order is one the session checked: live, with a side,
  finite positive size and prices, stop and target on the right sides of the entry, and a client
  id the session made. The queue never exceeds its bound, the stop flag is set exactly when a
  reason was recorded, and the session's circuit breaker stays closed (nothing in the session
  records a failure).\<close>

theorem session_refines_broker_calls:
  assumes "sync_initial_state bal (init_runner w L symbol interval bal stale dry strategy agent b saved) = (Inr x, r0)"
    and "(session_step hard_stop)\<^sup>*\<^sup>* (start_lifecycle hour minute cfg hist r0) r"
  shows "(\<exists>ops. rn_broker r = fold (paper_step L) ops (rn_broker r0) \<and> list_all interface_call ops
        \<and> (\<forall>op\<in>set ops. \<forall>o'. call_order op = Some o' \<longrightarrow>
             o_go o' \<and> order_fault o' = None \<and> (\<exists>hex. o_client_id o' = Some (async_id hex))))
     \<and> length (rn_queue r) \<le> QUEUE_MAX
     \<and> (rn_shutdown r \<longleftrightarrow> rn_stopped_reason r \<noteq> ''completed'')
     \<and> br_state (rn_breaker r) = CLOSED"
proof -
  let ?r1 = "start_lifecycle hour minute cfg hist r0"
  have ok0: "session_ok r0" and L: "rn_limits r0 = L"
    using sync_ok [OF assms(1) init_ok] by (simp_all add: init_runner_def Let_def)
  note s = start_ok [OF ok0, of hour minute cfg hist]
  have "effect ?r1 r" using run_effect [OF assms(2) s(1)] .
  then show ?thesis
    using s(2,3) L unfolding effect_def calls_def session_ok_def checked_orders_def by auto
qed

definition sample_start :: runner where
  "sample_start = start_lifecycle 3 30 None (Some [sample_candle])
     (snd (sync_initial_state 10000 sample_init))"

lemma sample_sync_eq: "sync_initial_state 10000 sample_init = (Inr 10000, snd (sync_initial_state 10000 sample_init))"
  using sample_sync by (auto simp: prod_eq_iff)

definition sample_tick_item :: item where
  "sample_tick_item = TickItem \<lparr>rt_symbol = ''BTCUSDT'', rt_bid = Fin 99, rt_ask = Fin 101, rt_last = Fin 100,
     rt_ts = ''990''\<rparr>"

theorem session_refines_broker_calls_witness:
  "let r = heartbeat ''t'' (handle_item sample_tick_item sample_start)
   in (\<exists>ops. rn_broker r = fold (paper_step std_limits) ops sample_broker \<and> list_all interface_call ops)
     \<and> \<not> rn_shutdown sample_start \<and> br_state (rn_breaker r) = CLOSED"
proof -
  let ?r1 = "handle_item sample_tick_item sample_start"
  have run: "\<not> rn_shutdown sample_start" "\<not> rn_shutdown ?r1"
    by (simp_all add: sample_start_def start_lifecycle_def sync_initial_state_def sample_init_def init_runner_def
      save_starting_def session_eval sample_outside_def startup_reset_def breaker_allows_def init_breaker_def
      allow_request_def seed_historical_candles_def sample_tick_item_def handle_item_def handle_tick_def
      fresh_def parse_ts_def py_isdigit_def is_digit_def parse_opt_def int_of_digits_def digit_val_def
      sound_tick_def positive_number_def data_arrived_def)
  have "session_step 8000 sample_start ?r1" by (rule step_item)
  moreover have "session_step 8000 ?r1 (heartbeat ''t'' ?r1)" using run by (intro step_heartbeat)
  ultimately have "(session_step 8000)\<^sup>*\<^sup>* sample_start (heartbeat ''t'' ?r1)" by simp
  from session_refines_broker_calls [OF sample_sync_eq [unfolded sample_init_def] this [unfolded sample_start_def sample_init_def]]
  show ?thesis using sample_sync run by (auto simp: sample_init_def sample_start_def Let_def)
qed

section \<open>The books of a session\<close>




section \<open>Stopping\<close>


text \<open>And that order does reach it: the switch is read before the wait, not after.\<close>

lemma kill_switch_misses_the_order_in_flight:
  "rn_executing r = Some q \<Longrightarrow>
   session_step hard_stop r (execution_fire q r)
     \<and> rn_broker (execution_fire q r)
       = snd (on_candle (rn_limits r) (q_candle q) (Some (q_order q)) (rn_latest_tick r) (rn_broker r))"
proof (intro conjI)
  show "rn_executing r = Some q \<Longrightarrow> session_step hard_stop r (execution_fire q r)" by (rule step_fire)
  show "rn_broker (execution_fire q r)
       = snd (on_candle (rn_limits r) (q_candle q) (Some (q_order q)) (rn_latest_tick r) (rn_broker r))"
    by (auto simp: execution_fire_def release_order_def after_execution_def breaker_allows_def session_eval
      split: prod.splits sum.splits)
qed




section \<open>Candles\<close>

definition bar_frame :: "runner \<Rightarrow> string option \<times> limits" where
  "bar_frame r = (rn_last_candle_ts r, rn_limits r)"

lemma bar_frame_simps [simp]:
  "bar_frame (log_events es r) = bar_frame r" "bar_frame (request_shutdown reason r) = bar_frame r"
  "bar_frame (count_error r) = bar_frame r"
  by (simp_all add: bar_frame_def session_eval)












section \<open>Dead market data\<close>

definition rest_alive :: "runner \<Rightarrow> bool" where
  "rest_alive r \<longleftrightarrow> (\<forall>k n. \<exists>c cs. rn_rest r k n = Inr (c # cs))"

definition clock_paced :: "runner \<Rightarrow> bool" where
  "clock_paced r \<longleftrightarrow> (\<forall>k. rn_clock r k \<le> rn_clock r (Suc k) \<and> rn_clock r (Suc k) \<le> rn_clock r k + 15)"

definition feed_dead :: "runner \<Rightarrow> bool" where
  "feed_dead r \<longleftrightarrow> rest_alive r \<and> clock_paced r \<and> rn_last_rest_poll r \<le> rn_last_data_time r
     \<and> rn_clock r 0 \<le> rn_last_data_time r + 30 \<and> 30 \<le> rn_stale_timeout r"

definition untouched :: "runner \<Rightarrow> runner \<Rightarrow> bool" where
  "untouched r r' \<longleftrightarrow> rn_shutdown r' = rn_shutdown r \<and> rn_errors r' = rn_errors r
     \<and> rn_stale_attempts r' = rn_stale_attempts r \<and> rn_broker r' = rn_broker r
     \<and> rn_iterations r' = rn_iterations r \<and> rn_queue r' = rn_queue r \<and> rn_latest_tick r' = rn_latest_tick r
     \<and> rn_events r' = rn_events r"

lemma clock_pacedD: "clock_paced r \<Longrightarrow> rn_clock r k \<le> rn_clock r (Suc k) \<and> rn_clock r (Suc k) \<le> rn_clock r k + 15"
  by (simp add: clock_paced_def)

lemma rest_poll_alive:
  assumes "rest_alive r" "15 \<le> rn_clock r 0 - rn_last_rest_poll r"
  shows "untouched r (rest_poll r)" "rn_last_data_time (rest_poll r) = rn_clock r 1"
    "rn_last_rest_poll (rest_poll r) = rn_clock r 0" "rn_clock (rest_poll r) = (\<lambda>k. rn_clock r (Suc (Suc k)))"
    "rn_stale_timeout (rest_poll r) = rn_stale_timeout r" "rest_alive (rest_poll r)"
proof -
  obtain c cs where rest: "rn_rest r 0 2 = Inr (c # cs)" using assms(1) unfolding rest_alive_def by metis
  obtain l ol where l: "rev (normalize_candle_order (c # cs)) = l # ol"
    by (metis length_normalize length_rev list.distinct(1) list.exhaust list.size(3) length_0_conv)
  show "untouched r (rest_poll r)" "rn_last_data_time (rest_poll r) = rn_clock r 1"
    "rn_last_rest_poll (rest_poll r) = rn_clock r 0" "rn_clock (rest_poll r) = (\<lambda>k. rn_clock r (Suc (Suc k)))"
    "rn_stale_timeout (rest_poll r) = rn_stale_timeout r" "rest_alive (rest_poll r)"
    using assms rest l
    by (auto simp: rest_poll_def rn_time_def load_rest_def trim_candles_def untouched_def rest_alive_def Let_def)
qed

lemma stale_check_dead:
  assumes "feed_dead r" "\<not> rn_shutdown r"
  shows "feed_dead (stale_check r) \<and> untouched r (stale_check r)"
proof -
  let ?r1 = "r\<lparr>rn_clock := \<lambda>k. rn_clock r (Suc k)\<rparr>"
  note d = assms(1) [unfolded feed_dead_def]
  have p: "rn_clock r k \<le> rn_clock r (Suc k) \<and> rn_clock r (Suc k) \<le> rn_clock r k + 15" for k
    using d clock_pacedD by blast
  have p1: "clock_paced ?r1" and a1: "rest_alive ?r1" using d by (simp_all add: clock_paced_def rest_alive_def)
  have u1: "untouched r ?r1" by (simp add: untouched_def)
  show ?thesis
  proof (cases "15 < rn_clock r 0 - rn_last_data_time r")
    case False
    then have "stale_check r = ?r1" using d by (simp add: stale_check_def rn_time_def Let_def)
    moreover have "feed_dead ?r1" using d p1 a1 p [of 0] False by (simp add: feed_dead_def)
    ultimately show ?thesis using u1 by simp
  next
    case True
    let ?r2 = "rest_poll ?r1"
    have "15 \<le> rn_clock ?r1 0 - rn_last_rest_poll ?r1" using True d p [of 0] by simp
    note q = rest_poll_alive [OF a1 this]
    have eq: "stale_check r = ?r2"
      using True d q(5) by (simp add: stale_check_def rn_time_def Let_def)
    have "rn_clock r (Suc (Suc (Suc 0))) \<le> rn_clock r (Suc (Suc 0)) + 30"
      using p [of "Suc (Suc 0)"] by linarith
    moreover have "rn_clock r (Suc 0) \<le> rn_clock r (Suc (Suc 0))" using p [of "Suc 0"] by simp
    ultimately have "feed_dead ?r2"
      using q d p by (simp add: feed_dead_def clock_paced_def)
    moreover have "untouched r ?r2" using q(1) u1 by (simp add: untouched_def)
    ultimately show ?thesis unfolding eq by simp
  qed
qed

text \<open>While the REST end point answers, a dead stream is never noticed: the stale-data task, run
  any number of times with readings of the clock at most fifteen seconds apart, neither restarts
  the provider nor counts an error nor stops the session, because each poll resets the age of the
  data; and all that time neither the strategy nor the broker is called, so no stop is checked.\<close>

theorem rest_polls_hide_a_dead_feed:
  assumes "feed_dead r" "\<not> rn_shutdown r"
  shows "feed_dead ((stale_check ^^ n) r) \<and> untouched r ((stale_check ^^ n) r)"
proof (induction n)
  case 0
  then show ?case using assms by (simp add: untouched_def)
next
  case (Suc n)
  then have "\<not> rn_shutdown ((stale_check ^^ n) r)" using assms(2) by (simp add: untouched_def)
  with Suc stale_check_dead [of "(stale_check ^^ n) r"] show ?case by (simp add: untouched_def)
qed

theorem rest_polls_hide_a_dead_feed_witness:
  "\<not> rn_shutdown ((stale_check ^^ 1000) sample_init) \<and> rn_stale_attempts ((stale_check ^^ 1000) sample_init) = 0"
proof -
  have "feed_dead sample_init" "\<not> rn_shutdown sample_init" "rn_stale_attempts sample_init = 0"
    by (simp_all add: feed_dead_def rest_alive_def clock_paced_def sample_init_def init_runner_def
      sample_outside_def Let_def)
  with rest_polls_hide_a_dead_feed [of sample_init 1000] show ?thesis by (simp add: untouched_def)
qed

section \<open>What shutting down leaves\<close>

lemma shutdown_broker_result:
  assumes "b_state_path b"
  shows "b_working_orders (shutdown_broker b) = [] \<and> b_pos (shutdown_broker b) = b_pos b
     \<and> (\<exists>st. b_store (shutdown_broker b) (b_symbol b) = Some st \<and> sv_working_orders st = []
          \<and> sv_pos st = map_option save_pos (b_pos b) \<and> sv_current_equity st = b_current_equity b)"
  using assms by (auto simp: shutdown_broker_def save_state'_def time_time_def Let_def)

lemma exit_position_frame:
  "exit_position ts px reason b = (Inr x, b') \<Longrightarrow> b_state_path b' = b_state_path b \<and> b_symbol b' = b_symbol b"
  by (auto simp: exit_position_def rng_uniform_def Let_def split: option.splits prod.splits sum.splits)

lemma force_close_flat:
  assumes "force_close ts px r = (Inr (), r')"
  shows "b_pos (rn_broker r') = None" "rn_queue r' = rn_queue r"
    "b_state_path (rn_broker r') = b_state_path (rn_broker r)" "b_symbol (rn_broker r') = b_symbol (rn_broker r)"
proof -
  obtain xs b where c: "close_all ts px (rn_broker r) = (Inr xs, b)" and r': "r' = r\<lparr>rn_broker := b\<rparr>"
    using assms by (auto simp: force_close_def split: prod.splits sum.splits)
  have "b_pos b = None \<and> b_state_path b = b_state_path (rn_broker r) \<and> b_symbol b = b_symbol (rn_broker r)"
    using c by (auto simp: close_all_def elim!: bindS_cases dest: exit_position_frame split: if_splits)
  then show "b_pos (rn_broker r') = None" "rn_queue r' = rn_queue r"
    "b_state_path (rn_broker r') = b_state_path (rn_broker r)" "b_symbol (rn_broker r') = b_symbol (rn_broker r)"
    by (simp_all add: r')
qed

lemma final_save_fields:
  "rn_broker (final_save r) = shutdown_broker (rn_broker r)" "rn_queue (final_save r) = rn_queue r"
  by (simp_all add: final_save_def session_eval)

text \<open>A shutdown that does not raise leaves the queue empty, the broker flat whenever there is a
  price to close at, and no working order, neither in memory nor in the saved state: the orders
  still in the queue, drained into the working orders to be kept for the next start, are cancelled
  again before the state is written.\<close>

theorem shutdown_leaves_nothing_open:
  assumes "shutdown_finish ts r = (Inr (), r')" "b_state_path (rn_broker r)"
  shows "rn_queue r' = [] \<and> b_working_orders (rn_broker r') = []
     \<and> (0 < current_price r \<longrightarrow> b_pos (rn_broker r') = None)
     \<and> (\<exists>st. b_store (rn_broker r') (b_symbol (rn_broker r)) = Some st \<and> sv_working_orders st = []
          \<and> (0 < current_price r \<longrightarrow> sv_pos st = None)
          \<and> sv_current_equity st = b_current_equity (rn_broker r'))"
proof -
  let ?d = "drain_queue r"
  have price: "current_price ?d = current_price r" by (simp add: current_price_def drain_queue_def split: option.split)
  obtain r1 where r1: "r' = final_save r1" and
    m: "r1 = ?d \<and> \<not> (b_pos (rn_broker ?d) \<noteq> None \<and> 0 < current_price ?d)
      \<or> force_close ts (current_price ?d) ?d = (Inr (), r1)"
    using assms(1) by (auto simp: shutdown_finish_def Let_def split: prod.splits sum.splits if_splits)
  have f: "b_state_path (rn_broker r1)" "b_symbol (rn_broker r1) = b_symbol (rn_broker r)"
      "rn_queue r1 = []" "0 < current_price r \<longrightarrow> b_pos (rn_broker r1) = None"
    using m assms(2) force_close_flat [of ts "current_price ?d" ?d r1] price
    by (auto simp: drain_queue_def)
  have "b_current_equity (shutdown_broker (rn_broker r1)) = b_current_equity (rn_broker r1)"
    by (simp add: shutdown_broker_def)
  then show ?thesis using shutdown_broker_result [OF f(1)] f(2-4) unfolding r1 final_save_fields by auto
qed

definition closing_runner :: runner where
  "closing_runner = sample_init\<lparr>rn_candles := [sample_candle], rn_queue := [\<lparr>q_order = sample_order,
     q_candle = sample_candle, q_latency = 200\<rparr>]\<rparr>"

theorem shutdown_leaves_nothing_open_witness:
  "\<exists>r'. shutdown_finish ''t'' closing_runner = (Inr (), r') \<and> b_working_orders (rn_broker r') = []
     \<and> 0 < current_price closing_runner \<and> b_pos (rn_broker r') = None \<and> rn_queue closing_runner \<noteq> []"
proof -
  have b: "b_pos (rn_broker closing_runner) = None" "b_state_path (rn_broker closing_runner)"
    "rn_latest_tick closing_runner = None" "rn_candles closing_runner = [sample_candle]" "rn_queue closing_runner \<noteq> []"
    by (simp_all add: closing_runner_def sample_init_def init_runner_def Let_def)
  then have e: "shutdown_finish ''t'' closing_runner = (Inr (), final_save (drain_queue closing_runner))"
    by (simp add: shutdown_finish_def Let_def drain_queue_def)
  have "0 < current_price closing_runner" using b by (simp add: current_price_def sample_candle_def)
  with shutdown_leaves_nothing_open [OF e b(2)] e b show ?thesis by blast
qed

section \<open>The equity a session starts from\<close>

text \<open>A session takes the broker's persisted starting equity unless a balance other than 10000 is
  asked for, which it then imposes on the broker; but with no exposure left and a loss of at least
  the daily limit it starts over from the current equity, for the broker too, so that neither the
  heartbeat's kill switch nor the broker's daily-loss check remembers the loss.\<close>

theorem restart_forgets_the_daily_loss:
  assumes "sync_initial_state bal r = (Inr x, r')"
  shows "let b = rn_broker r; base = (if bal = 10000 then b_starting_equity b else bal);
             forget = (b_pos b = None \<and> b_working_orders b = [] \<and> 0 < base
               \<and> MAX_DAILY_LOSS_USD (rn_limits r) \<le> base - b_current_equity b)
         in rn_starting_equity r' = x \<and> b_starting_equity (rn_broker r') = x
            \<and> x = (if forget then b_current_equity b else base)
            \<and> b_current_equity (rn_broker r') = b_current_equity b"
proof -
  obtain y r1 where y: "(if bal = 10000 then (b_starting_equity (rn_broker r), r)
      else (bal, r\<lparr>rn_broker := (rn_broker r)\<lparr>b_starting_equity := bal\<rparr>\<rparr>)) = (y, r1)" by force
  obtain res r2 where s: "save_starting y r1 = (res, r2)" by force
  obtain z r3 where z: "startup_reset y r2 = (z, r3)" by force
  have r': "x = z" "r' = r3\<lparr>rn_starting_equity := z\<rparr>"
    using assms y s z by (cases res; auto simp: sync_initial_state_def Let_def split: if_splits)+
  define base where "base = (if bal = 10000 then b_starting_equity (rn_broker r) else bal)"
  have r1: "y = base" "b_pos (rn_broker r1) = b_pos (rn_broker r)"
    "b_working_orders (rn_broker r1) = b_working_orders (rn_broker r)"
    "b_current_equity (rn_broker r1) = b_current_equity (rn_broker r)" "rn_limits r1 = rn_limits r"
    "b_starting_equity (rn_broker r1) = base"
    using y by (auto simp: base_def split: if_splits)
  note f = save_starting_frame [OF s]
  define t where "t = r2\<lparr>rn_broker := (rn_broker r2)\<lparr>b_starting_equity := b_current_equity (rn_broker r2)\<rparr>\<rparr>"
  obtain res' r4 where s': "save_starting (b_current_equity (rn_broker r2)) t = (res', r4)" by force
  note f' = save_starting_frame [OF s']
  show ?thesis
    using z s' f f' r1 unfolding r' base_def [symmetric] Let_def startup_reset_def t_def [symmetric]
    by (auto simp: t_def base_def split: if_splits)
qed

theorem restart_forgets_the_daily_loss_witness:
  "\<exists>r'. sync_initial_state 10000 (sample_init\<lparr>rn_broker := sample_broker\<lparr>b_current_equity := 9000\<rparr>\<rparr>) = (Inr 9000, r')
     \<and> b_starting_equity (rn_broker r') = 9000"
proof -
  let ?r = "sample_init\<lparr>rn_broker := sample_broker\<lparr>b_current_equity := 9000\<rparr>\<rparr>"
  have "\<exists>x r'. sync_initial_state 10000 ?r = (Inr x, r')"
    by (simp add: sync_initial_state_def sample_init_def init_runner_def save_starting_def session_eval
      sample_outside_def split: prod.split)
  then obtain x r' where e: "sync_initial_state 10000 ?r = (Inr x, r')" by blast
  have "rn_limits ?r = std_limits" by (simp add: sample_init_def init_runner_def Let_def)
  with restart_forgets_the_daily_loss [OF e] have "x = 9000" "b_starting_equity (rn_broker r') = x"
    by (simp_all add: Let_def)
  with e show ?thesis by blast
qed

section \<open>Further behaviours worth knowing\<close>

text \<open>
  The equity sentinel values the account at price zero as long as no tick has arrived: the position
  is left out of the equity, and when the balance alone breaches the threshold it is sold at zero.
\<close>

lemma sentinel_sells_at_zero_before_the_first_tick:
  "rn_latest_tick r = None \<Longrightarrow> b_current_equity (rn_broker r) < hard_stop \<Longrightarrow>
     rn_broker (equity_sentinel ts hard_stop r) = snd (close_all ts 0 (rn_broker r))"
  by (auto simp: equity_sentinel_def force_close_def request_shutdown_def split: prod.splits sum.splits)

text \<open>
  Funding is charged only when the provider offers \<open>funding_rate\<close> as a coroutine function. The method
  of \<^verbatim>\<open>BitunixFuturesProvider\<close> is an ordinary one and the mock and replay providers have none.
\<close>

lemma funding_needs_a_coroutine:
  "rn_broker (funding_tick hour minute ts None r) = rn_broker r"
  by (simp add: funding_tick_def Let_def)

text \<open>
  A candle older than the seeded history is appended behind it: only its timestamp's difference from
  the newest candle's is checked, and \<open>last_candle_ts\<close> is still unset after seeding.
\<close>

lemma stale_first_candle_is_appended:
  "c_ts c \<noteq> c_ts (last cs) \<Longrightarrow> cs \<noteq> [] \<Longrightarrow> length cs < rn_warmup r \<Longrightarrow> length cs < MAX_CANDLE_BUFFER (rn_limits r)
     \<Longrightarrow> rn_candles (append_candle c (r\<lparr>rn_candles := cs\<rparr>)) = cs @ [c]"
  by (simp add: append_candle_def on_candle_closed_def trim_candles_def Let_def)

end
