(* ===== verification/Bitunix_Client.thy ===== *)
theory Bitunix_Client
  imports Live_Broker Timestamps Resilience
begin

text \<open>
  Calls to the exchange: \<^verbatim>\<open>data/providers/bitunix_signing.py\<close>, \<^verbatim>\<open>bitunix_client.py\<close> (signing, the check of
  the payload, rate limit, retries, circuit breaker, classification of errors), the candle requests
  of \<^verbatim>\<open>bitunix_futures.py\<close> and the parsing of pushed messages in \<^verbatim>\<open>bitunix_websocket.py\<close>.

  The network, the hash function and the text of a float are not code of the repository: they are a
  record \<open>transport\<close>, whose \<open>tr_send\<close> answers a request with the decoded JSON or the exception of
  \<open>httpx\<close>. Candles with infinite or undefined prices are outside the model of \<open>klines\<close>.
\<close>

section \<open>JSON\<close>

datatype json =
    JNull
  | JBool bool
  | JNum pyfloat
  | JStr string
  | JArr "json list"
  | JObj "(string \<times> json) list"

text \<open>\<open>d.get(k)\<close>: of two equal keys the decoder keeps the last; an absent one is null.\<close>

definition jget :: "(string \<times> json) list \<Rightarrow> string \<Rightarrow> json" where
  "jget kvs k = (case map_of (rev kvs) k of None \<Rightarrow> JNull | Some v \<Rightarrow> v)"

definition jget_or :: "(string \<times> json) list \<Rightarrow> string \<Rightarrow> json \<Rightarrow> json" where
  "jget_or kvs k d = (case map_of (rev kvs) k of None \<Rightarrow> d | Some v \<Rightarrow> v)"

fun jtrue :: "json \<Rightarrow> bool" where
  "jtrue JNull = False"
| "jtrue (JBool b) = b"
| "jtrue (JNum x) = (x \<noteq> Fin 0)"
| "jtrue (JStr s) = (s \<noteq> [])"
| "jtrue (JArr xs) = (xs \<noteq> [])"
| "jtrue (JObj kvs) = (kvs \<noteq> [])"

text \<open>\<open>float(s)\<close> on a string, without its underscores and surrounding blanks.\<close>

definition unsigned_decimal :: "string \<Rightarrow> real option" where
  "unsigned_decimal s =
     (let i = takeWhile is_digit s; s1 = dropWhile is_digit s;
          (f, s2) = (case s1 of [] \<Rightarrow> ([], []) | c # r \<Rightarrow>
             if c = CHR ''.'' then (takeWhile is_digit r, dropWhile is_digit r) else ([], s1));
          m = of_int (int_of_digits i) + of_int (int_of_digits f) / 10 ^ length f
      in if i = [] \<and> f = [] then None
         else case s2 of [] \<Rightarrow> Some m
           | e # r \<Rightarrow>
             (let neg = str_startswith ''-'' r;
                  ds = (if neg \<or> str_startswith ''+'' r then tl r else r)
              in if (e = CHR ''e'' \<or> e = CHR ''E'') \<and> py_isdigit ds
                 then Some (if neg then m / 10 ^ nat (int_of_digits ds) else m * 10 ^ nat (int_of_digits ds))
                 else None))"

definition float_of_string :: "string \<Rightarrow> pyfloat res" where
  "float_of_string s0 =
     (let neg = str_startswith ''-'' s0;
          s = (if neg \<or> str_startswith ''+'' s0 then tl s0 else s0)
      in if py_lower s = ''nan'' then Inr NaN
         else if py_lower s = ''inf'' \<or> py_lower s = ''infinity'' then Inr (if neg then NInf else PInf)
         else case unsigned_decimal s of
             None \<Rightarrow> Inl (ValueError ''could not convert string to float'')
           | Some x \<Rightarrow> Inr (Fin (if neg then - x else x)))"

fun float_of_json :: "json \<Rightarrow> pyfloat res" where
  "float_of_json (JNum x) = Inr x"
| "float_of_json (JBool b) = Inr (Fin (if b then 1 else 0))"
| "float_of_json (JStr s) = float_of_string s"
| "float_of_json j = Inl TypeError"

fun int_of_json :: "json \<Rightarrow> int res" where
  "int_of_json (JNum (Fin x)) = Inr (py_int x)"
| "int_of_json (JNum x) = Inl (ValueError ''cannot convert float to integer'')"
| "int_of_json (JBool b) = Inr (if b then 1 else 0)"
| "int_of_json (JStr s) =
     (let neg = str_startswith ''-'' s; ds = (if neg then tl s else s)
      in if py_isdigit ds then Inr (if neg then - int_of_digits ds else int_of_digits ds)
         else Inl (ValueError ''invalid literal for int()''))"
| "int_of_json j = Inl TypeError"

section \<open>Requests and signatures\<close>

datatype pval = PStr string | PInt int

fun pval_str :: "pval \<Rightarrow> string" where
  "pval_str (PStr s) = s"
| "pval_str (PInt n) = str_of_int n"

record auth =
  au_key :: string
  au_timestamp :: int
  au_nonce :: string
  au_sign :: string

record request =
  rq_method :: string
  rq_path :: string
  rq_params :: "(string \<times> pval) list"
  rq_body :: "json option"
  rq_auth :: "auth option"

record 'w transport =
  tr_send :: "request \<Rightarrow> ('w, json) py"
  tr_sha :: "string \<Rightarrow> string"
  tr_repr :: "pyfloat \<Rightarrow> string"

text \<open>\<open>json.dumps\<close> without blanks; of the escapes only the quote and the backslash occur.\<close>

definition escaped :: "string \<Rightarrow> string" where
  "escaped s = CHR 0x22 # concat (map (\<lambda>c. if c = CHR 0x22 \<or> c = CHR 0x5C then [CHR 0x5C, c] else [c]) s) @ [CHR 0x22]"

fun minified_json :: "(pyfloat \<Rightarrow> string) \<Rightarrow> json \<Rightarrow> string"
  and minified_list :: "(pyfloat \<Rightarrow> string) \<Rightarrow> json list \<Rightarrow> string list"
  and minified_fields :: "(pyfloat \<Rightarrow> string) \<Rightarrow> (string \<times> json) list \<Rightarrow> string list" where
  "minified_json repr JNull = ''null''"
| "minified_json repr (JBool b) = (if b then ''true'' else ''false'')"
| "minified_json repr (JNum x) = repr x"
| "minified_json repr (JStr s) = escaped s"
| "minified_json repr (JArr xs) = ''['' @ concat (case minified_list repr xs of [] \<Rightarrow> [] | y # ys \<Rightarrow> y # map ((@) '','') ys) @ '']''"
| "minified_json repr (JObj kvs) = ''{'' @ concat (case minified_fields repr kvs of [] \<Rightarrow> [] | y # ys \<Rightarrow> y # map ((@) '','') ys) @ ''}''"
| "minified_list repr [] = []"
| "minified_list repr (x # xs) = minified_json repr x # minified_list repr xs"
| "minified_fields repr [] = []"
| "minified_fields repr ((k, v) # kvs) = (escaped k @ '':'' @ minified_json repr v) # minified_fields repr kvs"

text \<open>\<open>build_query_string\<close>: the parameters sorted by key, keys and values run together.\<close>

fun insert_param :: "string \<times> pval \<Rightarrow> (string \<times> pval) list \<Rightarrow> (string \<times> pval) list" where
  "insert_param p [] = [p]"
| "insert_param p (q # qs) = (if str_less (fst q) (fst p) then q # insert_param p qs else p # q # qs)"

definition sort_params :: "(string \<times> pval) list \<Rightarrow> (string \<times> pval) list" where
  "sort_params ps = foldr insert_param ps []"

definition build_query_string :: "(string \<times> pval) list \<Rightarrow> string" where
  "build_query_string ps = concat (map (\<lambda>(k, v). k @ pval_str v) (sort_params ps))"

definition sign_rest :: "(string \<Rightarrow> string) \<Rightarrow> string \<Rightarrow> int \<Rightarrow> string \<Rightarrow> string \<Rightarrow> string \<Rightarrow> string \<Rightarrow> string" where
  "sign_rest sha nonce ts api_key secret_key query_params body =
     sha (sha (nonce @ str_of_int ts @ api_key @ query_params @ body) @ secret_key)"

definition sign_ws :: "(string \<Rightarrow> string) \<Rightarrow> string \<Rightarrow> int \<Rightarrow> string \<Rightarrow> string \<Rightarrow> string \<Rightarrow> string" where
  "sign_ws sha nonce ts api_key secret_key params_string =
     sha (sha (nonce @ str_of_int ts @ api_key @ params_string) @ secret_key)"

section \<open>The client\<close>

record 'w client =
  cl_api_key :: "string option"
  cl_secret :: "string option"
  cl_policy :: retry_policy
  cl_breaker :: breaker
  cl_limiter :: rate_limiter
  cl_clock :: "nat \<Rightarrow> real"
  cl_net :: 'w

definition init_client :: "string option \<Rightarrow> string option \<Rightarrow> rate_limiter \<Rightarrow> (nat \<Rightarrow> real) \<Rightarrow> 'w \<Rightarrow> 'w client" where
  "init_client key secret limiter clk net =
     \<lparr>cl_api_key = key, cl_secret = secret, cl_policy = \<lparr>max_attempts = 3, base_delay = 1 / 10\<rparr>,
      cl_breaker = init_breaker 3 60 60, cl_limiter = limiter, cl_clock = clk, cl_net = net\<rparr>"

definition cl_time :: "'w client \<Rightarrow> real \<times> 'w client" where
  "cl_time c = (cl_clock c 0, c\<lparr>cl_clock := \<lambda>k. cl_clock c (Suc k)\<rparr>)"

definition check_payload :: "json \<Rightarrow> json res" where
  "check_payload p =
     (case p of
        JObj kvs \<Rightarrow> if jget kvs ''code'' = JNum (Fin 0) \<or> jget kvs ''code'' = JBool False then Inr p
                    else Inl (RuntimeError ''Bitunix API error'')
      | _ \<Rightarrow> Inr p)"

definition send_checked :: "'w transport \<Rightarrow> request \<Rightarrow> ('w client, json) py" where
  "send_checked T rq c = (case tr_send T rq (cl_net c) of (r, w) \<Rightarrow> (bindE r check_payload, c\<lparr>cl_net := w\<rparr>))"

definition raw_get :: "'w transport \<Rightarrow> string \<Rightarrow> (string \<times> pval) list \<Rightarrow> ('w client, json) py" where
  "raw_get T path params = send_checked T
     \<lparr>rq_method = ''GET'', rq_path = path, rq_params = params, rq_body = None, rq_auth = None\<rparr>"

definition raw_post :: "'w transport \<Rightarrow> string \<Rightarrow> json \<Rightarrow> ('w client, json) py" where
  "raw_post T path body = send_checked T
     \<lparr>rq_method = ''POST'', rq_path = path, rq_params = [], rq_body = Some body, rq_auth = None\<rparr>"

text \<open>Both signed requests: the keys, two readings of the clock, the signature over query and body.\<close>

definition signed :: "'w transport \<Rightarrow> string \<Rightarrow> string \<Rightarrow> (string \<times> pval) list \<Rightarrow> json option \<Rightarrow> ('w client, json) py" where
  "signed T method path params body c =
     (let key = str_or (cl_api_key c) []; secret = str_or (cl_secret c) []
      in if key = [] \<or> secret = [] then (Inl (RuntimeError ''API key and secret key required for signed requests''), c)
         else let (t1, c1) = cl_time c; (t2, c2) = cl_time c1;
                  ts = py_int (t1 * 1000); nonce = str_of_int (py_int (t2 * 1000000));
                  sig = sign_rest (tr_sha T) nonce ts key secret (build_query_string params)
                    (case body of None \<Rightarrow> [] | Some j \<Rightarrow> minified_json (tr_repr T) j)
              in send_checked T \<lparr>rq_method = method, rq_path = path, rq_params = params, rq_body = body,
                   rq_auth = Some \<lparr>au_key = key, au_timestamp = ts, au_nonce = nonce, au_sign = sig\<rparr>\<rparr> c2)"

definition raw_get_signed :: "'w transport \<Rightarrow> string \<Rightarrow> (string \<times> pval) list \<Rightarrow> ('w client, json) py" where
  "raw_get_signed T path params = signed T ''GET'' path params None"

definition raw_post_signed :: "'w transport \<Rightarrow> string \<Rightarrow> json \<Rightarrow> ('w client, json) py" where
  "raw_post_signed T path body = signed T ''POST'' path [] (Some body)"

subsection \<open>Resilience\<close>

fun classify_error :: "py_exc \<Rightarrow> py_exc" where
  "classify_error TimeoutException = TransientProviderError"
| "classify_error (HTTPStatusError n) =
     (if n = 429 then RateLimitProviderError
      else if n = 401 \<or> n = 403 then AuthProviderError else UnknownProviderError)"
| "classify_error e = UnknownProviderError"

definition note_failure :: "'w client \<Rightarrow> 'w client" where
  "note_failure c = (let (t1, c1) = cl_time c; (t2, c2) = cl_time c1
     in c2\<lparr>cl_breaker := record_failure t1 t2 (cl_breaker c2)\<rparr>)"

definition wait_turn :: "'w client \<Rightarrow> 'w client" where
  "wait_turn c = (let (now, c1) = cl_time c; (delay, l) = wait_slot now (cl_limiter c1) in c1\<lparr>cl_limiter := l\<rparr>)"

definition execute_call :: "string \<Rightarrow> ('w client, 'a) py \<Rightarrow> ('w client, 'a) py" where
  "execute_call operation fn c =
     (case with_retry (cl_policy c) operation fn (wait_turn c) of
        (Inr a, c', sleeps) \<Rightarrow> (Inr a, c')
      | (Inl e, c', sleeps) \<Rightarrow> (Inl (classify_error e), note_failure c'))"

definition call_resilient :: "string \<Rightarrow> ('w client, 'a) py \<Rightarrow> ('w client, 'a) py" where
  "call_resilient operation fn c =
     (if br_state (cl_breaker c) = OPEN
      then (let (now, c1) = cl_time c
            in if now - opened_at (cl_breaker c1) < recovery_timeout (cl_breaker c1)
               then (Inl CircuitBreakerOpenError, c1)
               else execute_call operation fn
                      (c1\<lparr>cl_breaker := (cl_breaker c1)\<lparr>br_state := CLOSED, failures := []\<rparr>\<rparr>))
      else execute_call operation fn c)"

definition client_get :: "'w transport \<Rightarrow> string \<Rightarrow> (string \<times> pval) list \<Rightarrow> bool \<Rightarrow> ('w client, json) py" where
  "client_get T path params is_signed =
     (if is_signed then call_resilient ''GET_SIGNED'' (raw_get_signed T path params)
      else call_resilient ''GET'' (raw_get T path params))"

definition client_post :: "'w transport \<Rightarrow> string \<Rightarrow> json \<Rightarrow> bool \<Rightarrow> ('w client, json) py" where
  "client_post T path body is_signed =
     (if is_signed then call_resilient ''POST_SIGNED'' (raw_post_signed T path body)
      else call_resilient ''POST'' (raw_post T path body))"

end
