(* ===== verification/Market_Data.thy ===== *)
theory Market_Data
  imports Bitunix_Client Session
begin

text \<open>
  Candles from the exchange: the REST requests of \<^verbatim>\<open>data/providers/bitunix_futures.py\<close> with their
  backward paging, the merge with the latest candle of the stream, and the parsing of pushed
  messages and the registry of clients in \<^verbatim>\<open>bitunix_websocket.py\<close>.
\<close>

section \<open>REST candles\<close>

definition finite_float :: "json \<Rightarrow> real res" where
  "finite_float j = bindE (float_of_json j)
     (\<lambda>x. case x of Fin r \<Rightarrow> Inr r | _ \<Rightarrow> Inl (OtherError ''non-finite price''))"

fun mapE :: "('a \<Rightarrow> 'b res) \<Rightarrow> 'a list \<Rightarrow> 'b list res" where
  "mapE f [] = Inr []"
| "mapE f (x # xs) = bindE (f x) (\<lambda>y. bindE (mapE f xs) (\<lambda>ys. Inr (y # ys)))"

definition candle_of_row :: "json \<Rightarrow> candle res" where
  "candle_of_row row =
     (case row of
        JObj kvs \<Rightarrow>
          bindE (int_of_json (jget kvs ''time'')) (\<lambda>t.
          bindE (iso_of_ms t) (\<lambda>ts.
          bindE (finite_float (jget kvs ''open'')) (\<lambda>o'.
          bindE (finite_float (jget kvs ''high'')) (\<lambda>h.
          bindE (finite_float (jget kvs ''low'')) (\<lambda>l.
          bindE (finite_float (jget kvs ''close'')) (\<lambda>c.
          bindE (if jget kvs ''baseVol'' = JNull then Inr 0 else finite_float (jget kvs ''baseVol'')) (\<lambda>v.
          Inr \<lparr>c_ts = ts, c_open = o', c_high = h, c_low = l, c_close = c, c_volume = v\<rparr>)))))))
      | _ \<Rightarrow> Inl AttributeError)"

text \<open>\<open>payload.get("data") or []\<close> as a list to iterate over.\<close>

definition data_rows :: "json \<Rightarrow> json list res" where
  "data_rows payload =
     (case payload of
        JObj kvs \<Rightarrow> (case jget kvs ''data'' of JArr rows \<Rightarrow> Inr rows
                     | j \<Rightarrow> if jtrue j then Inl TypeError else Inr [])
      | _ \<Rightarrow> Inl AttributeError)"

definition kline_path :: string where
  "kline_path = ''/api/v1/futures/market/kline''"

definition kline_params :: "string \<Rightarrow> string \<Rightarrow> int \<Rightarrow> int option \<Rightarrow> int option \<Rightarrow> (string \<times> pval) list" where
  "kline_params symbol interval limit start_ms end_ms =
     [(''symbol'', PStr symbol), (''interval'', PStr interval), (''limit'', PInt (max 1 (min limit 200)))]
     @ (case start_ms of None \<Rightarrow> [] | Some t \<Rightarrow> [(''startTime'', PInt t)])
     @ (case end_ms of None \<Rightarrow> [] | Some t \<Rightarrow> [(''endTime'', PInt t)])"

definition klines :: "'w transport \<Rightarrow> string \<Rightarrow> string \<Rightarrow> int \<Rightarrow> int option \<Rightarrow> int option \<Rightarrow> ('w client, candle list) py" where
  "klines T symbol interval limit start_ms end_ms =
     bindS (client_get T kline_path (kline_params symbol interval limit start_ms end_ms) False)
       (\<lambda>payload. liftS (bindE (data_rows payload) (mapE candle_of_row)))"

text \<open>\<open>sorted(rows, key=lambda c: c.ts)\<close>, which is stable.\<close>

fun insert_candle :: "candle \<Rightarrow> candle list \<Rightarrow> candle list" where
  "insert_candle c [] = [c]"
| "insert_candle c (d # ds) = (if str_less (c_ts d) (c_ts c) then d # insert_candle c ds else c # d # ds)"

definition sort_candles :: "candle list \<Rightarrow> candle list" where
  "sort_candles cs = foldr insert_candle cs []"

lemma length_insert_candle [simp]: "length (insert_candle c cs) = Suc (length cs)"
  by (induction cs) auto

lemma length_sort_candles [simp]: "length (sort_candles cs) = length cs"
  by (induction cs) (simp_all add: sort_candles_def)

text \<open>
  Paging backwards from \<open>cursor\<close>, the newest batch first; the loop stops at an empty or a short
  batch, and every other batch lowers \<open>remaining\<close>.
\<close>

function page_loop ::
  "'w transport \<Rightarrow> string \<Rightarrow> string \<Rightarrow> int \<Rightarrow> int option \<Rightarrow> candle list \<Rightarrow> 'w client \<Rightarrow> candle list res \<times> 'w client" where
  "page_loop T symbol interval remaining cursor all_rows c =
     (if remaining \<le> 0 then (Inr all_rows, c)
      else let batch = min 200 remaining
           in case klines T symbol interval batch None cursor c of
             (Inl e, c1) \<Rightarrow> (Inl e, c1)
           | (Inr [], c1) \<Rightarrow> (Inr all_rows, c1)
           | (Inr (row # rows), c1) \<Rightarrow>
             let rs = sort_candles (row # rows); all1 = rs @ all_rows
             in case parse_iso_ms (c_ts (hd rs)) of
                  None \<Rightarrow> (Inl (ValueError ''Invalid isoformat string''), c1)
                | Some ms \<Rightarrow>
                  if int (length rs) < batch then (Inr all1, c1)
                  else page_loop T symbol interval (remaining - int (length rs)) (Some (ms - 1)) all1 c1)"
  by pat_completeness auto
termination
  by (relation "measure (\<lambda>(T, symbol, interval, remaining, cursor, all_rows, c). nat remaining)") auto

declare page_loop.simps [simp del]

definition klines_paged :: "'w transport \<Rightarrow> string \<Rightarrow> string \<Rightarrow> int \<Rightarrow> int option \<Rightarrow> ('w client, candle list) py" where
  "klines_paged T symbol interval total' end_ms =
     bindS (page_loop T symbol interval total' end_ms []) (\<lambda>all_rows.
       let rows = sort_candles all_rows
       in returnS (if total' < int (length rows)
                   then (if total' = 0 then rows else if total' < 0 then drop (nat (- total')) rows
                         else last_n (nat total') rows)
                   else rows))"

text \<open>One attempt of \<open>load_rest_candles\<close>: the merge with the stream's latest candle.\<close>

definition merge_latest :: "candle option \<Rightarrow> candle list \<Rightarrow> candle list" where
  "merge_latest latest out =
     (case latest of None \<Rightarrow> out
      | Some l \<Rightarrow>
        if out = [] then [l]
        else if str_less (c_ts (last out)) (c_ts l) then out @ [l]
        else if c_ts l = c_ts (last out) then butlast out @ [l]
        else out)"

definition load_rest_attempt :: "'w transport \<Rightarrow> string \<Rightarrow> string \<Rightarrow> int \<Rightarrow> candle option \<Rightarrow> ('w client, candle list) py" where
  "load_rest_attempt T symbol interval limit latest =
     bindS (klines_paged T symbol interval limit None) (\<lambda>out. returnS (merge_latest latest out))"

definition funding_rate :: "'w transport \<Rightarrow> string \<Rightarrow> ('w client, pyfloat option) py" where
  "funding_rate T symbol =
     bindS (client_get T ''/api/v1/futures/market/funding_rate'' [(''symbol'', PStr symbol)] False)
       (\<lambda>payload. liftS (case payload of
           JObj kvs \<Rightarrow>
             (let data = jget kvs ''data'';
                  fr = (case data of JObj d \<Rightarrow> Inr (jget d ''fundingRate'')
                        | JArr (JObj d # r) \<Rightarrow> Inr (jget d ''fundingRate'')
                        | JArr (x # r) \<Rightarrow> Inl AttributeError
                        | j \<Rightarrow> Inr JNull)
              in if \<not> jtrue data then Inr None
                 else bindE fr (\<lambda>j. if j = JNull then Inr None
                        else case float_of_json j of Inl e \<Rightarrow> Inr None | Inr x \<Rightarrow> Inr (Some x)))
         | _ \<Rightarrow> Inl AttributeError))"

section \<open>The stream\<close>

record ws_state =
  ws_symbol :: string
  ws_candle :: "raw_candle option"
  ws_tick :: "raw_tick option"
  ws_history :: "raw_candle list"
  ws_key :: "string option"
  ws_secret :: "string option"
  ws_order_cb :: bool
  ws_position_cb :: bool
  ws_running :: bool
  ws_authenticated :: bool
  ws_last_pong :: real
  ws_delay :: real

text \<open>What a push delivers to the broker's callbacks.\<close>

datatype ws_event = OrderPush order_event | PositionPush position_event

fun str_of_json :: "json \<Rightarrow> string" where
  "str_of_json (JStr s) = s"
| "str_of_json j = []"

definition opt_float :: "json \<Rightarrow> real option res" where
  "opt_float j = (if jtrue j then bindE (finite_float j) (\<lambda>x. Inr (Some x)) else Inr None)"

text \<open>\<open>datetime.fromtimestamp(d.get("time", 0) / 1000.0, tz=utc).isoformat()\<close>.\<close>

definition push_time :: "(string \<times> json) list \<Rightarrow> string res" where
  "push_time d = (case jget_or d ''time'' (JNum (Fin 0)) of JNum (Fin t) \<Rightarrow> iso_of_ms (py_int t) | _ \<Rightarrow> Inl TypeError)"

text \<open>The private messages; as in the broker, the quantities and prices of an event are finite.\<close>

definition order_push :: "string \<Rightarrow> (string \<times> json) list \<Rightarrow> order_event res" where
  "order_push symbol d =
     bindE (finite_float (jget_or d ''qty'' (JNum (Fin 0)))) (\<lambda>q.
     bindE (opt_float (jget d ''price'')) (\<lambda>px.
     bindE (finite_float (jget_or d ''filledQty'' (JNum (Fin 0)))) (\<lambda>fq.
     bindE (opt_float (jget d ''avgPrice'')) (\<lambda>avg.
     bindE (push_time d) (\<lambda>ts.
     Inr \<lparr>oe_order_id = str_of_json (jget d ''orderId''), oe_symbol = str_of_json (jget_or d ''symbol'' (JStr symbol)),
          oe_side = str_of_json (jget d ''side''), oe_type = str_of_json (jget d ''orderType''),
          oe_status = str_of_json (jget d ''status''), oe_qty = q, oe_price = px, oe_filled_qty = fq,
          oe_avg_fill_price = avg, oe_timestamp = ts\<rparr>)))))"

definition position_push :: "string \<Rightarrow> (string \<times> json) list \<Rightarrow> position_event res" where
  "position_push symbol d =
     bindE (finite_float (jget_or d ''qty'' (JNum (Fin 0)))) (\<lambda>q.
     bindE (finite_float (jget_or d ''entryPrice'' (JNum (Fin 0)))) (\<lambda>px.
     bindE (finite_float (jget_or d ''unrealizedPnl'' (JNum (Fin 0)))) (\<lambda>u.
     bindE (push_time d) (\<lambda>ts.
     Inr \<lparr>pe_position_id = str_of_json (jget d ''positionId''), pe_symbol = str_of_json (jget_or d ''symbol'' (JStr symbol)),
          pe_side = str_of_json (jget d ''side''), pe_qty = q, pe_entry_price = px, pe_unrealized = u,
          pe_timestamp = ts\<rparr>))))"

text \<open>
  The private channels; a parse failure is logged. The callbacks are called only when they are set.
\<close>

definition push_private :: "string \<Rightarrow> (string \<times> json) list \<Rightarrow> ws_state \<Rightarrow> ws_event list" where
  "push_private channel d w =
     (if str_contains ''plan.order'' channel \<and> ws_order_cb w
      then (case order_push (ws_symbol w) d of Inr e \<Rightarrow> [OrderPush e] | Inl x \<Rightarrow> [])
      else if str_contains ''position'' channel \<and> ws_position_cb w
      then (case position_push (ws_symbol w) d of Inr e \<Rightarrow> [PositionPush e] | Inl x \<Rightarrow> [])
      else [])"

text \<open>
  The public channels. An unsound price leaves the whole message; any other failure only its part.
  \<open>PushBad\<close> is the early return.
\<close>

datatype 'a push_result = PushOk 'a | PushSkip | PushBad

definition floats_of :: "(string \<times> json) list \<Rightarrow> string list \<Rightarrow> pyfloat list res" where
  "floats_of d ks = mapE (\<lambda>k. float_of_json (jget_or d k (JNum (Fin 0)))) ks"

definition kline_push :: "(string \<times> json) list \<Rightarrow> raw_candle push_result" where
  "kline_push k =
     (case floats_of k [''open'', ''high'', ''low'', ''close'', ''baseVol''] of
        Inr [o', h, l, c, v] \<Rightarrow>
          (if \<not> list_all positive_number [o', h, l, c] then PushBad
           else case push_time k of Inl e \<Rightarrow> PushSkip
             | Inr ts \<Rightarrow> PushOk \<lparr>rc_ts = ts, rc_open = o', rc_high = h, rc_low = l, rc_close = c, rc_volume = v\<rparr>)
      | _ \<Rightarrow> PushSkip)"

definition ticker_push :: "string \<Rightarrow> (string \<times> json) list \<Rightarrow> raw_tick push_result" where
  "ticker_push symbol t =
     (case floats_of t [''buy'', ''sell'', ''last''] of
        Inr [bid, ask, l] \<Rightarrow>
          (if \<not> list_all positive_number [bid, ask, l] then PushBad
           else case push_time t of Inl e \<Rightarrow> PushSkip
             | Inr ts \<Rightarrow> PushOk \<lparr>rt_symbol = symbol, rt_bid = bid, rt_ask = ask, rt_last = l, rt_ts = ts\<rparr>)
      | _ \<Rightarrow> PushSkip)"

definition handle_push :: "(string \<times> json) list \<Rightarrow> ws_state \<Rightarrow> ws_event list \<times> ws_state" where
  "handle_push data w =
     (case jget_or data ''data'' (JObj []) of
        JObj d \<Rightarrow>
          (let evs = push_private (str_of_json (jget data ''channel'')) d w;
               kl = (case jget d ''kline'' of JObj (f # k) \<Rightarrow> kline_push (f # k)
                     | j \<Rightarrow> if jtrue j then PushBad else PushSkip);
               w1 = (case kl of PushOk c \<Rightarrow> w\<lparr>ws_candle := Some c\<rparr> | _ \<Rightarrow> w);
               tk = (case jget d ''ticker'' of JObj (f # t) \<Rightarrow> ticker_push (ws_symbol w) (f # t) | j \<Rightarrow> PushSkip)
           in (evs, if kl = PushBad then w1
                    else case tk of PushOk t \<Rightarrow> w1\<lparr>ws_tick := Some t\<rparr> | _ \<Rightarrow> w1))
      | _ \<Rightarrow> ([], w))"

text \<open>One round of \<open>listen\<close>: the tick is consumed, the candle is yielded again every time.\<close>

definition get_latest_tick :: "ws_state \<Rightarrow> raw_tick option \<times> ws_state" where
  "get_latest_tick w = (ws_tick w, w\<lparr>ws_tick := None\<rparr>)"

definition listen_round :: "ws_state \<Rightarrow> item list \<times> ws_state" where
  "listen_round w =
     (let (tick', w1) = get_latest_tick w
      in ((case tick' of None \<Rightarrow> [] | Some t \<Rightarrow> [TickItem t])
          @ (case ws_candle w1 of None \<Rightarrow> [] | Some c \<Rightarrow> [CandleItem c]), w1))"

definition get_candles :: "ws_state \<Rightarrow> raw_candle list" where
  "get_candles w =
     (case ws_candle w of
        None \<Rightarrow> ws_history w
      | Some l \<Rightarrow>
        if ws_history w = [] then [l]
        else if str_less (rc_ts (last (ws_history w))) (rc_ts l) then ws_history w @ [l]
        else if rc_ts l = rc_ts (last (ws_history w)) then butlast (ws_history w) @ [l]
        else ws_history w)"

text \<open>\<open>start\<close> tells whether a task is created, \<open>stop\<close> whether it is cancelled.\<close>

definition ws_start :: "ws_state \<Rightarrow> bool \<times> ws_state" where
  "ws_start w = (\<not> ws_running w, w\<lparr>ws_running := True\<rparr>)"

definition ws_stop :: "ws_state \<Rightarrow> bool \<times> ws_state" where
  "ws_stop w = (ws_running w, w\<lparr>ws_running := False\<rparr>)"

definition is_healthy :: "real \<Rightarrow> real \<Rightarrow> ws_state \<Rightarrow> bool" where
  "is_healthy now threshold w \<longleftrightarrow> now - ws_last_pong w < threshold"

definition given :: "string option \<Rightarrow> bool" where
  "given s \<longleftrightarrow> str_or s [] \<noteq> []"

text \<open>
  A connection: the login and the subscriptions that are sent when it is up, given the two readings
  of the clock for the signature.
\<close>

definition login_message :: "(string \<Rightarrow> string) \<Rightarrow> real \<Rightarrow> real \<Rightarrow> ws_state \<Rightarrow> json" where
  "login_message sha t1 t2 w =
     (let ts = py_int (t1 * 1000); nonce = str_of_int (py_int (t2 * 1000000));
          sig = sign_ws sha nonce ts (str_or (ws_key w) []) (str_or (ws_secret w) []) []
      in JObj [(''event'', JStr ''login''),
           (''params'', JObj [(''apiKey'', JStr (str_or (ws_key w) [])), (''timestamp'', JStr (str_of_int ts)),
              (''nonce'', JStr nonce), (''sign'', JStr sig)])])"

definition sub_message :: "string \<Rightarrow> string \<Rightarrow> json" where
  "sub_message symbol chan = JObj [(''event'', JStr ''sub''),
     (''params'', JObj [(''channel'', JStr chan), (''cb_id'', JStr (symbol @ ''_'' @ chan))])]"

definition on_connect :: "(string \<Rightarrow> string) \<Rightarrow> real \<Rightarrow> real \<Rightarrow> ws_state \<Rightarrow> json list \<times> ws_state" where
  "on_connect sha t1 t2 w =
     (let s = ws_symbol w; login = given (ws_key w) \<and> given (ws_secret w);
          w1 = w\<lparr>ws_delay := 1, ws_authenticated := login \<or> ws_authenticated w\<rparr>
      in ((if login then [login_message sha t1 t2 w] else [])
          @ map (sub_message s) [''market.'' @ s @ ''.kline.1m'', ''market.'' @ s @ ''.ticker'']
          @ (if ws_authenticated w1
             then map (sub_message s) [''private.'' @ s @ ''.plan.order'', ''private.'' @ s @ ''.position'']
             else []), w1))"

text \<open>
  A text message that decodes to an object: a ping is answered, a push is handled. \<open>now\<close> is the clock.
\<close>

definition on_text :: "real \<Rightarrow> (string \<times> json) list \<Rightarrow> ws_state \<Rightarrow> json list \<times> ws_event list \<times> ws_state" where
  "on_text now data w =
     (let w1 = w\<lparr>ws_last_pong := now\<rparr>
      in if map_of data ''ping'' \<noteq> None then ([JObj [(''pong'', jget data ''ping'')]], [], w1)
         else if jget data ''event'' = JStr ''channel_pushed''
         then (let (evs, w2) = handle_push data w1 in ([], evs, w2))
         else ([], [], w1))"

definition reconnect_wait :: "real \<Rightarrow> ws_state \<Rightarrow> real \<times> ws_state" where
  "reconnect_wait jitter w = (min (ws_delay w) 60 + jitter, w\<lparr>ws_delay := ws_delay w * 2\<rparr>)"

subsection \<open>The registry of clients\<close>

definition get_ws_client ::
  "real \<Rightarrow> string \<Rightarrow> string option \<Rightarrow> string option \<Rightarrow> bool \<Rightarrow> bool \<Rightarrow> (string \<rightharpoonup> ws_state) \<Rightarrow> ws_state \<times> (string \<rightharpoonup> ws_state)" where
  "get_ws_client now symbol key secret order_cb position_cb reg =
     (let w = (case reg symbol of
          None \<Rightarrow> \<lparr>ws_symbol = symbol, ws_candle = None, ws_tick = None, ws_history = [], ws_key = key,
                   ws_secret = secret, ws_order_cb = order_cb, ws_position_cb = position_cb,
                   ws_running = False, ws_authenticated = False, ws_last_pong = now, ws_delay = 1\<rparr>
        | Some w \<Rightarrow> w\<lparr>ws_key := (if given key \<and> \<not> given (ws_key w) then key else ws_key w),
                     ws_secret := (if given secret \<and> \<not> given (ws_secret w) then secret else ws_secret w),
                     ws_order_cb := ws_order_cb w \<or> order_cb,
                     ws_position_cb := ws_position_cb w \<or> position_cb\<rparr>)
      in (w, reg(symbol \<mapsto> w)))"

end
