(* ===== verification/Market_Properties.thy ===== *)
theory Market_Properties
  imports Market_Data
begin

text \<open>
  What the exchange client and the candle requests guarantee: paging backwards in batches returns
  the latest candles of the exchange's history in order; a client whose calls keep failing stops
  calling; an order whose answer is lost is posted again; pushed messages only ever store positive
  prices.
\<close>

section \<open>An exchange that serves a fixed history\<close>

record bar =
  bar_t :: int
  bar_o :: real
  bar_h :: real
  bar_l :: real
  bar_c :: real
  bar_v :: real

definition bar_row :: "bar \<Rightarrow> json" where
  "bar_row b = JObj [(''time'', JNum (Fin (of_int (1000 * bar_t b)))), (''open'', JNum (Fin (bar_o b))),
     (''high'', JNum (Fin (bar_h b))), (''low'', JNum (Fin (bar_l b))), (''close'', JNum (Fin (bar_c b))),
     (''baseVol'', JNum (Fin (bar_v b)))]"

definition ts_of :: "int \<Rightarrow> string" where
  "ts_of t = (case iso_of_ms (1000 * t) of Inr s \<Rightarrow> s | Inl e \<Rightarrow> [])"

definition bar_candle :: "bar \<Rightarrow> candle" where
  "bar_candle b = \<lparr>c_ts = ts_of (bar_t b), c_open = bar_o b, c_high = bar_h b, c_low = bar_l b,
     c_close = bar_c b, c_volume = bar_v b\<rparr>"

text \<open>Bars of whole seconds in ascending order, in years of four digits.\<close>

definition history_ok :: "bar list \<Rightarrow> bool" where
  "history_ok h \<longleftrightarrow> sorted_wrt (\<lambda>a b. bar_t a < bar_t b) h \<and> (\<forall>b\<in>set h. iso_of_ms (1000 * bar_t b) = Inr (ts_of (bar_t b)))"

fun wanted_limit :: "(string \<times> pval) list \<Rightarrow> nat" where
  "wanted_limit ps = (case map_of ps ''limit'' of Some (PInt n) \<Rightarrow> nat n | _ \<Rightarrow> 100)"

fun before_end :: "(string \<times> pval) list \<Rightarrow> bar \<Rightarrow> bool" where
  "before_end ps b = (case map_of ps ''endTime'' of Some (PInt t) \<Rightarrow> 1000 * bar_t b \<le> t | _ \<Rightarrow> True)"

definition kline_answer :: "bar list \<Rightarrow> (string \<times> pval) list \<Rightarrow> json" where
  "kline_answer h ps = JObj [(''code'', JNum (Fin 0)),
     (''data'', JArr (map bar_row (last_n (wanted_limit ps) (filter (before_end ps) h))))]"

text \<open>
  The documented answer to a request for candles: the latest \<open>limit\<close> bars up to \<open>endTime\<close>, without
  changing anything.
\<close>

definition serves :: "'w transport \<Rightarrow> bar list \<Rightarrow> bool" where
  "serves T h \<longleftrightarrow> (\<forall>rq w. rq_path rq = kline_path \<longrightarrow> tr_send T rq w = (Inr (kline_answer h (rq_params rq)), w))"

definition up_to :: "int option \<Rightarrow> bar list \<Rightarrow> bar list" where
  "up_to cursor h = filter (\<lambda>b. case cursor of None \<Rightarrow> True | Some t \<Rightarrow> 1000 * bar_t b \<le> t) h"

lemma up_toD: "b \<in> set (up_to cursor h) \<Longrightarrow> (case cursor of None \<Rightarrow> True | Some t \<Rightarrow> 1000 * bar_t b \<le> t)"
  by (simp add: up_to_def)

lemma py_int_of_int [simp]: "py_int (of_int n) = n"
  by (simp add: py_int_def)

lemma bar_row_candle:
  assumes "iso_of_ms (1000 * bar_t b) = Inr (ts_of (bar_t b))"
  shows "candle_of_row (bar_row b) = Inr (bar_candle b)"
  using assms by (simp add: candle_of_row_def bar_row_def jget_def finite_float_def bar_candle_def
      del: of_int_mult)

lemma mapE_rows: "\<forall>b\<in>set bs. candle_of_row (bar_row b) = Inr (bar_candle b) \<Longrightarrow>
    mapE candle_of_row (map bar_row bs) = Inr (map bar_candle bs)"
  by (induction bs) simp_all

lemma client_get_answer:
  assumes "\<And>w. tr_send T \<lparr>rq_method = ''GET'', rq_path = path, rq_params = ps, rq_body = None, rq_auth = None\<rparr> w = (Inr j, w)"
    "check_payload j = Inr j" "br_state (cl_breaker c) = CLOSED" "0 < max_attempts (cl_policy c)"
  shows "\<exists>c'. client_get T path ps False c = (Inr j, c') \<and> br_state (cl_breaker c') = CLOSED
     \<and> cl_policy c' = cl_policy c"
proof -
  have w: "cl_breaker (wait_turn c) = cl_breaker c" "cl_policy (wait_turn c) = cl_policy c"
    by (simp_all add: wait_turn_def cl_time_def Let_def split: prod.splits)
  have "raw_get T path ps (wait_turn c) = (Inr j, wait_turn c)"
    using assms(1,2) by (simp add: raw_get_def send_checked_def)
  then have "with_retry (cl_policy c) ''GET'' (raw_get T path ps) (wait_turn c) = (Inr j, wait_turn c, [])"
    using assms(4) by (simp add: with_retry_def retry_loop.simps)
  then have "client_get T path ps False c = (Inr j, wait_turn c)"
    using assms(3) by (simp add: client_get_def call_resilient_def execute_call_def)
  then show ?thesis using w assms(3) by auto
qed

lemma klines_serves:
  assumes "serves T h" "history_ok h" "br_state (cl_breaker c) = CLOSED" "0 < max_attempts (cl_policy c)"
    "1 \<le> n" "n \<le> 200"
  shows "\<exists>c'. klines T symbol interval n None cursor c = (Inr (map bar_candle (last_n (nat n) (up_to cursor h))), c')
     \<and> br_state (cl_breaker c') = CLOSED \<and> cl_policy c' = cl_policy c"
proof -
  let ?ps = "kline_params symbol interval n None cursor"
  have lim: "max 1 (min n 200) = n" using assms(5,6) by simp
  have e: "kline_answer h ?ps = JObj [(''code'', JNum (Fin 0)), (''data'', JArr (map bar_row (last_n (nat n) (up_to cursor h))))]"
  proof -
    have "before_end ?ps = (\<lambda>b. case cursor of None \<Rightarrow> True | Some t \<Rightarrow> 1000 * bar_t b \<le> t)"
      by (cases cursor) (simp_all add: kline_params_def fun_eq_iff)
    moreover have "wanted_limit ?ps = nat n" by (cases cursor) (simp_all add: kline_params_def lim)
    ultimately show ?thesis by (simp add: kline_answer_def up_to_def)
  qed
  have "check_payload (kline_answer h ?ps) = Inr (kline_answer h ?ps)"
    by (simp add: e check_payload_def jget_def)
  moreover have "\<And>w. tr_send T \<lparr>rq_method = ''GET'', rq_path = kline_path, rq_params = ?ps, rq_body = None, rq_auth = None\<rparr> w
      = (Inr (kline_answer h ?ps), w)" using assms(1) by (simp add: serves_def)
  ultimately obtain c' where c': "client_get T kline_path ?ps False c = (Inr (kline_answer h ?ps), c')"
      "br_state (cl_breaker c') = CLOSED" "cl_policy c' = cl_policy c"
    using client_get_answer [of T kline_path ?ps "kline_answer h ?ps" c] assms(3,4) by blast
  have "\<forall>b\<in>set (last_n (nat n) (up_to cursor h)). candle_of_row (bar_row b) = Inr (bar_candle b)"
    using assms(2) set_last_n by (fastforce simp: history_ok_def up_to_def intro: bar_row_candle)
  from mapE_rows [OF this] have "bindE (data_rows (kline_answer h ?ps)) (mapE candle_of_row)
      = Inr (map bar_candle (last_n (nat n) (up_to cursor h)))"
    by (simp add: e data_rows_def jget_def)
  then show ?thesis using c' by (simp add: klines_def)
qed

section \<open>Sorted candles\<close>

lemma sort_sorted:
  assumes "sorted_wrt (\<lambda>a b. \<not> str_less (c_ts b) (c_ts a)) cs"
  shows "sort_candles cs = cs"
  using assms
proof (induction cs)
  case Nil
  then show ?case by (simp add: sort_candles_def)
next
  case (Cons c cs)
  then have "sort_candles cs = cs" by simp
  then have "sort_candles (c # cs) = insert_candle c cs" by (simp add: sort_candles_def)
  then show ?case using Cons.prems by (cases cs) auto
qed

lemma history_sorted:
  assumes "history_ok h"
  shows "sort_candles (map bar_candle h) = map bar_candle h"
proof (rule sort_sorted)
  have s: "sorted_wrt (\<lambda>a b. bar_t a < bar_t b) h" using assms by (simp add: history_ok_def)
  have "\<not> str_less (ts_of (bar_t b)) (ts_of (bar_t a))" if "a \<in> set h" "b \<in> set h" "bar_t a < bar_t b" for a b
    using that assms iso_timestamps_sort(1) [of "bar_t b" "ts_of (bar_t b)" "bar_t a" "ts_of (bar_t a)"]
    by (simp add: history_ok_def)
  with sorted_wrt_mono_rel [OF _ s] show "sorted_wrt (\<lambda>a b. \<not> str_less (c_ts b) (c_ts a)) (map bar_candle h)"
    by (simp add: sorted_wrt_map bar_candle_def)
qed

lemma history_ok_part: "history_ok h \<Longrightarrow> history_ok (filter P h)" "history_ok h \<Longrightarrow> history_ok (last_n n h)"
  using set_last_n [of n h]
  by (auto simp: history_ok_def sorted_wrt_filter last_n_def sorted_wrt_drop)

lemma last_n_split: "n \<le> length h \<Longrightarrow> h = take (length h - n) h @ last_n n h"
  by (simp add: last_n_def)

lemma up_to_before:
  assumes "history_ok h" "n \<le> length (up_to cursor h)" "0 < n"
  shows "up_to (Some (1000 * bar_t (hd (last_n n (up_to cursor h))) - 1)) h
     = take (length (up_to cursor h) - n) (up_to cursor h)"
proof -
  let ?F = "up_to cursor h" and ?k = "length (up_to cursor h) - n"
  let ?t = "bar_t (hd (last_n n ?F))"
  have s: "sorted_wrt (\<lambda>a b. bar_t a < bar_t b) ?F"
    using history_ok_part(1) [OF assms(1)] by (simp add: history_ok_def up_to_def)
  have hd: "hd (last_n n ?F) = ?F ! ?k" using assms(2,3) by (simp add: last_n_def hd_drop_conv_nth)
  have k: "?k < length ?F" using assms(2,3) by simp
  have "filter (\<lambda>b. bar_t b < ?t) ?F = take ?k ?F"
  proof -
    have "\<forall>b\<in>set (take ?k ?F). bar_t b < ?t"
      using s k by (auto simp: hd in_set_conv_nth sorted_wrt_iff_nth_less)
    moreover have "\<forall>b\<in>set (drop ?k ?F). \<not> bar_t b < ?t"
    proof
      fix b assume "b \<in> set (drop ?k ?F)"
      then obtain i where "b = ?F ! (?k + i)" "?k + i < length ?F" by (auto simp: in_set_conv_nth)
      then show "\<not> bar_t b < ?t" using s k unfolding hd sorted_wrt_iff_nth_less
        by (cases i) (auto simp: not_less intro: less_imp_le)
    qed
    ultimately have "filter (\<lambda>b. bar_t b < ?t) (take ?k ?F @ drop ?k ?F) = take ?k ?F"
      unfolding filter_append by simp
    then show ?thesis by simp
  qed
  moreover have "up_to (Some (1000 * ?t - 1)) h = filter (\<lambda>b. bar_t b < ?t) ?F"
  proof -
    have "1000 * bar_t b \<le> 1000 * ?t - 1 \<longleftrightarrow> bar_t b < ?t" for b by linarith
    moreover have "bar_t b < ?t \<Longrightarrow> (case cursor of None \<Rightarrow> True | Some t \<Rightarrow> 1000 * bar_t b \<le> t)" for b
    proof -
      assume "bar_t b < ?t"
      moreover have "?F ! ?k \<in> set ?F" using k by simp
      then have "case cursor of None \<Rightarrow> True | Some t \<Rightarrow> 1000 * ?t \<le> t" unfolding hd by (rule up_toD)
      ultimately show ?thesis by (cases cursor) auto
    qed
    ultimately show ?thesis by (auto simp: up_to_def intro!: filter_cong)
  qed
  ultimately show ?thesis by simp
qed

section \<open>Paging\<close>

lemma last_n_nonempty: "last_n n xs \<noteq> [] \<longleftrightarrow> 0 < n \<and> xs \<noteq> []"
  using length_last_n [of n xs] by (metis length_0_conv length_greater_0_conv min_less_iff_conj)

lemma last_n_hd_ts:
  assumes "history_ok h" "0 < n" "up_to cursor h \<noteq> []"
  shows "parse_iso_ms (c_ts (hd (map bar_candle (last_n n (up_to cursor h)))))
     = Some (1000 * bar_t (hd (last_n n (up_to cursor h))))"
proof -
  let ?b = "hd (last_n n (up_to cursor h))"
  have ne: "last_n n (up_to cursor h) \<noteq> []" using assms(2,3) by (simp add: last_n_nonempty)
  have "?b \<in> set (up_to cursor h)" using set_last_n [of n "up_to cursor h"] hd_in_set [OF ne] by blast
  then have "?b \<in> set h" by (simp add: up_to_def)
  then have "iso_of_ms (1000 * bar_t ?b) = Inr (ts_of (bar_t ?b))" using assms(1) by (simp add: history_ok_def)
  from iso_timestamps_round_trip [OF this] ne show ?thesis by (simp add: hd_map bar_candle_def)
qed

lemma last_n_append_batch:
  assumes "n \<le> length F" "n \<le> m"
  shows "last_n (m - n) (take (length F - n) F) @ last_n n F = last_n m F"
proof -
  let ?G = "take (length F - n) F"
  have "length ?G - (m - n) = length F - m" using assms by simp
  then have "last_n (m - n) ?G = drop (length F - m) ?G" by (simp only: last_n_def)
  moreover have "length F - m - length ?G = 0" using assms by simp
  then have "drop (length F - m) (?G @ drop (length F - n) F) = drop (length F - m) ?G @ drop (length F - n) F"
    by (simp only: drop_append drop_0)
  ultimately show ?thesis by (simp add: last_n_def)
qed

lemma page_loop_serves:
  assumes "serves T h" "history_ok h" "br_state (cl_breaker c) = CLOSED" "0 < max_attempts (cl_policy c)"
  shows "\<exists>c'. page_loop T symbol interval remaining cursor all_rows c
     = (Inr (map bar_candle (last_n (nat remaining) (up_to cursor h)) @ all_rows), c')"
  using assms
proof (induction "nat remaining" arbitrary: remaining cursor all_rows c rule: less_induct)
  case less
  show ?case
  proof (cases "remaining \<le> 0")
    case True
    then show ?thesis by (simp add: page_loop.simps [of T symbol interval remaining] last_n_def)
  next
    case False
    define n where "n = min 200 remaining"
    let ?F = "up_to cursor h"
    have n: "1 \<le> n" "n \<le> 200" "n \<le> remaining" using False by (simp_all add: n_def)
    obtain c1 where k: "klines T symbol interval n None cursor c = (Inr (map bar_candle (last_n (nat n) ?F)), c1)"
      and c1: "br_state (cl_breaker c1) = CLOSED" "0 < max_attempts (cl_policy c1)"
      using klines_serves [OF less.prems n(1,2)] less.prems(4) by metis
    show ?thesis
    proof (cases "?F = []")
      case True
      then show ?thesis
        using k False by (simp add: page_loop.simps [of T symbol interval remaining] n_def [symmetric] Let_def last_n_def)
    next
      case ne: False
      define bs where "bs = last_n (nat n) ?F"
      have bs: "bs \<noteq> []" using ne n by (simp add: bs_def last_n_nonempty)
      then obtain x xs where x: "map bar_candle bs = x # xs" by (cases bs) auto
      have sorted: "sort_candles (x # xs) = map bar_candle bs"
      proof -
        have "history_ok bs" unfolding bs_def up_to_def by (intro history_ok_part less.prems(2))
        from history_sorted [OF this] show ?thesis by (simp only: x)
      qed
      have ts: "parse_iso_ms (c_ts (hd (map bar_candle bs))) = Some (1000 * bar_t (hd bs))"
        unfolding bs_def using last_n_hd_ts [OF less.prems(2) _ ne] n by simp
      have lb: "length bs = Suc (length xs)" using arg_cong [OF x, of length] by simp
      have unf: "page_loop T symbol interval remaining cursor all_rows c
         = (if int (length bs) < n then (Inr (map bar_candle bs @ all_rows), c1)
            else page_loop T symbol interval (remaining - int (length bs)) (Some (1000 * bar_t (hd bs) - 1))
                   (map bar_candle bs @ all_rows) c1)"
        using k False ts by (simp add: page_loop.simps [of T symbol interval remaining] n_def [symmetric] Let_def
            bs_def [symmetric] x sorted lb)
      show ?thesis
      proof (cases "int (length bs) < n")
        case True
        then have "length ?F < nat n" by (auto simp: bs_def)
        then have "bs = ?F" "last_n (nat remaining) ?F = ?F" using n by (simp_all add: bs_def)
        then show ?thesis using unf True by simp
      next
        case full: False
        then have len: "nat n \<le> length ?F" "int (length bs) = n" using n by (auto simp: bs_def)
        have smaller: "nat (remaining - n) < nat remaining" using n by simp
        obtain c' where "page_loop T symbol interval (remaining - n) (Some (1000 * bar_t (hd bs) - 1))
              (map bar_candle bs @ all_rows) c1
            = (Inr (map bar_candle (last_n (nat (remaining - n)) (up_to (Some (1000 * bar_t (hd bs) - 1)) h))
                @ map bar_candle bs @ all_rows), c')"
          using less.hyps [OF smaller less.prems(1,2) c1] by blast
        moreover have "up_to (Some (1000 * bar_t (hd bs) - 1)) h = take (length ?F - nat n) ?F"
          using up_to_before [OF less.prems(2) len(1)] n by (simp add: bs_def)
        moreover have "last_n (nat remaining - nat n) (take (length ?F - nat n) ?F) @ bs = last_n (nat remaining) ?F"
          unfolding bs_def using last_n_append_batch [OF len(1), of "nat remaining"] n by simp
        then have "map bar_candle (last_n (nat (remaining - n)) (take (length ?F - nat n) ?F)) @ map bar_candle bs
            = map bar_candle (last_n (nat remaining) ?F)"
          using n by (simp add: nat_diff_distrib flip: map_append)
        ultimately show ?thesis using unf full len by simp
      qed
    qed
  qed
qed

text \<open>C14: Against an exchange that answers every candle request with its latest bars up to the requested
  end, at most as many as asked for, paging backwards in batches of two hundred returns exactly the
  latest \<open>total\<close> bars of the history up to the end, oldest first, with none missing, doubled or out of
  order at the seams of the batches.\<close>

theorem paging_returns_the_latest_candles:
  assumes "serves T h" "history_ok h" "br_state (cl_breaker c) = CLOSED" "0 < max_attempts (cl_policy c)" "0 < n"
  shows "\<exists>c'. klines_paged T symbol interval (int n) cursor c
     = (Inr (map bar_candle (last_n n (up_to cursor h))), c')"
proof -
  obtain c' where "page_loop T symbol interval (int n) cursor [] c
      = (Inr (map bar_candle (last_n n (up_to cursor h))), c')"
    using page_loop_serves [OF assms(1-4), of symbol interval "int n" cursor "[]"] by auto
  moreover have "sort_candles (map bar_candle (last_n n (up_to cursor h))) = map bar_candle (last_n n (up_to cursor h))"
    using history_sorted history_ok_part assms(2) by (simp add: up_to_def)
  ultimately show ?thesis by (simp add: klines_paged_def)
qed

definition sample_history :: "bar list" where
  "sample_history = map (\<lambda>t. \<lparr>bar_t = t, bar_o = 1, bar_h = 2, bar_l = 1, bar_c = 2, bar_v = 3\<rparr>) [1709251140, 1709251200, 1709251260]"

definition sample_transport :: "unit transport" where
  "sample_transport = \<lparr>tr_send = (\<lambda>rq w. (Inr (kline_answer sample_history (rq_params rq)), w)),
     tr_sha = (\<lambda>s. s), tr_repr = (\<lambda>x. [])\<rparr>"

definition sample_client :: "unit client" where
  "sample_client = init_client None None (init_limiter 20 50 0) (\<lambda>k. real k) ()"

lemma sample_history_ok: "history_ok sample_history"
proof -
  have "list_all (\<lambda>t. iso_of_ms (1000 * t) = Inr (ts_of t)) [1709251140, 1709251200, 1709251260]"
    unfolding ts_of_def by code_simp
  then show ?thesis by (simp add: history_ok_def sample_history_def list_all_iff)
qed

theorem paging_returns_the_latest_candles_witness:
  "\<exists>cs c'. klines_paged sample_transport ''BTCUSDT'' ''1m'' 2 None sample_client = (Inr cs, c')
     \<and> map c_ts cs = map ts_of [1709251200, 1709251260]"
proof -
  have "serves sample_transport sample_history" by (simp add: serves_def sample_transport_def)
  moreover have "br_state (cl_breaker sample_client) = CLOSED" "0 < max_attempts (cl_policy sample_client)"
    by (simp_all add: sample_client_def init_client_def init_breaker_def)
  ultimately obtain c' where "klines_paged sample_transport ''BTCUSDT'' ''1m'' (int 2) None sample_client
      = (Inr (map bar_candle (last_n 2 (up_to None sample_history))), c')"
    using paging_returns_the_latest_candles [OF _ sample_history_ok, of sample_transport sample_client 2] by fastforce
  moreover have "map c_ts (map bar_candle (last_n 2 (up_to None sample_history))) = map ts_of [1709251200, 1709251260]"
    by (simp add: up_to_def sample_history_def last_n_def bar_candle_def)
  ultimately show ?thesis by (metis of_nat_numeral)
qed

end
