(* ===== verification/Exchange_Venue.thy ===== *)
theory Exchange_Venue
  imports Market_Data
begin

text \<open>
  The order and position calls of \<^verbatim>\<open>data/providers/bitunix_futures.py\<close> on the client of
  \<^verbatim>\<open>bitunix_client.py\<close>: \<open>client_venue\<close> is an instance of the record of calls that the live broker
  takes, so the broker can be run on top of signing, retries, rate limit and circuit breaker. The
  dictionaries of an answer are read where the broker reads them; an answer whose numbers are not
  finite floats is refused as a whole.
\<close>

definition opt_str :: "json \<Rightarrow> string option" where
  "opt_str j = (case j of JStr s \<Rightarrow> Some s | _ \<Rightarrow> None)"

text \<open>\<open>float(d.get(k, default))\<close>: absent is \<open>None\<close>, a null raises.\<close>

definition number_field :: "(string \<times> json) list \<Rightarrow> string \<Rightarrow> real option res" where
  "number_field d k = (case map_of (rev d) k of None \<Rightarrow> Inr None
     | Some j \<Rightarrow> bindE (finite_float j) (\<lambda>x. Inr (Some x)))"

text \<open>\<open>float(d.get(k) or ...)\<close>: a null, an empty string or a zero counts as absent.\<close>

definition loose_field :: "(string \<times> json) list \<Rightarrow> string \<Rightarrow> real option res" where
  "loose_field d k = (if jtrue (jget d k) then bindE (finite_float (jget d k)) (\<lambda>x. Inr (Some x)) else Inr None)"

section \<open>Instruments\<close>

text \<open>The numbers are read for the pair of the symbol only.\<close>

definition pair_of_json :: "string \<Rightarrow> json \<Rightarrow> trading_pair res" where
  "pair_of_json symbol j =
     (case j of
        JObj d \<Rightarrow>
          (let s = opt_str (jget d ''symbol''); n = opt_str (jget d ''symbolName'')
           in if s \<noteq> Some symbol \<and> n \<noteq> Some symbol
              then Inr \<lparr>tp_symbol = s, tp_symbol_name = n, tp_tick = None, tp_lot = None, tp_min_qty = None, tp_max_qty = None\<rparr>
              else bindE (number_field d ''tickSize'') (\<lambda>t. bindE (number_field d ''lotSize'') (\<lambda>l.
                   bindE (number_field d ''minQty'') (\<lambda>mi. bindE (number_field d ''maxQty'') (\<lambda>ma.
                   Inr \<lparr>tp_symbol = s, tp_symbol_name = n, tp_tick = t, tp_lot = l, tp_min_qty = mi, tp_max_qty = ma\<rparr>)))))
      | _ \<Rightarrow> Inl AttributeError)"

definition trading_pairs :: "'w transport \<Rightarrow> string \<Rightarrow> ('w client, trading_pair list) py" where
  "trading_pairs T symbol =
     bindS (client_get T ''/api/v1/futures/market/trading_pairs'' [(''symbols'', PStr symbol)] False)
       (\<lambda>payload. liftS (bindE (data_rows payload) (mapE (pair_of_json symbol))))"

definition tickers :: "'w transport \<Rightarrow> string \<Rightarrow> ('w client, json list) py" where
  "tickers T symbol =
     bindS (client_get T ''/api/v1/futures/market/tickers'' [(''symbols'', PStr symbol)] False)
       (\<lambda>payload. liftS (data_rows payload))"

section \<open>Positions and orders\<close>

definition symbol_params :: "string \<Rightarrow> (string \<times> pval) list" where
  "symbol_params symbol = (if symbol = [] then [] else [(''symbol'', PStr symbol)])"

definition pos_of_json :: "string \<Rightarrow> json \<Rightarrow> ex_pos res" where
  "pos_of_json symbol j =
     (case j of
        JObj d \<Rightarrow>
          (let s = opt_str (jget d ''symbol''); n = opt_str (jget d ''symbolName'');
               p0 = \<lparr>xp_position_id = opt_str (jget d ''positionId''), xp_symbol = s, xp_symbol_name = n,
                     xp_side = opt_str (jget d ''side''), xp_qty = None, xp_amount = None, xp_entry = None,
                     xp_avg = None, xp_unrealized = None\<rparr>
           in if str_or s (str_or n []) \<noteq> symbol then Inr p0
              else bindE (loose_field d ''qty'') (\<lambda>q. bindE (loose_field d ''positionAmount'') (\<lambda>a.
                   bindE (loose_field d ''entryPrice'') (\<lambda>e. bindE (loose_field d ''avgPrice'') (\<lambda>g.
                   bindE (loose_field d ''unrealizedPnl'') (\<lambda>u.
                   Inr (p0\<lparr>xp_qty := q, xp_amount := a, xp_entry := e, xp_avg := g, xp_unrealized := u\<rparr>)))))))
      | _ \<Rightarrow> Inl AttributeError)"

definition get_pending_positions :: "'w transport \<Rightarrow> string \<Rightarrow> ('w client, ex_pos list) py" where
  "get_pending_positions T symbol =
     bindS (client_get T ''/api/v1/futures/position/pending_position'' (symbol_params symbol) True)
       (\<lambda>payload. liftS (bindE (data_rows payload) (mapE (pos_of_json symbol))))"

definition get_open_orders :: "'w transport \<Rightarrow> string \<Rightarrow> ('w client, json list) py" where
  "get_open_orders T symbol =
     bindS (client_get T ''/api/v1/futures/trade/open_orders'' (symbol_params symbol) True)
       (\<lambda>payload. liftS (data_rows payload))"

definition cancel_order :: "'w transport \<Rightarrow> string \<Rightarrow> string \<Rightarrow> ('w client, json) py" where
  "cancel_order T order_id symbol = client_post T ''/api/v1/futures/trade/cancel_order''
     (JObj ((''orderId'', JStr order_id) # (if symbol = [] then [] else [(''symbol'', JStr symbol)]))) True"

definition cancel_all_orders :: "'w transport \<Rightarrow> string \<Rightarrow> ('w client, unit) py" where
  "cancel_all_orders T symbol =
     bindS (client_post T ''/api/v1/futures/trade/cancel_all'' (JObj [(''symbol'', JStr symbol)]) True) (\<lambda>_. returnS ())"

definition opt_field :: "string \<Rightarrow> ('a \<Rightarrow> json) \<Rightarrow> 'a option \<Rightarrow> (string \<times> json) list" where
  "opt_field k f x = (case x of None \<Rightarrow> [] | Some a \<Rightarrow> [(k, f a)])"

definition order_json :: "order_body \<Rightarrow> json" where
  "order_json o' = JObj ([(''symbol'', JStr (ob_symbol o')), (''side'', JStr (ob_side o')),
       (''qty'', JNum (Fin (ob_qty o'))), (''type'', JStr (ob_type o'))]
     @ opt_field ''price'' (\<lambda>x. JNum (Fin x)) (ob_price o')
     @ opt_field ''trade_side'' JStr (ob_trade_side o')
     @ opt_field ''sl'' (\<lambda>x. JNum (Fin x)) (ob_sl o')
     @ opt_field ''tp'' (\<lambda>x. JNum (Fin x)) (ob_tp o')
     @ opt_field ''clientOrderId'' JStr (ob_client_id o'))"

text \<open>What the broker reads of the answer: \<open>"data" in resp\<close> and \<open>resp.get("data", {}).get("orderId")\<close>.\<close>

definition resp_of :: "json \<Rightarrow> post_resp" where
  "resp_of j = (case j of
     JObj kvs \<Rightarrow> (case map_of (rev kvs) ''data'' of
         None \<Rightarrow> NoData
       | Some (JObj d) \<Rightarrow> WithData (opt_str (jget d ''orderId''))
       | Some _ \<Rightarrow> NullData)
   | _ \<Rightarrow> NoData)"

definition order_path :: string where
  "order_path = ''/api/v1/futures/trade/order''"

definition post_order :: "'w transport \<Rightarrow> order_body \<Rightarrow> ('w client, post_resp) py" where
  "post_order T o' = bindS (client_post T order_path (order_json o') True) (\<lambda>j. returnS (resp_of j))"

definition client_venue :: "'w transport \<Rightarrow> 'w client venue" where
  "client_venue T = \<lparr>v_pairs = trading_pairs T, v_pending = get_pending_positions T,
     v_post_order = post_order T, v_cancel_all = cancel_all_orders T\<rparr>"

end
