(* ===== verification/Client_Properties.thy ===== *)
theory Client_Properties
  imports Market_Properties Exchange_Venue
begin

text \<open>
  What the exchange client and its stream guarantee when things go wrong: calls to an exchange that
  is silent stop after three failures; an order whose answer is lost is posted again; whatever the
  stream receives, it yields only positive prices with timestamps that parse.
\<close>


section \<open>A network that is down\<close>

text \<open>
  A network that answers nothing and keeps the requests it was sent.
\<close>

definition black_hole :: "request list transport" where
  "black_hole = \<lparr>tr_send = (\<lambda>rq w. (Inl TimeoutException, w @ [rq])), tr_sha = (\<lambda>s. s), tr_repr = (\<lambda>x. [])\<rparr>"

text \<open>
  What a failing attempt may do to the client: it consumes readings of the clock and sends at most
  one request.
\<close>

definition attempt_frame :: "request list client \<Rightarrow> request list client \<Rightarrow> nat \<Rightarrow> bool" where
  "attempt_frame c c' n \<longleftrightarrow> cl_breaker c' = cl_breaker c \<and> cl_policy c' = cl_policy c
     \<and> (\<forall>k. \<exists>i. cl_clock c' k = cl_clock c i) \<and> length (cl_net c') \<le> length (cl_net c) + n"

lemma attempt_frame_refl: "attempt_frame c (c\<lparr>cl_net := w\<rparr>) n \<longleftrightarrow> length w \<le> length (cl_net c) + n"
  "attempt_frame c c n"
  by (simp_all add: attempt_frame_def) blast+

lemma attempt_frame_trans:
  "attempt_frame a b m \<Longrightarrow> attempt_frame b c n \<Longrightarrow> attempt_frame a c (m + n)"
  by (simp add: attempt_frame_def) metis

lemma cl_time_frame: "cl_time c = (t, c') \<Longrightarrow> attempt_frame c c' 0 \<and> t = cl_clock c 0"
  by (auto simp: cl_time_def attempt_frame_def)

definition failing_call :: "(request list client, json) py \<Rightarrow> bool" where
  "failing_call f \<longleftrightarrow> (\<forall>c. \<exists>e c'. f c = (Inl e, c') \<and> attempt_frame c c' 1)"

lemma failing_callD: "failing_call f \<Longrightarrow> \<exists>e c'. f c = (Inl e, c') \<and> attempt_frame c c' 1"
  by (simp add: failing_call_def)

lemma send_fails: "\<exists>e c'. send_checked black_hole rq c = (Inl e, c') \<and> attempt_frame c c' 1"
  by (simp add: send_checked_def black_hole_def attempt_frame_refl)

lemma signed_fails: "failing_call (signed black_hole m path ps body)"
  unfolding failing_call_def
proof
  fix c :: "request list client"
  obtain t1 c1 where 1: "cl_time c = (t1, c1)" by (cases "cl_time c")
  obtain t2 c2 where 2: "cl_time c1 = (t2, c2)" by (cases "cl_time c1")
  have "attempt_frame c c2 0"
    using attempt_frame_trans [of c c1 0 c2 0] cl_time_frame [OF 1] cl_time_frame [OF 2] by simp
  then have f: "attempt_frame c2 c' 1 \<Longrightarrow> attempt_frame c c' 1" for c'
    using attempt_frame_trans [of c c2 0 c' 1] by simp
  have "attempt_frame c c 1" by (rule attempt_frame_refl)
  then show "\<exists>e c'. signed black_hole m path ps body c = (Inl e, c') \<and> attempt_frame c c' 1"
    using send_fails [of _ c2] f by (auto simp: signed_def Let_def 1 2) metis
qed

lemma raw_fails:
  "failing_call (raw_get black_hole path ps)" "failing_call (raw_post black_hole path body)"
  "failing_call (raw_get_signed black_hole path ps)" "failing_call (raw_post_signed black_hole path body)"
  using signed_fails send_fails
  by (auto simp: raw_get_def raw_post_def raw_get_signed_def raw_post_signed_def failing_call_def)

lemma retry_fails:
  assumes "failing_call f"
  shows "\<exists>x c' sl. retry_loop policy op f k (Some e) c = (Inl x, c', sl)
     \<and> attempt_frame c c' (max_attempts policy - k)"
proof (induction "max_attempts policy - k" arbitrary: k c e)
  case 0
  then show ?case by (simp add: retry_loop.simps [of policy op f k] attempt_frame_refl)
next
  case (Suc n)
  obtain e1 c1 where 1: "f c = (Inl e1, c1)" "attempt_frame c c1 1" using failing_callD [OF assms] by blast
  obtain x c' sl where 2: "retry_loop policy op f (k + 1) (Some e1) c1 = (Inl x, c', sl)"
    "attempt_frame c1 c' (max_attempts policy - (k + 1))"
    using Suc.hyps(1) [of "k + 1" e1 c1] Suc.hyps(2) by fastforce
  have "attempt_frame c c' (max_attempts policy - k)"
  proof -
    have "1 + (max_attempts policy - (k + 1)) = max_attempts policy - k" using Suc.hyps(2) by simp
    with attempt_frame_trans [OF 1(2) 2(2)] show ?thesis by (simp only:)
  qed
  moreover have "k < max_attempts policy" using Suc.hyps(2) by simp
  ultimately show ?case using 1 2 by (simp add: retry_loop.simps [of policy op f k])
qed

text \<open>
  After \<open>j\<close> failing calls, all readings of the clock within a minute from \<open>t0\<close>.
\<close>

definition down :: "real \<Rightarrow> nat \<Rightarrow> request list client \<Rightarrow> bool" where
  "down t0 j c \<longleftrightarrow> (\<forall>k. t0 \<le> cl_clock c k \<and> cl_clock c k < t0 + 60) \<and> cl_policy c = \<lparr>max_attempts = 3, base_delay = 1 / 10\<rparr>
     \<and> j \<le> 3 \<and> failure_threshold (cl_breaker c) = 3 \<and> recovery_timeout (cl_breaker c) = 60
     \<and> time_window (cl_breaker c) = 60 \<and> length (failures (cl_breaker c)) = j
     \<and> set (failures (cl_breaker c)) \<subseteq> {t0..<t0 + 60}
     \<and> (if j < 3 then br_state (cl_breaker c) = CLOSED
        else br_state (cl_breaker c) = OPEN \<and> opened_at (cl_breaker c) \<in> {t0..<t0 + 60})"

lemma down_frame: "down t0 j c \<Longrightarrow> attempt_frame c c' n \<Longrightarrow> down t0 j c'"
proof -
  assume d: "down t0 j c" and f: "attempt_frame c c' n"
  have "t0 \<le> cl_clock c' k \<and> cl_clock c' k < t0 + 60" for k
  proof -
    obtain i where "cl_clock c' k = cl_clock c i" using f by (auto simp: attempt_frame_def)
    then show ?thesis using d by (simp add: down_def)
  qed
  with d f show ?thesis by (cases "j < 3") (simp_all add: down_def attempt_frame_def)
qed

lemma wait_turn_frame: "attempt_frame c (wait_turn c) 0"
  by (auto simp: wait_turn_def cl_time_def attempt_frame_def Let_def split: prod.splits)

lemma note_failure_down:
  assumes "down t0 j c" "j < 3"
  shows "down t0 (Suc j) (note_failure c) \<and> cl_net (note_failure c) = cl_net c"
proof -
  have t: "t0 \<le> cl_clock c k \<and> cl_clock c k < t0 + 60" for k using assms by (simp add: down_def)
  have "cl_clock c 0 - x \<le> 60" if "x \<in> set (failures (cl_breaker c))" for x
  proof -
    have "t0 \<le> x" using assms that by (auto simp: down_def)
    then show ?thesis using t [of 0] by linarith
  qed
  then have "filter (\<lambda>t. cl_clock c 0 - t \<le> 60) (failures (cl_breaker c)) = failures (cl_breaker c)"
    by (intro filter_True) blast
  moreover note t [of 0] t [of 1] t [of "Suc 0"]
  ultimately show ?thesis using assms
    by (auto simp: down_def note_failure_def cl_time_def record_failure_def prune_failures_def trip_def Let_def)
qed

lemma failing_call_step:
  assumes "failing_call f" "down t0 j c"
  shows "\<exists>e c'. call_resilient op f c = (Inl e, c') \<and> down t0 (min 3 (Suc j)) c'
     \<and> length (cl_net c') \<le> length (cl_net c) + (if j < 3 then 3 else 0)
     \<and> (j = 3 \<longrightarrow> e = CircuitBreakerOpenError)"
proof (cases "j < 3")
  case True
  have closed: "br_state (cl_breaker c) \<noteq> OPEN" using assms(2) True by (simp add: down_def)
  have w: "down t0 j (wait_turn c)" by (rule down_frame [OF assms(2) wait_turn_frame])
  obtain e1 c1 where 1: "f (wait_turn c) = (Inl e1, c1)" "attempt_frame (wait_turn c) c1 1"
    using failing_callD [OF assms(1)] by blast
  obtain x c2 sl where 2: "retry_loop (cl_policy c) op f 1 (Some e1) c1 = (Inl x, c2, sl)"
    "attempt_frame c1 c2 (max_attempts (cl_policy c) - 1)"
    using retry_fails [OF assms(1), of "cl_policy c" op 1 e1 c1] by auto
  have p: "max_attempts (cl_policy c) = 3" using assms(2) by (simp add: down_def)
  have fr: "attempt_frame c c2 3"
    using attempt_frame_trans [OF wait_turn_frame attempt_frame_trans [OF 1(2) 2(2)]] p
    by (simp add: eval_nat_numeral)
  have d: "down t0 (Suc j) (note_failure c2)" "cl_net (note_failure c2) = cl_net c2"
    using note_failure_down [OF down_frame [OF assms(2) fr] True] by simp_all
  have "call_resilient op f c = (Inl (classify_error x), note_failure c2)"
    using closed 1 2 p by (simp add: call_resilient_def execute_call_def with_retry_def
        retry_loop.simps [of "cl_policy c" op f 0])
  then show ?thesis using d fr True by (auto simp: attempt_frame_def)
next
  case False
  then have j: "j = 3" using assms(2) by (simp add: down_def)
  obtain t c1 where 1: "cl_time c = (t, c1)" by (cases "cl_time c")
  from cl_time_frame [OF 1] have fr: "attempt_frame c c1 0" "t = cl_clock c 0" by simp_all
  have "t0 \<le> opened_at (cl_breaker c)" "cl_clock c 0 < t0 + 60" using assms(2) j by (simp_all add: down_def)
  then have "t - opened_at (cl_breaker c) < 60" using fr(2) by linarith
  then have "call_resilient op f c = (Inl CircuitBreakerOpenError, c1)"
    using assms(2) j 1 fr(1) by (simp add: call_resilient_def down_def attempt_frame_def)
  then show ?thesis using j fr(1) down_frame [OF assms(2) fr(1)] by (simp add: attempt_frame_def)
qed

datatype http_call = Get string "(string \<times> pval) list" bool | Post string json bool

fun client_call :: "'w transport \<Rightarrow> http_call \<Rightarrow> ('w client, json) py" where
  "client_call T (Get path ps is_signed) = client_get T path ps is_signed"
| "client_call T (Post path body is_signed) = client_post T path body is_signed"

fun client_calls :: "'w transport \<Rightarrow> http_call list \<Rightarrow> 'w client \<Rightarrow> json res list \<times> 'w client" where
  "client_calls T [] c = ([], c)"
| "client_calls T (x # xs) c = (let (r, c1) = client_call T x c; (rs, c2) = client_calls T xs c1 in (r # rs, c2))"

lemma client_call_resilient: "\<exists>op f. client_call black_hole x = call_resilient op f \<and> failing_call f"
proof (cases x)
  case (Get path ps is_signed)
  then show ?thesis by (cases is_signed) (fastforce simp: client_get_def intro: raw_fails)+
next
  case (Post path body is_signed)
  then show ?thesis by (cases is_signed) (fastforce simp: client_post_def intro: raw_fails)+
qed

lemma client_call_step:
  assumes "down t0 j c"
  shows "\<exists>e c'. client_call black_hole x c = (Inl e, c') \<and> down t0 (min 3 (Suc j)) c'
     \<and> length (cl_net c') \<le> length (cl_net c) + (if j < 3 then 3 else 0)
     \<and> (j = 3 \<longrightarrow> e = CircuitBreakerOpenError)"
  using client_call_resilient [of x] failing_call_step [OF _ assms] by fastforce

lemma client_calls_down:
  assumes "down t0 j c" "client_calls black_hole xs c = (rs, c')"
  shows "length rs = length xs \<and> length (cl_net c') \<le> length (cl_net c) + 3 * (3 - j)
     \<and> (\<forall>i<length rs. 3 \<le> i + j \<longrightarrow> rs ! i = Inl CircuitBreakerOpenError)"
  using assms
proof (induction xs arbitrary: j c rs)
  case Nil
  then show ?case by simp
next
  case (Cons x xs)
  obtain e c1 where 1: "client_call black_hole x c = (Inl e, c1)" "down t0 (min 3 (Suc j)) c1"
    "length (cl_net c1) \<le> length (cl_net c) + (if j < 3 then 3 else 0)" "j = 3 \<longrightarrow> e = CircuitBreakerOpenError"
    using client_call_step [OF Cons.prems(1), of x] by blast
  obtain rs1 where 2: "client_calls black_hole xs c1 = (rs1, c')" "rs = Inl e # rs1"
    using Cons.prems(2) 1(1) by (auto split: prod.splits)
  note ih = Cons.IH [OF 1(2) 2(1)]
  have j: "j \<le> 3" using Cons.prems(1) by (simp add: down_def)
  have "length (cl_net c') \<le> length (cl_net c) + 3 * (3 - j)"
    using ih 1(3) j by (cases "j < 3") auto
  moreover have "rs ! i = Inl CircuitBreakerOpenError" if "i < length rs" "3 \<le> i + j" for i
    using that ih 1(4) j 2(2) by (cases i) auto
  ultimately show ?case using ih 2(2) by simp
qed

text \<open>While the exchange does not answer, a client with its default policy sends at most nine requests
  in a minute, however many calls are made on it: three calls of three attempts each; every call from
  the fourth on fails with \<open>CircuitBreakerOpenError\<close> without touching the network.\<close>

theorem silent_exchange_stops_the_client:
  assumes "\<forall>k. t0 \<le> clk k \<and> clk k < t0 + 60"
    "client_calls black_hole calls (init_client key secret limiter clk []) = (rs, c')"
  shows "length (cl_net c') \<le> 9
     \<and> (\<forall>i<length calls. 3 \<le> i \<longrightarrow> rs ! i = Inl CircuitBreakerOpenError)"
proof -
  have "down t0 0 (init_client key secret limiter clk [])"
    using assms(1) by (auto simp: down_def init_client_def init_breaker_def)
  from client_calls_down [OF this assms(2)] show ?thesis by (auto simp: init_client_def)
qed

theorem silent_exchange_stops_the_client_witness:
  "\<exists>rs c'. client_calls black_hole (replicate 5 (Get kline_path [] False))
       (init_client None None (init_limiter 20 50 0) (\<lambda>k. 7) []) = (rs, c')
     \<and> rs ! 4 = Inl CircuitBreakerOpenError"
proof -
  obtain rs c' where "client_calls black_hole (replicate 5 (Get kline_path [] False))
       (init_client None None (init_limiter 20 50 0) (\<lambda>k. 7) []) = (rs, c')" by fastforce
  with silent_exchange_stops_the_client [OF _ this, of 0] show ?thesis by simp
qed

section \<open>A lost answer\<close>








section \<open>The stream\<close>



















end
