(* ===== verification/Orchestrator.thy ===== *)
theory Orchestrator
  imports Supervisor Resilience
begin

text \<open>
  \<^verbatim>\<open>core/orchestrator.py\<close>: a single run over loaded candles, with the paper broker or its dry-run
  variant, and \<^verbatim>\<open>core/config_schema.py\<close>'s check of its arguments. The candles, the daily checkpoint
  and the report of the external collectors are arguments; reports and files are left out. The live
  broker, which the run hands its last candle only, is not connected here.
\<close>

section \<open>Configuration\<close>

definition validate_runtime_config :: "real \<Rightarrow> real \<Rightarrow> real \<Rightarrow> unit res" where
  "validate_runtime_config risk_pct stop_bps starting_balance =
     (if risk_pct \<le> 0 \<or> stop_bps \<le> 0 \<or> starting_balance \<le> 0
      then Inl (ValueError ''Config validation failed'') else Inr ())"

text \<open>
  \<open>get_agent_config\<close> as the supervisor reads it: the keys it leaves out have the agents' defaults,
  and no instrument info is passed on.
\<close>

definition orchestrator_setups :: "real \<Rightarrow> setup_cfg" where
  "orchestrator_setups tp_r = \<lparr>sc_pullback_enabled = True, sc_entry_band_pct = 5 / 1000,
     sc_pullback_stop_mult = 2, sc_pullback_tp_mult = tp_r, sc_sweep_enabled = True, sc_lookback_bars = 10,
     sc_require_cvd = False, sc_min_vol_ratio = 1 / 2, sc_sweep_stop_mult = 1 / 2\<rparr>"

definition orchestrator_gates :: "string \<rightharpoonup> real" where
  "orchestrator_gates = [''no_trade_funding_8h'' \<mapsto> 5 / 10000, ''half_size_funding_8h'' \<mapsto> 2 / 10000,
     ''extreme_funding_8h'' \<mapsto> 1 / 1000]"

definition get_agent_config ::
  "limits \<Rightarrow> (string \<rightharpoonup> real) \<Rightarrow> real \<Rightarrow> real \<Rightarrow> real \<Rightarrow> broker \<Rightarrow> journal \<Rightarrow> supervisor" where
  "get_agent_config L overrides starting_balance risk_pct tp_r b j =
     \<lparr>sp_limits = L, sp_overrides = overrides, sp_cvd_lookback = 20, sp_setups = orchestrator_setups tp_r,
      sp_risk = \<lparr>rc_rr_min = 12 / 10, rc_equity = starting_balance, rc_risk_pct = risk_pct / 100\<rparr>,
      sp_info = \<lparr>ii_lot_size = None, ii_min_notional = None\<rparr>, sp_pending_max = 24, sp_min_history = 100,
      sp_deriv = new_deriv_agent None orchestrator_gates 6, sp_broker = b, sp_journal = j\<rparr>"

section \<open>The run\<close>

definition load_market_data :: "candle list res \<Rightarrow> candle list res" where
  "load_market_data answer = bindE answer (\<lambda>candles.
     let cs = normalize_candle_order candles
     in if length cs < 31 then Inl (RuntimeError ''Need at least 31 candles for orchestrated modular mode'')
        else Inr cs)"

text \<open>The checkpoint of the day: its date and its starting equity.\<close>

definition load_daily_checkpoint :: "(string \<times> real option) option \<Rightarrow> string \<Rightarrow> real \<Rightarrow> real" where
  "load_daily_checkpoint ckpt today starting_balance =
     (case ckpt of None \<Rightarrow> starting_balance
      | Some (d, x) \<Rightarrow> if d = today then (case x of None \<Rightarrow> starting_balance | Some e \<Rightarrow> e) else starting_balance)"

datatype run_mode = PaperRun | DryRun

record orchestration =
  oc_supervisor :: supervisor
  oc_breaker :: breaker
  oc_equity :: real
  oc_history :: "(string \<times> real) list"
  oc_clock :: "nat \<Rightarrow> real"
  oc_events :: "string list"

definition oc_time :: "orchestration \<Rightarrow> real \<times> orchestration" where
  "oc_time o' = (oc_clock o' 0, o'\<lparr>oc_clock := \<lambda>k. oc_clock o' (Suc k)\<rparr>)"

definition oc_event :: "string \<Rightarrow> orchestration \<Rightarrow> orchestration" where
  "oc_event e o' = o'\<lparr>oc_events := oc_events o' @ [e]\<rparr>"

definition stop_broker :: "orchestration \<Rightarrow> orchestration" where
  "stop_broker o' = o'\<lparr>oc_supervisor := (oc_supervisor o')\<lparr>sp_broker := shutdown_broker (sp_broker (oc_supervisor o'))\<rparr>\<rparr>"

definition fresh_state :: "string \<Rightarrow> agent_state" where
  "fresh_state symbol = \<lparr>ag_instrument = symbol, ag_candles = [], ag_context = None, ag_derivatives = None,
     ag_setup = None, ag_cvd = None, ag_order = EmptyOrder, ag_trade_id = None, ag_pending_bars = 0,
     ag_meta = \<lparr>me_last_trade_bar = 0, me_last_plan_key = None\<rparr>\<rparr>"

definition step_failed :: "orchestration \<Rightarrow> orchestration" where
  "step_failed o' =
     (let (t1, o1) = oc_time o'; (t2, o2) = oc_time o1;
          o3 = o2\<lparr>oc_breaker := record_failure t1 t2 (oc_breaker o2)\<rparr>
      in if br_state (oc_breaker o3) = OPEN then stop_broker o3 else o3)"

text \<open>
  \<open>DryRunBroker.on_candle\<close> logs the order and returns no fills and no exits, as a skipped broker does.
\<close>

definition step_passed :: "run_mode \<Rightarrow> candle \<Rightarrow> events \<Rightarrow> world \<Rightarrow> orchestration \<Rightarrow> orchestration" where
  "step_passed mode c ev w o' =
     (let b = sp_broker (fst w);
          o1 = o'\<lparr>oc_supervisor := fst w, oc_breaker := record_success (oc_breaker o'),
                 oc_equity := oc_equity o' + (\<Sum>x\<leftarrow>evs_exits ev. er_pnl x)\<rparr>;
          o2 = (if mode = DryRun \<and> order_go (ag_order (snd w)) then oc_event ''DryRunOrder'' o1 else o1)
      in case get_unrealized_pnl (c_close c) b of
           Inl e \<Rightarrow> step_failed o2
         | Inr u \<Rightarrow> o2\<lparr>oc_history := oc_history o2 @
             [(c_ts c, oc_equity o2 + (if b_is_inverse b then u * c_close c else u))]\<rparr>)"

definition orchestration_step :: "run_mode \<Rightarrow> string \<Rightarrow> candle \<Rightarrow> orchestration \<Rightarrow> orchestration" where
  "orchestration_step mode symbol c o' =
     (let (now, o1) = oc_time o'; (ok, br) = allow_request now (oc_breaker o1); o2 = o1\<lparr>oc_breaker := br\<rparr>
      in if \<not> ok then oc_event ''CircuitBreakerOpen'' o2
         else case supervisor_run c (mode = DryRun) (oc_supervisor o2, fresh_state symbol) of
             (Inl e, w) \<Rightarrow> step_failed (o2\<lparr>oc_supervisor := fst w\<rparr>)
           | (Inr ev, w) \<Rightarrow> step_passed mode c ev w o2)"

fun orchestration_loop :: "bool \<Rightarrow> run_mode \<Rightarrow> string \<Rightarrow> candle list \<Rightarrow> (orchestration, unit) py" where
  "orchestration_loop kill mode symbol [] o' = (Inr (), o')"
| "orchestration_loop kill mode symbol (c # cs) o' =
     (if kill then (Inl (RuntimeError ''Run aborted by LA_KILL_SWITCH''), stop_broker (oc_event ''KillSwitchActivated'' o'))
      else orchestration_loop kill mode symbol cs (orchestration_step mode symbol c o'))"

text \<open>
  \<open>run_orchestrated_mode\<close> up to its report: whether it succeeded, and the run. The broker is built by
  \<open>PaperBroker(symbol=symbol)\<close>; \<open>collectors\<close> is the exception of the external collectors, if any.
\<close>

definition start_orchestration :: "supervisor \<Rightarrow> (nat \<Rightarrow> real) \<Rightarrow> orchestration" where
  "start_orchestration sv clk =
     \<lparr>oc_supervisor = sv, oc_breaker = init_breaker 5 120 60, oc_equity = b_current_equity (sp_broker sv),
      oc_history = [], oc_clock = clk, oc_events = []\<rparr>"

record run_args =
  ra_mode :: run_mode
  ra_symbol :: string
  ra_risk_pct :: real
  ra_stop_bps :: real
  ra_tp_r :: real
  ra_kill :: bool
  ra_risk_file :: "unit res"    \<comment> \<open>what \<open>load_and_validate_risk_config\<close> raises, if anything\<close>
  ra_offline_safe :: bool

definition run_orchestrated_mode ::
  "limits \<Rightarrow> (string \<rightharpoonup> real) \<Rightarrow> run_args \<Rightarrow> candle list res \<Rightarrow> (string \<times> real option) option \<Rightarrow> string
   \<Rightarrow> (string \<Rightarrow> broker) \<Rightarrow> journal \<Rightarrow> (nat \<Rightarrow> real) \<Rightarrow> py_exc option \<Rightarrow> bool \<times> orchestration option" where
  "run_orchestrated_mode L overrides a answer ckpt today paper j clk collectors =
     (case bindE (validate_runtime_config (ra_risk_pct a) (ra_stop_bps a) 10000) (\<lambda>_.
             bindE (ra_risk_file a) (\<lambda>_. load_market_data answer)) of
        Inl e \<Rightarrow> (False, None)
      | Inr candles \<Rightarrow>
        (let balance = load_daily_checkpoint ckpt today 10000;
             sv = get_agent_config L overrides balance (ra_risk_pct a) (ra_tp_r a) (paper (ra_symbol a)) j
         in case orchestration_loop (ra_kill a) (ra_mode a) (ra_symbol a) candles (start_orchestration sv clk) of
              (Inl e, o') \<Rightarrow> (False, Some o')
            | (Inr u, o') \<Rightarrow> (collectors = None \<or> ra_offline_safe a, Some o')))"

text \<open>\<open>check_bitunix_config\<close> over the three environment variables.\<close>

definition check_bitunix_config :: "string \<Rightarrow> string \<Rightarrow> string \<Rightarrow> bool" where
  "check_bitunix_config key secret old_secret \<longleftrightarrow> key \<noteq> [] \<and> (if secret = [] then old_secret else secret) \<noteq> []"

text \<open>\<open>prune_workspace\<close>: of the run directories (name and modification time) but \<open>latest\<close>, what stays.\<close>

definition prune_workspace :: "nat \<Rightarrow> (string \<times> int) list \<Rightarrow> (string \<times> int) list" where
  "prune_workspace keep dirs =
     (let runs = filter (\<lambda>d. fst d \<noteq> ''latest'') dirs;
          newest = rev (sort_key snd (rev runs));
          extra = drop keep newest
      in filter (\<lambda>d. d \<notin> set extra) dirs)"

end
