(* ===== verification/Timed_Session.thy ===== *)
theory Timed_Session
  imports Orchestrator Live_Broker
begin

text \<open>
  \<^verbatim>\<open>session/timed_session.py\<close>: the polling session on the paper broker. What the outside gives one
  round of the loop is a record \<open>turn\<close>: whether the kill file lies there, whether a signal asked to
  stop, and the answer to the request for candles. The sequence of turns is an argument, so the loop
  ends with it; the clock is a sequence of readings. The wait between two polls only looks at the
  clock and the signal: it consumes no reading, and \<open>td_waits\<close> counts the waits. Log lines and
  events are left out.
\<close>

record turn =
  tn_kill_file :: bool
  tn_stop_signal :: bool
  tn_candles :: "candle list res"

record timed_cfg =
  tc_symbol :: string
  tc_end :: real
  tc_risk_pct :: real
  tc_stop_bps :: real
  tc_tp_r :: real
  tc_limits :: limits
  tc_strategy :: "(broker \<Rightarrow> journal \<Rightarrow> supervisor) option"
  tc_now_iso :: string

text \<open>\<open>td_candles\<close> is the local variable \<open>candles\<close>, unbound before the first answer.\<close>

record timed =
  td_broker :: broker
  td_equity :: real
  td_breaker :: breaker
  td_iterations :: nat
  td_trades :: nat
  td_errors :: nat
  td_reason :: string
  td_candles :: "candle list option"
  td_journal :: journal
  td_clock :: "nat \<Rightarrow> real"
  td_waits :: nat

definition init_timed :: "real \<Rightarrow> broker \<Rightarrow> journal \<Rightarrow> (nat \<Rightarrow> real) \<Rightarrow> timed" where
  "init_timed starting_balance b j clk =
     \<lparr>td_broker = b, td_equity = starting_balance, td_breaker = init_breaker 5 120 60, td_iterations = 0,
      td_trades = 0, td_errors = 0, td_reason = ''completed'', td_candles = None, td_journal = j,
      td_clock = clk, td_waits = 0\<rparr>"

definition td_time :: "timed \<Rightarrow> real \<times> timed" where
  "td_time t = (td_clock t 0, t\<lparr>td_clock := \<lambda>k. td_clock t (Suc k)\<rparr>)"

section \<open>The signal\<close>

text \<open>
  With a strategy, a new supervisor steps over the latest candle without a broker, and the signal is
  the side of the setup it leaves; without one, the moving averages decide.
\<close>

definition setup_signal :: "agent_state \<Rightarrow> bool option" where
  "setup_signal s = (case ag_setup s of None \<Rightarrow> None
     | Some su \<Rightarrow> if su_side su = LONG then Some True else if su_side su = SHORT then Some False else None)"

definition strategy_state :: "timed_cfg \<Rightarrow> candle list \<Rightarrow> agent_state" where
  "strategy_state cfg candles =
     post_init (tc_limits cfg) ((fresh_state (tc_symbol cfg))\<lparr>ag_candles := butlast candles\<rparr>)"

definition timed_signal :: "timed_cfg \<Rightarrow> candle list \<Rightarrow> (timed, bool option) py" where
  "timed_signal cfg candles t =
     (case tc_strategy cfg of
        None \<Rightarrow> (generate_signal 10 30 True (butlast candles), t)
      | Some mk \<Rightarrow>
        (case supervisor_run (last candles) True (mk (td_broker t) (td_journal t), strategy_state cfg candles) of
           (Inl e, (sv, s)) \<Rightarrow> (Inl e, t\<lparr>td_journal := sp_journal sv\<rparr>)
         | (Inr ev, (sv, s)) \<Rightarrow>
           (Inr (setup_signal s), t\<lparr>td_journal := sp_journal sv, td_breaker := record_success (td_breaker t)\<rparr>)))"

section \<open>The order\<close>

definition timed_order :: "timed_cfg \<Rightarrow> real \<Rightarrow> real \<Rightarrow> bool \<Rightarrow> order option" where
  "timed_order cfg equity close long =
     (let risk_amount = equity * (tc_risk_pct cfg / 100);
          stop_distance = close * (tc_stop_bps cfg / 10000)
      in if stop_distance \<le> 0 then None
         else Some \<lparr>o_client_id = None, o_go = True, o_side = (if long then LONG else SHORT), o_type = Market,
           o_entry = Fin close, o_qty = Fin (risk_amount / stop_distance),
           o_sl = Fin (if long then close - stop_distance else close + stop_distance),
           o_tp = Fin (if long then close + stop_distance * tc_tp_r cfg else close - stop_distance * tc_tp_r cfg),
           o_equity = Some equity, o_created_at = None\<rparr>)"

text \<open>\<open>f"ord_{int(time.time())}_{iteration}"\<close>.\<close>

definition order_id :: "real \<Rightarrow> nat \<Rightarrow> string" where
  "order_id now iteration = ''ord_'' @ str_of_int (py_int now) @ ''_'' @ str_of_nat iteration"

definition with_id :: "order option \<Rightarrow> (timed, order option) py" where
  "with_id ord t = (case ord of None \<Rightarrow> (Inr None, t)
     | Some o' \<Rightarrow> (let (now, t1) = td_time t
                  in (Inr (Some (o'\<lparr>o_client_id := Some (order_id now (td_iterations t1))\<rparr>)), t1)))"

section \<open>One round\<close>

text \<open>\<open>Inr False\<close>: too few candles, the \<open>continue\<close> of the loop; \<open>Inr True\<close>: the round is complete.\<close>

definition timed_body :: "timed_cfg \<Rightarrow> candle list res \<Rightarrow> (timed, bool) py" where
  "timed_body cfg answer = bindS (liftS answer) (\<lambda>raw.
     let candles = normalize_candle_order raw; latest = last candles
     in bindS (modifyS (\<lambda>t. t\<lparr>td_candles := Some candles\<rparr>)) (\<lambda>_.
        if length candles < 31 then returnS False
        else bindS (timed_signal cfg candles) (\<lambda>signal.
             bindS (\<lambda>t. with_id (case signal of None \<Rightarrow> None
                       | Some long \<Rightarrow> timed_order cfg (td_equity t) (c_close latest) long) t) (\<lambda>ord.
             bindS (\<lambda>t. case on_candle (tc_limits cfg) latest ord None (td_broker t) of
                       (r, b) \<Rightarrow> (r, t\<lparr>td_broker := b\<rparr>)) (\<lambda>ev.
             bindS (modifyS (\<lambda>t. t\<lparr>td_trades := td_trades t + length (evs_fills ev),
                       td_equity := td_equity t + (\<Sum>x\<leftarrow>evs_exits ev. er_pnl x)\<rparr>)) (\<lambda>_.
             bindS (\<lambda>t. (get_unrealized_pnl (c_close latest) (td_broker t), t)) (\<lambda>u. returnS True)))))))"

definition count_failure :: "timed \<Rightarrow> timed" where
  "count_failure t =
     (let (t1, d1) = td_time (t\<lparr>td_errors := td_errors t + 1\<rparr>); (t2, d2) = td_time d1
      in d2\<lparr>td_breaker := record_failure t1 t2 (td_breaker d2)\<rparr>)"

definition timed_round :: "timed_cfg \<Rightarrow> candle list res \<Rightarrow> timed \<Rightarrow> timed" where
  "timed_round cfg answer t =
     (case timed_body cfg answer (t\<lparr>td_iterations := td_iterations t + 1\<rparr>) of
        (Inl e, t1) \<Rightarrow> (count_failure t1)\<lparr>td_waits := td_waits t1 + 1\<rparr>
      | (Inr True, t1) \<Rightarrow> t1\<lparr>td_waits := td_waits t1 + 1\<rparr>
      | (Inr False, t1) \<Rightarrow> t1)"

text \<open>The checks at the top of the loop, in their order; \<open>None\<close>: the loop is left.\<close>

definition stop_because :: "string \<Rightarrow> timed \<Rightarrow> timed" where
  "stop_because reason t = t\<lparr>td_reason := reason\<rparr>"

definition timed_turn :: "timed_cfg \<Rightarrow> turn \<Rightarrow> timed \<Rightarrow> bool \<times> timed" where
  "timed_turn cfg u t =
     (let (now, t1) = td_time t
      in if tc_end cfg \<le> now then (False, t1)
      else if tn_kill_file u then (False, stop_because ''kill_switch'' t1)
      else if tn_stop_signal u then (False, stop_because ''shutdown_requested'' t1)
      else let (now2, t2) = td_time t1
      in if tc_end cfg \<le> now2 then (False, stop_because ''duration_limit_reached'' t2)
      else let (now3, t3) = td_time t2; (ok, br) = allow_request now3 (td_breaker t3); t4 = t3\<lparr>td_breaker := br\<rparr>
      in if \<not> ok then (False, stop_because ''circuit_breaker_open'' t4)
         else (True, timed_round cfg (tn_candles u) t4))"

fun timed_loop :: "timed_cfg \<Rightarrow> turn list \<Rightarrow> timed \<Rightarrow> timed" where
  "timed_loop cfg [] t = t"
| "timed_loop cfg (u # us) t = (case timed_turn cfg u t of (True, t1) \<Rightarrow> timed_loop cfg us t1 | (False, t1) \<Rightarrow> t1)"

section \<open>The end\<close>

text \<open>
  The clean-up is one \<open>try\<close>: when the position cannot be closed (no candle was ever loaded, the last
  answer was empty, or the exit raises) the broker is not shut down.
\<close>

definition timed_cleanup :: "timed_cfg \<Rightarrow> timed \<Rightarrow> timed" where
  "timed_cleanup cfg t =
     (case b_pos (td_broker t) of None \<Rightarrow> t\<lparr>td_broker := shutdown_broker (td_broker t)\<rparr>
      | Some p \<Rightarrow>
        (case td_candles t of
           None \<Rightarrow> t
         | Some [] \<Rightarrow> t
         | Some (c # cs) \<Rightarrow>
           (case close_all (tc_now_iso cfg) (c_close (last (c # cs))) (td_broker t) of
              (Inl e, b) \<Rightarrow> t\<lparr>td_broker := b\<rparr>
            | (Inr xs, b) \<Rightarrow> t\<lparr>td_broker := shutdown_broker b\<rparr>)))"

definition run_timed_session :: "timed_cfg \<Rightarrow> turn list \<Rightarrow> timed \<Rightarrow> timed" where
  "run_timed_session cfg turns t = timed_cleanup cfg (timed_loop cfg turns t)"

record timed_result =
  tr_iterations :: nat
  tr_trades :: nat
  tr_errors :: nat
  tr_starting_equity :: real
  tr_ending_equity :: real
  tr_stopped_reason :: string

definition timed_report :: "real \<Rightarrow> timed \<Rightarrow> timed_result" where
  "timed_report starting_balance t =
     \<lparr>tr_iterations = td_iterations t, tr_trades = td_trades t, tr_errors = td_errors t,
      tr_starting_equity = starting_balance, tr_ending_equity = td_equity t, tr_stopped_reason = td_reason t\<rparr>"

end
