(* ===== verification/Run_Properties.thy ===== *)
theory Run_Properties
  imports Timed_Session Agent_Properties Paper_Properties
begin

text \<open>
  What the orchestrated run and the timed session do with the supervisor and the paper broker. Both
  build the supervisor without the limits of the instrument, so all its orders are refused: the
  orchestrated run never trades, and the timed session trades on the bare setup instead.
\<close>


section \<open>Triples for programs that raise\<close>

text \<open>
  \<open>triple P f Q E\<close>: from a state with \<open>P\<close>, \<open>f\<close> either returns \<open>a\<close> in a state with \<open>Q a\<close> or raises in
  a state with \<open>E\<close>.
\<close>

definition triple :: "('s \<Rightarrow> bool) \<Rightarrow> ('s, 'a) py \<Rightarrow> ('a \<Rightarrow> 's \<Rightarrow> bool) \<Rightarrow> ('s \<Rightarrow> bool) \<Rightarrow> bool" where
  "triple P f Q E \<longleftrightarrow> (\<forall>s. P s \<longrightarrow> (case f s of (Inr a, s') \<Rightarrow> Q a s' | (Inl e, s') \<Rightarrow> E s'))"

lemma tripleI: "(\<And>s. P s \<Longrightarrow> case f s of (Inr a, s') \<Rightarrow> Q a s' | (Inl e, s') \<Rightarrow> E s') \<Longrightarrow> triple P f Q E"
  by (simp add: triple_def)

lemma tripleD:
  "triple P f Q E \<Longrightarrow> P s \<Longrightarrow> f s = (Inr a, s') \<Longrightarrow> Q a s'"
  "triple P f Q E \<Longrightarrow> P s \<Longrightarrow> f s = (Inl e, s') \<Longrightarrow> E s'"
  by (fastforce simp: triple_def)+

lemma triple_bind:
  assumes "triple P m Q E" "\<And>a. triple (Q a) (f a) R E"
  shows "triple P (bindS m f) R E"
  using assms by (fastforce simp: triple_def bindS_def split: prod.splits sum.splits)

lemma triple_return: "(\<And>s. P s \<Longrightarrow> Q a s) \<Longrightarrow> triple P (returnS a) Q E"
  by (simp add: triple_def)

lemma triple_modify: "(\<And>s. P s \<Longrightarrow> Q () (f s)) \<Longrightarrow> triple P (modifyS f) Q E"
  by (simp add: triple_def)

section \<open>A supervisor without instrument limits\<close>

text \<open>\<open>idle\<close>: the broker is flat without working orders. \<open>desk\<close>: the supervisor owns it, and the limits of
  the instrument are unknown.\<close>

definition idle :: "broker \<Rightarrow> bool" where
  "idle b \<longleftrightarrow> b_pos b = None \<and> b_working_orders b = []"

definition no_order :: "world \<Rightarrow> bool" where
  "no_order w \<longleftrightarrow> \<not> order_go (ag_order (snd w))"

definition desk :: "broker \<Rightarrow> world \<Rightarrow> bool" where
  "desk b w \<longleftrightarrow> sp_broker (fst w) = b \<and> ii_lot_size (sp_info (fst w)) = None"

lemma risk_without_limits: "ii_lot_size info = None \<Longrightarrow> \<not> order_go (ag_order (execution_risk_run cfg info s))"
  by (simp add: execution_risk_run_def Let_def split: option.splits)

lemma gate_no_order: "\<not> order_go a \<Longrightarrow> resolve_order L a c = Inr r
    \<Longrightarrow> \<not> order_go (ag_order (risk_gate_run (s\<lparr>ag_order := as_agent_order r\<rparr>)))"
  by (cases a) (simp_all add: resolve_order_def as_agent_order_def risk_gate_run_def)

lemma broker_no_order: "\<not> order_go a \<Longrightarrow> broker_order a = None"
  by (cases a) (simp_all add: broker_order_def)

lemma on_state_desk: "triple (desk b) (\<lambda>w. on_state (g w) w) (\<lambda>_. desk b) (desk b)"
  by (auto simp: triple_def on_state_def desk_def split: prod.splits sum.splits)

lemma plan_without_limits:
  "triple (desk b) (supervisor_plan c) (\<lambda>_ w. desk b w \<and> no_order w) (desk b)"
  unfolding supervisor_plan_def
proof (intro triple_bind)
  show "triple (desk b) (take_candle c) (\<lambda>_. desk b) (desk b)"
    by (simp add: take_candle_def triple_def desk_def split: prod.splits)
  show "triple (desk b) run_derivatives (\<lambda>_. desk b) (desk b)"
    by (auto simp: triple_def run_derivatives_def desk_def split: prod.splits sum.splits)
  show "triple (desk b) (modifyS (\<lambda>(sv, s). (sv, execution_risk_run (sp_risk sv) (sp_info sv) s)))
      (\<lambda>_ w. desk b w \<and> no_order w) (desk b)"
    by (auto simp: triple_def desk_def no_order_def risk_without_limits split: prod.splits)
  show "triple (\<lambda>w. desk b w \<and> no_order w) (\<lambda>(sv, s). let (cancels, s') = pending_trigger c (sp_pending_max sv) s
      in (Inr cancels, (sv, s'))) (\<lambda>_ w. desk b w \<and> no_order w) (desk b)"
    by (auto simp: triple_def desk_def no_order_def pending_trigger_def Let_def split: prod.splits agent_order.splits)
  show "triple (\<lambda>w. desk b w \<and> no_order w) (\<lambda>w. on_state (\<lambda>s. bindE (resolve_order (sp_limits (fst w)) (ag_order s) c)
      (\<lambda>r. Inr (risk_gate_run (s\<lparr>ag_order := as_agent_order r\<rparr>)))) w) (\<lambda>_ w. desk b w \<and> no_order w) (desk b)"
    by (auto simp: triple_def desk_def no_order_def on_state_def bindE_Inr_iff dest: gate_no_order
        split: prod.splits sum.splits)
qed (auto intro: on_state_desk triple_return)

lemma journal_without_order:
  "triple (\<lambda>w. desk b w \<and> no_order w)
     (modifyS (\<lambda>(sv, s). let (s', j) = journal_run \<lparr>se_fills = fs, se_exits = xs, se_cancels = cancels\<rparr>
                       s (sp_journal sv) in (sv\<lparr>sp_journal := j\<rparr>, s')))
     (\<lambda>_ w. desk b w \<and> no_order w) (desk b)"
  by (rule triple_modify) (auto simp: desk_def no_order_def dest: journal_frame split: prod.splits)

lemma supervisor_without_limits:
  assumes "idle b"
  shows "triple (desk b) (supervisor_run c skip)
     (\<lambda>ev w. desk b w \<and> no_order w \<and> evs_fills ev = [] \<and> evs_exits ev = []) (desk b)"
  unfolding supervisor_run_plan
proof (intro triple_bind)
  show "triple (\<lambda>w. desk b w \<and> no_order w) (trade_bar c skip)
      (\<lambda>ev w. (desk b w \<and> no_order w) \<and> evs_fills ev = [] \<and> evs_exits ev = []) (desk b)"
    using assms
    by (auto simp: triple_def trade_bar_def desk_def no_order_def idle_def broker_no_order sample_bar
        split: prod.splits if_splits sum.splits)
  show "triple (\<lambda>w. (desk b w \<and> no_order w) \<and> evs_fills ev = [] \<and> evs_exits ev = [])
     (modifyS (\<lambda>(sv, s). let (s', j) = journal_run \<lparr>se_fills = evs_fills ev, se_exits = evs_exits ev, se_cancels = cancels\<rparr>
                       s (sp_journal sv) in (sv\<lparr>sp_journal := j\<rparr>, s')))
     (\<lambda>_ w. desk b w \<and> no_order w \<and> evs_fills ev = [] \<and> evs_exits ev = []) (desk b)" for ev cancels
    using journal_without_order by (auto simp: triple_def)
qed (auto intro: plan_without_limits triple_return)

section \<open>Orchestrated runs\<close>

text \<open>Nothing was traded: broker and run are as they began, but for saves.\<close>

definition untraded :: "broker \<Rightarrow> broker \<Rightarrow> bool" where
  "untraded b0 b \<longleftrightarrow> idle b \<and> b_current_equity b = b_current_equity b0 \<and> b_order_history b = b_order_history b0
     \<and> b_is_inverse b = b_is_inverse b0"

definition run_idle :: "broker \<Rightarrow> orchestration \<Rightarrow> bool" where
  "run_idle b0 o' \<longleftrightarrow> untraded b0 (sp_broker (oc_supervisor o')) \<and> ii_lot_size (sp_info (oc_supervisor o')) = None
     \<and> oc_equity o' = b_current_equity b0 \<and> (\<forall>(t, x)\<in>set (oc_history o'). x = b_current_equity b0)"

lemma shutdown_untraded: "untraded b0 b \<Longrightarrow> untraded b0 (shutdown_broker b)"
  by (simp add: untraded_def idle_def shutdown_broker_def save_state'_def time_time_def Let_def)

lemma run_idle_frame [simp]:
  "run_idle b0 (o'\<lparr>oc_breaker := x\<rparr>) = run_idle b0 o'" "run_idle b0 (o'\<lparr>oc_clock := y\<rparr>) = run_idle b0 o'"
  "run_idle b0 (oc_event z o') = run_idle b0 o'"
  by (simp_all add: run_idle_def oc_event_def)

lemma stop_broker_idle: "run_idle b0 o' \<Longrightarrow> run_idle b0 (stop_broker o')"
  by (simp add: run_idle_def stop_broker_def shutdown_untraded)

lemma step_failed_idle: "run_idle b0 o' \<Longrightarrow> run_idle b0 (step_failed o')"
  by (simp add: step_failed_def oc_time_def Let_def stop_broker_idle)

lemma orchestration_step_idle:
  assumes "run_idle b0 o'"
  shows "run_idle b0 (orchestration_step mode symbol c o')"
proof -
  obtain ok br where a: "allow_request (oc_clock o' 0) (oc_breaker o') = (ok, br)" by fastforce
  define o2 where "o2 = o'\<lparr>oc_clock := \<lambda>k. oc_clock o' (Suc k), oc_breaker := br\<rparr>"
  have o2: "run_idle b0 o2" using assms by (simp add: o2_def)
  let ?b = "sp_broker (oc_supervisor o2)" and ?w = "(oc_supervisor o2, fresh_state symbol)"
  have d: "desk ?b ?w" "idle ?b" using o2 by (simp_all add: run_idle_def desk_def untraded_def)
  note sup = tripleD [OF supervisor_without_limits [OF d(2)] d(1), of c "mode = DryRun"]
  have carry: "run_idle b0 (o2\<lparr>oc_supervisor := fst w\<rparr>)" if "desk ?b w" for w
    using o2 that by (simp add: run_idle_def desk_def)
  obtain r w where r: "supervisor_run c (mode = DryRun) ?w = (r, w)"
    by (cases "supervisor_run c (mode = DryRun) ?w")
  have step: "orchestration_step mode symbol c o' = (if \<not> ok then oc_event ''CircuitBreakerOpen'' o2
      else case r of Inl e \<Rightarrow> step_failed (o2\<lparr>oc_supervisor := fst w\<rparr>) | Inr ev \<Rightarrow> step_passed mode c ev w o2)"
    using a r by (cases r) (simp_all add: orchestration_step_def oc_time_def o2_def Let_def)
  show ?thesis
  proof (cases r)
    case (Inl e)
    have "run_idle b0 (step_failed (o2\<lparr>oc_supervisor := fst w\<rparr>))"
      using sup(2) [OF r [unfolded Inl]] carry by (intro step_failed_idle) blast
    then show ?thesis using o2 by (simp add: step Inl)
  next
    case (Inr ev)
    have e: "desk ?b w" "\<not> order_go (ag_order (snd w))" "evs_exits ev = []"
      using sup(1) [OF r [unfolded Inr]] by (simp_all add: no_order_def)
    have "b_pos (sp_broker (fst w)) = None" using e(1) d(2) by (simp add: desk_def idle_def)
    then have u: "get_unrealized_pnl (c_close c) (sp_broker (fst w)) = Inr 0"
      by (simp add: get_unrealized_pnl_def calculate_unrealized_pnl_def)
    show ?thesis using e u carry [OF e(1)] o2
      by (simp add: step Inr step_passed_def Let_def run_idle_def oc_event_def)
  qed
qed

text \<open>An orchestrated run never trades: its supervisor is built without the limits of the instrument,
  so every order is refused. Whatever candles it is given, in paper and in dry-run mode, whether steps
  fail and whether the run is killed, a broker that starts flat keeps its equity and its history, no
  position is opened, and every point of the equity curve is the starting equity.\<close>

theorem orchestrated_run_never_trades:
  assumes "run_orchestrated_mode L overrides a answer ckpt today paper j clk collectors = (ok, Some o')"
    and "b_pos (paper (ra_symbol a)) = None" "b_working_orders (paper (ra_symbol a)) = []"
  shows "b_pos (sp_broker (oc_supervisor o')) = None
     \<and> b_current_equity (sp_broker (oc_supervisor o')) = b_current_equity (paper (ra_symbol a))
     \<and> b_order_history (sp_broker (oc_supervisor o')) = b_order_history (paper (ra_symbol a))
     \<and> oc_equity o' = b_current_equity (paper (ra_symbol a))
     \<and> (\<forall>(t, x)\<in>set (oc_history o'). x = b_current_equity (paper (ra_symbol a)))"
proof -
  let ?b = "paper (ra_symbol a)"
  have loop: "run_idle ?b x \<Longrightarrow> run_idle ?b (snd (orchestration_loop kill mode symbol cs x))" for kill mode symbol cs x
    by (induction cs arbitrary: x; cases kill) (simp_all add: stop_broker_idle orchestration_step_idle)
  have start: "run_idle ?b (start_orchestration (get_agent_config L overrides e (ra_risk_pct a) (ra_tp_r a) ?b j) clk)" for e
    using assms(2,3) by (simp add: run_idle_def untraded_def idle_def start_orchestration_def get_agent_config_def)
  have "run_idle ?b o'"
  proof -
    have "\<exists>cs e. o' = snd (orchestration_loop (ra_kill a) (ra_mode a) (ra_symbol a) cs
        (start_orchestration (get_agent_config L overrides e (ra_risk_pct a) (ra_tp_r a) ?b j) clk))"
      using assms(1) by (simp add: run_orchestrated_mode_def Let_def split: sum.splits prod.splits) (metis snd_conv)+
    then show ?thesis using loop [OF start] by blast
  qed
  then show ?thesis by (simp add: run_idle_def untraded_def idle_def)
qed

definition climbing :: "candle list" where
  "climbing = map (\<lambda>k. \<lparr>c_ts = [char_of (65 + k)], c_open = 100 + real k, c_high = 102 + real k, c_low = 99 + real k,
     c_close = 101 + real k, c_volume = 5\<rparr>) [0..<40]"

definition paper_args :: run_args where
  "paper_args = \<lparr>ra_mode = PaperRun, ra_symbol = ''BTCUSDT'', ra_risk_pct = 1, ra_stop_bps = 30, ra_tp_r = 3 / 2,
     ra_kill = False, ra_risk_file = Inr (), ra_offline_safe = True\<rparr>"

theorem orchestrated_run_never_trades_witness:
  "\<exists>o'. run_orchestrated_mode std_limits Map.empty paper_args (Inr climbing) None ''d'' (\<lambda>s. sample_broker)
       \<lparr>jn_lines = [], jn_ids = \<lambda>k. ''PT''\<rparr> (\<lambda>k. real k) None = (True, Some o')
     \<and> b_pos (sp_broker (oc_supervisor o')) = None"
proof -
  have n: "load_market_data (Inr climbing) = Inr climbing"
    by (simp add: load_market_data_def normalize_candle_order_def climbing_def last_map hd_map del: upt_Suc)
  have end': "fst (orchestration_loop False m sym cs x0) = Inr ()" for m sym cs x0
    by (induction cs arbitrary: x0) simp_all
  let ?sv = "get_agent_config std_limits Map.empty 10000 1 (3 / 2) sample_broker \<lparr>jn_lines = [], jn_ids = \<lambda>k. ''PT''\<rparr>"
  obtain o' where "orchestration_loop False PaperRun ''BTCUSDT'' climbing (start_orchestration ?sv real) = (Inr (), o')"
    using end' [of PaperRun "''BTCUSDT''" climbing "start_orchestration ?sv real"]
    by (cases "orchestration_loop False PaperRun ''BTCUSDT'' climbing (start_orchestration ?sv real)") simp
  then have r: "run_orchestrated_mode std_limits Map.empty paper_args (Inr climbing) None ''d'' (\<lambda>s. sample_broker)
       \<lparr>jn_lines = [], jn_ids = \<lambda>k. ''PT''\<rparr> (\<lambda>k. real k) None = (True, Some o')"
    using n by (simp add: run_orchestrated_mode_def validate_runtime_config_def paper_args_def load_daily_checkpoint_def)
  from orchestrated_run_never_trades [OF r] show ?thesis using r by auto
qed

section \<open>The timed session\<close>

lemma timed_order_fields:
  assumes "timed_order cfg equity close long = Some o'"
  shows "o_go o'" "o_side o' = (if long then LONG else SHORT)" "\<exists>q sl tp d. 0 < d \<and> o_entry o' = Fin close \<and> o_qty o' = Fin q
     \<and> o_sl o' = Fin sl \<and> o_tp o' = Fin tp \<and> q * d = equity * tc_risk_pct cfg / 100 \<and> \<bar>close - sl\<bar> = d"
proof -
  show "o_go o'" "o_side o' = (if long then LONG else SHORT)"
    using assms by (auto simp: timed_order_def Let_def split: if_splits)
  have "0 < close * tc_stop_bps cfg" using assms by (auto simp: timed_order_def Let_def split: if_splits)
  then show "\<exists>q sl tp d. 0 < d \<and> o_entry o' = Fin close \<and> o_qty o' = Fin q
     \<and> o_sl o' = Fin sl \<and> o_tp o' = Fin tp \<and> q * d = equity * tc_risk_pct cfg / 100 \<and> \<bar>close - sl\<bar> = d"
    using assms by (intro exI [of _ "equity * (tc_risk_pct cfg / 100) / (close * (tc_stop_bps cfg / 10000))"]
        exI [of _ "if long then close - close * (tc_stop_bps cfg / 10000) else close + close * (tc_stop_bps cfg / 10000)"]
        exI [of _ "if long then close + close * (tc_stop_bps cfg / 10000) * tc_tp_r cfg
           else close - close * (tc_stop_bps cfg / 10000) * tc_tp_r cfg"] exI [of _ "close * (tc_stop_bps cfg / 10000)"])
      (auto simp: timed_order_def Let_def split: if_splits)
qed

definition bare :: "world \<Rightarrow> bool" where
  "bare w \<longleftrightarrow> ii_lot_size (sp_info (fst w)) = None"

lemma skipped_without_limits: "triple bare (supervisor_run c True) (\<lambda>ev w. bare w \<and> no_order w) bare"
proof (rule tripleI)
  fix w assume "bare w"
  then have d: "desk (sp_broker (fst w)) w" by (simp add: bare_def desk_def)
  have "triple (desk b) (supervisor_run c True) (\<lambda>ev w. desk b w \<and> no_order w) (desk b)" for b
    unfolding supervisor_run_plan
  proof (intro triple_bind)
    show "triple (\<lambda>w. desk b w \<and> no_order w) (trade_bar c True) (\<lambda>_ w. desk b w \<and> no_order w) (desk b)"
      by (auto simp: triple_def trade_bar_def split: prod.splits)
    show "triple (\<lambda>w. desk b w \<and> no_order w)
       (modifyS (\<lambda>(sv, s). let (s', j) = journal_run \<lparr>se_fills = evs_fills ev, se_exits = evs_exits ev, se_cancels = cancels\<rparr>
                         s (sp_journal sv) in (sv\<lparr>sp_journal := j\<rparr>, s')))
       (\<lambda>_ w. desk b w \<and> no_order w) (desk b)" for ev cancels
      by (rule journal_without_order)
  qed (auto intro: plan_without_limits triple_return)
  from tripleD [OF this d] show "case supervisor_run c True w of (Inr a, w') \<Rightarrow> bare w' \<and> no_order w' | (Inl e, w') \<Rightarrow> bare w'"
    by (auto simp: bare_def desk_def split: prod.splits sum.splits)
qed

text \<open>A timed session with a strategy trades past the refusals of its own agents. Its supervisor has no
  limits of the instrument, so every step ends without a go; whenever the step leaves a setup with a
  side, the session nevertheless hands the broker an order of that side, sized from its own risk
  percentage and stop distance, whatever the funding gates, the cooldown and the risk gate said.\<close>

theorem timed_session_trades_past_the_gates:
  assumes "tc_strategy cfg = Some mk" "ii_lot_size (sp_info (mk (td_broker t) (td_journal t))) = None"
    and "normalize_candle_order cs = cs" "31 \<le> length cs" "0 < c_close (last cs) * tc_stop_bps cfg"
    and "supervisor_run (last cs) True (mk (td_broker t) (td_journal t), strategy_state cfg cs) = (Inr ev, (sv, s))"
    and "setup_signal s = Some long"
  shows "\<not> order_go (ag_order s)
     \<and> (\<exists>o' q sl d. o_go o' \<and> o_side o' = (if long then LONG else SHORT) \<and> o_qty o' = Fin q \<and> o_sl o' = Fin sl
          \<and> d = \<bar>c_close (last cs) - sl\<bar> \<and> q * d = td_equity t * tc_risk_pct cfg / 100
          \<and> td_broker (snd (timed_body cfg (Inr cs) t)) = snd (on_candle (tc_limits cfg) (last cs) (Some o') None (td_broker t)))"
proof -
  have "bare (mk (td_broker t) (td_journal t), strategy_state cfg cs)" using assms(2) by (simp add: bare_def)
  from tripleD(1) [OF skipped_without_limits this assms(6)] have go: "\<not> order_go (ag_order s)"
    by (simp add: no_order_def)
  obtain o1 where o1: "timed_order cfg (td_equity t) (c_close (last cs)) long = Some o1"
    using assms(5) by (simp add: timed_order_def Let_def)
  define t1 where "t1 = t\<lparr>td_candles := Some cs, td_journal := sp_journal sv, td_breaker := record_success (td_breaker t)\<rparr>"
  define o' where "o' = o1\<lparr>o_client_id := Some (order_id (td_clock t 0) (td_iterations t))\<rparr>"
  obtain r b where b: "on_candle (tc_limits cfg) (last cs) (Some o') None (td_broker t) = (r, b)" by fastforce
  have "timed_signal cfg cs (t\<lparr>td_candles := Some cs\<rparr>) = (Inr (Some long), t1)"
    using assms(1,6,7) by (simp add: timed_signal_def t1_def)
  moreover have "with_id (Some o1) t1 = (Inr (Some o'), t1\<lparr>td_clock := \<lambda>k. td_clock t (Suc k)\<rparr>)"
    by (simp add: with_id_def td_time_def t1_def o'_def)
  ultimately have "td_broker (snd (timed_body cfg (Inr cs) t)) = b"
    using assms(3,4) o1 b
    by (cases r) (simp_all add: timed_body_def Let_def t1_def bindS_def split: sum.split)
  then have "td_broker (snd (timed_body cfg (Inr cs) t)) = snd (on_candle (tc_limits cfg) (last cs) (Some o') None (td_broker t))"
    by (simp add: b)
  moreover obtain q sl tp d where "o_qty o1 = Fin q" "o_sl o1 = Fin sl" "q * d = td_equity t * tc_risk_pct cfg / 100"
    "\<bar>c_close (last cs) - sl\<bar> = d" using timed_order_fields(3) [OF o1] by blast
  ultimately show ?thesis using go timed_order_fields(1,2) [OF o1]
    by (intro conjI exI [of _ o']) (auto simp: o'_def)
qed

text \<open>
  An answer with fewer than 31 candles takes the \<open>continue\<close> of the loop, which skips the wait: as long
  as such answers come, the session asks again and again without a pause.
\<close>

lemma short_answers_are_polled_without_pause:
  assumes "\<forall>k. td_clock t k < tc_end cfg" "br_state (td_breaker t) = CLOSED"
    and "\<forall>u\<in>set us. \<not> tn_kill_file u \<and> \<not> tn_stop_signal u \<and> (\<exists>cs. tn_candles u = Inr cs \<and> length cs < 31)"
  shows "td_iterations (timed_loop cfg us t) = td_iterations t + length us \<and> td_waits (timed_loop cfg us t) = td_waits t
     \<and> td_errors (timed_loop cfg us t) = td_errors t"
  using assms
proof (induction us arbitrary: t)
  case Nil
  then show ?case by simp
next
  case (Cons u us)
  obtain cs where cs: "tn_candles u = Inr cs" "length cs < 31" "\<not> tn_kill_file u" "\<not> tn_stop_signal u"
    using Cons.prems(3) by auto
  have early: "\<not> tc_end cfg \<le> td_clock t k" for k using Cons.prems(1) by (simp add: not_le)
  define t5 where "t5 = t\<lparr>td_clock := \<lambda>k. td_clock t (Suc (Suc (Suc k))), td_iterations := td_iterations t + 1,
      td_candles := Some (normalize_candle_order cs)\<rparr>"
  have round': "timed_round cfg (Inr cs) t4 = t4\<lparr>td_iterations := td_iterations t4 + 1,
      td_candles := Some (normalize_candle_order cs)\<rparr>" for t4
    using cs(2) by (simp add: timed_round_def timed_body_def Let_def)
  have "timed_turn cfg u t = (True, t5)"
    by (simp add: timed_turn_def td_time_def Let_def early cs allow_request_def Cons.prems(2) round' t5_def)
  moreover have "td_iterations (timed_loop cfg us t5) = td_iterations t5 + length us
      \<and> td_waits (timed_loop cfg us t5) = td_waits t5 \<and> td_errors (timed_loop cfg us t5) = td_errors t5"
  proof (rule Cons.IH)
    show "\<forall>k. td_clock t5 k < tc_end cfg" using Cons.prems(1) by (simp add: t5_def)
    show "br_state (td_breaker t5) = CLOSED" using Cons.prems(2) by (simp add: t5_def)
    show "\<forall>u\<in>set us. \<not> tn_kill_file u \<and> \<not> tn_stop_signal u \<and> (\<exists>cs. tn_candles u = Inr cs \<and> length cs < 31)"
      using Cons.prems(3) by (meson list.set_intros(2))
  qed
  ultimately show ?case by (simp add: t5_def)
qed

text \<open>The final close is missing from the report of a timed session: when a position is open at the end and
  is closed at the last candle, the broker's equity moves by the profit of that exit and its history
  records it, but the session's ending equity is the one before the close.\<close>

theorem timed_report_misses_the_final_close:
  assumes "td_candles (timed_loop cfg us t) = Some cs" "cs \<noteq> []"
    and "close_all (tc_now_iso cfg) (c_close (last cs)) (td_broker (timed_loop cfg us t)) = (Inr xs, b)"
    and "b_pos (td_broker (timed_loop cfg us t)) \<noteq> None"
  shows "tr_ending_equity (timed_report e0 (run_timed_session cfg us t)) = td_equity (timed_loop cfg us t)
     \<and> (\<exists>x. xs = [x] \<and> b_current_equity (td_broker (run_timed_session cfg us t))
              = b_current_equity (td_broker (timed_loop cfg us t)) + er_pnl x
          \<and> b_order_history (td_broker (run_timed_session cfg us t))
              = b_order_history (td_broker (timed_loop cfg us t)) @ [ExitEv x])"
proof -
  let ?t = "timed_loop cfg us t" and ?b = "td_broker (timed_loop cfg us t)"
  obtain p where p: "b_pos ?b = Some p" using assms(4) by blast
  obtain c cs' where cs: "cs = c # cs'" using assms(2) by (cases cs) auto
  obtain x b1 where x: "exit_position (tc_now_iso cfg) (c_close (last cs)) ''FORCE_CLOSE'' ?b = (Inr x, b1)"
    "xs = [x]" "b = b1\<lparr>b_pos := None\<rparr>"
    using assms(3) p by (auto simp: close_all_def bindS_def split: prod.splits sum.splits)
  have e: "b_current_equity b1 = b_current_equity ?b + er_pnl x" "b_order_history b1 = b_order_history ?b @ [ExitEv x]"
    using x(1) p by (auto simp: exit_position_def rng_uniform_def Let_def save_state'_def time_time_def
        split: prod.splits sum.splits)
  have "run_timed_session cfg us t = ?t\<lparr>td_broker := shutdown_broker b\<rparr>"
    using assms(1,3) p by (simp add: run_timed_session_def timed_cleanup_def cs)
  moreover have "b_current_equity (shutdown_broker b) = b_current_equity b" "b_order_history (shutdown_broker b) = b_order_history b"
    by (simp_all add: shutdown_broker_def save_state'_def time_time_def Let_def)
  ultimately show ?thesis using e x by (simp add: timed_report_def)
qed

definition timed_sample_cfg :: timed_cfg where
  "timed_sample_cfg = \<lparr>tc_symbol = ''BTCUSDT'', tc_end = 100, tc_risk_pct = 1, tc_stop_bps = 30, tc_tp_r = 3 / 2,
     tc_limits = std_limits, tc_strategy = None, tc_now_iso = ''t''\<rparr>"

definition held :: timed where
  "held = (init_timed 10000 stopped_broker \<lparr>jn_lines = [], jn_ids = \<lambda>k. ''PT''\<rparr> (\<lambda>k. 200))\<lparr>td_candles := Some [sample_candle]\<rparr>"

theorem timed_report_misses_the_final_close_witness:
  "tr_ending_equity (timed_report 10000 (run_timed_session timed_sample_cfg [] held)) = 10000
     \<and> b_order_history (td_broker (run_timed_session timed_sample_cfg [] held)) \<noteq> []"
proof -
  obtain xs b where c: "close_all ''t'' (c_close sample_candle) stopped_broker = (Inr xs, b)"
    by (simp add: close_all_def stopped_broker_def sample_position_def exit_position_def rng_uniform_def
        calculate_full_exit_pnl_def pos_entry_def sample_candle_def bindS_def Let_def)
  have "b_pos stopped_broker \<noteq> None" by (simp add: stopped_broker_def)
  with timed_report_misses_the_final_close [of timed_sample_cfg "[]" held "[sample_candle]" xs b 10000] c
  show ?thesis by (auto simp: held_def init_timed_def timed_sample_cfg_def)
qed

section \<open>The breaker at the pace of polling\<close>

text \<open>
  Failures more than fifteen seconds apart, as the default poll of sixty seconds spaces them, never open
  the breaker of the session, whose five failures must lie within sixty seconds.
\<close>

lemma spaced_length:
  assumes "sorted_wrt (\<lambda>a b. a + 15 < b) (ts :: real list)" "ts \<noteq> []"
  shows "hd ts + 15 * (real (length ts) - 1) \<le> last ts"
  using assms
proof (induction ts)
  case (Cons a ts)
  then show ?case by (cases ts) (auto simp: algebra_simps)
qed simp

lemma slow_failures_never_trip:
  assumes "sorted_wrt (\<lambda>a b. a + 15 < b) ts"
  shows "br_state (fold (\<lambda>t. record_failure t (f t)) ts (init_breaker 5 120 60)) = CLOSED"
proof -
  have "br_state b = CLOSED \<and> set (failures b) \<subseteq> set us \<and> sorted_wrt (\<lambda>a b. a + 15 < b) (failures b)
      \<and> failure_threshold b = 5 \<and> time_window b = 60"
    if "b = fold (\<lambda>t. record_failure t (f t)) us (init_breaker 5 120 60)" "sorted_wrt (\<lambda>a b. a + 15 < b) us" for us b
    using that
  proof (induction us arbitrary: b rule: rev_induct)
    case Nil
    then show ?case by (simp add: init_breaker_def)
  next
    case (snoc t us)
    define b0 where "b0 = fold (\<lambda>t. record_failure t (f t)) us (init_breaker 5 120 60)"
    have s: "sorted_wrt (\<lambda>a b. a + 15 < b) us" "\<forall>u\<in>set us. u + 15 < t" using snoc.prems(2) by (simp_all add: sorted_wrt_append)
    note b0 = snoc.IH [OF b0_def s(1)]
    define fs where "fs = filter (\<lambda>u. t - u \<le> 60) (failures b0 @ [t])"
    have w: "sorted_wrt (\<lambda>a b. a + 15 < b) (failures b0 @ [t])" using b0 s(2) by (auto simp: sorted_wrt_append)
    have fs: "sorted_wrt (\<lambda>a b. a + 15 < b) fs" unfolding fs_def by (rule sorted_wrt_filter [OF w])
    have ends: "fs \<noteq> []" "last fs = t" "t - hd fs \<le> 60"
    proof -
      show ne: "fs \<noteq> []" "last fs = t" by (simp_all add: fs_def)
      from hd_in_set [OF ne(1)] show "t - hd fs \<le> 60" unfolding fs_def by (simp only: set_filter mem_Collect_eq)
    qed
    have strict: "length fs < 5"
    proof (rule ccontr)
      assume "\<not> length fs < 5"
      then have l: "5 \<le> length fs" by simp
      then have "fs ! 0 + 15 < fs ! 1" "fs ! 1 + 15 < fs ! 2" "fs ! 2 + 15 < fs ! 3" "fs ! 3 + 15 < fs ! 4"
        using fs by (simp_all add: sorted_wrt_iff_nth_less)
      moreover have "fs ! 4 \<le> last fs"
      proof (cases "length fs = 5")
        case False
        then have "4 < length fs - 1" "length fs - 1 < length fs" using l by simp_all
        from fs [unfolded sorted_wrt_iff_nth_less, rule_format, OF this] show ?thesis
          using ends(1) by (simp add: last_conv_nth)
      qed (use ends(1) in \<open>simp add: last_conv_nth\<close>)
      ultimately show False using ends(2,3) hd_conv_nth [OF ends(1)] by simp
    qed
    have "prune_failures t (b0\<lparr>failures := failures b0 @ [t]\<rparr>) = b0\<lparr>failures := fs\<rparr>"
      using b0 by (simp add: prune_failures_def fs_def)
    then have "record_failure t (f t) b0 = b0\<lparr>failures := fs\<rparr>"
      using b0 strict by (simp add: record_failure_def)
    moreover have "b = record_failure t (f t) b0" using snoc.prems(1) by (simp add: b0_def)
    ultimately have b: "b = b0\<lparr>failures := fs\<rparr>" by simp
    show ?case using b0 fs by (auto simp: b fs_def)
  qed
  from this [OF refl assms] show ?thesis by simp
qed

definition level_candle :: candle where
  "level_candle = \<lparr>c_ts = ''1'', c_open = 100, c_high = 102, c_low = 98, c_close = 100, c_volume = 10\<rparr>"

definition reclaim_candle :: candle where
  "reclaim_candle = \<lparr>c_ts = ''2'', c_open = 99, c_high = 101, c_low = 97, c_close = 100, c_volume = 10\<rparr>"

definition sweep_window :: "candle list" where
  "sweep_window = replicate 30 level_candle @ [reclaim_candle]"

definition gateless :: "broker \<Rightarrow> journal \<Rightarrow> supervisor" where
  "gateless b j = (get_agent_config std_limits Map.empty 10000 1 (3 / 2) b j)\<lparr>sp_setups := sample_setups, sp_cvd_lookback := 100\<rparr>"

definition gateless_cfg :: timed_cfg where
  "gateless_cfg = timed_sample_cfg\<lparr>tc_strategy := Some gateless\<rparr>"

lemma ema_loop_const: "ema_loop k x (replicate n x) = x"
  by (induction n) (simp_all add: algebra_simps)

lemma ema_const: "0 < p \<Longrightarrow> p \<le> int n \<Longrightarrow> ema (replicate n x) p = Some x"
proof -
  assume p: "0 < p" "p \<le> int n"
  then have "nat p \<le> n" by simp
  with p show ?thesis by (simp add: ema_def ema_loop_const sum_list_replicate)
qed

lemma sweep_closes: "map c_close sweep_window = replicate 31 100"
  by (simp add: sweep_window_def level_candle_def reclaim_candle_def replicate_append_same [symmetric] numeral_eq_Suc)

lemma window_intake:
  assumes "ag_candles s = sweep_window" "ag_instrument s = ''BTCUSDT''"
  shows "\<exists>ctx. market_intake_run Map.empty s = Inr (s\<lparr>ag_context := Some ctx\<rparr>) \<and> mc_price ctx = 100 \<and> mc_atr ctx = Some 4"
proof -
  have "true_ranges (replicate n level_candle @ [reclaim_candle]) = replicate n 4" for n
    by (induction n rule: induct_nat_012) (simp_all add: level_candle_def reclaim_candle_def true_range_def)
  then have a: "atr sweep_window 14 = Inr (Some 4)"
    by (simp add: atr_def sweep_window_def Let_def last_n_def sum_list_replicate)
  have "\<exists>m. py_max xs = Inr m" "\<exists>m. py_min xs = Inr m" if "xs \<noteq> []" for xs :: "real list"
    using that by (cases xs; simp add: py_max_def py_min_def)+
  from this [of "map c_high sweep_window"] this [of "map c_low sweep_window"]
  obtain hi lo where "py_max (map c_high sweep_window) = Inr hi" "py_min (map c_low sweep_window) = Inr lo"
    by (auto simp: sweep_window_def)
  then have sw: "swing_high_low sweep_window 40 = Inr (Some hi, Some lo)"
    by (simp add: swing_high_low_def) (simp add: sweep_window_def)
  have ne: "sweep_window \<noteq> []" by (simp add: sweep_window_def)
  show ?thesis using assms a sw ne
    by (simp add: market_intake_run_def Let_def sweep_closes ema_const split del: if_split)
      (intro exI conjI, rule refl, simp_all)
qed


lemma window_setup:
  assumes "ag_candles s = sweep_window" "ag_context s = Some ctx" "mc_price ctx = 100" "mc_atr ctx = Some 4"
  shows "\<exists>su. setup_run sample_setups s = Inr (s\<lparr>ag_setup := Some su\<rparr>) \<and> su_side su = LONG"
proof -
  have "last_n 2 sweep_window = [level_candle, reclaim_candle]"
    by (simp add: sweep_window_def last_n_def numeral_eq_Suc)
  then have d: "detect_sweep sweep_window 1 = Inr \<lparr>sw_swept = Some SweptLow, sw_level = Some 98, sw_reclaimed = True\<rparr>"
    by (simp add: detect_sweep_def sweep_window_def py_max_def py_min_def level_candle_def reclaim_candle_def numeral_eq_Suc)
  have v: "avg_volume sweep_window = 10"
    by (simp add: avg_volume_def sweep_window_def last_n_def level_candle_def reclaim_candle_def sum_list_replicate)
  have l: "last sweep_window = reclaim_candle" "sweep_window \<noteq> []" by (simp_all add: sweep_window_def)
  show ?thesis using assms d v l
    by (simp add: setup_run_def sample_setups_def sweep_setup_def Let_def sweep_closes ema_const sweep_choice_def
        reclaim_candle_def) (intro exI conjI, rule refl, simp add: sweep_reclaim_def)
qed

lemma gateless_fields:
  "sp_overrides (gateless b j) = Map.empty" "sp_cvd_lookback (gateless b j) = 100" "sp_setups (gateless b j) = sample_setups"
  "max_keep (gateless b j) = 800" "ii_lot_size (sp_info (gateless b j)) = None" "sp_broker (gateless b j) = b"
  by (simp_all add: gateless_def get_agent_config_def max_keep_def)

lemma window_step:
  "\<exists>ev sv s. supervisor_run reclaim_candle True (gateless b j, strategy_state gateless_cfg sweep_window) = (Inr ev, (sv, s))
     \<and> setup_signal s = Some True"
proof -
  let ?s0 = "(fresh_state ''BTCUSDT'')\<lparr>ag_candles := sweep_window\<rparr>"
  have s0: "take_candle reclaim_candle (gateless b j, strategy_state gateless_cfg sweep_window) = (Inr (), (gateless b j, ?s0))"
    by (simp add: take_candle_def strategy_state_def post_init_def gateless_cfg_def timed_sample_cfg_def std_limits_def
        gateless_fields fresh_state_def sweep_window_def butlast_append)
  obtain ctx where 1: "market_intake_run Map.empty ?s0 = Inr (?s0\<lparr>ag_context := Some ctx\<rparr>)" "mc_price ctx = 100" "mc_atr ctx = Some 4"
    using window_intake [of ?s0] by (auto simp: fresh_state_def)
  define s1 where "s1 = ?s0\<lparr>ag_context := Some ctx\<rparr>"
  obtain d x where 2: "derivatives_run (sp_deriv (gateless b j)) s1 = (Inr (s1\<lparr>ag_derivatives := x\<rparr>), d)"
    by (simp add: derivatives_run_def gateless_def get_agent_config_def new_deriv_agent_def next_snapshot_def
        empty_snapshot_def funding_flags_def Let_def)
  define s2 where "s2 = s1\<lparr>ag_derivatives := x\<rparr>"
  define sv where "sv = (gateless b j)\<lparr>sp_deriv := d\<rparr>"
  have svf: "sp_cvd_lookback sv = 100" "sp_setups sv = sample_setups" by (simp_all add: sv_def gateless_fields)
  have 3: "cvd_run 100 s2 = Inr s2" by (simp add: cvd_run_def s2_def s1_def sweep_window_def)
  obtain su where 4: "setup_run sample_setups s2 = Inr (s2\<lparr>ag_setup := Some su\<rparr>)" "su_side su = LONG"
    using window_setup [of s2 ctx] 1 by (auto simp: s2_def s1_def)
  define s4 where "s4 = execution_risk_run (sp_risk sv) (sp_info sv) (s2\<lparr>ag_setup := Some su\<rparr>)"
  have ng: "\<not> order_go (ag_order s4)" unfolding s4_def
    by (rule risk_without_limits) (simp add: sv_def gateless_fields)
  have su4: "ag_setup s4 = Some su" by (simp add: s4_def execution_risk_run_def Let_def split: option.splits)
  have 5: "pending_trigger reclaim_candle (sp_pending_max sv) s4 = ([], s4\<lparr>ag_pending_bars := 0\<rparr>)"
    using ng by (cases "ag_order s4") (simp_all add: pending_trigger_def)
  define s6 where "s6 = risk_gate_run (s4\<lparr>ag_pending_bars := 0, ag_order := EmptyOrder\<rparr>)"
  have 6: "resolve_order L (ag_order s4) reclaim_candle = Inr None" for L
    using ng by (cases "ag_order s4") (simp_all add: resolve_order_def)
  have s6: "ag_setup s6 = Some su" "s6 = s4\<lparr>ag_pending_bars := 0, ag_order := EmptyOrder\<rparr>"
    using su4 by (simp_all add: s6_def risk_gate_run_def)
  obtain s7 j' where 7: "journal_run \<lparr>se_fills = [], se_exits = [], se_cancels = []\<rparr> s6 (sp_journal sv) = (s7, j')"
    by fastforce
  have "ag_setup s7 = Some su"
    using 7 s6 by (auto simp: journal_run_def open_plan_def split: option.splits if_splits)
  moreover have "supervisor_run reclaim_candle True (gateless b j, strategy_state gateless_cfg sweep_window)
      = (Inr \<lparr>evs_fills = [], evs_exits = []\<rparr>, (sv\<lparr>sp_journal := j'\<rparr>, s7))"
    using s0 1 2 3 4 5 6 7
    by (simp add: supervisor_run_def bindS_def on_state_def run_derivatives_def gateless_fields s1_def [symmetric]
        s2_def [symmetric] sv_def [symmetric] s4_def [symmetric] modifyS_def trade_bar_def as_agent_order_def
        s6_def [symmetric] svf)
  ultimately show ?thesis using 4(2) by (simp add: setup_signal_def)
qed

theorem timed_session_trades_past_the_gates_witness:
  "\<exists>(s :: agent_state) o'. \<not> order_go (ag_order s) \<and> o_go o' \<and> o_side o' = LONG
     \<and> td_broker (snd (timed_body gateless_cfg (Inr sweep_window) (init_timed 10000 sample_broker
          \<lparr>jn_lines = [], jn_ids = \<lambda>k. ''PT''\<rparr> (\<lambda>k. 7))))
        = snd (on_candle std_limits reclaim_candle (Some o') None sample_broker)"
proof -
  let ?j = "\<lparr>jn_lines = [], jn_ids = \<lambda>k. ''PT''\<rparr> :: journal"
  let ?t = "init_timed 10000 sample_broker ?j (\<lambda>k. 7)"
  obtain ev sv s where w: "supervisor_run reclaim_candle True (gateless sample_broker ?j, strategy_state gateless_cfg sweep_window)
      = (Inr ev, (sv, s))" "setup_signal s = Some True" using window_step by blast
  have l: "last sweep_window = reclaim_candle" "length sweep_window = 31" "normalize_candle_order sweep_window = sweep_window"
    by (simp_all add: sweep_window_def normalize_candle_order_def level_candle_def reclaim_candle_def)
  have t: "td_broker ?t = sample_broker" "td_journal ?t = ?j" by (simp_all add: init_timed_def)
  have "tc_strategy gateless_cfg = Some gateless" "tc_limits gateless_cfg = std_limits"
    "0 < c_close (last sweep_window) * tc_stop_bps gateless_cfg"
    by (simp_all add: gateless_cfg_def timed_sample_cfg_def l reclaim_candle_def)
  from timed_session_trades_past_the_gates [of gateless_cfg gateless ?t sweep_window ev sv s True] this w l t
  show ?thesis by (intro exI [of _ s]) (auto simp: gateless_fields)
qed

end
