(* ===== verification/State_Store.thy ===== *)
theory State_Store
  imports Bitunix_Client
begin

text \<open>
  \<^verbatim>\<open>core/state_manager.py\<close>: the state of a session as one JSON document, written to a temporary file,
  copied to a backup and moved into place. A disk gives the content of every path, and a write is
  the list of the disks it goes through, so that a crash is a prefix of that list. What the
  operating system answers (a failed write, a refused copy or rename) is a record \<open>save_io\<close>. The JSON
  text of a document is not modelled: \<open>Doc j\<close> is a file from which \<open>json.load\<close> reads \<open>j\<close>.
\<close>

section \<open>Files\<close>

datatype content =
    Doc json          \<comment> \<open>\<open>json.load\<close> succeeds\<close>
  | Empty_File        \<comment> \<open>size 0\<close>
  | Truncated         \<comment> \<open>\<open>json.load\<close> raises \<open>JSONDecodeError\<close>\<close>
  | Unreadable        \<comment> \<open>opening or decoding raises something else\<close>

type_synonym 'p disk = "'p \<Rightarrow> content option"

text \<open>The files of the state directory, by the suffix given to \<open>unified_state\<close>.\<close>

datatype state_path = State_File | Backup_File | Temp_File | Corrupt_File int

datatype copy_io = Copied | Not_Opened | Broken_Copy content

datatype replace_io = Replaced | Denied | Failed

record save_io =
  io_write :: "(py_exc \<times> content option) option"
    \<comment> \<open>the exception of \<open>open\<close> or \<open>json.dump\<close>, with what is left in the temporary file\<close>
  io_copy :: copy_io
  io_replace :: "nat \<Rightarrow> replace_io"
  io_unlink :: bool

definition write_trace :: "save_io \<Rightarrow> 'p \<Rightarrow> json \<Rightarrow> 'p disk \<Rightarrow> unit res \<times> 'p disk list" where
  "write_trace io t doc d =
     (case io_write io of
        None \<Rightarrow> (Inr (), [d(t \<mapsto> Empty_File), d(t \<mapsto> Truncated), d(t \<mapsto> Doc doc)])
      | Some (e, None) \<Rightarrow> (Inl e, [])
      | Some (e, Some c) \<Rightarrow> (Inl e, [d(t \<mapsto> Empty_File), d(t \<mapsto> c)]))"

text \<open>\<open>for i in range(max_retries)\<close>: a \<open>PermissionError\<close> is retried but for the last time, any other error is not.\<close>

fun replace_loop :: "(nat \<Rightarrow> replace_io) \<Rightarrow> nat \<Rightarrow> nat \<Rightarrow> unit res" where
  "replace_loop answer i 0 = Inr ()"
| "replace_loop answer i (Suc n) =
     (case answer i of
        Replaced \<Rightarrow> Inr ()
      | Failed \<Rightarrow> Inl OSError
      | Denied \<Rightarrow> if n = 0 then Inl (OtherError ''PermissionError'') else replace_loop answer (Suc i) n)"

definition os_replace :: "'p \<Rightarrow> 'p \<Rightarrow> 'p disk \<Rightarrow> 'p disk" where
  "os_replace src dst d = (d(dst := d src))(src := None)"

section \<open>The state manager\<close>

record state_manager =
  sm_state :: json
  sm_disk :: "state_path disk"

text \<open>
  \<open>_load\<close>: the first of the two files that decodes. A state file that cannot be read at all is moved
  away when the system allows it (\<open>renames\<close>); one that is not JSON stays where it is.
\<close>

fun load_from :: "bool \<Rightarrow> int \<Rightarrow> state_path list \<Rightarrow> state_path disk \<Rightarrow> json \<times> state_path disk" where
  "load_from renames now [] d = (JObj [], d)"
| "load_from renames now (p # ps) d =
     (case d p of
        None \<Rightarrow> load_from renames now ps d
      | Some (Doc j) \<Rightarrow> (j, d)
      | Some Empty_File \<Rightarrow> load_from renames now ps d
      | Some Truncated \<Rightarrow> load_from renames now ps d
      | Some Unreadable \<Rightarrow>
          load_from renames now ps
            (if p = State_File \<and> renames then os_replace State_File (Corrupt_File now) d else d))"

definition sm_init :: "bool \<Rightarrow> int \<Rightarrow> state_path disk \<Rightarrow> state_manager" where
  "sm_init renames now d =
     (let (j, d') = load_from renames now [State_File, Backup_File] d in \<lparr>sm_state = j, sm_disk = d'\<rparr>)"

text \<open>Assignment to a key of a dict: the document has to be an object.\<close>

definition jset :: "string \<Rightarrow> json \<Rightarrow> (string \<times> json) list \<Rightarrow> (string \<times> json) list" where
  "jset k v kvs =
     (if k \<in> fst ` set kvs then map (\<lambda>(k', x). (k', if k' = k then v else x)) kvs else kvs @ [(k, v)])"

fun set_item :: "string \<Rightarrow> json \<Rightarrow> json \<Rightarrow> json res" where
  "set_item k v (JObj kvs) = Inr (JObj (jset k v kvs))"
| "set_item k v j = Inl TypeError"

fun get_item :: "string \<Rightarrow> json \<Rightarrow> json \<Rightarrow> json res" where
  "get_item k dflt (JObj kvs) = Inr (jget_or kvs k dflt)"
| "get_item k dflt j = Inl AttributeError"

definition sm_set :: "string \<Rightarrow> json \<Rightarrow> (state_manager, unit) py" where
  "sm_set k v sm =
     (case set_item k v (sm_state sm) of
        Inl e \<Rightarrow> (Inl e, sm)
      | Inr j \<Rightarrow> (Inr (), sm\<lparr>sm_state := j\<rparr>))"

definition sm_get :: "string \<Rightarrow> json \<Rightarrow> state_manager \<Rightarrow> json res" where
  "sm_get k dflt sm = get_item k dflt (sm_state sm)"

definition get_circuit_breaker_state :: "state_manager \<Rightarrow> json res" where
  "get_circuit_breaker_state = sm_get ''circuit_breaker'' (JObj [])"

definition set_circuit_breaker_state :: "json \<Rightarrow> (state_manager, unit) py" where
  "set_circuit_breaker_state = sm_set ''circuit_breaker''"

definition get_supervisor_state :: "state_manager \<Rightarrow> json res" where
  "get_supervisor_state = sm_get ''supervisor'' (JObj [])"

definition set_supervisor_state :: "json \<Rightarrow> (state_manager, unit) py" where
  "set_supervisor_state = sm_set ''supervisor''"

text \<open>\<open>shutil.copy2\<close>: an error is logged, whatever it left in the backup.\<close>

definition backup_trace :: "save_io \<Rightarrow> state_path disk \<Rightarrow> state_path disk list" where
  "backup_trace io d =
     (case d State_File of
        None \<Rightarrow> []
      | Some c \<Rightarrow>
          (case io_copy io of
             Copied \<Rightarrow> [d(Backup_File \<mapsto> Empty_File), d(Backup_File \<mapsto> Truncated), d(Backup_File \<mapsto> c)]
           | Not_Opened \<Rightarrow> []
           | Broken_Copy x \<Rightarrow> [d(Backup_File \<mapsto> Empty_File), d(Backup_File \<mapsto> x)]))"

definition save_trace :: "save_io \<Rightarrow> json \<Rightarrow> state_path disk \<Rightarrow> unit res \<times> state_path disk list" where
  "save_trace io doc d =
     (case write_trace io Temp_File doc d of
        (Inl e, ws) \<Rightarrow> (Inl e, ws)
      | (Inr _, ws) \<Rightarrow>
          (let d1 = last (d # ws); bs = backup_trace io d1; d2 = last (d1 # bs)
           in case replace_loop (io_replace io) 0 3 of
                Inl e \<Rightarrow> (Inl e, ws @ bs)
              | Inr _ \<Rightarrow> (Inr (), ws @ bs @ [os_replace Temp_File State_File d2])))"

definition sm_stamp :: "real \<Rightarrow> state_manager \<Rightarrow> json res" where
  "sm_stamp now sm = set_item ''last_saved'' (JNum (Fin now)) (sm_state sm)"

definition state_save :: "save_io \<Rightarrow> real \<Rightarrow> (state_manager, unit) py" where
  "state_save io now sm =
     (case sm_stamp now sm of
        Inl e \<Rightarrow> (Inl e, sm)
      | Inr doc \<Rightarrow>
          (let (r, ds) = save_trace io doc (sm_disk sm)
           in (r, sm\<lparr>sm_state := doc, sm_disk := last (sm_disk sm # ds)\<rparr>)))"

text \<open>The process dies in \<open>save\<close> after \<open>k\<close> changes of the disk.\<close>

definition crash_in_save :: "save_io \<Rightarrow> real \<Rightarrow> nat \<Rightarrow> state_manager \<Rightarrow> state_path disk" where
  "crash_in_save io now k sm =
     (case sm_stamp now sm of
        Inl e \<Rightarrow> sm_disk sm
      | Inr doc \<Rightarrow> last (sm_disk sm # take k (snd (save_trace io doc (sm_disk sm)))))"

definition sm_clear :: "state_manager \<Rightarrow> state_manager" where
  "sm_clear sm = sm\<lparr>sm_state := JObj [], sm_disk := (sm_disk sm)(State_File := None)\<rparr>"

section \<open>\<open>atomic_save_json\<close>\<close>

text \<open>The temporary file of \<open>path\<close> is \<open>t\<close>; after any exception it is removed, when that is possible.\<close>

definition drop_temp :: "save_io \<Rightarrow> 'p \<Rightarrow> 'p disk \<Rightarrow> 'p disk list" where
  "drop_temp io t d = (if d t \<noteq> None \<and> io_unlink io then [d(t := None)] else [])"

definition atomic_save_trace ::
  "'p \<Rightarrow> 'p \<Rightarrow> save_io \<Rightarrow> json \<Rightarrow> 'p disk \<Rightarrow> unit res \<times> 'p disk list" where
  "atomic_save_trace path t io doc d =
     (case write_trace io t doc d of
        (Inl e, ws) \<Rightarrow> (Inl e, ws @ drop_temp io t (last (d # ws)))
      | (Inr _, ws) \<Rightarrow>
          (let d1 = last (d # ws)
           in case replace_loop (io_replace io) 0 3 of
                Inl e \<Rightarrow> (Inl e, ws @ drop_temp io t d1)
              | Inr _ \<Rightarrow> (Inr (), ws @ [os_replace t path d1])))"

section \<open>The contract of an atomic writer\<close>

text \<open>
  A writer and a run of it: each job is a document, the answers of the system and, when the process
  dies in it, the number of changes that reached the disk.
\<close>

type_synonym write_job = "save_io \<times> json \<times> nat option"

definition after_job ::
  "(save_io \<Rightarrow> json \<Rightarrow> 'p disk \<Rightarrow> unit res \<times> 'p disk list) \<Rightarrow> write_job \<Rightarrow> 'p disk \<Rightarrow> 'p disk" where
  "after_job trace = (\<lambda>(io, doc, crash) d.
     let ds = snd (trace io doc d)
     in last (d # (case crash of None \<Rightarrow> ds | Some k \<Rightarrow> take k ds)))"

lemma last_in_Cons: "last (x # xs) \<in> insert x (set xs)"
  by (induction xs arbitrary: x) auto

locale atomic_writer =
  fixes target :: 'p
    and trace :: "save_io \<Rightarrow> json \<Rightarrow> 'p disk \<Rightarrow> unit res \<times> 'p disk list"
  assumes all_or_nothing:
      "d' \<in> set (snd (trace io doc d)) \<Longrightarrow> d' target = d target \<or> d' target = Some (Doc doc)"
    and returned: "fst (trace io doc d) = Inr () \<Longrightarrow> last (d # snd (trace io doc d)) target = Some (Doc doc)"
    and raised: "fst (trace io doc d) = Inl e \<Longrightarrow> last (d # snd (trace io doc d)) target = d target"
begin

lemma prefix_old_or_new:
  assumes "set ds \<subseteq> set (snd (trace io doc d))"
  shows "last (d # ds) target \<in> {d target, Some (Doc doc)}"
proof -
  have "last (d # ds) = d \<or> last (d # ds) \<in> set (snd (trace io doc d))"
    using last_in_Cons [of d ds] assms by blast
  then show ?thesis using all_or_nothing [of "last (d # ds)" io doc d] by fastforce
qed

lemma crash_old_or_new:
  "last (d # take k (snd (trace io doc d))) target \<in> {d target, Some (Doc doc)}"
  by (rule prefix_old_or_new) (rule set_take_subset)

lemma job_old_or_new:
  "after_job trace (io, doc, crash) d target \<in> {d target, Some (Doc doc)}"
  unfolding after_job_def Let_def prod.case
  by (rule prefix_old_or_new [where io = io]) (cases crash, simp_all add: set_take_subset)

lemma reader_sees_whole_documents:
  "fold (after_job trace) jobs d target \<in> insert (d target) ((\<lambda>(_, doc, _). Some (Doc doc)) ` set jobs)"
proof (induction jobs arbitrary: d)
  case (Cons job jobs)
  obtain io doc crash where job: "job = (io, doc, crash)" by (cases job) auto
  show ?case
    using Cons.IH [of "after_job trace job d"] job_old_or_new [of io doc crash d]
    by (auto simp: job)
qed simp

end

section \<open>Both writers keep the contract\<close>

definition keeps :: "'p \<Rightarrow> content option \<Rightarrow> 'p disk list \<Rightarrow> bool" where
  "keeps p c ds \<longleftrightarrow> (\<forall>d \<in> set ds. d p = c)"

lemma keeps_simps [simp]:
  "keeps p c []" "keeps p c (d # ds) \<longleftrightarrow> d p = c \<and> keeps p c ds"
  "keeps p c (xs @ ys) \<longleftrightarrow> keeps p c xs \<and> keeps p c ys"
  by (auto simp: keeps_def)

lemma keeps_last: "keeps p c ds \<Longrightarrow> d p = c \<Longrightarrow> last (d # ds) p = c"
  using last_in_Cons [of d ds] by (auto simp: keeps_def)

lemma keeps_writes: "p \<noteq> t \<Longrightarrow> keeps p (d p) (snd (write_trace io t doc d))"
  by (auto simp: write_trace_def split: option.split)

lemma keeps_backup: "p \<noteq> Backup_File \<Longrightarrow> keeps p (d p) (backup_trace io d)"
  by (auto simp: backup_trace_def split: option.split copy_io.split)

lemma keeps_drop: "p \<noteq> t \<Longrightarrow> keeps p (d p) (drop_temp io t d)"
  by (auto simp: drop_temp_def)

lemma written:
  assumes "write_trace io t doc d = (Inr (), ws)"
  shows "last (d # ws) t = Some (Doc doc)"
  using assms by (auto simp: write_trace_def split: option.splits prod.splits)

lemma last_two_parts: "last (d # xs @ ys) = last (last (d # xs) # ys)"
  by (cases ys rule: rev_cases) auto

lemma os_replace_target: "src \<noteq> dst \<Longrightarrow> os_replace src dst d dst = d src"
  by (simp add: os_replace_def)

text \<open>What a trace does to the target: nothing but, at the very end, the replacement.\<close>

definition replaces_last :: "'p \<Rightarrow> json \<Rightarrow> 'p disk \<Rightarrow> unit res \<times> 'p disk list \<Rightarrow> bool" where
  "replaces_last p doc d rt \<longleftrightarrow>
     (case rt of
        (Inl e, ds) \<Rightarrow> keeps p (d p) ds
      | (Inr _, ds) \<Rightarrow> ds \<noteq> [] \<and> keeps p (d p) (butlast ds) \<and> last ds p = Some (Doc doc))"

lemma atomic_writerI:
  assumes "\<And>io doc d. replaces_last p doc d (trace io doc d)"
  shows "atomic_writer p trace"
proof
  fix d' io doc d e
  obtain r ds where t: "trace io doc d = (r, ds)" by (cases "trace io doc d") auto
  have *: "case r of Inl e \<Rightarrow> keeps p (d p) ds
      | Inr _ \<Rightarrow> ds \<noteq> [] \<and> keeps p (d p) (butlast ds) \<and> last ds p = Some (Doc doc)"
    using assms [of doc d io] by (simp add: t replaces_last_def split: sum.splits)
  show "fst (trace io doc d) = Inr () \<Longrightarrow> last (d # snd (trace io doc d)) p = Some (Doc doc)"
    using * by (simp add: t)
  show "fst (trace io doc d) = Inl e \<Longrightarrow> last (d # snd (trace io doc d)) p = d p"
    using * by (simp add: t keeps_last del: last.simps last_ConsR)
  assume "d' \<in> set (snd (trace io doc d))"
  then have "d' \<in> set (butlast ds) \<or> d' = last ds"
    by (cases ds rule: rev_cases) (auto simp: t)
  then show "d' p = d p \<or> d' p = Some (Doc doc)"
    using * \<open>d' \<in> _\<close> by (auto simp: t keeps_def split: sum.splits)
qed

lemma save_trace_replaces_last: "replaces_last State_File doc d (save_trace io doc d)"
proof -
  obtain r ws where w: "write_trace io Temp_File doc d = (r, ws)"
    by (cases "write_trace io Temp_File doc d") auto
  have kw: "keeps State_File (d State_File) ws"
    using keeps_writes [of State_File Temp_File d io doc] by (simp add: w)
  have kb: "keeps State_File (d State_File) (backup_trace io (last (d # ws)))"
    using keeps_backup [of State_File "last (d # ws)" io] keeps_last [OF kw, of d] by simp
  have tmp: "r = Inr () \<Longrightarrow> last (last (d # ws) # backup_trace io (last (d # ws))) Temp_File = Some (Doc doc)"
    using keeps_last [OF keeps_backup, of Temp_File "last (d # ws)" "last (d # ws)" io] written [of io Temp_File doc d ws]
    by (simp add: w del: last.simps last_ConsR)
  show ?thesis
    using kw kb tmp
    by (cases r) (auto simp: save_trace_def replaces_last_def w Let_def butlast_append os_replace_target
        simp del: last.simps last_ConsR replace_loop.simps split: sum.split)
qed

lemma atomic_save_replaces_last:
  assumes "path \<noteq> t"
  shows "replaces_last path doc d (atomic_save_trace path t io doc d)"
proof -
  obtain r ws where w: "write_trace io t doc d = (r, ws)" by (cases "write_trace io t doc d") auto
  have kw: "keeps path (d path) ws" using keeps_writes [OF assms, of d io doc] by (simp add: w)
  have kd: "keeps path (d path) (drop_temp io t (last (d # ws)))"
    using keeps_drop [OF assms, of "last (d # ws)" io] keeps_last [OF kw, of d] by simp
  have tmp: "r = Inr () \<Longrightarrow> last (d # ws) t = Some (Doc doc)"
    using written [of io t doc d ws] by (simp add: w del: last.simps last_ConsR)
  show ?thesis
    using kw kd tmp assms
    by (cases r) (auto simp: atomic_save_trace_def replaces_last_def w Let_def butlast_append os_replace_target
        simp del: last.simps last_ConsR replace_loop.simps split: sum.split)
qed

interpretation state_file: atomic_writer State_File save_trace
  by (rule atomic_writerI) (rule save_trace_replaces_last)

text \<open>\<open>with_suffix(".tmp")\<close> on a path that already has this suffix would be the path itself.\<close>

interpretation json_file: atomic_writer "''heartbeat.json''" "atomic_save_trace ''heartbeat.json'' ''heartbeat.tmp''"
  by (rule atomic_writerI) (rule atomic_save_replaces_last, simp)

end
