(* ===== verification/Lock_Manager.thy ===== *)
theory Lock_Manager
  imports Live_Broker
begin

text \<open>
  \<^verbatim>\<open>core/lock_manager.py\<close>: the PID file that keeps a second session from starting. The table of
  processes stands for \<^verbatim>\<open>psutil\<close>; what a process refuses to tell is \<open>None\<close>. \<open>acquire\<close> reads the file and
  writes it in two steps, which a second process can come between: \<open>lock_do\<close> has both the whole call
  and its two halves as events.
\<close>

section \<open>Processes and the lock file\<close>

record proc =
  pr_name :: "string option"
  pr_cmdline :: "string list option"
  pr_info :: "(real \<times> (string \<times> int) list \<times> string) option"
    \<comment> \<open>creation time, memory and status\<close>

type_synonym processes = "int \<Rightarrow> proc option"

datatype lock_text = Text string | Unreadable_Lock

type_synonym lock_file = "lock_text option"

definition is_space :: "char \<Rightarrow> bool" where
  "is_space c \<longleftrightarrow> c \<in> {CHR '' '', CHR 0x09, CHR 0x0A, CHR 0x0B, CHR 0x0C, CHR 0x0D}"

definition py_strip :: "string \<Rightarrow> string" where
  "py_strip s = rev (dropWhile is_space (rev (dropWhile is_space s)))"

text \<open>\<open>int(s)\<close> on a stripped string, without underscores between the digits.\<close>

definition int_of_text :: "string \<Rightarrow> int res" where
  "int_of_text s =
     (let neg = str_startswith ''-'' s;
          ds = (if neg \<or> str_startswith ''+'' s then tl s else s)
      in if py_isdigit ds then Inr (if neg then - int_of_digits ds else int_of_digits ds)
         else Inl (ValueError ''invalid literal for int()''))"

definition is_our_process :: "proc \<Rightarrow> bool" where
  "is_our_process p =
     (case pr_cmdline p of
        None \<Rightarrow> False
      | Some args \<Rightarrow> (\<exists>arg \<in> set args. str_contains ''laptop_agents'' arg))"

section \<open>The operations\<close>

text \<open>The condition under which \<open>acquire\<close> returns false; every exception of the check is swallowed.\<close>

definition lock_blocks :: "processes \<Rightarrow> lock_file \<Rightarrow> bool" where
  "lock_blocks procs l =
     (case l of
        None \<Rightarrow> False
      | Some Unreadable_Lock \<Rightarrow> False
      | Some (Text s) \<Rightarrow>
          (let content = py_strip s
           in if content = [] then False
              else case int_of_text content of
                  Inl e \<Rightarrow> False
                | Inr old_pid \<Rightarrow>
                    (case procs old_pid of
                       None \<Rightarrow> False
                     | Some p \<Rightarrow>
                         (case pr_name p of
                            None \<Rightarrow> False
                          | Some n \<Rightarrow> str_contains ''python'' (py_lower n) \<and> is_our_process p))))"

definition lock_write :: "int \<Rightarrow> lock_file" where
  "lock_write pid = Some (Text (str_of_int pid))"

definition acquire :: "processes \<Rightarrow> bool \<Rightarrow> int \<Rightarrow> lock_file \<Rightarrow> bool res \<times> lock_file" where
  "acquire procs writable pid l =
     (if lock_blocks procs l then (Inr False, l)
      else if \<not> writable then (Inl OSError, l)
      else (Inr True, lock_write pid))"

definition release :: "bool \<Rightarrow> lock_file \<Rightarrow> lock_file" where
  "release removable l = (if l \<noteq> None \<and> removable then None else l)"

datatype lock_status =
    Not_Running
  | Running int real "(string \<times> int) list" string

definition get_status :: "processes \<Rightarrow> lock_file \<Rightarrow> lock_status" where
  "get_status procs l =
     (case l of
        None \<Rightarrow> Not_Running
      | Some Unreadable_Lock \<Rightarrow> Not_Running
      | Some (Text s) \<Rightarrow>
          (let content = py_strip s
           in if content = [] then Not_Running
              else case int_of_text content of
                  Inl e \<Rightarrow> Not_Running
                | Inr pid \<Rightarrow>
                    (case procs pid of
                       None \<Rightarrow> Not_Running
                     | Some p \<Rightarrow>
                         if \<not> is_our_process p then Not_Running
                         else case pr_info p of
                             None \<Rightarrow> Not_Running
                           | Some (created, memory, status) \<Rightarrow> Running pid created memory status)))"

section \<open>Processes that come, go and compete\<close>

text \<open>
  \<open>lw_passed\<close> are the processes between the check and the write of \<open>acquire\<close>, \<open>lw_held\<close> those whose
  \<open>acquire\<close> returned true and that have not released the lock. A process that dies takes no step.
\<close>

record lock_world =
  lw_procs :: processes
  lw_lock :: lock_file
  lw_passed :: "int set"
  lw_held :: "int set"

datatype lock_event =
    Acquire int
  | Check int
  | Write int
  | Release int bool
  | Spawn int proc
  | Die int

fun lock_do :: "lock_event \<Rightarrow> lock_world \<Rightarrow> lock_world" where
  "lock_do (Acquire p) w =
     (if lw_procs w p = None \<or> p \<in> lw_held w \<union> lw_passed w then w
      else case acquire (lw_procs w) True p (lw_lock w) of
          (Inr True, l) \<Rightarrow> w\<lparr>lw_lock := l, lw_held := insert p (lw_held w)\<rparr>
        | (_, l) \<Rightarrow> w\<lparr>lw_lock := l\<rparr>)"
| "lock_do (Check p) w =
     (if lw_procs w p = None \<or> p \<in> lw_held w \<union> lw_passed w \<or> lock_blocks (lw_procs w) (lw_lock w) then w
      else w\<lparr>lw_passed := insert p (lw_passed w)\<rparr>)"
| "lock_do (Write p) w =
     (if p \<notin> lw_passed w then w
      else w\<lparr>lw_lock := lock_write p, lw_passed := lw_passed w - {p}, lw_held := insert p (lw_held w)\<rparr>)"
| "lock_do (Release p removable) w =
     (if p \<notin> lw_held w then w
      else w\<lparr>lw_lock := release removable (lw_lock w), lw_held := lw_held w - {p}\<rparr>)"
| "lock_do (Spawn p pr) w =
     (if lw_procs w p \<noteq> None \<or> p < 0 then w else w\<lparr>lw_procs := (lw_procs w)(p \<mapsto> pr)\<rparr>)"
| "lock_do (Die p) w =
     w\<lparr>lw_procs := (lw_procs w)(p := None), lw_passed := lw_passed w - {p}, lw_held := lw_held w - {p}\<rparr>"

text \<open>Every call of \<open>acquire\<close> runs alone; every process that calls it is one of ours.\<close>

fun serial :: "lock_event \<Rightarrow> bool" where
  "serial (Check p) = False"
| "serial (Write p) = False"
| "serial _ = True"

definition session_process :: "proc \<Rightarrow> bool" where
  "session_process p \<longleftrightarrow>
     (\<exists>n \<in> set_option (pr_name p). str_contains ''python'' (py_lower n)) \<and> is_our_process p"

definition empty_world :: lock_world where
  "empty_world = \<lparr>lw_procs = (\<lambda>_. None), lw_lock = None, lw_passed = {}, lw_held = {}\<rparr>"

section \<open>A PID survives the file\<close>

lemma pid_digit:
  assumes "n < 10"
  shows "is_digit (char_of (48 + n))" and "digit_val (char_of (48 + n)) = int n"
proof -
  have "list_all (\<lambda>n::nat. is_digit (char_of (48 + n))) [0..<10]" by code_simp
  then show "is_digit (char_of (48 + n))" using assms by (simp add: list_all_iff)
  show "digit_val (char_of (48 + n)) = int n" using assms by (simp add: digit_val_def)
qed

lemma digits_of_str: "list_all is_digit (str_of_nat n) \<and> str_of_nat n \<noteq> []"
proof (induction n rule: str_of_nat.induct)
  case (1 n)
  then show ?case by (subst (1 2) str_of_nat.simps) (simp add: pid_digit del: str_of_nat.simps)
qed

lemma int_of_digits_snoc: "int_of_digits (s @ [c]) = 10 * int_of_digits s + digit_val c"
  by (simp add: int_of_digits_def)

lemma int_of_str_of_nat: "int_of_digits (str_of_nat n) = int n"
proof (induction n rule: str_of_nat.induct)
  case (1 n)
  show ?case
  proof (cases "n < 10")
    case True
    then show ?thesis
      by (subst str_of_nat.simps) (simp add: int_of_digits_def pid_digit)
  next
    case False
    with 1 show ?thesis
      by (subst str_of_nat.simps) (simp add: int_of_digits_snoc pid_digit zdiv_int zmod_int)
  qed
qed

lemma digit_not_special:
  "is_digit c \<Longrightarrow> \<not> is_space c \<and> c \<noteq> CHR ''-'' \<and> c \<noteq> CHR ''+''"
  by (auto simp: is_digit_def is_space_def)

lemma strip_digits:
  assumes "list_all is_digit s"
  shows "py_strip s = s"
proof -
  have sp: "\<not> is_space c" if "c \<in> set s" for c
    using assms that digit_not_special by (auto simp: list_all_iff)
  have "dropWhile is_space xs = xs" if "set xs \<subseteq> set s" for xs
    using that sp by (cases xs) auto
  then show ?thesis by (simp add: py_strip_def)
qed

lemma int_of_text_digits:
  assumes "list_all is_digit s" and "s \<noteq> []"
  shows "int_of_text s = Inr (int_of_digits s)"
proof -
  obtain c cs where s: "s = c # cs" using assms(2) by (cases s) auto
  then have "is_digit c" using assms(1) by simp
  then show ?thesis
    using assms digit_not_special [of c] by (simp add: int_of_text_def str_startswith_def py_isdigit_def s)
qed

lemma written_lock_blocks:
  assumes "0 \<le> pid"
  shows "lock_blocks procs (lock_write pid) \<longleftrightarrow> (\<exists>p. procs pid = Some p \<and> session_process p)"
  using assms digits_of_str [of "nat pid"]
  by (auto simp: lock_blocks_def lock_write_def str_of_int_def strip_digits int_of_text_digits
      int_of_str_of_nat Let_def session_process_def split: option.splits)

end
