(* ===== verification/Store_Properties.thy ===== *)
theory Store_Properties
  imports State_Store Lock_Manager
begin

text \<open>
  What the state file and the lock file promise: after any sequence of saves, failures, crashes and
  restarts the next start finds a state that was saved (and which), and two sessions whose calls of
  \<open>acquire\<close> do not overlap never hold the lock together; with the cases in which these promises end.
\<close>

section \<open>The state file across crashes\<close>

datatype store_event =
    Set_Item string json
  | Save save_io real
  | Crash save_io real nat bool int     \<comment> \<open>die in \<open>save\<close>, then start again\<close>
  | Restart bool int

fun store_do :: "store_event \<Rightarrow> state_manager \<Rightarrow> state_manager" where
  "store_do (Set_Item k v) sm = snd (sm_set k v sm)"
| "store_do (Save io now) sm = snd (state_save io now sm)"
| "store_do (Crash io now k renames t) sm = sm_init renames t (crash_in_save io now k sm)"
| "store_do (Restart renames t) sm = sm_init renames t (sm_disk sm)"

text \<open>
  The abstract store: the states that the next start may find. A save that returns leaves exactly
  its own; a save that raises leaves the store alone; a crash in a save adds that save's.
\<close>

fun promise :: "store_event \<Rightarrow> state_manager \<Rightarrow> json list \<Rightarrow> json list" where
  "promise (Save io now) sm ps =
     (case state_save io now sm of (Inr _, sm') \<Rightarrow> [sm_state sm'] | (Inl _, _) \<Rightarrow> ps)"
| "promise (Crash io now k renames t) sm ps =
     (case sm_stamp now sm of Inr doc \<Rightarrow> doc # ps | Inl _ \<Rightarrow> ps)"
| "promise ev sm ps = ps"

fun store_run :: "store_event list \<Rightarrow> state_manager \<times> json list \<Rightarrow> state_manager \<times> json list" where
  "store_run [] s = s"
| "store_run (ev # evs) (sm, ps) = store_run evs (store_do ev sm, promise ev sm ps)"

definition first_state :: "state_path disk \<Rightarrow> json \<Rightarrow> bool" where
  "first_state d j \<longleftrightarrow>
     d State_File = Some (Doc j) \<or> d State_File = None \<and> d Backup_File = None \<and> j = JObj []"

definition kept_promise :: "state_path disk \<Rightarrow> json list \<Rightarrow> bool" where
  "kept_promise d ps \<longleftrightarrow> (\<exists>j \<in> set ps. first_state d j)"

lemma load_first_state: "first_state d j \<Longrightarrow> sm_init renames t d = \<lparr>sm_state = j, sm_disk = d\<rparr>"
  by (auto simp: first_state_def sm_init_def)

lemma kept_init: "kept_promise d ps \<Longrightarrow> kept_promise (sm_disk (sm_init renames t d)) ps"
  by (auto simp: kept_promise_def load_first_state)

lemma kept_more: "kept_promise d ps \<Longrightarrow> set ps \<subseteq> set qs \<Longrightarrow> kept_promise d qs"
  by (auto simp: kept_promise_def)

lemma no_backup_without_state:
  assumes "d State_File = None" and "d' \<in> set (snd (save_trace io doc d))"
  shows "d' Backup_File = d Backup_File"
proof -
  obtain r ws where w: "write_trace io Temp_File doc d = (r, ws)"
    by (cases "write_trace io Temp_File doc d") auto
  have k: "keeps State_File None ws" "keeps Backup_File (d Backup_File) ws"
    using keeps_writes [of State_File Temp_File d io doc] keeps_writes [of Backup_File Temp_File d io doc]
      assms(1) by (simp_all add: w)
  have "backup_trace io (last (d # ws)) = []" "last (d # ws) Backup_File = d Backup_File"
    using keeps_last [of State_File None ws d] keeps_last [of Backup_File _ ws d] k assms(1) by (simp_all add: backup_trace_def)
  moreover have "last [x] = x" for x :: "state_path disk" by simp
  ultimately show ?thesis
    using assms(2) k(2)
    by (auto simp: save_trace_def w keeps_def os_replace_def Let_def simp del: last.simps last_ConsR
        split: sum.splits)
qed

lemma kept_prefix:
  assumes "kept_promise d ps" and "set ds \<subseteq> set (snd (save_trace io doc d))"
  shows "kept_promise (last (d # ds)) (doc # ps)"
proof -
  let ?d = "last (d # ds)"
  have m: "?d State_File \<in> {d State_File, Some (Doc doc)}"
    by (rule state_file.prefix_old_or_new [OF assms(2)])
  have b: "d State_File = None \<Longrightarrow> ?d Backup_File = d Backup_File"
    using last_in_Cons [of d ds] assms(2) no_backup_without_state [of d "last (d # ds)" io doc]
    by (auto simp del: last.simps last_ConsR)
  show ?thesis using assms(1) m b by (auto simp: kept_promise_def first_state_def simp del: last.simps last_ConsR)
qed

lemma kept_raised:
  assumes "kept_promise d ps" and "fst (save_trace io doc d) = Inl e"
  shows "kept_promise (last (d # snd (save_trace io doc d))) ps"
proof -
  let ?d = "last (d # snd (save_trace io doc d))"
  have m: "?d State_File = d State_File" by (rule state_file.raised [OF assms(2)])
  have b: "d State_File = None \<Longrightarrow> ?d Backup_File = d Backup_File"
    using last_in_Cons [of d "snd (save_trace io doc d)"] no_backup_without_state [of d ?d io doc]
    by (auto simp del: last.simps last_ConsR)
  show ?thesis using assms(1) m b by (auto simp: kept_promise_def first_state_def simp del: last.simps last_ConsR)
qed

lemma kept_step:
  assumes "kept_promise (sm_disk sm) ps"
  shows "kept_promise (sm_disk (store_do ev sm)) (promise ev sm ps)"
proof (cases ev)
  case (Set_Item k v)
  then show ?thesis using assms by (auto simp: sm_set_def split: sum.split)
next
  case (Save io now)
  show ?thesis
  proof (cases "sm_stamp now sm")
    case (Inl e)
    then show ?thesis using assms by (simp add: Save state_save_def)
  next
    case (Inr doc)
    obtain r ds where t: "save_trace io doc (sm_disk sm) = (r, ds)"
      by (cases "save_trace io doc (sm_disk sm)") auto
    show ?thesis
      using kept_raised [OF assms, of io doc] state_file.returned [of io doc "sm_disk sm"]
      by (cases r) (auto simp: Save state_save_def Inr t kept_promise_def first_state_def
          simp del: last.simps last_ConsR)
  qed
next
  case (Crash io now k renames t)
  show ?thesis
  proof (cases "sm_stamp now sm")
    case (Inl e)
    then show ?thesis using assms kept_init by (simp add: Crash crash_in_save_def)
  next
    case (Inr doc)
    then show ?thesis
      using kept_init [OF kept_prefix [OF assms set_take_subset, of k io doc]]
      by (simp add: Crash crash_in_save_def del: last.simps last_ConsR)
  qed
next
  case (Restart renames t)
  then show ?thesis using assms by (simp add: kept_init)
qed

lemma kept_run:
  "kept_promise (sm_disk sm) ps \<Longrightarrow> store_run evs (sm, ps) = (sm', ps') \<Longrightarrow> kept_promise (sm_disk sm') ps'"
  by (induction evs arbitrary: sm ps) (auto dest: kept_step)

text \<open>C17: From a state file that decodes, or from no files at all, take any sequence of \<open>set\<close>, \<open>save\<close>
  (whatever the disk answers: failed writes, refused backups, up to three refused renames), crashes
  between any two changes a save makes to the disk, and restarts. What the next start of the state
  manager loads is the state of the last save that returned, or that of a later save in which the
  process died; a save that raised changes nothing, and a half-written file is never loaded.\<close>

theorem restart_finds_a_saved_state:
  assumes "first_state d j"
    and "store_run evs (sm_init renames t d, [j]) = (sm, ps)"
  shows "sm_state (sm_init renames' t' (sm_disk sm)) \<in> set ps"
proof -
  have "kept_promise (sm_disk sm) ps"
    using assms by (intro kept_run [OF _ assms(2)] kept_init) (auto simp: kept_promise_def)
  then show ?thesis by (auto simp: kept_promise_def load_first_state)
qed

definition plain_io :: save_io where
  "plain_io = \<lparr>io_write = None, io_copy = Copied, io_replace = (\<lambda>_. Replaced), io_unlink = True\<rparr>"

definition locked_io :: save_io where
  "locked_io = plain_io\<lparr>io_replace := (\<lambda>_. Denied)\<rparr>"

definition busy_store :: "store_event list" where
  "busy_store =
     [Set_Item ''supervisor'' (JNum (Fin 1)), Save plain_io 10, Set_Item ''supervisor'' (JNum (Fin 2)),
      Save locked_io 20, Crash plain_io 30 5 True 31]"

abbreviation stored :: "real \<Rightarrow> real \<Rightarrow> json" where
  "stored n t \<equiv> JObj [(''supervisor'', JNum (Fin n)), (''last_saved'', JNum (Fin t))]"

lemma busy_store_run:
  "snd (store_run busy_store (sm_init True 0 (\<lambda>_. None), [JObj []])) = [stored 2 30, stored 1 10]"
  "sm_state (fst (store_run busy_store (sm_init True 0 (\<lambda>_. None), [JObj []]))) = stored 1 10"
  by (simp_all add: busy_store_def sm_init_def sm_set_def state_save_def sm_stamp_def jset_def plain_io_def
      locked_io_def save_trace_def write_trace_def backup_trace_def os_replace_def crash_in_save_def
      numeral_3_eq_3 Let_def)

theorem restart_finds_a_saved_state_witness:
  "sm_state (sm_init True 0 (sm_disk (fst (store_run busy_store (sm_init True 0 (\<lambda>_. None), [JObj []])))))
     \<in> {stored 2 30, stored 1 10}"
  using restart_finds_a_saved_state [of "\<lambda>_. None" "JObj []" busy_store True 0
      "fst (store_run busy_store (sm_init True 0 (\<lambda>_. None), [JObj []]))"
      "snd (store_run busy_store (sm_init True 0 (\<lambda>_. None), [JObj []]))" True 0]
  by (simp add: first_state_def busy_store_run prod_eq_iff)

section \<open>Damage after a save\<close>

lemma save_trace_with_backup:
  assumes "d State_File = Some c" and "io_copy io = Copied" and "save_trace io doc d = (Inr (), ds)"
  shows "last (d # ds) State_File = Some (Doc doc)" "last (d # ds) Backup_File = Some c"
proof -
  have w: "io_write io = None" "replace_loop (io_replace io) 0 3 = Inr ()"
    using assms(3)
    by (auto simp: save_trace_def write_trace_def Let_def simp del: replace_loop.simps
        split: option.splits sum.splits)
  show "last (d # ds) State_File = Some (Doc doc)" "last (d # ds) Backup_File = Some c"
    using assms w
    by (auto simp: save_trace_def write_trace_def backup_trace_def os_replace_def Let_def simp del: replace_loop.simps)
qed

lemma save_with_backup:
  assumes "sm_disk sm State_File = Some c" and "io_copy io = Copied"
    and "state_save io now sm = (Inr (), sm')"
  shows "sm_disk sm' State_File = Some (Doc (sm_state sm'))" "sm_disk sm' Backup_File = Some c"
proof -
  obtain doc ds where "save_trace io doc (sm_disk sm) = (Inr (), ds)"
    "sm' = sm\<lparr>sm_state := doc, sm_disk := last (sm_disk sm # ds)\<rparr>"
    using assms(3) by (auto simp: state_save_def split: sum.splits prod.splits)
  then show "sm_disk sm' State_File = Some (Doc (sm_state sm'))" "sm_disk sm' Backup_File = Some c"
    using save_trace_with_backup [of "sm_disk sm" c io doc ds] assms(1,2) by simp_all
qed

text \<open>After a save with its backup, a state file that is lost or damaged costs one save: the start
  falls back to the state before.\<close>

theorem damaged_state_falls_back:
  assumes "sm_disk sm State_File = Some (Doc old)" and "io_copy io = Copied"
    and "state_save io now sm = (Inr (), sm')" and "\<nexists>j. damage = Some (Doc j)"
  shows "sm_state (sm_init renames t ((sm_disk sm')(State_File := damage))) = old"
  using save_with_backup [OF assms(1-3)] assms(4)
  by (cases damage) (auto simp: sm_init_def os_replace_def split: content.splits)

text \<open>
  "Backup current (if exists and valid)": the validity is not looked at. A start that fell back to
  the backup leaves the damaged state file in place; the next save first copies it over the backup,
  and a crash at that moment leaves no state at all.
\<close>

lemma trace_to_the_backup:
  assumes "io_write io = None" and "io_copy io = Copied" and "d State_File = Some c"
  shows "take 6 (snd (save_trace io doc d)) =
    (let d1 = d(Temp_File \<mapsto> Doc doc)
     in [d(Temp_File \<mapsto> Empty_File), d(Temp_File \<mapsto> Truncated), d1,
         d1(Backup_File \<mapsto> Empty_File), d1(Backup_File \<mapsto> Truncated), d1(Backup_File \<mapsto> c)])"
  using assms
  by (cases "replace_loop (io_replace io) 0 3")
     (simp_all add: save_trace_def write_trace_def backup_trace_def Let_def numeral_eq_Suc
        del: replace_loop.simps)

theorem save_replaces_a_good_backup:
  assumes "d State_File = Some Truncated" and "d Backup_File = Some (Doc good)"
    and "io_write io = None" and "io_copy io = Copied" and "good = JObj kvs"
  shows "sm_state (sm_init renames t d) = good"
    and "sm_state (sm_init renames' t' (crash_in_save io now 6 (sm_init renames t d))) = JObj []"
proof -
  have i: "sm_init renames t d = \<lparr>sm_state = good, sm_disk = d\<rparr>"
    using assms(1,2) by (simp add: sm_init_def)
  then show "sm_state (sm_init renames t d) = good" by simp
  have "crash_in_save io now 6 (sm_init renames t d) =
      d(Temp_File \<mapsto> Doc (JObj (jset ''last_saved'' (JNum (Fin now)) kvs)), Backup_File \<mapsto> Truncated)"
    using trace_to_the_backup [of io d Truncated, OF assms(3,4,1)]
    by (simp add: crash_in_save_def sm_stamp_def i assms(5) Let_def)
  then show "sm_state (sm_init renames' t' (crash_in_save io now 6 (sm_init renames t d))) = JObj []"
    using assms(1) by (simp add: sm_init_def)
qed

text \<open>\<open>clear\<close> removes the state file only: the next start takes up the state in the backup.\<close>

theorem cleared_state_comes_back:
  assumes "sm_disk sm State_File = Some (Doc old)" and "io_copy io = Copied"
    and "state_save io now sm = (Inr (), sm')"
  shows "sm_state (sm_clear sm') = JObj []" "sm_state (sm_init renames t (sm_disk (sm_clear sm'))) = old"
  using save_with_backup [OF assms] by (auto simp: sm_clear_def sm_init_def)

section \<open>The lock file\<close>










definition session_proc :: proc where
  "session_proc = \<lparr>pr_name = Some ''Python3.12'',
     pr_cmdline = Some [''python'', ''-m'', ''laptop_agents'', ''run''], pr_info = None\<rparr>"


lemma session_proc_ours [simp]: "session_process session_proc"
  by code_simp

lemma unlocked: "\<not> lock_blocks procs None"
  by (simp add: lock_blocks_def)






text \<open>Two calls that overlap both succeed: the file is read and written in separate steps.\<close>

theorem overlapping_calls_share_the_lock:
  "lw_held (fold lock_do [Spawn 41 session_proc, Spawn 42 session_proc, Check 41, Check 42, Write 41, Write 42]
     empty_world) = {41, 42}"
  by (auto simp: empty_world_def unlocked)

end
