(* ===== verification/Config.thy ===== *)
theory Config
  imports State_Store Lock_Manager
begin

text \<open>
  Configuration: \<^verbatim>\<open>core/config.py\<close>, \<^verbatim>\<open>core/config_loader.py\<close>, \<^verbatim>\<open>core/config_models.py\<close>,
  \<^verbatim>\<open>session/session_config.py\<close>, \<^verbatim>\<open>core/validation.py\<close>, and what \<^verbatim>\<open>commands/session.py\<close> hands the
  runners. A dict is a JSON object without a key twice, a file is absent or the result of parsing
  it, the environment is a list of pairs. The classes of \<^verbatim>\<open>pydantic\<close> are data (a schema), read by
  one checker: it takes the declared fields and ignores the others, as a \<^verbatim>\<open>BaseModel\<close> does by default;
  how a single value is coerced to a type is a parameter.
\<close>

section \<open>Dicts\<close>

definition dict_get :: "(string \<times> json) list \<Rightarrow> string \<Rightarrow> json option" where
  "dict_get d k = map_of (rev d) k"

text \<open>\<open>j[k]\<close>.\<close>

fun jindex :: "string \<Rightarrow> json \<Rightarrow> json res" where
  "jindex k (JObj d) = (case dict_get d k of None \<Rightarrow> Inl (KeyError k) | Some v \<Rightarrow> Inr v)"
| "jindex k j = Inl TypeError"

fun is_dict :: "json \<Rightarrow> bool" where
  "is_dict (JObj d) = True"
| "is_dict j = False"

text \<open>\<open>data.update(loaded)\<close>; a list of pairs, which \<open>update\<close> would take as well, counts as an error.\<close>

fun dict_update :: "(string \<times> json) list \<Rightarrow> json \<Rightarrow> (string \<times> json) list res" where
  "dict_update d (JObj e) = Inr (fold (\<lambda>(k, v). jset k v) e d)"
| "dict_update d (JArr []) = Inr d"
| "dict_update d j = Inl TypeError"

text \<open>\<open>_deep_merge\<close>, which both modules define.\<close>

fun deep_merge :: "(string \<times> json) list \<Rightarrow> (string \<times> json) list \<Rightarrow> (string \<times> json) list" where
  "deep_merge out [] = out"
| "deep_merge out ((k, v) # rest) =
     deep_merge
       (jset k (case (dict_get out k, v) of
                  (Some (JObj a), JObj b) \<Rightarrow> JObj (deep_merge a b)
                | _ \<Rightarrow> v) out)
       rest"

definition not_none :: "(string \<times> json) list \<Rightarrow> (string \<times> json) list" where
  "not_none d = filter (\<lambda>(k, v). v \<noteq> JNull) d"

section \<open>Schemas\<close>

datatype ftype =
    FFloat "real option" "real option"   \<comment> \<open>\<open>ge\<close> and \<open>le\<close>\<close>
  | FInt
  | FStr
  | FBool
  | FDict
  | FOpt ftype
  | FModel "(string \<times> ftype \<times> json) list"   \<comment> \<open>name, type and default of every field\<close>

type_synonym schema = "(string \<times> ftype \<times> json) list"

record coercions =
  co_float :: "json \<Rightarrow> pyfloat option"
  co_int :: "json \<Rightarrow> int option"
  co_str :: "json \<Rightarrow> string option"
  co_bool :: "json \<Rightarrow> bool option"

definition in_bounds :: "real option \<Rightarrow> real option \<Rightarrow> pyfloat \<Rightarrow> bool" where
  "in_bounds lo hi x \<longleftrightarrow>
     (case lo of None \<Rightarrow> True | Some l \<Rightarrow> pf_le (Fin l) x) \<and>
     (case hi of None \<Rightarrow> True | Some h \<Rightarrow> pf_le x (Fin h))"

fun check_type :: "coercions \<Rightarrow> ftype \<Rightarrow> json \<Rightarrow> json option"
  and check_fields :: "coercions \<Rightarrow> schema \<Rightarrow> (string \<times> json) list \<Rightarrow> (string \<times> json) list option" where
  "check_type co (FFloat lo hi) j =
     (case co_float co j of None \<Rightarrow> None | Some x \<Rightarrow> if in_bounds lo hi x then Some (JNum x) else None)"
| "check_type co FInt j = map_option (\<lambda>n. JNum (Fin (of_int n))) (co_int co j)"
| "check_type co FStr j = map_option JStr (co_str co j)"
| "check_type co FBool j = map_option JBool (co_bool co j)"
| "check_type co FDict j = (if is_dict j then Some j else None)"
| "check_type co (FOpt t) j = (if j = JNull then Some JNull else check_type co t j)"
| "check_type co (FModel fs) j =
     (case j of JObj d \<Rightarrow> map_option JObj (check_fields co fs d) | _ \<Rightarrow> None)"
| "check_fields co [] d = Some []"
| "check_fields co ((n, t, dflt) # fs) d =
     (case (case dict_get d n of None \<Rightarrow> Some dflt | Some v \<Rightarrow> check_type co t v) of
        None \<Rightarrow> None
      | Some v \<Rightarrow> map_option ((#) (n, v)) (check_fields co fs d))"

text \<open>\<open>model_validate\<close> or the constructor, followed by \<open>model_dump\<close>.\<close>

definition validate_model :: "coercions \<Rightarrow> schema \<Rightarrow> (string \<times> json) list \<Rightarrow> (string \<times> json) list res" where
  "validate_model co fs d =
     (case check_fields co fs d of None \<Rightarrow> Inl (ValueError ''validation error'') | Some d' \<Rightarrow> Inr d')"

abbreviation num :: "real \<Rightarrow> json" where
  "num x \<equiv> JNum (Fin x)"

section \<open>\<^verbatim>\<open>core/config.py\<close>\<close>

definition risk_schema :: schema where
  "risk_schema =
     [(''risk_pct'', FFloat (Some (1 / 10)) (Some 10), num 1),
      (''stop_bps'', FFloat (Some 5) None, num 30),
      (''tp_r'', FFloat (Some (1 / 2)) None, num (3 / 2)),
      (''max_leverage'', FFloat (Some 1) (Some 20), num 1)]"

definition strategy_schema :: schema where
  "strategy_schema =
     [(''name'', FStr, JStr ''default''),
      (''params'', FDict, JObj []),
      (''risk'', FModel risk_schema,
        JObj [(''risk_pct'', num 1), (''stop_bps'', num 30), (''tp_r'', num (3 / 2)), (''max_leverage'', num 1)])]"

definition session_schema :: schema where
  "session_schema =
     [(''symbol'', FStr, JStr ''BTCUSDT''),
      (''interval'', FStr, JStr ''1m''),
      (''source'', FStr, JStr ''mock''),
      (''duration'', FInt, num 10),
      (''execution_mode'', FStr, JStr ''paper''),
      (''fees_bps'', FFloat None None, num 2),
      (''slip_bps'', FFloat None None, num (1 / 2)),
      (''dry_run'', FBool, JBool False),
      (''kill_switch'', FBool, JBool False)]"

text \<open>The validator of \<open>symbol\<close>, which runs before the type is checked; on a number it has no \<open>upper\<close> to call.\<close>

fun normalize_symbol :: "json \<Rightarrow> json res" where
  "normalize_symbol (JStr s) =
     Inr (JStr (if s = [] then ''BTCUSDT''
                else filter (\<lambda>c. c \<noteq> CHR ''/'' \<and> c \<noteq> CHR ''-'') (py_upper s)))"
| "normalize_symbol j = (if jtrue j then Inl AttributeError else Inr (JStr ''BTCUSDT''))"

definition session_model :: "coercions \<Rightarrow> (string \<times> json) list \<Rightarrow> (string \<times> json) list res" where
  "session_model co d =
     (case dict_get d ''symbol'' of
        None \<Rightarrow> validate_model co session_schema d
      | Some v \<Rightarrow> bindE (normalize_symbol v) (\<lambda>v'. validate_model co session_schema (jset ''symbol'' v' d)))"

type_synonym environ = "(string \<times> string) list"

definition getenv :: "environ \<Rightarrow> string \<Rightarrow> string" where
  "getenv env k = (case map_of env k of None \<Rightarrow> [] | Some v \<Rightarrow> v)"

definition env_fields :: "environ \<Rightarrow> (string \<times> json) list \<Rightarrow> (string \<times> json) list" where
  "env_fields env d =
     fold (\<lambda>key d. let v = getenv env (''LA_'' @ py_upper key) in if v = [] then d else jset key (JStr v) d)
       (map fst session_schema) d"

type_synonym parsed_file = "json res option"

definition update_from_file :: "parsed_file \<Rightarrow> (string \<times> json) list \<Rightarrow> (string \<times> json) list res" where
  "update_from_file f d = (case f of None \<Rightarrow> Inr d | Some r \<Rightarrow> bindE r (dict_update d))"

definition session_data ::
  "environ \<Rightarrow> parsed_file \<Rightarrow> parsed_file \<Rightarrow> (string \<times> json) list \<Rightarrow> (string \<times> json) list res" where
  "session_data env strategy_file config_file overrides =
     bindE (update_from_file strategy_file []) (\<lambda>d1.
     bindE (update_from_file config_file d1) (\<lambda>d2.
     let d4 = fold (\<lambda>(k, v). jset k v) (not_none overrides) (env_fields env d2)
     in Inr (if py_upper (getenv env ''LA_KILL_SWITCH'') = ''TRUE'' then jset ''kill_switch'' (JBool True) d4 else d4)))"

definition load_session_config ::
  "coercions \<Rightarrow> environ \<Rightarrow> parsed_file \<Rightarrow> parsed_file \<Rightarrow> (string \<times> json) list \<Rightarrow> (string \<times> json) list res" where
  "load_session_config co env strategy_file config_file overrides =
     bindE (session_data env strategy_file config_file overrides) (\<lambda>d.
     bindE (session_model co d) (\<lambda>cfg.
       if dict_get cfg ''execution_mode'' = Some (JStr ''live'')
          \<and> (getenv env ''BITUNIX_API_KEY'' = [] \<or> getenv env ''BITUNIX_API_SECRET'' = [])
       then Inl (ValueError ''STRICT CONFIGURATION ERROR'')
       else Inr cfg))"

definition strategy_defaults :: "(string \<times> json) list" where
  "strategy_defaults =
     [(''engine'', JObj []),
      (''derivatives_gates'', JObj []),
      (''setups'', JObj [(''default'', JObj [(''active'', JBool True), (''params'', JObj [])])]),
      (''risk'', JObj [(''equity'', num 10000), (''risk_pct'', num 1), (''rr_min'', num (3 / 2))]),
      (''cvd'', JObj [])]"

definition strategy_data :: "json option \<Rightarrow> (string \<times> json) list \<Rightarrow> (string \<times> json) list" where
  "strategy_data loaded overrides =
     (let d = (case loaded of Some (JObj e) \<Rightarrow> deep_merge strategy_defaults e | _ \<Rightarrow> strategy_defaults)
      in deep_merge d (not_none overrides))"

definition load_strategy_config ::
  "coercions \<Rightarrow> parsed_file \<Rightarrow> (string \<times> json) list \<Rightarrow> (string \<times> json) list res" where
  "load_strategy_config co strategy_file overrides =
     bindE (case strategy_file of None \<Rightarrow> Inr None | Some r \<Rightarrow> bindE r (\<lambda>j. Inr (Some j))) (\<lambda>loaded.
       validate_model co strategy_schema (strategy_data loaded overrides))"

section \<open>\<^verbatim>\<open>core/config_models.py\<close> and the session's validation\<close>

definition engine_schema :: schema where
  "engine_schema =
     [(''pending_trigger_max_bars'', FInt, num 24),
      (''derivatives_refresh_bars'', FInt, num 6),
      (''min_history_bars'', FInt, num 100)]"

definition agent_risk_schema :: schema where
  "agent_risk_schema =
     [(''equity'', FOpt (FFloat None None), num 10000),
      (''risk_pct'', FFloat None None, num 1),
      (''rr_min'', FFloat None None, num (3 / 2))]"

definition agent_schema :: schema where
  "agent_schema =
     [(''engine'', FModel engine_schema,
        JObj [(''pending_trigger_max_bars'', num 24), (''derivatives_refresh_bars'', num 6), (''min_history_bars'', num 100)]),
      (''derivatives_gates'', FDict, JObj []),
      (''setups'', FDict, JObj []),
      (''risk'', FModel agent_risk_schema, JObj [(''equity'', num 10000), (''risk_pct'', num 1), (''rr_min'', num (3 / 2))]),
      (''cvd'', FDict, JObj [])]"

text \<open>\<open>SessionConfig.validate\<close>; the start of \<open>AsyncRunner\<close> does the same.\<close>

definition validate_session_strategy ::
  "coercions \<Rightarrow> (string \<times> json) list option \<Rightarrow> (string \<times> json) list option res" where
  "validate_session_strategy co cfg =
     (case cfg of
        None \<Rightarrow> Inr None
      | Some [] \<Rightarrow> Inr (Some [])
      | Some d \<Rightarrow>
          (case validate_model co agent_schema d of
             Inl e \<Rightarrow> Inl (ValueError ''Invalid strategy configuration'')
           | Inr d' \<Rightarrow> Inr (Some d')))"

section \<open>\<^verbatim>\<open>core/config_loader.py\<close>\<close>

definition parse_value :: "string \<Rightarrow> json" where
  "parse_value v =
     (if py_lower v = ''true'' \<or> py_lower v = ''false'' then JBool (py_lower v = ''true'')
      else if CHR ''.'' \<in> set v
      then (case float_of_string v of Inr x \<Rightarrow> JNum x | Inl e \<Rightarrow> JStr v)
      else (case int_of_text (py_strip v) of Inr n \<Rightarrow> num (of_int n) | Inl e \<Rightarrow> JStr v))"

fun split_us :: "string \<Rightarrow> string list" where
  "split_us [] = [[]]"
| "split_us (c # s) =
     (if c = CHR ''_'' then [] # split_us s
      else case split_us s of [] \<Rightarrow> [[c]] | w # ws \<Rightarrow> (c # w) # ws)"

fun join_us :: "string list \<Rightarrow> string" where
  "join_us [] = []"
| "join_us [w] = w"
| "join_us (w # ws) = w @ CHR ''_'' # join_us ws"

text \<open>The fallback of \<open>_update_config_nested\<close>, and \<open>_set_nested\<close>.\<close>

fun set_nested :: "(string \<times> json) list \<Rightarrow> string list \<Rightarrow> json \<Rightarrow> (string \<times> json) list res" where
  "set_nested d [] v = Inl IndexError"
| "set_nested d [k] v = Inr (jset k v d)"
| "set_nested d (k # k' # ks) v =
     (case dict_get d k of
        None \<Rightarrow> bindE (set_nested [] (k' # ks) v) (\<lambda>e. Inr (jset k (JObj e) d))
      | Some (JObj e) \<Rightarrow> bindE (set_nested e (k' # ks) v) (\<lambda>e'. Inr (jset k (JObj e') d))
      | Some j \<Rightarrow> Inl (if ks = [] then TypeError else AttributeError))"

text \<open>
  \<open>_update_config_nested\<close> from its \<open>i\<close>-th turn on: the first prefix of the parts that, joined, is a
  key, and is all of them or leads to a dict. The call on that dict always returns true or raises.
\<close>

function update_nested ::
  "(string \<times> json) list \<Rightarrow> string list \<Rightarrow> json \<Rightarrow> nat \<Rightarrow> (string \<times> json) list res" where
  "update_nested d parts v i =
     (if length parts \<le> i then set_nested d parts v
      else let key = join_us (take (Suc i) parts)
           in case dict_get d key of
                None \<Rightarrow> update_nested d parts v (Suc i)
              | Some x \<Rightarrow>
                  if Suc i = length parts then Inr (jset key v d)
                  else case x of
                      JObj e \<Rightarrow> bindE (update_nested e (drop (Suc i) parts) v 0) (\<lambda>e'. Inr (jset key (JObj e') d))
                    | _ \<Rightarrow> update_nested d parts v (Suc i))"
  by pat_completeness auto
termination
  by (relation "measures [\<lambda>(d, parts, v, i). length parts, \<lambda>(d, parts, v, i). length parts - i]") auto

declare update_nested.simps [simp del]

fun apply_env_overrides :: "environ \<Rightarrow> (string \<times> json) list \<Rightarrow> (string \<times> json) list res" where
  "apply_env_overrides [] d = Inr d"
| "apply_env_overrides ((key, value) # env) d =
     (if str_startswith ''LA_'' key
      then bindE (update_nested d (split_us (py_lower (drop 3 key))) (parse_value value) 0) (apply_env_overrides env)
      else apply_env_overrides env d)"

text \<open>\<open>_load_yaml\<close>: an empty file is an empty dict.\<close>

fun load_yaml :: "json \<Rightarrow> json" where
  "load_yaml j = (if jtrue j then j else JObj [])"

text \<open>The base and the profile are dicts, as the files of \<^verbatim>\<open>config/profiles\<close> are.\<close>

definition load_profile ::
  "environ \<Rightarrow> (string \<times> json) list option \<Rightarrow> (string \<times> json) list option \<Rightarrow> (string \<times> json) list
   \<Rightarrow> (string \<times> json) list res" where
  "load_profile env base profile cli =
     (let c1 = (case base of None \<Rightarrow> [] | Some b \<Rightarrow> b);
          c2 = (case profile of None \<Rightarrow> c1 | Some p \<Rightarrow> deep_merge c1 (filter (\<lambda>(k, v). k \<noteq> ''_extends'') p))
      in bindE (apply_env_overrides env c2) (\<lambda>c3. Inr (if cli = [] then c3 else deep_merge c3 cli)))"

section \<open>\<^verbatim>\<open>core/validation.py\<close>\<close>

record cli_args =
  ca_mode :: string
  ca_source :: string
  ca_risk_pct :: "real option"
  ca_stop_bps :: "real option"
  ca_tp_r :: "real option"
  ca_duration :: "real option"
  ca_max_leverage :: real

text \<open>\<open>strategy_config["risk"]["risk_pct"]\<close>, each key looked up with \<open>in\<close> first, which also works on a string or a list.\<close>

fun risk_pct_in :: "json \<Rightarrow> json option res" where
  "risk_pct_in (JObj r) = Inr (dict_get r ''risk_pct'')"
| "risk_pct_in (JStr s) = (if str_contains ''risk_pct'' s then Inl TypeError else Inr None)"
| "risk_pct_in (JArr xs) = (if JStr ''risk_pct'' \<in> set xs then Inl TypeError else Inr None)"
| "risk_pct_in j = Inl TypeError"

definition strategy_risk_pct :: "(string \<times> json) list \<Rightarrow> json option res" where
  "strategy_risk_pct d = (case dict_get d ''risk'' of None \<Rightarrow> Inr None | Some r \<Rightarrow> risk_pct_in r)"

fun risk_pct_allowed :: "json option \<Rightarrow> unit res" where
  "risk_pct_allowed None = Inr ()"
| "risk_pct_allowed (Some (JNum x)) =
     (if pf_le (Fin (1 / 10)) x \<and> pf_le x (Fin 5) then Inr ()
      else Inl (ValueError ''Strategy risk_pct must be between 0.1 and 5.0''))"
| "risk_pct_allowed (Some (JBool b)) =
     (if b then Inr () else Inl (ValueError ''Strategy risk_pct must be between 0.1 and 5.0''))"
| "risk_pct_allowed (Some j) = Inl TypeError"

definition validate_config :: "real \<Rightarrow> environ \<Rightarrow> cli_args \<Rightarrow> (string \<times> json) list \<Rightarrow> unit res" where
  "validate_config max_lev env a strategy =
     (if ca_mode a \<in> {''live'', ''live-session''} \<and> ca_source a = ''bitunix''
         \<and> (getenv env ''BITUNIX_API_KEY'' = [] \<or> getenv env ''BITUNIX_API_SECRET'' = [])
      then Inl (ValueError ''Missing required environment variables for live Bitunix mode'')
      else if \<exists>x \<in> set_option (ca_risk_pct a). \<not> (1 / 10 \<le> x \<and> x \<le> 5)
      then Inl (ValueError ''risk_pct must be between 0.1 and 5.0'')
      else if \<exists>x \<in> set_option (ca_stop_bps a). x \<le> 5
      then Inl (ValueError ''stop_bps must be greater than 5'')
      else if \<exists>x \<in> set_option (ca_tp_r a). x \<le> 0 then Inl (ValueError ''tp_r must be positive'')
      else if \<exists>x \<in> set_option (ca_duration a). x \<le> 0 then Inl (ValueError ''duration must be positive'')
      else if max_lev < ca_max_leverage a then Inl (ValueError ''max_leverage exceeds hard limit'')
      else bindE (strategy_risk_pct strategy) risk_pct_allowed)"

text \<open>
  Every line of the file that is not blank has to be JSON: in \<open>lines\<close> a line is the text of the exception
  that parsing it raises, if it does.
\<close>

definition validate_events_jsonl :: "string option list option \<Rightarrow> bool \<times> string" where
  "validate_events_jsonl lines =
     (case lines of
        None \<Rightarrow> (False, ''File not found'')
      | Some ls \<Rightarrow>
          (case List.map_filter (\<lambda>x. x) ls of
             [] \<Rightarrow> (True, ''Valid'')
           | e # _ \<Rightarrow> (False, e)))"

section \<open>What the command line hands the runners\<close>

text \<open>
  The configuration of \<open>live-session\<close>: with the asynchronous runner the strategy is loaded and then
  validated by the session, without it the session's own configuration is passed as the strategy.
\<close>

definition async_strategy ::
  "coercions \<Rightarrow> parsed_file \<Rightarrow> real \<Rightarrow> string \<Rightarrow> (string \<times> json) list option res" where
  "async_strategy co strategy_file risk_pct source =
     bindE (load_strategy_config co strategy_file
              [(''risk'', JObj [(''risk_pct'', num risk_pct)]), (''source'', JStr source)]) (\<lambda>cfg.
       validate_session_strategy co (Some cfg))"

definition timed_strategy ::
  "coercions \<Rightarrow> environ \<Rightarrow> parsed_file \<Rightarrow> parsed_file \<Rightarrow> (string \<times> json) list \<Rightarrow> (string \<times> json) list res" where
  "timed_strategy co env strategy_file config_file args =
     load_session_config co env strategy_file config_file args"

text \<open>The sections the supervisor takes from its configuration, and the first key its setup agent reads.\<close>

record sections =
  se_gates :: json
  se_setups :: json
  se_cvd :: json
  se_risk :: json

definition supervisor_sections :: "(string \<times> json) list \<Rightarrow> sections res" where
  "supervisor_sections cfg =
     bindE (jindex ''derivatives_gates'' (JObj cfg)) (\<lambda>gates.
     bindE (jindex ''setups'' (JObj cfg)) (\<lambda>setups.
     bindE (jindex ''risk'' (JObj cfg)) (\<lambda>risk.
       Inr \<lparr>se_gates = gates, se_setups = setups, se_cvd = jget_or cfg ''cvd'' (JObj []), se_risk = risk\<rparr>)))"

definition pullback_enabled :: "sections \<Rightarrow> json res" where
  "pullback_enabled se = bindE (jindex ''pullback_ribbon'' (se_setups se)) (jindex ''enabled'')"

end
