(* ===== verification/Config_Properties.thy ===== *)
theory Config_Properties
  imports Config "HOL-Library.Sublist"
begin

text \<open>
  What configuration does to a value: how two dicts merge, which path an environment variable sets,
  which source of a setting wins, and what is left of a strategy by the time the agents read it.
\<close>

named_theorems dict_simps "looking up keys of dicts that were updated"

section \<open>Dicts\<close>

lemma dict_get_Nil [dict_simps]: "dict_get [] k = None"
  by (simp add: dict_get_def)

lemma dict_get_Cons [dict_simps]:
  "dict_get ((k', v) # d) k = (case dict_get d k of None \<Rightarrow> if k = k' then Some v else None | Some x \<Rightarrow> Some x)"
  by (auto simp: dict_get_def map_add_def split: option.split)

lemma dict_get_snoc [dict_simps]: "dict_get (d @ [(k', v)]) k = (if k = k' then Some v else dict_get d k)"
  by (simp add: dict_get_def)

lemma dict_get_None: "dict_get d k = None \<longleftrightarrow> k \<notin> fst ` set d"
  by (simp add: dict_get_def map_of_eq_None_iff)

lemma dict_get_in: "dict_get d k = Some v \<Longrightarrow> (k, v) \<in> set d"
  using map_of_SomeD [of "rev d" k v] by (simp add: dict_get_def)

lemma dict_get_map:
  "dict_get (map (\<lambda>(k', x). (k', if k' = k then v else x)) d) k'' =
     (if k'' = k then (case dict_get d k of None \<Rightarrow> None | Some _ \<Rightarrow> Some v) else dict_get d k'')"
  by (induction d) (auto simp: dict_simps split: option.splits if_splits)

lemma dict_get_jset [dict_simps]: "dict_get (jset k v d) k' = (if k' = k then Some v else dict_get d k')"
  using dict_get_None [of d k]
  by (auto simp: jset_def dict_get_map dict_get_snoc split: option.splits)

lemma jget_or_dict: "jget_or d k x = (case dict_get d k of None \<Rightarrow> x | Some v \<Rightarrow> v)"
  by (simp add: jget_or_def dict_get_def)

fun wf_json :: "json \<Rightarrow> bool" where
  "wf_json (JObj d) \<longleftrightarrow> distinct (map fst d) \<and> (\<forall>p \<in> set d. wf_json (snd p))"
| "wf_json (JArr xs) \<longleftrightarrow> (\<forall>x \<in> set xs. wf_json x)"
| "wf_json j \<longleftrightarrow> True"

fun path_get :: "json \<Rightarrow> string list \<Rightarrow> json option" where
  "path_get j [] = Some j"
| "path_get (JObj d) (k # ks) = (case dict_get d k of None \<Rightarrow> None | Some v \<Rightarrow> path_get v ks)"
| "path_get j (k # ks) = None"

section \<open>Merging\<close>

definition merge_value :: "json option \<Rightarrow> json \<Rightarrow> json" where
  "merge_value x v = (case (x, v) of (Some (JObj a), JObj b) \<Rightarrow> JObj (deep_merge a b) | _ \<Rightarrow> v)"

lemma deep_merge_Cons: "deep_merge out ((k, v) # rest) = deep_merge (jset k (merge_value (dict_get out k) v) out) rest"
  by (simp add: merge_value_def)

lemma dict_get_deep_merge:
  "distinct (map fst over) \<Longrightarrow>
     dict_get (deep_merge out over) k =
       (case dict_get over k of None \<Rightarrow> dict_get out k | Some v \<Rightarrow> Some (merge_value (dict_get out k) v))"
proof (induction over arbitrary: out)
  case (Cons kv rest)
  obtain k' v where kv: "kv = (k', v)" by (cases kv)
  have "dict_get rest k' = None" using Cons.prems by (auto simp: dict_get_None kv)
  then show ?case
    using Cons by (auto simp: kv deep_merge_Cons dict_simps simp del: deep_merge.simps split: option.splits)
qed (simp add: dict_simps)

text \<open>A path that runs into a value that is not a dict.\<close>

fun blocked :: "json \<Rightarrow> string list \<Rightarrow> bool" where
  "blocked j [] = False"
| "blocked (JObj d) (k # ks) = (case dict_get d k of None \<Rightarrow> False | Some v \<Rightarrow> blocked v ks)"
| "blocked j (k # ks) = True"

lemma merge_value_plain [simp]:
  "merge_value None v = v"
  "\<not> is_dict x \<Longrightarrow> merge_value (Some x) v = v"
  "\<not> is_dict v \<Longrightarrow> merge_value y v = v"
proof -
  show "merge_value None v = v" by (simp add: merge_value_def)
  show "merge_value (Some x) v = v" if "\<not> is_dict x" using that by (cases x) (simp_all add: merge_value_def)
  show "merge_value y v = v" if "\<not> is_dict v"
    using that by (cases v) (simp_all add: merge_value_def split: option.split json.split)
qed

lemma not_dict:
  assumes "\<not> is_dict v"
  shows "path_get v (k # ks) = None" "blocked v (k # ks)"
  using assms by (cases v; simp)+

text \<open>Merging a dict of overrides into a base, at any depth: a path that the overrides have gives their
  value (two dicts are merged in turn), a path they do not have gives the value of the base, unless
  the overrides replace a dict on the way by something that is not one, which removes the path.\<close>

theorem deep_merge_by_paths:
  assumes "wf_json (JObj over)"
  shows "path_get (JObj (deep_merge base over)) p =
    (case path_get (JObj over) p of
       Some v \<Rightarrow> Some (merge_value (path_get (JObj base) p) v)
     | None \<Rightarrow> if blocked (JObj over) p then None else path_get (JObj base) p)"
  using assms
proof (induction p arbitrary: base over)
  case Nil
  then show ?case by (simp add: merge_value_def)
next
  case (Cons k ks)
  have d: "distinct (map fst over)" using Cons.prems by simp
  show ?case
  proof (cases "dict_get over k")
    case None
    then show ?thesis by (simp add: dict_get_deep_merge [OF d])
  next
    case (Some v)
    have wf: "wf_json v" using Cons.prems dict_get_in [OF Some] by force
    show ?thesis
    proof (cases "dict_get base k")
      case None
      with Some show ?thesis by (simp add: dict_get_deep_merge [OF d] split: option.split)
    next
      case b: (Some x)
      show ?thesis
      proof (cases "is_dict x \<and> is_dict v")
        case True
        then obtain xs vs where [simp]: "x = JObj xs" "v = JObj vs" by (cases x; cases v) auto
        have "wf_json (JObj vs)" using wf by simp
        then show ?thesis using Cons.IH [of vs xs] Some b
          by (simp add: dict_get_deep_merge [OF d] merge_value_def split: option.split)
      next
        case False
        then show ?thesis
          using Some b not_dict [of x] not_dict [of v]
          by (cases ks) (auto simp: dict_get_deep_merge [OF d] split: option.split)
      qed
    qed
  qed
qed

definition base_profile :: "(string \<times> json) list" where
  "base_profile =
     [(''symbol'', JStr ''BTCUSDT''),
      (''trading'', JObj [(''risk_pct'', num 1), (''max_leverage'', num 5)]),
      (''risk'', JObj [(''max_drawdown_pct'', num 10)])]"

definition leverage_override :: "(string \<times> json) list" where
  "leverage_override = [(''trading'', JObj [(''max_leverage'', num 3)]), (''symbol'', JStr ''ETHUSDT'')]"

theorem deep_merge_by_paths_witness:
  "path_get (JObj (deep_merge base_profile leverage_override)) [''trading'', ''max_leverage''] = Some (num 3) \<and>
   path_get (JObj (deep_merge base_profile leverage_override)) [''trading'', ''risk_pct''] = Some (num 1)"
proof -
  have wf: "wf_json (JObj leverage_override)" by (simp add: leverage_override_def)
  show ?thesis
    unfolding deep_merge_by_paths [OF wf]
    by (simp add: leverage_override_def base_profile_def dict_simps)
qed

section \<open>Environment variables\<close>

lemma join_us_Cons: "ws \<noteq> [] \<Longrightarrow> join_us (w # ws) = w @ CHR ''_'' # join_us ws"
  by (cases ws) auto

lemma join_us_append: "xs \<noteq> [] \<Longrightarrow> ys \<noteq> [] \<Longrightarrow> join_us (xs @ ys) = join_us xs @ CHR ''_'' # join_us ys"
proof (induction xs)
  case (Cons x xs)
  then show ?case by (cases "xs = []") (simp_all add: join_us_Cons)
qed simp

lemma split_us_not_Nil [simp]: "split_us s \<noteq> []"
  by (induction s) (auto split: list.split)

lemma join_split: "join_us (split_us s) = s"
proof (induction s)
  case (Cons c s)
  obtain w ws where s: "split_us s = w # ws" by (cases "split_us s") auto
  show ?case using Cons by (cases ws) (auto simp: s join_us_Cons)
qed simp

definition sets_path :: "(string \<times> json) list \<Rightarrow> string list \<Rightarrow> json \<Rightarrow> (string \<times> json) list \<Rightarrow> bool" where
  "sets_path d q v d' \<longleftrightarrow> q \<noteq> [] \<and> path_get (JObj d') q = Some v
     \<and> (\<forall>p. p \<parallel> q \<longrightarrow> path_get (JObj d') p = path_get (JObj d) p)"

lemma sets_path_here: "sets_path d [k] v (jset k v d)"
proof -
  have "path_get (JObj (jset k v d)) p = path_get (JObj d) p" if "p \<parallel> [k]" for p
    using that by (cases p) (auto simp: dict_simps parallel_def)
  then show ?thesis by (simp add: sets_path_def dict_simps)
qed

lemma sets_path_below:
  assumes "sets_path (case dict_get d k of Some (JObj e) \<Rightarrow> e | _ \<Rightarrow> []) q v e'"
    and "dict_get d k = None \<or> (\<exists>e. dict_get d k = Some (JObj e))"
  shows "sets_path d (k # q) v (jset k (JObj e') d)"
proof -
  have "path_get (JObj (jset k (JObj e') d)) p = path_get (JObj d) p" if "p \<parallel> k # q" for p
  proof (cases p)
    case (Cons k' ks)
    then show ?thesis
    proof (cases "k' = k")
      case True
      with Cons that have ks: "ks \<parallel> q" by (auto simp: parallel_def)
      then have e: "path_get (JObj e') ks
          = path_get (JObj (case dict_get d k of Some (JObj e) \<Rightarrow> e | _ \<Rightarrow> [])) ks"
        using assms(1) by (simp add: sets_path_def)
      have "ks \<noteq> []" using ks by (auto simp: parallel_def)
      then show ?thesis using e assms(2) True Cons by (cases ks) (auto simp: dict_simps)
    qed (simp add: dict_simps)
  qed (use that in \<open>simp add: parallel_def\<close>)
  then show ?thesis using assms(1) by (simp add: sets_path_def dict_simps)
qed

lemma set_nested_path: "set_nested d parts v = Inr d' \<Longrightarrow> sets_path d parts v d'"
proof (induction d parts v arbitrary: d' rule: set_nested.induct)
  case (2 d k v)
  then show ?case by (auto intro: sets_path_here)
next
  case (3 d k k' ks v)
  show ?case
  proof (cases "dict_get d k")
    case None
    then show ?thesis
      using 3 by (auto simp: bindE_Inr_iff intro!: sets_path_below split: if_splits)
  next
    case (Some x)
    then show ?thesis
      using 3 by (cases x) (auto simp: bindE_Inr_iff intro!: sets_path_below split: if_splits)
  qed
qed simp

lemma update_nested_end: "length parts \<le> i \<Longrightarrow> update_nested d parts v i = set_nested d parts v"
  by (subst update_nested.simps) simp

lemma update_nested_key:
  assumes "i < length parts" and "key = join_us (take (Suc i) parts)"
  shows "dict_get d key = None \<Longrightarrow> update_nested d parts v i = update_nested d parts v (Suc i)"
    and "dict_get d key = Some x \<Longrightarrow> Suc i = length parts \<Longrightarrow> update_nested d parts v i = Inr (jset key v d)"
    and "dict_get d key = Some x \<Longrightarrow> Suc i \<noteq> length parts \<Longrightarrow> \<not> is_dict x
      \<Longrightarrow> update_nested d parts v i = update_nested d parts v (Suc i)"
    and "dict_get d key = Some (JObj e) \<Longrightarrow> Suc i \<noteq> length parts \<Longrightarrow> update_nested d parts v i =
      bindE (update_nested e (drop (Suc i) parts) v 0) (\<lambda>e'. Inr (jset key (JObj e') d))"
  using assms(1)
  by (subst update_nested.simps; cases x; simp add: assms(2))+

lemma update_nested_path:
  assumes "update_nested d parts v i = Inr d'"
  shows "\<exists>q. join_us q = join_us parts \<and> sets_path d q v d'"
  using assms
proof (induction "length parts + (length parts - i)" arbitrary: d parts i d' rule: less_induct)
  case less
  define key where "key = join_us (take (Suc i) parts)"
  show ?case
  proof (cases "length parts \<le> i")
    case True
    then show ?thesis using less.prems set_nested_path by (auto simp: update_nested_end)
  next
    case i: False
    then have i': "i < length parts" by simp
    note u = update_nested_key [OF i' key_def, of d]
    have further: ?thesis if "update_nested d parts v (Suc i) = Inr d'"
      by (rule less.hyps [OF _ that]) (use i' in simp)
    show ?thesis
    proof (cases "dict_get d key")
      case None
      then show ?thesis using less.prems u(1) further by simp
    next
      case (Some x)
      consider "Suc i = length parts" | "Suc i \<noteq> length parts" "\<not> is_dict x"
        | e where "Suc i \<noteq> length parts" "x = JObj e" by (cases x) auto
      then show ?thesis
      proof cases
        case 1
        then have "d' = jset key v d" "join_us [key] = join_us parts"
          using less.prems u(2) [OF Some] by (auto simp: key_def)
        then show ?thesis using sets_path_here by blast
      next
        case 2
        then show ?thesis using less.prems u(3) [OF Some] further by simp
      next
        case 3
        then obtain e' where e': "update_nested e (drop (Suc i) parts) v 0 = Inr e'"
            "d' = jset key (JObj e') d"
          using less.prems u(4) [OF Some [unfolded 3(2)]] by (auto simp: bindE_Inr_iff)
        have "length (drop (Suc i) parts) + (length (drop (Suc i) parts) - 0) < length parts + (length parts - i)"
          unfolding length_drop using i' by arith
        then obtain q where q: "join_us q = join_us (drop (Suc i) parts)" "sets_path e q v e'"
          using less.hyps [OF _ e'(1)] by blast
        have "join_us (take (Suc i) parts @ drop (Suc i) parts) = join_us (key # q)"
          using q i' 3(1) by (subst join_us_append) (auto simp: join_us_Cons sets_path_def key_def)
        then have "join_us (key # q) = join_us parts" by simp
        moreover have "sets_path d (key # q) v d'"
          unfolding e'(2) using q(2) Some 3 by (intro sets_path_below) auto
        ultimately show ?thesis by blast
      qed
    qed
  qed
qed

text \<open>An environment variable \<open>LA_X\<close> that loading a profile accepts sets exactly one path of the
  configuration, to its parsed value: the names along this path, joined by underscores, are \<open>X\<close> in
  lower case. Every path that neither leads to it nor starts from it keeps its value.\<close>

theorem environment_sets_one_path:
  assumes "apply_env_overrides [(''LA_'' @ name, value)] d = Inr d'"
  shows "\<exists>q. join_us q = py_lower name
    \<and> path_get (JObj d') q = Some (parse_value value)
    \<and> (\<forall>p. p \<parallel> q \<longrightarrow> path_get (JObj d') p = path_get (JObj d) p)"
proof -
  have "update_nested d (split_us (py_lower name)) (parse_value value) 0 = Inr d'"
    using assms by (auto simp: str_startswith_def bindE_Inr_iff)
  then show ?thesis using update_nested_path join_split by (fastforce simp: sets_path_def)
qed

lemma leverage_from_environment:
  "apply_env_overrides [(''LA_'' @ ''TRADING_MAX_LEVERAGE'', ''20'')] base_profile =
     Inr (jset ''trading'' (JObj [(''risk_pct'', num 1), (''max_leverage'', num 20)]) base_profile)"
  by code_simp

theorem environment_sets_one_path_witness:
  "\<exists>q. join_us q = ''trading_max_leverage'' \<and>
     path_get (JObj (jset ''trading'' (JObj [(''risk_pct'', num 1), (''max_leverage'', num 20)]) base_profile)) q
     = Some (num 20)"
proof -
  have v: "py_lower ''TRADING_MAX_LEVERAGE'' = ''trading_max_leverage''" "parse_value ''20'' = num 20"
    by code_simp+
  show ?thesis using environment_sets_one_path [OF leverage_from_environment] unfolding v by blast
qed

text \<open>
  The path depends on the keys that exist: with the profiles of the repository \<open>LA_RISK_PCT\<close> goes to
  the key \<open>pct\<close> of the section \<open>risk\<close>, which nobody reads, and leaves \<open>trading.risk_pct\<close> alone; a name
  that continues a plain setting raises.
\<close>

theorem risk_variable_misses_its_setting:
  "\<exists>d'. apply_env_overrides [(''LA_RISK_PCT'', ''2'')] base_profile = Inr d'
     \<and> path_get (JObj d') [''risk'', ''pct''] = Some (num 2)
     \<and> path_get (JObj d') [''trading'', ''risk_pct''] = Some (num 1)"
proof -
  have "apply_env_overrides [(''LA_RISK_PCT'', ''2'')] base_profile =
      Inr (jset ''risk'' (JObj [(''max_drawdown_pct'', num 10), (''pct'', num 2)]) base_profile)"
    by code_simp
  then show ?thesis by (simp add: base_profile_def dict_simps)
qed

theorem longer_variable_raises:
  "apply_env_overrides [(''LA_SYMBOL_FILTER'', ''x'')] base_profile = Inl TypeError"
  by code_simp

section \<open>Which source wins\<close>

fun first_of :: "'a option list \<Rightarrow> 'a option" where
  "first_of [] = None"
| "first_of (x # xs) = (case x of None \<Rightarrow> first_of xs | Some v \<Rightarrow> Some v)"

lemma dict_get_fold_jset:
  "dict_get (fold (\<lambda>(k, v). jset k v) e d) k = (case dict_get e k of None \<Rightarrow> dict_get d k | Some v \<Rightarrow> Some v)"
  by (induction e arbitrary: d) (auto simp: dict_simps split: option.splits)

definition env_field :: "environ \<Rightarrow> string \<Rightarrow> json option" where
  "env_field env k =
     (let v = getenv env (''LA_'' @ py_upper k)
      in if k \<in> fst ` set session_schema \<and> v \<noteq> [] then Some (JStr v) else None)"

lemma dict_get_env_loop:
  "dict_get (fold (\<lambda>key d. let v = getenv env (''LA_'' @ py_upper key) in if v = [] then d else jset key (JStr v) d) ks d) k
   = (if k \<in> set ks \<and> getenv env (''LA_'' @ py_upper k) \<noteq> []
      then Some (JStr (getenv env (''LA_'' @ py_upper k))) else dict_get d k)"
  by (induction ks arbitrary: d) (auto simp: dict_simps Let_def)

lemma dict_get_env_fields:
  "dict_get (env_fields env d) k = first_of [env_field env k, dict_get d k]"
  unfolding env_fields_def dict_get_env_loop
  by (simp add: env_field_def Let_def split: option.split)

definition file_dict :: "parsed_file \<Rightarrow> (string \<times> json) list" where
  "file_dict f = (case f of Some (Inr (JObj e)) \<Rightarrow> e | _ \<Rightarrow> [])"

lemma update_from_file_get:
  assumes "update_from_file f d = Inr d'"
  shows "dict_get d' k = first_of [dict_get (file_dict f) k, dict_get d k]"
proof (cases f)
  case None
  then show ?thesis using assms by (simp add: update_from_file_def file_dict_def dict_simps split: option.split)
next
  case (Some r)
  then obtain j where r: "r = Inr j" "dict_update d j = Inr d'"
    using assms by (cases r) (auto simp: update_from_file_def)
  show ?thesis
  proof (cases j)
    case (JObj e)
    then show ?thesis using r Some by (auto simp: file_dict_def dict_get_fold_jset split: option.split)
  next
    case (JArr xs)
    then show ?thesis using r Some by (cases xs) (auto simp: file_dict_def dict_simps split: option.split)
  qed (use r in auto)
qed

text \<open>The data a session is configured from: for every setting the command line wins (unless it gives
  \<open>None\<close>), then a variable \<open>LA_<field>\<close> that is not empty, then the configuration file, then the
  strategy file; only \<open>kill_switch\<close> is true whatever these say when \<open>LA_KILL_SWITCH\<close> is TRUE.\<close>

theorem session_settings_precedence:
  assumes "session_data env strategy_file config_file overrides = Inr d"
  shows "dict_get d k =
    (if k = ''kill_switch'' \<and> py_upper (getenv env ''LA_KILL_SWITCH'') = ''TRUE'' then Some (JBool True)
     else first_of [dict_get (not_none overrides) k, env_field env k,
                    dict_get (file_dict config_file) k, dict_get (file_dict strategy_file) k])"
proof -
  obtain d1 d2 where d: "update_from_file strategy_file [] = Inr d1" "update_from_file config_file d1 = Inr d2"
      "d = (let d4 = fold (\<lambda>(k, v). jset k v) (not_none overrides) (env_fields env d2)
            in if py_upper (getenv env ''LA_KILL_SWITCH'') = ''TRUE'' then jset ''kill_switch'' (JBool True) d4 else d4)"
    using assms by (auto simp: session_data_def bindE_Inr_iff Let_def)
  show ?thesis
    unfolding d(3)
    by (simp add: Let_def dict_get_jset dict_get_fold_jset dict_get_env_fields
        update_from_file_get [OF d(1)] update_from_file_get [OF d(2)] dict_get_Nil split: option.split)
qed

definition killed_env :: environ where
  "killed_env = [(''LA_KILL_SWITCH'', ''true''), (''LA_INTERVAL'', ''5m'')]"

theorem session_settings_precedence_witness:
  "\<exists>d. session_data killed_env None None [(''kill_switch'', JBool False), (''interval'', JNull)] = Inr d
     \<and> dict_get d ''kill_switch'' = Some (JBool True) \<and> dict_get d ''interval'' = Some (JStr ''5m'')"
proof -
  have "session_data killed_env None None [(''kill_switch'', JBool False), (''interval'', JNull)]
      = Inr [(''interval'', JStr ''5m''), (''kill_switch'', JBool True)]" by code_simp
  moreover have "py_upper (getenv killed_env ''LA_KILL_SWITCH'') = ''TRUE''"
    "env_field killed_env ''interval'' = Some (JStr ''5m'')" by code_simp+
  ultimately show ?thesis
    using session_settings_precedence [of killed_env None None "[(''kill_switch'', JBool False), (''interval'', JNull)]"]
    by (auto simp: not_none_def dict_simps)
qed

section \<open>What is left of a strategy\<close>

lemma check_fields_keys: "check_fields co fs d = Some d' \<Longrightarrow> map fst d' = map fst fs"
  by (induction fs arbitrary: d') (auto split: option.splits)

lemma check_fields_default:
  assumes "check_fields co fs d = Some d'" and "dict_get d n = None" and "(n, t, dflt) \<in> set fs"
    and "distinct (map fst fs)"
  shows "dict_get d' n = Some dflt"
  using assms
proof (induction fs arbitrary: d')
  case (Cons f fs)
  obtain n' t' dflt' where f: "f = (n', t', dflt')" by (cases f)
  obtain v e where e: "check_fields co fs d = Some e" "d' = (n', v) # e"
    "n' = n \<Longrightarrow> v = dflt'"
    using Cons.prems(1,2) by (cases "n' = n") (auto simp: f split: option.splits)
  show ?case
  proof (cases "n' = n")
    case True
    then have "n \<notin> set (map fst e)" "dflt' = dflt"
      using Cons.prems(3,4) check_fields_keys [OF e(1)] by (auto simp: f rev_image_eqI)
    then have "dict_get e n = None" by (simp add: dict_get_None)
    then show ?thesis using e True \<open>dflt' = dflt\<close> by (simp add: dict_simps)
  next
    case False
    then show ?thesis using Cons e by (auto simp: f dict_simps)
  qed
qed simp

lemma loaded_strategy_keys:
  "load_strategy_config co f ovr = Inr cfg \<Longrightarrow> map fst cfg = [''name'', ''params'', ''risk'']"
  by (auto simp: load_strategy_config_def bindE_Inr_iff validate_model_def strategy_schema_def
      dest!: check_fields_keys split: option.splits)

text \<open>C23: Whatever strategy file is chosen and whatever it says, the configuration that
  \<^verbatim>\<open>load_strategy_config\<close> returns and the asynchronous session validates has no setup and no funding
  gate: the agents are built, and the first setting the setup agent reads, \<open>pullback_ribbon\<close>, raises
  \<open>KeyError\<close>.\<close>

theorem strategies_never_reach_the_agents:
  assumes "async_strategy co strategy_file risk_pct source = Inr (Some cfg)"
  shows "\<exists>se. supervisor_sections cfg = Inr se \<and> se_gates se = JObj [] \<and> se_setups se = JObj []
     \<and> pullback_enabled se = Inl (KeyError ''pullback_ribbon'')"
proof -
  obtain cfg0 ovr where c0: "load_strategy_config co strategy_file ovr = Inr cfg0"
      "validate_session_strategy co (Some cfg0) = Inr (Some cfg)"
    using assms by (auto simp: async_strategy_def bindE_Inr_iff)
  note c = loaded_strategy_keys [OF c0(1)] c0(2)
  then have v: "check_fields co agent_schema cfg0 = Some cfg"
    by (cases cfg0) (auto simp: validate_session_strategy_def validate_model_def split: sum.splits option.splits)
  have n: "dict_get cfg0 ''derivatives_gates'' = None" "dict_get cfg0 ''setups'' = None"
    unfolding dict_get_None set_map [symmetric] c(1) by simp_all
  have g: "dict_get cfg ''derivatives_gates'' = Some (JObj [])" "dict_get cfg ''setups'' = Some (JObj [])"
    by (rule check_fields_default [OF v n(1), of FDict], simp_all add: agent_schema_def)
       (rule check_fields_default [OF v n(2), of FDict], simp_all add: agent_schema_def)
  obtain r where "dict_get cfg ''risk'' = Some r"
    using check_fields_keys [OF v] dict_get_None [of cfg "''risk''"]
    by (cases "dict_get cfg ''risk''") (auto simp: agent_schema_def simp flip: set_map)
  with g show ?thesis by (simp add: supervisor_sections_def pullback_enabled_def dict_simps)
qed

definition plain_coercions :: coercions where
  "plain_coercions =
     \<lparr>co_float = (\<lambda>j. case j of JNum x \<Rightarrow> Some x | _ \<Rightarrow> None),
      co_int = (\<lambda>j. case j of JNum (Fin x) \<Rightarrow> Some \<lfloor>x\<rfloor> | _ \<Rightarrow> None),
      co_str = (\<lambda>j. case j of JStr s \<Rightarrow> Some s | _ \<Rightarrow> None),
      co_bool = (\<lambda>j. case j of JBool b \<Rightarrow> Some b | _ \<Rightarrow> None)\<rparr>"

text \<open>The file \<^verbatim>\<open>config/strategies/default.json\<close>, in part.\<close>

definition default_strategy :: "(string \<times> json) list" where
  "default_strategy =
     [(''engine'', JObj [(''pending_trigger_max_bars'', num 24), (''derivatives_refresh_bars'', num 6)]),
      (''derivatives_gates'', JObj [(''no_trade_funding_8h'', num (5 / 100)), (''half_size_funding_8h'', num (3 / 100))]),
      (''setups'', JObj [(''pullback_ribbon'', JObj [(''enabled'', JBool True), (''tp_r_mult'', num 2)])]),
      (''risk'', JObj [(''equity'', num 10000), (''risk_pct'', num 1), (''rr_min'', num (3 / 2))])]"

lemma default_strategy_loads:
  "load_strategy_config plain_coercions (Some (Inr (JObj default_strategy)))
     [(''risk'', JObj [(''risk_pct'', num 1)]), (''source'', JStr ''mock'')] =
   Inr [(''name'', JStr ''default''), (''params'', JObj []),
        (''risk'', JObj [(''risk_pct'', num 1), (''stop_bps'', num 30), (''tp_r'', num (3 / 2)), (''max_leverage'', num 1)])]"
  by (simp add: load_strategy_config_def strategy_data_def not_none_def default_strategy_def strategy_defaults_def
      jset_def dict_simps validate_model_def strategy_schema_def risk_schema_def plain_coercions_def
      in_bounds_def Let_def)

theorem strategies_never_reach_the_agents_witness:
  "\<exists>cfg se. async_strategy plain_coercions (Some (Inr (JObj default_strategy))) 1 ''mock'' = Inr (Some cfg)
     \<and> supervisor_sections cfg = Inr se \<and> pullback_enabled se = Inl (KeyError ''pullback_ribbon'')"
proof -
  have "\<exists>cfg. async_strategy plain_coercions (Some (Inr (JObj default_strategy))) 1 ''mock'' = Inr (Some cfg)"
    unfolding async_strategy_def default_strategy_loads
    by (simp add: validate_session_strategy_def validate_model_def agent_schema_def engine_schema_def
        agent_risk_schema_def dict_simps plain_coercions_def in_bounds_def)
  then show ?thesis using strategies_never_reach_the_agents by blast
qed

text \<open>The synchronous session passes its own settings, in which the supervisor misses the gates at once.\<close>

theorem timed_strategy_raises:
  assumes "timed_strategy co env strategy_file config_file args = Inr cfg"
  shows "supervisor_sections cfg = Inl (KeyError ''derivatives_gates'')"
proof -
  obtain d where "check_fields co session_schema d = Some cfg"
    using assms
    by (auto simp: timed_strategy_def load_session_config_def session_model_def validate_model_def bindE_Inr_iff
        split: option.splits if_splits)
  then have "map fst cfg = map fst session_schema" by (rule check_fields_keys)
  then have "''derivatives_gates'' \<notin> set (map fst cfg)" by (simp only: session_schema_def) simp
  then have "dict_get cfg ''derivatives_gates'' = None" by (simp add: dict_get_None)
  then show ?thesis by (simp add: supervisor_sections_def)
qed

end
