(* ===== verification/Session_Entry.thy ===== *)
theory Session_Entry
  imports Session_Properties Run_Properties
begin




section \<open>Calls on an idle broker\<close>




section \<open>A session that cannot order\<close>

text \<open>Nothing is queued or executing, and the strategy, if there is one, has no limits of the instrument.\<close>

definition mute :: "runner \<Rightarrow> bool" where
  "mute r \<longleftrightarrow> rn_queue r = [] \<and> rn_executing r = None
     \<and> (\<forall>sv. rn_strategy r = Some sv \<longrightarrow> ii_lot_size (sp_info sv) = None)"

definition hushed :: "runner \<Rightarrow> runner \<Rightarrow> bool" where
  "hushed r r' \<longleftrightarrow> (mute r \<longrightarrow> mute r' \<and> calls {} r r')"

lemma hushed_refl [simp, intro]: "hushed r r"
  by (simp add: hushed_def)
















section \<open>From the entry point on\<close>










end
