(* ===== verification/Data_Providers.thy ===== *)
theory Data_Providers
  imports Bitunix_Client Agents
begin

text \<open>
  Where candles come from when there is no exchange: \<^verbatim>\<open>data/providers/mock.py\<close>,
  \<^verbatim>\<open>data/providers/backtest_provider.py\<close> and \<^verbatim>\<open>backtest/replay_runner.py\<close>. \<open>random.Random\<close> is a sequence
  of numbers that each draw consumes; \<^verbatim>\<open>pandas\<close> gives the rows of a file, or its exception.
\<close>

section \<open>Instrument info\<close>

type_synonym info_dict = "(string \<times> real) list"

text \<open>The two keys the execution agent looks up.\<close>

definition read_limits :: "info_dict \<Rightarrow> instrument_info" where
  "read_limits d = \<lparr>ii_lot_size = map_of d ''lotSize'', ii_min_notional = map_of d ''minNotional''\<rparr>"

definition mock_info :: info_dict where
  "mock_info = [(''tickSize'', 1 / 100), (''lotSize'', 1 / 1000), (''minQty'', 1 / 1000), (''maxQty'', 1000),
     (''minNotional'', 5)]"

definition replay_info :: info_dict where
  "replay_info = [(''tickSize'', 1 / 100), (''lotSize'', 1 / 1000), (''minQty'', 1 / 1000), (''maxQty'', 1000),
     (''minNotional'', 5)]"

definition backtest_info :: info_dict where
  "backtest_info = [(''tick_size'', 1 / 10), (''lot_size'', 1 / 1000), (''min_qty'', 1 / 1000)]"

section \<open>Mock data\<close>

record mock =
  mk_price :: real
  mk_interval :: int
  mk_now :: int
  mk_rng :: "nat \<Rightarrow> real"

definition init_mock :: "real \<Rightarrow> int \<Rightarrow> int \<Rightarrow> (nat \<Rightarrow> real) \<Rightarrow> mock" where
  "init_mock start interval_mins now rng =
     \<lparr>mk_price = start, mk_interval = interval_mins, mk_now = now - 60 * (interval_mins * 500), mk_rng = rng\<rparr>"

definition mk_random :: "mock \<Rightarrow> real \<times> mock" where
  "mk_random m = (mk_rng m 0, m\<lparr>mk_rng := \<lambda>k. mk_rng m (Suc k)\<rparr>)"

definition mk_uniform :: "real \<Rightarrow> real \<Rightarrow> mock \<Rightarrow> real \<times> mock" where
  "mk_uniform a b m = (let (x, m1) = mk_random m in (a + (b - a) * x, m1))"

definition next_candle :: "mock \<Rightarrow> candle \<times> mock" where
  "next_candle m0 =
     (let m = m0\<lparr>mk_now := mk_now m0 + 60 * mk_interval m0\<rparr>;
          (noise, m1) = mk_uniform (- 9 / 10000) (9 / 10000) m;
          c = max 1000 (mk_price m1 * (1 + 15 / 100000 + noise));
          (x, m2) = mk_uniform (2 / 10000) (6 / 10000) (m1\<lparr>mk_price := c\<rparr>);
          op = c * (1 - x);
          (y, m3) = mk_uniform (2 / 10000) (7 / 10000) m2;
          (z, m4) = mk_uniform (2 / 10000) (7 / 10000) m3
      in (\<lparr>c_ts = str_of_int (mk_now m4), c_open = op, c_high = max op c * (1 + y),
           c_low = min op c * (1 - z), c_close = c, c_volume = 1\<rparr>, m4))"

fun mock_history :: "nat \<Rightarrow> mock \<Rightarrow> candle list \<times> mock" where
  "mock_history 0 m = ([], m)"
| "mock_history (Suc n) m =
     (let (c, m1) = next_candle m; (cs, m2) = mock_history n m1 in (c # cs, m2))"

text \<open>
  One round of \<open>listen\<close>: a tick and, now and then, a candle. \<open>now_ms\<close> is the clock in milliseconds.
\<close>

definition mock_round :: "string \<Rightarrow> int \<Rightarrow> mock \<Rightarrow> (tick \<times> candle option) \<times> mock" where
  "mock_round symbol now_ms m0 =
     (let (u, m1) = mk_uniform (- 2 / 10000) (2 / 10000) m0;
          p = mk_price m1 * (1 + u);
          t = \<lparr>t_symbol = symbol, t_bid = p * (9999 / 10000), t_ask = p * (10001 / 10000), t_last = p,
               t_ts = str_of_int now_ms\<rparr>;
          (x, m2) = mk_random (m1\<lparr>mk_price := p\<rparr>)
      in if 8 / 10 < x then (let (c, m3) = next_candle m2 in ((t, Some c), m3))
         else ((t, None), m2))"

text \<open>
  \<open>load_mock_candles\<close>: six draws per candle from the global generator, which is seeded with 42;
  \<open>stamp i\<close> is the text of the time \<open>n - i\<close> minutes ago.
\<close>

definition mock_bar :: "real \<Rightarrow> string \<Rightarrow> (nat \<Rightarrow> real) \<Rightarrow> candle" where
  "mock_bar price ts r =
     (let range = 300 + r 0 * 200;
          op = price - (r 1 - 1 / 2) * range * (1 / 2);
          c = price + (r 2 - 1 / 2) * range * (1 / 2)
      in \<lparr>c_ts = ts, c_open = op, c_high = max op c + r 3 * range * (4 / 10),
          c_low = min op c - r 4 * range * (4 / 10), c_close = c, c_volume = 1\<rparr>)"

fun mock_candles_from :: "nat \<Rightarrow> nat \<Rightarrow> (nat \<Rightarrow> string) \<Rightarrow> real \<Rightarrow> (nat \<Rightarrow> real) \<Rightarrow> candle list" where
  "mock_candles_from 0 i stamp price r = []"
| "mock_candles_from (Suc n) i stamp price r =
     (let p = price + 10 + (r 0 - 1 / 2) * 400
      in mock_bar p (stamp i) (\<lambda>k. r (Suc k)) # mock_candles_from n (Suc i) stamp p (\<lambda>k. r (k + 6)))"

definition load_mock_candles :: "nat \<Rightarrow> (nat \<Rightarrow> string) \<Rightarrow> (nat \<Rightarrow> real) \<Rightarrow> candle list" where
  "load_mock_candles n stamp r = mock_candles_from n 0 stamp 100000 r"

section \<open>Backtest data\<close>

text \<open>What lies at a path; a file is what reading it gives, its columns in lower case.\<close>

datatype data_path = No_Path | Directory | Data_File "candle list res"

fun path_exists :: "data_path \<Rightarrow> bool" where
  "path_exists No_Path = False"
| "path_exists p = True"

fun path_is_dir :: "data_path \<Rightarrow> bool" where
  "path_is_dir Directory = True"
| "path_is_dir p = False"

fun read_data :: "data_path \<Rightarrow> candle list res" where
  "read_data (Data_File r) = r"
| "read_data p = Inl OSError"

text \<open>\<open>newest\<close> is the file the search of the directory finds, if any.\<close>

definition load_data :: "data_path option \<Rightarrow> data_path \<Rightarrow> candle list res" where
  "load_data newest p =
     (if \<not> path_exists p \<and> path_is_dir p
      then (case newest of None \<Rightarrow> Inr [] | Some q \<Rightarrow> read_data q)
      else read_data p)"

definition backtest_history :: "nat \<Rightarrow> candle list \<Rightarrow> candle list" where
  "backtest_history n rows = take n rows"

definition backtest_listen :: "nat \<Rightarrow> candle list \<Rightarrow> candle list" where
  "backtest_listen start_after rows = drop start_after rows"

section \<open>Replayed data\<close>

text \<open>
  A recorded event is a JSON object; its timestamp may be a number and is handed on as it is. The
  pauses between events are left out.
\<close>

record replay_candle =
  rp_ts :: json
  rp_open :: pyfloat
  rp_high :: pyfloat
  rp_low :: pyfloat
  rp_close :: pyfloat
  rp_volume :: pyfloat

record replay_tick =
  rk_symbol :: json
  rk_bid :: pyfloat
  rk_ask :: pyfloat
  rk_last :: pyfloat
  rk_ts :: json    \<comment> \<open>before \<open>str\<close>\<close>

type_synonym event = "(string \<times> json) list"

text \<open>\<open>json.loads\<close> on every line that is not blank; \<open>None\<close> is a line that does not decode.\<close>

definition replay_load :: "json option list option \<Rightarrow> json list" where
  "replay_load lines = (case lines of None \<Rightarrow> [] | Some ls \<Rightarrow> List.map_filter (\<lambda>x. x) ls)"

fun py_or :: "json \<Rightarrow> json \<Rightarrow> json" where
  "py_or a b = (if jtrue a then a else b)"

definition field_float :: "event \<Rightarrow> string \<Rightarrow> pyfloat res" where
  "field_float ev k = float_of_json (jget_or ev k (JNum (Fin 0)))"

definition event_kind :: "event \<Rightarrow> string res" where
  "event_kind ev = (case jget_or ev ''event'' (JStr []) of JStr s \<Rightarrow> Inr (py_lower s) | _ \<Rightarrow> Inl AttributeError)"

definition is_candle_event :: "string \<Rightarrow> bool" where
  "is_candle_event kind \<longleftrightarrow> str_contains ''candle'' kind \<or> str_contains ''kline'' kind"

definition is_tick_event :: "string \<Rightarrow> bool" where
  "is_tick_event kind \<longleftrightarrow> str_contains ''tick'' kind \<or> str_contains ''heartbeat'' kind \<or> str_contains ''ticker'' kind"

definition replay_candle_of :: "event \<Rightarrow> replay_candle res" where
  "replay_candle_of ev =
     bindE (field_float ev ''open'') (\<lambda>op.
     bindE (field_float ev ''high'') (\<lambda>h.
     bindE (field_float ev ''low'') (\<lambda>l.
     bindE (field_float ev ''close'') (\<lambda>c.
     bindE (float_of_json (py_or (jget_or ev ''volume'' (JNum (Fin 0))) (jget_or ev ''baseVol'' (JNum (Fin 0))))) (\<lambda>v.
       Inr \<lparr>rp_ts = py_or (jget_or ev ''ts'' (JStr [])) (jget_or ev ''time'' (JStr [])),
            rp_open = op, rp_high = h, rp_low = l, rp_close = c, rp_volume = v\<rparr>)))))"

text \<open>\<open>data.get(k, data.get(k', 0))\<close>; the data may be nested under \<open>data\<close>, in a list or not.\<close>

definition tick_data :: "event \<Rightarrow> event res" where
  "tick_data ev =
     (case jget_or ev ''data'' (JObj ev) of
        JObj d \<Rightarrow> Inr d
      | JArr (JObj d # _) \<Rightarrow> Inr d
      | _ \<Rightarrow> Inl AttributeError)"

definition either_key :: "event \<Rightarrow> string \<Rightarrow> string \<Rightarrow> json \<Rightarrow> json" where
  "either_key d k k' dflt = jget_or d k (jget_or d k' dflt)"

definition replay_tick_of :: "event \<Rightarrow> replay_tick res" where
  "replay_tick_of ev =
     bindE (tick_data ev) (\<lambda>d.
     bindE (float_of_json (either_key d ''bid'' ''bidOnePrice'' (JNum (Fin 0)))) (\<lambda>b.
     bindE (float_of_json (either_key d ''ask'' ''askOnePrice'' (JNum (Fin 0)))) (\<lambda>a.
     bindE (float_of_json (either_key d ''last'' ''lastPrice'' (JNum (Fin 0)))) (\<lambda>l.
       Inr \<lparr>rk_symbol = jget_or ev ''symbol'' (JStr ''BTCUSDT''), rk_bid = b, rk_ask = a, rk_last = l,
            rk_ts = either_key d ''ts'' ''time'' (JStr [])\<rparr>))))"

datatype replay_item = ReplayCandle replay_candle | ReplayTick replay_tick

text \<open>What \<open>listen\<close> yields for one event: at most one item.\<close>

definition replay_event :: "json \<Rightarrow> replay_item list res" where
  "replay_event j =
     (case j of
        JObj ev \<Rightarrow>
          bindE (event_kind ev) (\<lambda>kind.
            if is_candle_event kind then bindE (replay_candle_of ev) (\<lambda>c. Inr [ReplayCandle c])
            else if is_tick_event kind then bindE (replay_tick_of ev) (\<lambda>t. Inr [ReplayTick t])
            else Inr [])
      | _ \<Rightarrow> Inl AttributeError)"

text \<open>The items before the end or the first exception, and the exception.\<close>

fun replay_listen :: "json list \<Rightarrow> replay_item list \<times> py_exc option" where
  "replay_listen [] = ([], None)"
| "replay_listen (e # es) =
     (case replay_event e of
        Inl x \<Rightarrow> ([], Some x)
      | Inr its \<Rightarrow> (let (rest, x) = replay_listen es in (its @ rest, x)))"

text \<open>\<open>history\<close> looks at the length after every event, so it returns one candle even when asked for none.\<close>

fun replay_history :: "nat \<Rightarrow> replay_candle list \<Rightarrow> json list \<Rightarrow> replay_candle list res" where
  "replay_history n acc [] = Inr acc"
| "replay_history n acc (e # es) =
     (case e of
        JObj ev \<Rightarrow>
          bindE (event_kind ev) (\<lambda>kind.
          bindE (if is_candle_event kind then bindE (replay_candle_of ev) (\<lambda>c. Inr (acc @ [c])) else Inr acc) (\<lambda>acc'.
            if n \<le> length acc' then Inr acc' else replay_history n acc' es))
      | _ \<Rightarrow> Inl AttributeError)"

end
