(* ===== verification/Backtest_Session.thy ===== *)
theory Backtest_Session
  imports Data_Providers Supervisor Backtest_Broker
begin

text \<open>
  \<^verbatim>\<open>session/backtest_session.py\<close>: the supervisor over the backtest broker. The supervisor's step is the
  one of \<open>Supervisor\<close> up to its order; then the backtest broker takes the candle, and the journal
  sees its events, whose exits carry neither \<open>r\<close> nor \<open>bars_open\<close>. The paper broker in the
  supervisor's record is not used. What the session writes into the order of the last step is
  overwritten by the next one before anything reads it.
\<close>

definition bt_order_of :: "agent_order \<Rightarrow> sim_order option" where
  "bt_order_of ord =
     (case ord of
        Resolved r \<Rightarrow> Some \<lparr>so_client_id = None, so_go = True, so_side = rs_side r,
          so_type = Some (if rs_entry_type r = ''market'' then Market
                          else if rs_entry_type r = ''limit'' then Limit else OtherType (rs_entry_type r)),
          so_entry = Some (rs_entry r), so_qty = rs_qty r, so_sl = Some (rs_sl r), so_tp = Some (rs_tp r)\<rparr>
      | _ \<Rightarrow> None)"

definition bt_fill_event :: "bt_fill_rec \<Rightarrow> bevent" where
  "bt_fill_event f = FillEv \<lparr>fr_trade_id = bf_trade_id f, fr_side = bf_side f, fr_price = bf_price f, fr_qty = bf_qty f,
     fr_sl = bf_sl f, fr_tp = bf_tp f, fr_at = bf_at f, fr_fees = bf_fees f, fr_requested_qty = None\<rparr>"

definition bt_exit_event :: "bt_exit_rec \<Rightarrow> exit_rec" where
  "bt_exit_event x = \<lparr>er_trade_id = bx_trade_id x, er_reason = bx_reason x, er_entry = bx_entry x, er_exit = bx_exit x,
     er_qty = bx_qty x, er_pnl = bx_pnl x, er_at = bx_at x, er_fees = bx_fees x, er_r = 0, er_side = bx_side x,
     er_bars_open = 0\<rparr>"

definition backtest_journal :: "(nat \<times> string) list \<Rightarrow> bt_fill_rec list \<Rightarrow> bt_exit_rec list \<Rightarrow> world \<Rightarrow> world" where
  "backtest_journal cancels fs xs = (\<lambda>(sv, s).
     let (s', j) = journal_run \<lparr>se_fills = map bt_fill_event fs, se_exits = map bt_exit_event xs, se_cancels = cancels\<rparr>
                     s (sp_journal sv)
     in (sv\<lparr>sp_journal := j\<rparr>, s'))"

definition backtest_step :: "candle \<Rightarrow> bool \<Rightarrow> (world \<times> bt_broker, unit) py" where
  "backtest_step c skip_broker = (\<lambda>(w, b).
     case supervisor_plan c w of
       (Inl e, w1) \<Rightarrow> (Inl e, (w1, b))
     | (Inr cancels, w1) \<Rightarrow>
         (case (if skip_broker then (Inr ([], []), b) else bt_on_candle c (bt_order_of (ag_order (snd w1))) b) of
            (Inl e, b1) \<Rightarrow> (Inl e, (w1, b1))
          | (Inr (fs, xs), b1) \<Rightarrow> (Inr (), (backtest_journal cancels fs xs w1, b1))))"

fun backtest_loop :: "bool \<Rightarrow> candle list \<Rightarrow> (world \<times> bt_broker, unit) py" where
  "backtest_loop skip_broker [] = returnS ()"
| "backtest_loop skip_broker (c # cs) = bindS (backtest_step c skip_broker) (\<lambda>_. backtest_loop skip_broker cs)"

record session_stats =
  st_starting :: real
  st_final :: real
  st_net_pnl :: real
  st_trades :: nat
  st_win_rate :: real
  st_wins :: nat
  st_losses :: nat

definition bt_trades :: "bt_broker \<Rightarrow> bt_exit_rec list" where
  "bt_trades b = List.map_filter (\<lambda>e. case e of BtExit x \<Rightarrow> Some x | _ \<Rightarrow> None) (bt_order_history b)"

definition generate_backtest_stats :: "bt_broker \<Rightarrow> session_stats" where
  "generate_backtest_stats b =
     (let trades = bt_trades b;
          wins = length (filter (\<lambda>x. 0 < bx_pnl x) trades)
      in \<lparr>st_starting = bt_starting_equity b, st_final = bt_current_equity b,
          st_net_pnl = bt_current_equity b - bt_starting_equity b, st_trades = length trades,
          st_win_rate = (if trades = [] then 0 else real wins / real (length trades)),
          st_wins = wins, st_losses = length (filter (\<lambda>x. bx_pnl x \<le> 0) trades)\<rparr>)"

text \<open>The supervisor is built from the configuration without \<open>instrument_info\<close>, whatever the provider would say.\<close>

definition bt_session_supervisor :: "supervisor \<Rightarrow> supervisor" where
  "bt_session_supervisor sv = sv\<lparr>sp_info := read_limits []\<rparr>"

definition run_backtest_session ::
  "data_path option \<Rightarrow> data_path \<Rightarrow> nat \<Rightarrow> supervisor \<Rightarrow> agent_state \<Rightarrow> bt_broker \<Rightarrow> session_stats res" where
  "run_backtest_session newest p warmup_n sv state b =
     bindE (load_data newest p) (\<lambda>rows.
       case bindS (backtest_loop True (backtest_history warmup_n rows))
                  (\<lambda>_. backtest_loop False (backtest_listen warmup_n rows))
                  ((bt_session_supervisor sv, state), b) of
         (Inl e, s) \<Rightarrow> Inl e
       | (Inr u, (w, b1)) \<Rightarrow> Inr (generate_backtest_stats b1))"

end
