(* ===== verification/Provider_Properties.thy ===== *)
theory Provider_Properties
  imports Backtest_Session Run_Properties
begin

text \<open>
  What the sources of candles promise, and the backtest session over them.
\<close>

section \<open>Mock candles\<close>

definition draws_ok :: "(nat \<Rightarrow> real) \<Rightarrow> bool" where
  "draws_ok r \<longleftrightarrow> (\<forall>k. 0 \<le> r k \<and> r k < 1)"

lemma draws_shift: "draws_ok r \<Longrightarrow> draws_ok (\<lambda>k. r (Suc k))"
  by (simp add: draws_ok_def)

definition candle_shape :: "candle \<Rightarrow> bool" where
  "candle_shape c \<longleftrightarrow> c_low c \<le> min (c_open c) (c_close c) \<and> max (c_open c) (c_close c) \<le> c_high c"

lemma uniform_bounds:
  assumes "mk_uniform a b m = (x, m')" and "draws_ok (mk_rng m)" and "a \<le> b"
  shows "a \<le> x" "x \<le> b" "draws_ok (mk_rng m')" "mk_price m' = mk_price m" "mk_now m' = mk_now m" "mk_interval m' = mk_interval m"
proof -
  have x: "x = a + (b - a) * mk_rng m 0" and m': "m' = m\<lparr>mk_rng := \<lambda>k. mk_rng m (Suc k)\<rparr>"
    using assms(1) by (simp_all add: mk_uniform_def mk_random_def)
  have r: "0 \<le> mk_rng m 0" "mk_rng m 0 \<le> 1"
    using assms(2) by (simp_all add: draws_ok_def less_imp_le)
  show "a \<le> x" using r(1) assms(3) by (simp add: x)
  show "x \<le> b" using mult_left_mono [OF r(2), of "b - a"] assms(3) by (simp add: x)
  show "draws_ok (mk_rng m')" "mk_price m' = mk_price m" "mk_now m' = mk_now m" "mk_interval m' = mk_interval m"
    using draws_shift [OF assms(2)] by (simp_all add: m')
qed

lemma next_candle_sound:
  assumes "next_candle m = (c, m')" and "draws_ok (mk_rng m)"
  shows "1000 \<le> c_close c \<and> 0 < c_low c \<and> candle_shape c \<and> draws_ok (mk_rng m')"
    and "mk_now m' = mk_now m + 60 * mk_interval m \<and> c_ts c = str_of_int (mk_now m') \<and> mk_interval m' = mk_interval m"
proof -
  obtain noise m1 where n: "mk_uniform (- 9 / 10000) (9 / 10000) (m\<lparr>mk_now := mk_now m + 60 * mk_interval m\<rparr>) = (noise, m1)"
    by force
  define p where "p = max 1000 (mk_price m1 * (1 + 15 / 100000 + noise))"
  obtain x m2 where x: "mk_uniform (2 / 10000) (6 / 10000) (m1\<lparr>mk_price := p\<rparr>) = (x, m2)" by force
  obtain y m3 where y: "mk_uniform (2 / 10000) (7 / 10000) m2 = (y, m3)" by force
  obtain z m4 where z: "mk_uniform (2 / 10000) (7 / 10000) m3 = (z, m4)" by force
  define q where "q = p * (1 - x)"
  have c: "c = \<lparr>c_ts = str_of_int (mk_now m4), c_open = q, c_high = max q p * (1 + y),
      c_low = min q p * (1 - z), c_close = p, c_volume = 1\<rparr>" "m' = m4"
    using assms(1)
    unfolding next_candle_def Let_def n prod.case p_def [symmetric] x y z q_def [symmetric] by auto
  note n' = uniform_bounds [OF n, simplified, OF assms(2)]
  note x' = uniform_bounds [OF x, simplified, OF n'(3)]
  note y' = uniform_bounds [OF y x'(3), simplified]
  note z' = uniform_bounds [OF z y'(3), simplified]
  have p: "1000 \<le> p" by (simp add: p_def)
  have q: "0 < q" using p x'(2) unfolding q_def by (intro mult_pos_pos) simp_all
  have "max q p * 1 \<le> max q p * (1 + y)"
    using p y'(1) by (intro mult_left_mono) auto
  moreover have "min q p * (1 - z) \<le> min q p * 1" "0 < min q p * (1 - z)"
    using p q z'(1,2) by (intro mult_left_mono mult_pos_pos; auto)+
  ultimately show "1000 \<le> c_close c \<and> 0 < c_low c \<and> candle_shape c \<and> draws_ok (mk_rng m')"
    using p z'(3) by (simp add: c candle_shape_def)
  show "mk_now m' = mk_now m + 60 * mk_interval m \<and> c_ts c = str_of_int (mk_now m') \<and> mk_interval m' = mk_interval m"
    using n' x' y' z' by (simp add: c)
qed

text \<open>Every history the mock provider makes, from any start price and any generator that draws from
  the unit interval, is well formed: prices are positive, the close is at least 1000, no candle's
  high or low lies inside its body, and the timestamps are the bars after its start, one interval
  apart.\<close>

theorem mock_history_is_sound:
  assumes "draws_ok (mk_rng m)" and "mock_history n m = (cs, m')"
  shows "length cs = n \<and>
    (\<forall>c \<in> set cs. 1000 \<le> c_close c \<and> 0 < c_low c \<and> candle_shape c) \<and>
    map c_ts cs = map (\<lambda>i. str_of_int (mk_now m + 60 * mk_interval m * (int i + 1))) [0..<n]"
  using assms
proof (induction n arbitrary: m cs m')
  case (Suc n)
  obtain c m1 cs1 where e: "next_candle m = (c, m1)" "mock_history n m1 = (cs1, m')" "cs = c # cs1"
    using Suc.prems(2) by (auto split: prod.splits)
  note s = next_candle_sound [OF e(1) Suc.prems(1)]
  have "draws_ok (mk_rng m1)" using s(1) by simp
  note ih = Suc.IH [OF this e(2)]
  have "map (\<lambda>i. str_of_int (mk_now m + 60 * mk_interval m * (int i + 1))) [0..<Suc n]
      = str_of_int (mk_now m + 60 * mk_interval m) # map (\<lambda>i. str_of_int (mk_now m1 + 60 * mk_interval m1 * (int i + 1))) [0..<n]"
    using s(2) by (simp add: upt_conv_Cons map_Suc_upt [symmetric] algebra_simps del: upt_Suc)
  then show ?case using ih s by (simp add: e(3))
qed simp

theorem mock_history_is_sound_witness:
  "length (fst (mock_history 50 (init_mock 100000 1 0 (\<lambda>k. 1 / 2)))) = 50 \<and>
   c_ts (fst (mock_history 50 (init_mock 100000 1 0 (\<lambda>k. 1 / 2))) ! 0) = str_of_int (- 29940)"
proof -
  let ?m = "init_mock 100000 1 0 (\<lambda>k. 1 / 2)"
  have d: "draws_ok (mk_rng ?m)" by (simp add: init_mock_def draws_ok_def)
  obtain cs m' where h: "mock_history 50 ?m = (cs, m')" by force
  have s: "length cs = 50" "map c_ts cs = map (\<lambda>i. str_of_int (mk_now ?m + 60 * mk_interval ?m * (int i + 1))) [0..<50]"
    using mock_history_is_sound [OF d h] by blast+
  have "c_ts (cs ! 0) = map c_ts cs ! 0" using s(1) by simp
  also have "\<dots> = str_of_int (- 29940)" unfolding s(2) by (simp add: init_mock_def)
  finally show ?thesis using s(1) by (simp add: h)
qed

text \<open>The fixed candles of \<open>load_mock_candles\<close> have the shape as well, at any price.\<close>

lemma mock_bar_shape:
  assumes "draws_ok r"
  shows "candle_shape (mock_bar price ts r)"
proof -
  have "0 \<le> r k" for k using assms by (simp add: draws_ok_def)
  then have n: "0 \<le> r 3 * (300 + r 0 * 200) * (4 / 10)" "0 \<le> r 4 * (300 + r 0 * 200) * (4 / 10)"
    by (intro mult_nonneg_nonneg add_nonneg_nonneg; simp)+
  have around: "x - b \<le> x \<and> y \<le> y + a" if "0 \<le> a" "0 \<le> b" for x y a b :: real using that by simp
  show ?thesis
    unfolding mock_bar_def candle_shape_def Let_def candle.simps by (rule around [OF n])
qed

theorem fixed_mock_candles_have_the_shape:
  assumes "draws_ok r"
  shows "\<forall>c \<in> set (load_mock_candles n stamp r). candle_shape c"
proof -
  have "\<forall>c \<in> set (mock_candles_from n i stamp price r). candle_shape c" if "draws_ok r" for n i price r
    using that
  proof (induction n arbitrary: i price r)
    case (Suc n)
    have "draws_ok (\<lambda>k. r (Suc k))" "draws_ok (\<lambda>k. r (k + 6))" using Suc.prems by (simp_all add: draws_ok_def)
    then show ?case using Suc.IH by (simp add: Let_def mock_bar_shape)
  qed simp
  then show ?thesis using assms by (simp add: load_mock_candles_def)
qed

section \<open>The backtest session\<close>

text \<open>A directory exists, so the branch that would search it is not taken, and reading it fails.\<close>

theorem directory_is_never_searched: "load_data newest Directory = Inl OSError"
  by (simp add: load_data_def)

text \<open>Warm-up and simulation together see every row once, in order.\<close>

lemma backtest_rows: "backtest_history n rows @ backtest_listen n rows = rows"
  by (simp add: backtest_history_def backtest_listen_def)

definition bt_idle :: "bt_broker \<Rightarrow> world \<times> bt_broker \<Rightarrow> bool" where
  "bt_idle b0 s \<longleftrightarrow> snd s = b0 \<and> bare (fst s)"

lemma bt_no_order: "\<not> order_go a \<Longrightarrow> bt_order_of a = None"
  by (cases a) (simp_all add: bt_order_of_def)

lemma bt_flat: "bt_pos b = None \<Longrightarrow> bt_on_candle c None b = (Inr ([], []), b)"
  by (simp add: bt_on_candle_def bt_manage_def bindS_def)

lemma backtest_journal_bare: "bare w \<Longrightarrow> bare (backtest_journal cancels fs xs w)"
  by (auto simp: bare_def backtest_journal_def split: prod.splits)

lemma backtest_step_idle:
  assumes "bt_pos b = None" and "bt_idle b s"
  shows "bt_idle b (snd (backtest_step c skip s))"
proof -
  obtain w where s: "s = (w, b)" "bare w" using assms(2) by (cases s) (auto simp: bt_idle_def)
  then have d: "desk (sp_broker (fst w)) w" by (simp add: bare_def desk_def)
  obtain r w1 where p: "supervisor_plan c w = (r, w1)" by (cases "supervisor_plan c w")
  show ?thesis
  proof (cases r)
    case (Inl e)
    then have "bare w1" using tripleD(2) [OF plan_without_limits d p [unfolded Inl]] by (simp add: bare_def desk_def)
    then show ?thesis by (simp add: backtest_step_def s p Inl bt_idle_def)
  next
    case (Inr cancels)
    then have "bare w1" "\<not> order_go (ag_order (snd w1))"
      using tripleD(1) [OF plan_without_limits d p [unfolded Inr]] by (simp_all add: bare_def desk_def no_order_def)
    then show ?thesis
      using assms(1) backtest_journal_bare
      by (simp add: backtest_step_def s p Inr bt_idle_def bt_no_order bt_flat)
  qed
qed

lemma backtest_loop_idle:
  assumes "bt_pos b = None" and "bt_idle b s"
  shows "bt_idle b (snd (backtest_loop skip cs s))"
  using assms(2)
proof (induction cs arbitrary: s)
  case (Cons c cs)
  obtain r s1 where e: "backtest_step c skip s = (r, s1)" by (cases "backtest_step c skip s")
  have "bt_idle b s1" using backtest_step_idle [OF assms(1) Cons.prems, of c skip] by (simp add: e)
  then show ?case using Cons.IH e by (cases r) (simp_all add: bindS_def)
qed simp

text \<open>A backtest session never trades: its supervisor is built without the limits of the instrument, so
  every order is refused. Whatever the candles, the warm-up, the strategy and the settings, if the
  session returns then its statistics report no trade, no win and no loss, and a net profit of
  zero for a broker that starts flat.\<close>

theorem backtest_session_never_trades:
  assumes "run_backtest_session newest p n sv state (init_bt symbol fees_bps starting_equity sim uuid) = Inr stats"
  shows "st_trades stats = 0 \<and> st_wins stats = 0 \<and> st_losses stats = 0 \<and> st_win_rate stats = 0
    \<and> st_net_pnl stats = 0 \<and> st_final stats = starting_equity"
proof -
  let ?b = "init_bt symbol fees_bps starting_equity sim uuid"
  have b: "bt_pos ?b = None" by (simp add: init_bt_def)
  obtain rows where "load_data newest p = Inr rows" using assms by (auto simp: run_backtest_session_def bindE_Inr_iff)
  moreover obtain r w b1 where r: "bindS (backtest_loop True (backtest_history n rows))
        (\<lambda>_. backtest_loop False (backtest_listen n rows)) ((bt_session_supervisor sv, state), ?b) = (r, (w, b1))"
    by (metis prod.exhaust)
  ultimately obtain u where run: "bindS (backtest_loop True (backtest_history n rows))
        (\<lambda>_. backtest_loop False (backtest_listen n rows)) ((bt_session_supervisor sv, state), ?b) = (Inr u, (w, b1))"
      "stats = generate_backtest_stats b1"
    using assms by (cases r) (auto simp: run_backtest_session_def)
  have start: "bt_idle ?b ((bt_session_supervisor sv, state), ?b)"
    by (simp add: bt_idle_def bare_def bt_session_supervisor_def read_limits_def)
  obtain s1 where w: "backtest_loop True (backtest_history n rows) ((bt_session_supervisor sv, state), ?b) = (Inr (), s1)"
      "backtest_loop False (backtest_listen n rows) s1 = (Inr u, (w, b1))"
    using run(1) by (auto elim!: bindS_cases)
  have "bt_idle ?b s1" using backtest_loop_idle [OF b start, of True "backtest_history n rows"] by (simp add: w)
  from backtest_loop_idle [OF b this, of False "backtest_listen n rows"] have "b1 = ?b"
    by (simp add: w bt_idle_def)
  then show ?thesis by (simp add: run(2) generate_backtest_stats_def bt_trades_def init_bt_def map_filter_simps)
qed

definition bt_sample :: bt_broker where
  "bt_sample = init_bt ''BTCUSDT'' 2 10000 (init_simulator None None None None (\<lambda>k. 1 / 2)) (\<lambda>k. ''a1'')"

text \<open>On this candle the agents find a long setup.\<close>

theorem backtest_session_never_trades_witness:
  "\<exists>stats. run_backtest_session None (Data_File (Inr [reclaim_candle])) 0 (gateless b j)
       (strategy_state gateless_cfg sweep_window) bt_sample = Inr stats
     \<and> st_trades stats = 0 \<and> st_net_pnl stats = 0"
proof -
  let ?w = "(gateless b j, strategy_state gateless_cfg sweep_window)"
  have sv: "bt_session_supervisor (gateless b j) = gateless b j"
    by (simp add: bt_session_supervisor_def gateless_def get_agent_config_def read_limits_def)
  obtain ev w1 where "supervisor_run reclaim_candle True ?w = (Inr ev, w1)" using window_step by blast
  then obtain cancels w2 where plan: "supervisor_plan reclaim_candle ?w = (Inr cancels, w2)"
    unfolding supervisor_run_plan by (auto elim!: bindS_cases)
  have "bare ?w" by (simp add: bare_def gateless_fields)
  then have "\<not> order_go (ag_order (snd w2))"
    using tripleD(1) [OF plan_without_limits _ plan, of b] by (simp add: desk_def gateless_fields no_order_def)
  then have step: "backtest_step reclaim_candle False (?w, bt_sample) = (Inr (), (backtest_journal cancels [] [] w2, bt_sample))"
    by (simp add: backtest_step_def plan bt_no_order bt_flat bt_sample_def init_bt_def)
  obtain stats where r: "run_backtest_session None (Data_File (Inr [reclaim_candle])) 0 (gateless b j)
       (strategy_state gateless_cfg sweep_window) bt_sample = Inr stats"
    using step by (simp add: run_backtest_session_def load_data_def backtest_history_def backtest_listen_def sv bindS_def)
  from backtest_session_never_trades [OF this [unfolded bt_sample_def]] r show ?thesis by blast
qed

section \<open>Replay\<close>

lemma replay_history_Cons:
  assumes "replay_history n acc (e # es) = Inr cs"
  obtains ev kind c where "e = JObj ev" "event_kind ev = Inr kind" "is_candle_event kind" "replay_candle_of ev = Inr c"
      "(if n \<le> length (acc @ [c]) then Inr (acc @ [c]) else replay_history n (acc @ [c]) es) = Inr cs"
  | ev kind where "e = JObj ev" "event_kind ev = Inr kind" "\<not> is_candle_event kind"
      "(if n \<le> length acc then Inr acc else replay_history n acc es) = Inr cs"
proof (cases e)
  case (JObj ev)
  then obtain kind where k: "event_kind ev = Inr kind" using assms by (auto simp: bindE_Inr_iff)
  show ?thesis
  proof (cases "is_candle_event kind")
    case True
    then obtain c where "replay_candle_of ev = Inr c" using assms JObj k by (auto simp: bindE_Inr_iff)
    then show ?thesis using that(1) [OF JObj k True, of c] assms JObj k True by simp
  next
    case False
    then show ?thesis using that(2) [OF JObj k False] assms JObj k by simp
  qed
qed (use assms in auto)

lemma replay_history_extends: "replay_history n acc es = Inr cs \<Longrightarrow> \<exists>ds. cs = acc @ ds"
proof (induction es arbitrary: acc)
  case (Cons e es)
  show ?case
  proof (rule replay_history_Cons [OF Cons.prems])
    fix c assume "(if n \<le> length (acc @ [c]) then Inr (acc @ [c]) else replay_history n (acc @ [c]) es) = Inr cs"
    then show ?thesis using Cons.IH [of "acc @ [c]"] by (auto split: if_splits)
  next
    assume "(if n \<le> length acc then Inr acc else replay_history n acc es) = Inr cs"
    then show ?thesis using Cons.IH [of acc] by (auto split: if_splits)
  qed
qed simp

definition candles_of :: "replay_item list \<Rightarrow> replay_candle list" where
  "candles_of = List.map_filter (\<lambda>i. case i of ReplayCandle c \<Rightarrow> Some c | _ \<Rightarrow> None)"

lemma candles_of_simps [simp]:
  "candles_of [] = []" "candles_of (ReplayCandle c # is) = c # candles_of is"
  "candles_of (ReplayTick t # is) = candles_of is"
  by (simp_all add: candles_of_def map_filter_simps)

text \<open>The replay yields the candles of its history again, from the first one on.\<close>

theorem replay_repeats_the_history:
  assumes "replay_history n acc es = Inr (acc @ ds)" and "snd (replay_listen es) = None"
  shows "\<exists>rest. candles_of (fst (replay_listen es)) = ds @ rest"
  using assms
proof (induction es arbitrary: acc ds)
  case (Cons e es)
  obtain its where its: "replay_event e = Inr its" "snd (replay_listen es) = None"
      "fst (replay_listen (e # es)) = its @ fst (replay_listen es)"
    using Cons.prems(2) by (auto split: sum.splits prod.splits)
  show ?case
  proof (rule replay_history_Cons [OF Cons.prems(1)])
    fix ev kind c
    assume e: "e = JObj ev" "event_kind ev = Inr kind" "is_candle_event kind" "replay_candle_of ev = Inr c"
      "(if n \<le> length (acc @ [c]) then Inr (acc @ [c]) else replay_history n (acc @ [c]) es) = Inr (acc @ ds)"
    then have i: "its = [ReplayCandle c]" using its(1) by (simp add: replay_event_def)
    show ?thesis
    proof (cases "n \<le> length (acc @ [c])")
      case True
      then show ?thesis using e(5) its(3) i by auto
    next
      case False
      then obtain ds' where ds: "ds = c # ds'" using e(5) replay_history_extends [of n "acc @ [c]" es "acc @ ds"] by auto
      then show ?thesis using Cons.IH [of "acc @ [c]" ds'] False e(5) its i by simp
    qed
  next
    fix ev kind
    assume e: "e = JObj ev" "event_kind ev = Inr kind" "\<not> is_candle_event kind"
      "(if n \<le> length acc then Inr acc else replay_history n acc es) = Inr (acc @ ds)"
    then have i: "candles_of (its @ is) = candles_of is" for "is"
      using its(1) by (auto simp: replay_event_def bindE_Inr_iff split: if_splits)
    show ?thesis
    proof (cases "n \<le> length acc")
      case False
      then show ?thesis using Cons.IH [of acc ds] e(4) its i by simp
    qed (use e(4) in simp)
  qed
qed simp

end
