(* ===== verification/Preflight.thy ===== *)
theory Preflight
  imports Exchange_Venue Config
begin

text \<open>
  \<^verbatim>\<open>core/preflight.py\<close>: the gates a live start has to pass. Each gate that talks to the exchange makes
  a client of its own; the clock, the network and the rate limiter, which all clients share, are
  those of the client that is passed along. The symbol of the configuration is a string, as the
  command line makes it; the local position is the row of the trade repository, \<open>None\<close> without a
  database file.
\<close>

section \<open>Settings\<close>

definition conf_key :: "(string \<times> json) list \<Rightarrow> string \<Rightarrow> string option" where
  "conf_key conf k = opt_str (jget conf k)"

definition has_keys :: "(string \<times> json) list \<Rightarrow> bool" where
  "has_keys conf \<longleftrightarrow> str_or (conf_key conf ''api_key'') [] \<noteq> [] \<and> str_or (conf_key conf ''secret_key'') [] \<noteq> []"

definition conf_symbol :: "(string \<times> json) list \<Rightarrow> string" where
  "conf_symbol conf = str_or (opt_str (jget_or conf ''symbol'' (JStr ''BTCUSDT''))) []"

definition fresh_client :: "(string \<times> json) list \<Rightarrow> 'w client \<Rightarrow> 'w client" where
  "fresh_client conf c =
     init_client (conf_key conf ''api_key'') (conf_key conf ''secret_key'') (cl_limiter c) (cl_clock c) (cl_net c)"

section \<open>The gates\<close>

text \<open>A gate returns a truth value or raises.\<close>

type_synonym 'w preflight_gate = "('w client, bool) py"

definition check_api_connectivity :: "'w transport \<Rightarrow> (string \<times> json) list \<Rightarrow> 'w preflight_gate" where
  "check_api_connectivity T conf c =
     (case client_get T ''/api/v1/futures/market/trading_pairs'' [(''symbols'', PStr ''BTCUSDT'')] False (fresh_client conf c) of
        (Inl e, c1) \<Rightarrow> (Inr False, c1)
      | (Inr payload, c1) \<Rightarrow> (Inr True, c1))"

text \<open>\<^verbatim>\<open>p.get("qty") or p.get("positionAmount") or 0\<close>\<close>

definition reported_qty :: "(string \<times> json) list \<Rightarrow> json" where
  "reported_qty d = (if jtrue (jget d ''qty'') then jget d ''qty''
     else if jtrue (jget d ''positionAmount'') then jget d ''positionAmount'' else JNum (Fin 0))"

definition tolerance :: real where
  "tolerance = 1 / 100000000"

fun reported_position :: "string \<Rightarrow> json list \<Rightarrow> (string \<times> json) list option res" where
  "reported_position symbol [] = Inr None"
| "reported_position symbol (p # ps) =
     (case p of
        JObj d \<Rightarrow>
          if jget d ''symbol'' = JStr symbol
          then bindE (float_of_json (reported_qty d)) (\<lambda>qty.
                 if pf_lt (Fin tolerance) (pf_abs qty) then Inr (Some d) else reported_position symbol ps)
          else reported_position symbol ps
      | _ \<Rightarrow> Inl AttributeError)"

definition exchange_position :: "'w transport \<Rightarrow> string \<Rightarrow> ('w client, (string \<times> json) list option) py" where
  "exchange_position T symbol =
     bindS (client_get T ''/api/v1/futures/position/pending_position'' (symbol_params symbol) True)
       (\<lambda>payload. liftS (bindE (data_rows payload) (reported_position symbol)))"

text \<open>\<^verbatim>\<open>float(exchange_pos.get("qty", 0) if exchange_pos else 0.0)\<close>\<close>

definition exchange_qty :: "(string \<times> json) list option \<Rightarrow> pyfloat res" where
  "exchange_qty p = (case p of None \<Rightarrow> Inr (Fin 0) | Some d \<Rightarrow> float_of_json (jget_or d ''qty'' (JNum (Fin 0))))"

definition local_qty :: "position_row option \<Rightarrow> real" where
  "local_qty row = (case row of None \<Rightarrow> 0 | Some p \<Rightarrow> pr_qty p)"

definition check_position_match ::
  "'w transport \<Rightarrow> position_row option option \<Rightarrow> (string \<times> json) list \<Rightarrow> 'w preflight_gate" where
  "check_position_match T db conf c =
     (if \<not> has_keys conf then (Inr True, c)
      else case exchange_position T (conf_symbol conf) (fresh_client conf c) of
        (Inl e, c1) \<Rightarrow> (Inr False, c1)
      | (Inr p, c1) \<Rightarrow>
          (case db of
             None \<Rightarrow> (Inr (p = None), c1)
           | Some row \<Rightarrow>
               (bindE (exchange_qty p) (\<lambda>x. Inr (\<not> pf_lt (Fin tolerance) (pf_abs (pf_sub (Fin (local_qty row)) x)))), c1)))"

definition check_min_equity :: "(string \<times> json) list \<Rightarrow> 'w preflight_gate" where
  "check_min_equity conf c = (Inr True, c)"

definition check_daily_loss :: "(string \<times> json) list \<Rightarrow> 'w preflight_gate" where
  "check_daily_loss conf c = (Inr True, c)"

definition leverage_body :: "string \<Rightarrow> int \<Rightarrow> json" where
  "leverage_body symbol target =
     JObj [(''symbol'', JStr symbol), (''leverage'', JNum (Fin (of_int target))), (''side'', JNum (Fin 3))]"

text \<open>\<^verbatim>\<open>int(resp.get("data", {}).get("leverage", 0))\<close>\<close>

definition current_leverage :: "json \<Rightarrow> int res" where
  "current_leverage payload =
     (case payload of
        JObj kvs \<Rightarrow> (case jget_or kvs ''data'' (JObj []) of
            JObj d \<Rightarrow> int_of_json (jget_or d ''leverage'' (JNum (Fin 0)))
          | _ \<Rightarrow> Inl AttributeError)
      | _ \<Rightarrow> Inl AttributeError)"

definition enforce_leverage :: "'w transport \<Rightarrow> string \<Rightarrow> int \<Rightarrow> ('w client, unit) py" where
  "enforce_leverage T symbol target =
     bindS (client_get T ''/api/v1/futures/account/user_config'' [(''symbol'', PStr symbol)] True) (\<lambda>payload.
     bindS (liftS (current_leverage payload)) (\<lambda>current.
       if current = target then returnS ()
       else bindS (client_post T ''/api/v1/futures/account/set_leverage'' (leverage_body symbol target) True) (\<lambda>_. returnS ())))"

definition check_leverage :: "'w transport \<Rightarrow> (string \<times> json) list \<Rightarrow> 'w preflight_gate" where
  "check_leverage T conf c =
     (case int_of_json (jget_or conf ''max_leverage'' (JNum (Fin 1))) of
        Inl e \<Rightarrow> (Inl e, c)
      | Inr target \<Rightarrow>
          if \<not> has_keys conf then (Inr True, c)
          else case enforce_leverage T (conf_symbol conf) target (fresh_client conf c) of
              (Inl e, c1) \<Rightarrow> (Inr False, c1)
            | (Inr u, c1) \<Rightarrow> (Inr True, c1))"

definition check_kill_switch :: "environ \<Rightarrow> 'w preflight_gate" where
  "check_kill_switch env c =
     (Inr ((case map_of env ''LA_KILL_SWITCH'' of None \<Rightarrow> ''FALSE'' | Some v \<Rightarrow> v) = ''FALSE''), c)"

section \<open>Running the gates\<close>

datatype gate_message = Gate_Passed | Gate_Failed | Gate_Raised py_exc

record preflight_result =
  pf_name :: string
  pf_passed :: bool
  pf_message :: gate_message

definition preflight_gates ::
  "'w transport \<Rightarrow> position_row option option \<Rightarrow> environ \<Rightarrow> (string \<times> json) list \<Rightarrow> (string \<times> 'w preflight_gate) list" where
  "preflight_gates T db env conf =
     [(''api_connectivity'', check_api_connectivity T conf),
      (''position_reconciliation'', check_position_match T db conf),
      (''leverage_enforcement'', check_leverage T conf),
      (''min_equity'', check_min_equity conf),
      (''daily_loss_ok'', check_daily_loss conf),
      (''kill_switch_off'', check_kill_switch env)]"

fun run_gates :: "(string \<times> 'w preflight_gate) list \<Rightarrow> 'w client \<Rightarrow> preflight_result list \<times> 'w client" where
  "run_gates [] c = ([], c)"
| "run_gates ((name, g) # gs) c =
     (case g c of (r, c1) \<Rightarrow>
        (let res = (case r of
               Inl e \<Rightarrow> \<lparr>pf_name = name, pf_passed = False, pf_message = Gate_Raised e\<rparr>
             | Inr b \<Rightarrow> \<lparr>pf_name = name, pf_passed = b, pf_message = if b then Gate_Passed else Gate_Failed\<rparr>);
             (rest, c2) = run_gates gs c1
         in (res # rest, c2)))"

definition run_preflight ::
  "'w transport \<Rightarrow> position_row option option \<Rightarrow> environ \<Rightarrow> (string \<times> json) list \<Rightarrow> 'w client
   \<Rightarrow> preflight_result list \<times> 'w client" where
  "run_preflight T db env conf = run_gates (preflight_gates T db env conf)"

definition all_gates_passed :: "preflight_result list \<Rightarrow> bool" where
  "all_gates_passed results = list_all pf_passed results"

end
