(* ===== verification/Command_Line.thy ===== *)
theory Command_Line
  imports Preflight
begin

text \<open>
  The command line: \<^verbatim>\<open>commands/session.py\<close> (\<open>la run\<close>), \<^verbatim>\<open>commands/lifecycle.py\<close> (\<open>la start\<close>, \<open>la stop\<close>,
  \<open>la watch\<close>) and the choice of the broker in \<^verbatim>\<open>session/broker_factory.py\<close>. The file of the running
  agent's process id is both what \<open>start\<close> writes and the lock that \<open>run\<close> acquires. The runners, which
  have theories of their own, are a function from the job they are given to whether they succeeded.
\<close>

section \<open>\<open>la run\<close>\<close>

record command_args =
  ru_mode :: "string option"
  ru_backtest :: int
  ru_execution_mode :: string
  ru_dry_run :: bool
  ru_async :: bool
  ru_preflight :: bool
  ru_show :: bool
  ru_symbol :: string
  ru_other :: "string \<Rightarrow> json"

text \<open>The options that only the runners look at.\<close>

definition other_options :: "string list" where
  "other_options =
     [''source'', ''interval'', ''limit'', ''fees_bps'', ''slip_bps'', ''backtest_mode'', ''duration'', ''once'',
      ''risk_pct'', ''stop_bps'', ''tp_r'', ''max_leverage'', ''intrabar_mode'', ''validate_splits'',
      ''validate_train'', ''validate_test'', ''grid'', ''validate_max_candidates'', ''strategy'',
      ''stale_timeout'', ''execution_latency_ms'', ''dashboard'', ''replay'', ''config'', ''quiet'', ''verbose'',
      ''offline_safe'']"

definition opt_json :: "string option \<Rightarrow> json" where
  "opt_json s = (case s of None \<Rightarrow> JNull | Some t \<Rightarrow> JStr t)"

definition plain_symbol :: "string \<Rightarrow> string" where
  "plain_symbol s = filter (\<lambda>c. c \<noteq> CHR ''/'' \<and> c \<noteq> CHR ''-'') (py_upper s)"

text \<open>\<open>vars(args)\<close>, once the symbol has been normalised.\<close>

definition run_vars :: "command_args \<Rightarrow> (string \<times> json) list" where
  "run_vars a =
     [(''mode'', opt_json (ru_mode a)), (''backtest'', num (of_int (ru_backtest a))),
      (''execution_mode'', JStr (ru_execution_mode a)), (''dry_run'', JBool (ru_dry_run a)),
      (''async_mode'', JBool (ru_async a)), (''preflight'', JBool (ru_preflight a)), (''show'', JBool (ru_show a)),
      (''symbol'', JStr (plain_symbol (ru_symbol a)))]
     @ map (\<lambda>k. (k, ru_other a k)) other_options"

text \<open>\<^verbatim>\<open>args.mode or profile_config.get("mode") or ("backtest" if args.backtest > 0 else "single")\<close>\<close>

definition command_mode :: "command_args \<Rightarrow> (string \<times> json) list \<Rightarrow> json" where
  "command_mode a profile_config =
     (if jtrue (opt_json (ru_mode a)) then opt_json (ru_mode a)
      else if jtrue (jget profile_config ''mode'') then jget profile_config ''mode''
      else JStr (if 0 < ru_backtest a then ''backtest'' else ''single''))"

datatype job =
    Async_Session
  | Timed_Session
  | Orchestrated string bool    \<comment> \<open>execution mode, dry run\<close>

definition job_of :: "json \<Rightarrow> command_args \<Rightarrow> job" where
  "job_of mode a =
     (if mode = JStr ''live-session'' then (if ru_async a then Async_Session else Timed_Session)
      else if mode = JStr ''orchestrated'' then Orchestrated (ru_execution_mode a) (ru_dry_run a)
      else if mode = JStr ''selftest'' then Orchestrated ''paper'' True
      else if mode = JStr ''paper'' then Orchestrated ''paper'' (ru_dry_run a)
      else Orchestrated (ru_execution_mode a) (ru_dry_run a))"

text \<open>
  What the command finds: the processes and its own id, the environment, the files of the base
  configuration, the profile, the strategy and the session, the database, the exchange, and whether
  the report exists after the run.
\<close>

record 'w cli_world =
  cw_procs :: processes
  cw_writable :: bool
  cw_pid :: int
  cw_env :: environ
  cw_base :: "(string \<times> json) list option"
  cw_profile :: "(string \<times> json) list option"
  cw_strategy_file :: parsed_file
  cw_config_file :: parsed_file
  cw_db :: "position_row option option"
  cw_transport :: "'w transport"
  cw_client :: "'w client"
  cw_coercions :: coercions
  cw_runner :: "job \<Rightarrow> bool res"
  cw_summary :: bool

datatype cli_end = Exit int | Crash py_exc

record cli_result =
  cr_end :: cli_end
  cr_job :: "job option"
  cr_lock :: lock_file

definition gates_ok :: "'w cli_world \<Rightarrow> string \<Rightarrow> command_args \<Rightarrow> (string \<times> json) list \<Rightarrow> bool" where
  "gates_ok w profile a profile_config \<longleftrightarrow>
     (ru_preflight a \<or> profile = ''live'' \<longrightarrow>
        all_gates_passed (fst (run_preflight (cw_transport w) (cw_db w) (cw_env w) profile_config (cw_client w))))"

definition run_job :: "'w cli_world \<Rightarrow> command_args \<Rightarrow> json \<Rightarrow> cli_end" where
  "run_job w a mode =
     (case cw_runner w (job_of mode a) of
        Inl e \<Rightarrow> Crash e
      | Inr success \<Rightarrow>
          Exit (if mode \<noteq> JStr ''selftest'' \<and> \<not> cw_summary w then 1 else if success then 0 else 1))"

text \<open>What \<open>run\<close> does once it has the lock: how it ends, and the job it started, if any.\<close>

definition run_locked :: "'w cli_world \<Rightarrow> string \<Rightarrow> command_args \<Rightarrow> cli_end \<times> job option" where
  "run_locked w profile a =
     (case load_profile (cw_env w) (cw_base w) (cw_profile w) (run_vars a) of
        Inl e \<Rightarrow> (Crash e, None)
      | Inr profile_config \<Rightarrow>
          (case load_session_config (cw_coercions w) (cw_env w) (cw_strategy_file w) (cw_config_file w) (run_vars a) of
             Inl e \<Rightarrow> (Exit 1, None)
           | Inr session_config \<Rightarrow>
               if \<not> gates_ok w profile a profile_config then (Exit 1, None)
               else if ru_preflight a \<and> profile \<noteq> ''live'' then (Exit 0, None)
               else (let mode = command_mode a profile_config in (run_job w a mode, Some (job_of mode a)))))"

text \<open>\<open>atexit\<close> releases the lock of a process that got it, and of no other.\<close>

definition run_command :: "'w cli_world \<Rightarrow> string \<Rightarrow> command_args \<Rightarrow> lock_file \<Rightarrow> cli_result" where
  "run_command w profile a l =
     (case acquire (cw_procs w) (cw_writable w) (cw_pid w) l of
        (Inl e, l1) \<Rightarrow> \<lparr>cr_end = Crash e, cr_job = None, cr_lock = l1\<rparr>
      | (Inr False, l1) \<Rightarrow> \<lparr>cr_end = Exit 1, cr_job = None, cr_lock = l1\<rparr>
      | (Inr True, l1) \<Rightarrow>
          (let (e, j) = run_locked w profile a in \<lparr>cr_end = e, cr_job = j, cr_lock = release True l1\<rparr>))"

section \<open>\<open>la start\<close>, \<open>la stop\<close>, \<open>la watch\<close>\<close>

record start_args =
  sa_mode :: string
  sa_execution_mode :: string
  sa_symbol :: string
  sa_source :: "string option"

definition resolved_source :: "start_args \<Rightarrow> string" where
  "resolved_source a = (case sa_source a of
     Some (c # s) \<Rightarrow> c # s
   | _ \<Rightarrow> if sa_mode a = ''live-session'' then ''bitunix'' else ''mock'')"

definition start_cmd :: "string \<Rightarrow> start_args \<Rightarrow> string list" where
  "start_cmd executable a =
     [executable, ''-m'', ''laptop_agents'', ''run'', ''--mode'', sa_mode a, ''--execution-mode'', sa_execution_mode a,
      ''--symbol'', sa_symbol a, ''--source'', resolved_source a, ''--async'']"

text \<open>\<open>int(AGENT_PID_FILE.read_text().strip())\<close>; the errors are caught.\<close>

definition pid_of :: "lock_file \<Rightarrow> int option" where
  "pid_of l = (case l of
     Some (Text s) \<Rightarrow> (case int_of_text (py_strip s) of Inr n \<Rightarrow> Some n | Inl e \<Rightarrow> None)
   | _ \<Rightarrow> None)"

definition already_running :: "processes \<Rightarrow> lock_file \<Rightarrow> bool" where
  "already_running procs l = (case pid_of l of Some n \<Rightarrow> procs n \<noteq> None | None \<Rightarrow> False)"

text \<open>
  \<open>start\<close> up to the launch: \<open>child\<close> is the id of the process it makes, or the exception of \<open>Popen\<close>.
  Without \<open>--detach\<close> it waits for the child and removes the file at the end.
\<close>

definition start_launch :: "processes \<Rightarrow> string \<Rightarrow> start_args \<Rightarrow> int res \<Rightarrow> lock_file \<Rightarrow> string list option \<times> lock_file" where
  "start_launch procs executable a child l =
     (if already_running procs l then (None, l)
      else case child of
          Inl e \<Rightarrow> (None, l)
        | Inr p \<Rightarrow> (Some (start_cmd executable a), lock_write p))"

definition start_end :: "bool \<Rightarrow> string list option \<Rightarrow> lock_file \<Rightarrow> lock_file" where
  "start_end detach launched l = (if detach \<or> launched = None then l else None)"

datatype signal = Terminate int | Kill int

text \<open>How a process answers \<open>terminate\<close>.\<close>

datatype stop_answer = Ended | Lingers | Gone | Denied

definition stop_command ::
  "processes \<Rightarrow> (int \<Rightarrow> stop_answer) \<Rightarrow> bool \<Rightarrow> lock_file \<Rightarrow> bool res \<times> signal list \<times> lock_file" where
  "stop_command procs ans removable l =
     (let stale = (Inr False, [], release removable l)
      in case pid_of l of
           None \<Rightarrow> stale
         | Some n \<Rightarrow>
             if n = 0 \<or> procs n = None then stale
             else let signals = Terminate n # (if ans n = Lingers then [Kill n] else [])
                  in case ans n of
                       Gone \<Rightarrow> stale
                     | Denied \<Rightarrow> (Inl (RuntimeError ''AccessDenied''), [], l)
                     | _ \<Rightarrow> if removable then (Inr True, signals, None) else (Inl OSError, signals, l))"

text \<open>\<open>watch\<close> writes no file; it starts the next child however the last one ended.\<close>

definition watch_cmd :: "string \<Rightarrow> start_args \<Rightarrow> string \<Rightarrow> string list" where
  "watch_cmd executable a minutes =
     [executable, ''-m'', ''laptop_agents'', ''run'', ''--mode'', sa_mode a, ''--execution-mode'', sa_execution_mode a,
      ''--symbol'', sa_symbol a, ''--source'', resolved_source a, ''--duration'', minutes, ''--async'']"

definition watch_note :: "int \<Rightarrow> string" where
  "watch_note code = (if code \<noteq> 0
     then ''Process crashed (exit '' @ str_of_int code @ ''). Restarting in 10s...''
     else ''Process exited normally. Restarting in 10s...'')"

section \<open>The choice of the broker\<close>

datatype broker_choice = Live_Broker string string | Paper_Broker

definition create_broker :: "environ \<Rightarrow> string \<Rightarrow> broker_choice res" where
  "create_broker env execution_mode =
     (if execution_mode = ''live''
      then let key = getenv env ''BITUNIX_API_KEY'';
               secret = (if getenv env ''BITUNIX_API_SECRET'' \<noteq> [] then getenv env ''BITUNIX_API_SECRET''
                         else getenv env ''BITUNIX_SECRET_KEY'')
           in if key = [] \<or> secret = [] then Inl (ValueError ''Live execution requires BITUNIX_API_KEY and BITUNIX_API_SECRET'')
              else Inr (Live_Broker key secret)
      else Inr Paper_Broker)"

section \<open>Checks of a running agent\<close>

text \<open>\<open>la watchdog\<close>: the heartbeat file, absent or parsed. A healthy agent's equity is printed as a number.\<close>

definition verify_agent_health :: "real \<Rightarrow> real \<Rightarrow> parsed_file \<Rightarrow> cli_end" where
  "verify_agent_health timeout now beat =
     (case beat of
        Some (Inr (JObj d)) \<Rightarrow>
          (case (jget_or d ''unix_ts'' (JNum (Fin 0)), jget_or d ''equity'' (JNum (Fin 0))) of
             (JNum t, JNum e) \<Rightarrow> if pf_lt (Fin timeout) (pf_sub (Fin now) t) then Exit 1 else Exit 0
           | _ \<Rightarrow> Exit 1)
      | _ \<Rightarrow> Exit 1)"

text \<open>One round of \<^verbatim>\<open>agents/watchdog.py\<close>: the count of stale rounds, with what the file says or why it does not.\<close>

datatype alarm = Stale | Frozen | Recovered

definition last_beat :: "real \<Rightarrow> json option \<Rightarrow> real res" where
  "last_beat mtime parsed =
     (case parsed of
        None \<Rightarrow> Inr mtime
      | Some (JObj d) \<Rightarrow>
          (let t = (if jtrue (jget d ''last_updated_ts'') then jget d ''last_updated_ts''
                    else if jtrue (jget d ''unix_ts'') then jget d ''unix_ts'' else num mtime)
           in case t of JNum (Fin x) \<Rightarrow> Inr x | JBool b \<Rightarrow> Inr (if b then 1 else 0) | _ \<Rightarrow> Inl TypeError)
      | Some _ \<Rightarrow> Inl AttributeError)"

definition monitor_round :: "real \<Rightarrow> (real \<times> json option) option \<Rightarrow> nat \<Rightarrow> alarm list \<times> nat" where
  "monitor_round now file stale =
     (case file of
        None \<Rightarrow> ([], stale)
      | Some (mtime, parsed) \<Rightarrow>
          (case last_beat mtime parsed of
             Inl e \<Rightarrow> ([], stale)
           | Inr last_ts \<Rightarrow>
               if 30 < max (now - last_ts) (now - mtime)
               then (Stale # (if 3 \<le> Suc stale then [Frozen] else []), Suc stale)
               else ((if 0 < stale then [Recovered] else []), 0)))"

end
