(* ===== verification/Command_Properties.thy ===== *)
theory Command_Properties
  imports Command_Line Config_Properties Store_Properties
begin

text \<open>
  What the command line guarantees and what it does not: a job starts only behind the lock, a valid
  configuration and, for the live profile, the gates; the gates of the live profile look at nothing
  that needs a key; the agent that \<open>la start\<close> launches finds its own process id in the lock file.
\<close>

section \<open>The options in the configuration\<close>

lemma run_vars_keys:
  "map fst (run_vars a) =
     [''mode'', ''backtest'', ''execution_mode'', ''dry_run'', ''async_mode'', ''preflight'', ''show'', ''symbol''] @ other_options"
  by (simp add: run_vars_def comp_def)

lemma option_keys_distinct:
  "distinct ([''mode'', ''backtest'', ''execution_mode'', ''dry_run'', ''async_mode'', ''preflight'', ''show'', ''symbol''] @ other_options)"
  by code_simp

lemma run_vars_distinct: "distinct (map fst (run_vars a))"
  unfolding run_vars_keys by (rule option_keys_distinct)

lemma run_vars_some [simp]: "run_vars a \<noteq> []"
  by (simp add: run_vars_def)

lemma run_vars_get: "(k, v) \<in> set (run_vars a) \<Longrightarrow> dict_get (run_vars a) k = Some v"
  unfolding dict_get_def using run_vars_distinct [of a]
  by (intro map_of_is_SomeI) (simp_all flip: rev_map)

lemma profile_option:
  assumes "load_profile env base profile (run_vars a) = Inr cfg"
    and "(k, v) \<in> set (run_vars a)" and "\<not> is_dict v"
  shows "dict_get cfg k = Some v"
proof -
  obtain c3 where "cfg = deep_merge c3 (run_vars a)"
    using assms(1) by (auto simp: load_profile_def bindE_Inr_iff Let_def)
  then show ?thesis
    using dict_get_deep_merge [OF run_vars_distinct, of c3 a k] run_vars_get [OF assms(2)] assms(3) by simp
qed

lemma opt_json_plain [simp]: "\<not> is_dict (opt_json s)"
  by (cases s) (simp_all add: opt_json_def)

text \<open>The mode the options alone ask for.\<close>

definition asked_mode :: "command_args \<Rightarrow> json" where
  "asked_mode a =
     (case ru_mode a of
        Some (c # s) \<Rightarrow> JStr (c # s)
      | _ \<Rightarrow> JStr (if 0 < ru_backtest a then ''backtest'' else ''single''))"


section \<open>Behind the lock and the gates\<close>


text \<open>Without \<open>--mode\<close> it is always the orchestrated run, also with \<open>--backtest\<close> or the profile of a backtest.\<close>

theorem modes_fall_back_to_orchestrated:
  "ru_mode a \<in> {None, Some '''', Some ''backtest'', Some ''single'', Some ''live'', Some ''validate''}
   \<Longrightarrow> job_of (asked_mode a) a = Orchestrated (ru_execution_mode a) (ru_dry_run a)"
  by (auto simp: asked_mode_def job_of_def split: if_splits)

definition sample_run :: command_args where
  "sample_run = \<lparr>ru_mode = None, ru_backtest = 3, ru_execution_mode = ''paper'', ru_dry_run = False, ru_async = True,
     ru_preflight = False, ru_show = False, ru_symbol = ''BTC/USDT'', ru_other = (\<lambda>k. JNull)\<rparr>"

definition sample_cli :: "processes \<Rightarrow> unit cli_world" where
  "sample_cli procs = \<lparr>cw_procs = procs, cw_writable = True, cw_pid = 42, cw_env = [],
     cw_base = Some [(''mode'', JStr ''single'')], cw_profile = Some [(''mode'', JStr ''backtest'')],
     cw_strategy_file = None, cw_config_file = None, cw_db = None,
     cw_transport = \<lparr>tr_send = (\<lambda>rq w. (Inl TimeoutException, w)), tr_sha = (\<lambda>s. s), tr_repr = (\<lambda>x. [])\<rparr>,
     cw_client = init_client None None (init_limiter 20 50 0) (\<lambda>k. real k) (),
     cw_coercions = plain_coercions, cw_runner = (\<lambda>j. Inr True), cw_summary = True\<rparr>"










section \<open>The gates of the live profile\<close>

lemma split_us_plain: "p \<in> set (split_us s) \<Longrightarrow> CHR ''_'' \<notin> set p"
proof (induction s arbitrary: p)
  case (Cons c s)
  then show ?case by (cases "split_us s") (auto split: if_splits)
qed simp

lemma set_nested_top:
  "set_nested d parts v = Inr d' \<Longrightarrow> dict_get d k = None \<Longrightarrow> k \<notin> set parts \<Longrightarrow> dict_get d' k = None"
proof -
  assume "set_nested d parts v = Inr d'" "dict_get d k = None" "k \<notin> set parts"
  moreover from this obtain p x where "p \<in> set parts" "d' = jset p x d"
  proof (cases rule: set_nested.cases [of "(d, parts, v)"])
    case (3 d0 p p' ps v0)
    then show ?thesis
      using that calculation(1)
      by (cases "dict_get d p"; cases "the (dict_get d p)") (auto simp: bindE_Inr_iff)
  qed (use that in auto)
  ultimately show ?thesis by (auto simp: dict_simps)
qed

lemma update_nested_top:
  assumes "update_nested d parts v i = Inr d'" and "dict_get d k = None" and "k \<notin> set parts"
  shows "dict_get d' k = None"
  using assms(1)
proof (induction "length parts - i" arbitrary: i)
  case 0
  then show ?case using assms(2,3) set_nested_top by (auto simp: update_nested_end)
next
  case (Suc n)
  define key where "key = join_us (take (Suc i) parts)"
  have i: "i < length parts" using Suc.hyps(2) by simp
  note u = update_nested_key [OF i key_def, of d]
  have further: "update_nested d parts v (Suc i) = Inr d' \<Longrightarrow> ?case"
    using Suc.hyps(1) [of "Suc i"] Suc.hyps(2) by simp
  show ?case
  proof (cases "dict_get d key")
    case None
    then show ?thesis using Suc.prems u(1) further by simp
  next
    case (Some x)
    then have k: "k \<noteq> key" using assms(2) by auto
    consider "Suc i = length parts" | "Suc i \<noteq> length parts" "\<not> is_dict x"
      | e where "Suc i \<noteq> length parts" "x = JObj e" by (cases x) auto
    then show ?thesis
    proof cases
      case 1
      then show ?thesis using Suc.prems u(2) [OF Some] k assms(2) by (auto simp: dict_get_jset)
    next
      case 2
      then show ?thesis using Suc.prems u(3) [OF Some] further by simp
    next
      case 3
      then show ?thesis
        using Suc.prems u(4) [OF Some [unfolded 3(2)]] k assms(2) by (auto simp: bindE_Inr_iff dict_get_jset)
    qed
  qed
qed

lemma environment_adds_plain_keys:
  "apply_env_overrides env d = Inr d' \<Longrightarrow> dict_get d k = None \<Longrightarrow> CHR ''_'' \<in> set k \<Longrightarrow> dict_get d' k = None"
proof (induction env arbitrary: d)
  case (Cons kv env)
  obtain key val where kv: "kv = (key, val)" by (cases kv)
  show ?case
  proof (cases "str_startswith ''LA_'' key")
    case True
    define ps where "ps = split_us (py_lower (drop 3 key))"
    define x where "x = parse_value val"
    have "bindE (update_nested d ps x 0) (apply_env_overrides env) = Inr d'"
      using Cons.prems(1) True unfolding kv apply_env_overrides.simps ps_def x_def by (simp only: if_True)
    then obtain d1 where d1: "update_nested d ps x 0 = Inr d1" "apply_env_overrides env d1 = Inr d'"
      unfolding bindE_Inr_iff by blast
    have k: "k \<notin> set ps" using split_us_plain Cons.prems(3) unfolding ps_def by blast
    show ?thesis by (rule Cons.IH [OF d1(2) update_nested_top [OF d1(1) Cons.prems(2) k] Cons.prems(3)])
  next
    case False
    then have "apply_env_overrides env d = Inr d'"
      using Cons.prems(1) unfolding kv apply_env_overrides.simps by (simp only: if_False)
    then show ?thesis using Cons.prems(2,3) by (rule Cons.IH)
  qed
qed simp

lemma no_api_key_option: "''api_key'' \<notin> set (map fst (run_vars a))"
  unfolding run_vars_keys by code_simp

definition keyless :: "(string \<times> json) list option \<Rightarrow> bool" where
  "keyless d \<longleftrightarrow> (case d of None \<Rightarrow> True | Some e \<Rightarrow> distinct (map fst e) \<and> ''api_key'' \<notin> fst ` set e)"

lemma keyless_profile:
  assumes "load_profile env base profile (run_vars a) = Inr cfg" and "keyless base" and "keyless profile"
  shows "\<not> has_keys cfg"
proof -
  define k where "k = ''api_key''"
  define c1 where "c1 = (case base of None \<Rightarrow> [] | Some b \<Rightarrow> b)"
  define c2 where "c2 = (case profile of None \<Rightarrow> c1 | Some p \<Rightarrow> deep_merge c1 (filter (\<lambda>(k, v). k \<noteq> ''_extends'') p))"
  obtain c3 where c3: "apply_env_overrides env c2 = Inr c3" "cfg = deep_merge c3 (run_vars a)"
  proof -
    have "load_profile env base profile (run_vars a) =
        bindE (apply_env_overrides env c2) (\<lambda>c3. Inr (deep_merge c3 (run_vars a)))"
      unfolding load_profile_def Let_def c1_def [symmetric] c2_def [symmetric] by simp
    then have "bindE (apply_env_overrides env c2) (\<lambda>c3. Inr (deep_merge c3 (run_vars a))) = Inr cfg" using assms(1) by (simp only:)
    then show ?thesis using that unfolding bindE_Inr_iff by blast
  qed
  have 1: "dict_get c1 k = None" using assms(2)
    by (auto simp: c1_def keyless_def k_def dict_get_None split: option.splits)
  have 2: "dict_get c2 k = None"
  proof (cases profile)
    case (Some p)
    let ?p = "filter (\<lambda>(k, v). k \<noteq> ''_extends'') p"
    have "distinct (map fst ?p)" "dict_get ?p k = None"
      using assms(3) Some by (auto simp: keyless_def k_def dict_get_None distinct_map_filter)
    then show ?thesis using 1 dict_get_deep_merge [of ?p c1 k] by (simp add: c2_def Some)
  qed (simp add: c2_def 1)
  have 3: "dict_get c3 k = None"
    by (rule environment_adds_plain_keys [OF c3(1) 2]) (simp add: k_def)
  have "dict_get cfg k = None"
    unfolding c3(2) dict_get_deep_merge [OF run_vars_distinct]
    using 3 no_api_key_option dict_get_None [of "run_vars a" k] by (simp add: k_def)
  then show ?thesis by (simp add: has_keys_def conf_key_def jget_def k_def opt_str_def str_or_def flip: dict_get_def)
qed

text \<open>C22: The gates of \<open>la run --profile live\<close> test nothing that needs the exchange's keys. The profile has
  no \<open>api_key\<close>, no environment variable can give it one and no option does; so the comparison of the
  position with the exchange's, the leverage, the equity and the daily loss pass unseen, only the
  public ping is ever sent, and apart from it only the kill switch can stop a live start.\<close>

theorem live_gates_pass_unseen:
  assumes "load_profile env base profile (run_vars a) = Inr cfg" and "keyless base" and "keyless profile"
    and "ru_other a ''max_leverage'' = num x"
  shows "map pf_passed (fst (run_preflight T db env cfg c)) =
      [fst (check_api_connectivity T cfg c) = Inr True, True, True, True, True,
       map_of env ''LA_KILL_SWITCH'' \<in> {None, Some ''FALSE''}]
    \<and> snd (run_preflight T db env cfg c) = snd (check_api_connectivity T cfg c)"
proof -
  have k: "\<not> has_keys cfg" by (rule keyless_profile [OF assms(1-3)])
  have "dict_get cfg ''max_leverage'' = Some (num x)"
    by (rule profile_option [OF assms(1)]) (simp_all add: run_vars_def other_options_def flip: assms(4), simp add: assms(4))
  then have lev: "jget_or cfg ''max_leverage'' (num 1) = num x" by (simp add: jget_or_dict)
  obtain r c1 where ping: "check_api_connectivity T cfg c = (Inr r, c1)"
  proof -
    obtain p c1 where "client_get T ''/api/v1/futures/market/trading_pairs'' [(''symbols'', PStr ''BTCUSDT'')] False
        (fresh_client cfg c) = (p, c1)" by (rule prod.exhaust)
    then show ?thesis using that by (cases p) (auto simp: check_api_connectivity_def)
  qed
  show ?thesis
    by (auto simp: run_preflight_def preflight_gates_def ping check_position_match_def check_leverage_def k lev
        check_min_equity_def check_daily_loss_def check_kill_switch_def split: option.splits)
qed

definition live_run :: command_args where
  "live_run = sample_run\<lparr>ru_other := (\<lambda>k. num 1)\<rparr>"

definition quiet_transport :: "unit transport" where
  "quiet_transport = \<lparr>tr_send = (\<lambda>rq w. (Inr (JObj [(''code'', num 0), (''data'', JArr [])]), w)),
     tr_sha = (\<lambda>s. s), tr_repr = (\<lambda>x. ''1'')\<rparr>"

definition quiet_client :: "unit client" where
  "quiet_client = init_client None None (init_limiter 20 50 0) (\<lambda>k. real k) ()"

theorem live_gates_pass_unseen_witness:
  "\<exists>cfg. load_profile [] (Some [(''symbol'', JStr ''BTCUSDT'')]) (Some [(''mode'', JStr ''live'')]) (run_vars live_run) = Inr cfg
     \<and> tl (map pf_passed (fst (run_preflight quiet_transport (Some None) [] cfg quiet_client))) = replicate 5 True"
proof -
  have "keyless (Some [(''symbol'', JStr ''BTCUSDT'')])" "keyless (Some [(''mode'', JStr ''live'')])"
    "ru_other live_run ''max_leverage'' = num 1"
    by (simp_all add: keyless_def live_run_def)
  note gates = live_gates_pass_unseen [OF _ this]
  obtain cfg where "load_profile [] (Some [(''symbol'', JStr ''BTCUSDT'')]) (Some [(''mode'', JStr ''live'')]) (run_vars live_run)
      = Inr cfg"
    by (simp add: load_profile_def Let_def del: deep_merge.simps)
  note cfg = this
  have "tl (map pf_passed (fst (run_preflight quiet_transport (Some None) [] cfg quiet_client))) = replicate 5 True"
    using gates [OF cfg, of quiet_transport "Some None" quiet_client] by (simp add: numeral_eq_Suc)
  with cfg show ?thesis by blast
qed

text \<open>
  With keys the comparison has two holes: it never looks at the side, and a position that the exchange
  reports under \<open>positionAmount\<close> counts as none once a database file exists.
\<close>

theorem reported_amount_is_overlooked:
  assumes "has_keys conf"
    and "exchange_position T (conf_symbol conf) (fresh_client conf c) = (Inr (Some d), c1)"
    and "dict_get d ''qty'' = None"
  shows "check_position_match T (Some None) conf c = (Inr True, c1)"
  using assms
  by (simp add: check_position_match_def exchange_qty_def local_qty_def jget_or_dict tolerance_def pf_sub_def)

section \<open>\<open>la start\<close> and \<open>la stop\<close>\<close>

lemma start_cmd_ours: "\<exists>arg \<in> set (start_cmd executable a). str_contains ''laptop_agents'' arg"
proof -
  have "str_contains ''laptop_agents'' ''laptop_agents''" by code_simp
  then show ?thesis by (force simp: start_cmd_def)
qed

text \<open>C20: The agent that \<open>la start\<close> launches does not run. \<open>start\<close> writes the child's process id into the
  file that \<open>la run\<close>, in the child, takes for its lock; the child finds there the id of a running
  Python process of this program, its own, and ends with code 1 without starting any job, whatever
  its options, configuration and profile are.\<close>

theorem started_agent_is_locked_out:
  assumes "start_launch procs executable a (Inr (cw_pid w)) l = (Some cmd, l1)"
    and "cw_procs w (cw_pid w) = Some child" and "pr_cmdline child = Some cmd"
    and "pr_name child = Some name" and "str_contains ''python'' (py_lower name)"
    and "0 \<le> cw_pid w"
  shows "run_command w profile ra l1 = \<lparr>cr_end = Exit 1, cr_job = None, cr_lock = l1\<rparr>"
proof -
  have l1: "l1 = lock_write (cw_pid w)" and cmd: "cmd = start_cmd executable a"
    using assms(1) by (auto simp: start_launch_def split: if_splits)
  have "session_process child"
    using assms(3-5) start_cmd_ours [of executable a] by (simp add: session_process_def is_our_process_def cmd)
  then have "lock_blocks (cw_procs w) l1"
    using assms(2,6) by (simp add: l1 written_lock_blocks)
  then show ?thesis by (simp add: run_command_def acquire_def)
qed

definition started_child :: proc where
  "started_child = \<lparr>pr_name = Some ''python3'', pr_cmdline = Some (start_cmd ''/usr/bin/python3''
     \<lparr>sa_mode = ''live-session'', sa_execution_mode = ''paper'', sa_symbol = ''BTCUSDT'', sa_source = None\<rparr>),
     pr_info = None\<rparr>"

theorem started_agent_is_locked_out_witness:
  "\<exists>cmd l1. start_launch (\<lambda>_. None) ''/usr/bin/python3''
       \<lparr>sa_mode = ''live-session'', sa_execution_mode = ''paper'', sa_symbol = ''BTCUSDT'', sa_source = None\<rparr> (Inr 42) None
       = (Some cmd, l1)
     \<and> cr_end (run_command (sample_cli [42 \<mapsto> started_child]) ''paper'' sample_run l1) = Exit 1
     \<and> cr_job (run_command (sample_cli [42 \<mapsto> started_child]) ''paper'' sample_run l1) = None"
proof -
  let ?a = "\<lparr>sa_mode = ''live-session'', sa_execution_mode = ''paper'', sa_symbol = ''BTCUSDT'', sa_source = None\<rparr>"
  have w: "cw_pid (sample_cli p) = 42" "cw_procs (sample_cli p) = p" for p by (simp_all add: sample_cli_def)
  have s: "start_launch (\<lambda>_. None) ''/usr/bin/python3'' ?a (Inr (cw_pid (sample_cli [42 \<mapsto> started_child]))) None
      = (Some (start_cmd ''/usr/bin/python3'' ?a), lock_write 42)"
    by (simp add: start_launch_def already_running_def pid_of_def w)
  have n: "str_contains ''python'' (py_lower ''python3'')" by code_simp
  show ?thesis
    using started_agent_is_locked_out [OF s _ _ _ n, of started_child "''paper''" sample_run] s
    by (simp add: w started_child_def)
qed

text \<open>\<open>stop\<close> does not ask whose process the id in the file is by now.\<close>

theorem stop_terminates_strangers:
  assumes "pid_of l = Some n" and "n \<noteq> 0" and "procs n = Some p" and "\<not> is_our_process p" and "ans n = Ended"
  shows "stop_command procs ans True l = (Inr True, [Terminate n], None)"
  using assms by (simp add: stop_command_def Let_def)

text \<open>Three stale rounds in a row, whatever is between them and their files, raise the alarm, and no two do.\<close>

theorem watchdog_alarm:
  assumes "last_beat (fst f) (snd f) = Inr t" and "30 < max (now - t) (now - fst f)"
  shows "Frozen \<in> set (fst (monitor_round now (Some f) n)) \<longleftrightarrow> 2 \<le> n"
    and "snd (monitor_round now (Some f) n) = Suc n"
  using assms by (cases f; simp add: monitor_round_def)+

end
