(* ===== verification/Log_Scrubber.thy ===== *)
theory Log_Scrubber
  imports Config "HOL-Library.Sublist"
begin

text \<open>
  \<^verbatim>\<open>core/logger.py\<close>: what is removed from every text before it is logged, the filter of a log record and
  the JSON line it becomes. A text is a list of ASCII characters. Each regular expression of the
  source is a matcher: at a position, it gives the text put in place of the match and the length of
  the match. None of them needs to backtrack, since what follows an optional or repeated part never
  begins with a character of that part.
\<close>

section \<open>Substitution\<close>

type_synonym matcher = "char option \<Rightarrow> string \<Rightarrow> (string \<times> nat) option"

text \<open>
  \<open>re.sub\<close> and \<open>str.replace\<close>: the leftmost matches that do not overlap. The first argument of a matcher is
  the character before the position. A match is never empty.
\<close>

fun re_sub :: "matcher \<Rightarrow> char option \<Rightarrow> string \<Rightarrow> string" where
  "re_sub m prev [] = []"
| "re_sub m prev (c # s) =
     (case m prev (c # s) of
        None \<Rightarrow> c # re_sub m (Some c) s
      | Some (r, n) \<Rightarrow> r @ re_sub m (Some ((c # s) ! (n - 1))) (drop (n - 1) s))"

definition literal :: "string \<Rightarrow> string \<Rightarrow> matcher" where
  "literal old new prev s = (if old \<noteq> [] \<and> prefix old s then Some (new, length old) else None)"

definition str_replace :: "string \<Rightarrow> string \<Rightarrow> string \<Rightarrow> string" where
  "str_replace old new s = re_sub (literal old new) None s"

section \<open>The patterns\<close>

definition is_alpha :: "char \<Rightarrow> bool" where
  "is_alpha c \<longleftrightarrow> (let n = of_char c :: nat in 65 \<le> n \<and> n \<le> 90 \<or> 97 \<le> n \<and> n \<le> 122)"

definition is_alnum :: "char \<Rightarrow> bool" where
  "is_alnum c \<longleftrightarrow> is_alpha c \<or> is_digit c"

definition is_word :: "char \<Rightarrow> bool" where
  "is_word c \<longleftrightarrow> is_alnum c \<or> c = CHR ''_''"

text \<open>The class \<^verbatim>\<open>[A-Za-z0-9+/=_-]\<close>, and \<^verbatim>\<open>\s\<close> within ASCII.\<close>

definition is_secret_char :: "char \<Rightarrow> bool" where
  "is_secret_char c \<longleftrightarrow> is_alnum c \<or> c \<in> {CHR ''+'', CHR ''/'', CHR ''='', CHR ''_'', CHR ''-''}"

definition is_re_space :: "char \<Rightarrow> bool" where
  "is_re_space c \<longleftrightarrow> is_space c \<or> c \<in> {CHR 0x1C, CHR 0x1D, CHR 0x1E, CHR 0x1F}"

definition skip_quote :: "string \<Rightarrow> string" where
  "skip_quote s = (case s of c # t \<Rightarrow> if c = CHR 0x22 \<or> c = CHR 0x27 then t else s | [] \<Rightarrow> [])"

definition masked :: string where
  "masked = ''***''"

text \<open>A match that keeps what comes before \<open>rest\<close> and masks the secret at its start, which has at least \<open>n\<close> characters.\<close>

definition mask_run :: "nat \<Rightarrow> string \<Rightarrow> string \<Rightarrow> (string \<times> nat) option" where
  "mask_run n s rest =
     (let v = takeWhile is_secret_char rest; p = length s - length rest
      in if n \<le> length v then Some (take p s @ masked, p + length v) else None)"

definition secret_words :: "string list" where
  "secret_words = [''api_key'', ''api-key'', ''apikey'', ''secret'', ''password'', ''token'', ''auth'']"

definition secret_field :: matcher where
  "secret_field prev s =
     (case find (\<lambda>k. prefix k (py_lower s)) secret_words of
        None \<Rightarrow> None
      | Some k \<Rightarrow>
          (case dropWhile is_re_space (skip_quote (drop (length k) s)) of
             [] \<Rightarrow> None
           | c # t \<Rightarrow>
               if c = CHR '':'' \<or> c = CHR ''='' then mask_run 16 s (skip_quote (dropWhile is_re_space t)) else None))"

definition bearer :: matcher where
  "bearer prev s =
     (if prefix ''bearer'' (py_lower s)
      then (let t = drop 6 s; rest = dropWhile is_re_space t
            in if length rest < length t then mask_run 20 s rest else None)
      else None)"

definition long_token :: matcher where
  "long_token prev s =
     (let v = takeWhile is_alnum s; rest = dropWhile is_alnum s
      in if 32 \<le> length v \<and> (\<forall>c \<in> set_option prev. \<not> is_word c) \<and> (rest = [] \<or> \<not> is_word (hd rest))
         then Some (masked, length v) else None)"

section \<open>\<open>scrub_secrets\<close>\<close>

definition names_secret :: "string \<Rightarrow> bool" where
  "names_secret k \<longleftrightarrow> (\<exists>x \<in> set [''KEY'', ''SECRET'', ''TOKEN'', ''PASSWORD'']. str_contains x (py_upper k))"

definition env_secrets :: "environ \<Rightarrow> string list" where
  "env_secrets env = map snd (filter (\<lambda>(k, v). names_secret k \<and> 8 < length v) env)"

definition scrub_secrets :: "environ \<Rightarrow> string \<Rightarrow> string" where
  "scrub_secrets env text =
     (let t0 = fold (\<lambda>secret t. str_replace secret masked t) (env_secrets env) text;
          t1 = re_sub secret_field None t0;
          t2 = re_sub bearer None t1
      in re_sub long_token None t2)"

section \<open>Log records\<close>

text \<open>A value that is not a string keeps what it is; \<open>json\<close> has all that the formatter distinguishes.\<close>

datatype log_args = No_Args | Dict_Args "(string \<times> json) list" | Tuple_Args "json list"

record log_record =
  lr_msg :: json
  lr_args :: log_args
  lr_created :: string
  lr_level :: string
  lr_name :: string
  lr_loop_id :: "json option"
  lr_meta :: "json option"
  lr_exception :: "string option"

fun scrub_value :: "environ \<Rightarrow> json \<Rightarrow> json" where
  "scrub_value env (JStr s) = JStr (scrub_secrets env s)"
| "scrub_value env j = j"

definition sensitive_filter :: "environ \<Rightarrow> log_record \<Rightarrow> log_record" where
  "sensitive_filter env r =
     r\<lparr>lr_msg := (if lr_msg r = JStr [] then lr_msg r else scrub_value env (lr_msg r)),
       lr_args := (case lr_args r of
                     Dict_Args d \<Rightarrow> Dict_Args (map (\<lambda>(k, v). (k, scrub_value env v)) d)
                   | Tuple_Args xs \<Rightarrow> Tuple_Args (map (scrub_value env) xs)
                   | No_Args \<Rightarrow> No_Args)\<rparr>"

definition record_meta :: "log_record \<Rightarrow> (string \<times> json) list" where
  "record_meta r =
     (case lr_meta r of
        Some (JObj d) \<Rightarrow> d
      | _ \<Rightarrow> (case lr_args r of
                Dict_Args d \<Rightarrow> d
              | Tuple_Args (JObj d # xs) \<Rightarrow> d
              | _ \<Rightarrow> []))"

text \<open>The entry in the order of the assignments; \<open>message\<close> is what \<open>getMessage\<close> makes of the record.\<close>

definition log_entry :: "(log_record \<Rightarrow> string) \<Rightarrow> log_record \<Rightarrow> (string \<times> json) list" where
  "log_entry message r =
     (let meta = record_meta r;
          base = [(''ts'', JStr (lr_created r)), (''timestamp'', JStr (lr_created r)), (''level'', JStr (lr_level r)),
                  (''component'', JStr (lr_name r)),
                  (''loop_id'', case lr_loop_id r of None \<Rightarrow> JStr ''GLOBAL'' | Some j \<Rightarrow> j),
                  (''message'', JStr (message r)), (''meta'', JObj meta)];
          event = (case dict_get meta ''event'' of None \<Rightarrow> JStr ''Log'' | Some j \<Rightarrow> j);
          e1 = fold (\<lambda>(k, v). jset k v)
                 [(''event'', event), (''symbol'', jget meta ''symbol''), (''loop_id'', jget meta ''loop_id''),
                  (''position'', jget meta ''position''), (''open_orders_count'', jget meta ''open_orders_count'')] base
      in case lr_exception r of None \<Rightarrow> e1 | Some t \<Rightarrow> jset ''exception'' (JStr t) e1)"

text \<open>The line that is written, for any rendering of JSON.\<close>

definition json_format :: "environ \<Rightarrow> (log_record \<Rightarrow> string) \<Rightarrow> (json \<Rightarrow> string) \<Rightarrow> log_record \<Rightarrow> string" where
  "json_format env message dumps r = scrub_secrets env (dumps (JObj (log_entry message r)))"

definition log_line :: "environ \<Rightarrow> (log_record \<Rightarrow> string) \<Rightarrow> (json \<Rightarrow> string) \<Rightarrow> log_record \<Rightarrow> string" where
  "log_line env message dumps r = json_format env message dumps (sensitive_filter env r)"

section \<open>Alerts\<close>

text \<open>
  \<open>write_alert\<close>: a line in a file and at most three posts, until the answer is below 500 or the post
  raises; both kinds of failure are swallowed. \<open>answers\<close> are the status codes, \<open>None\<close> an exception.
\<close>

fun alert_posts :: "nat \<Rightarrow> nat option list \<Rightarrow> nat" where
  "alert_posts 0 answers = 0"
| "alert_posts (Suc n) [] = 0"
| "alert_posts (Suc n) (a # answers) =
     Suc (case a of None \<Rightarrow> 0 | Some code \<Rightarrow> if code < 500 then 0 else alert_posts n answers)"

definition write_alert :: "string \<Rightarrow> string \<Rightarrow> bool \<Rightarrow> string option \<Rightarrow> nat option list \<Rightarrow> string list \<Rightarrow> string list \<times> nat" where
  "write_alert ts message writable webhook answers alerts =
     (if writable then alerts @ [''['' @ ts @ ''] '' @ message] else alerts,
      case webhook of Some (c # u) \<Rightarrow> alert_posts 3 answers | _ \<Rightarrow> 0)"

end
