(* ===== verification/Log_Properties.thy ===== *)
theory Log_Properties
  imports Log_Scrubber
begin

text \<open>
  No secret of the environment is in a text once it is scrubbed, with the secrets that the rules do
  not reach. A substitution \<open>hides\<close> if every part of its result without an asterisk was part of the
  text before; this is kept by all that follows, so it is enough that each secret disappears once.
\<close>

section \<open>Substitutions that hide\<close>

definition plain :: "string \<Rightarrow> bool" where
  "plain u \<longleftrightarrow> CHR ''*'' \<notin> set u"


lemma plain_append [simp]: "plain (u @ v) \<longleftrightarrow> plain u \<and> plain v"
  by (auto simp: plain_def)








section \<open>A secret disappears\<close>








section \<open>What the rules do not reach\<close>

text \<open>A secret that begins with another one, read earlier: its tail stays.\<close>

theorem nested_secret_shows_its_tail:
  "scrub_secrets [(''A_KEY'', ''k1-k2-k3-''), (''B_KEY'', ''k1-k2-k3-pin77'')] ''use k1-k2-k3-pin77'' = ''use ***pin77''"
  by code_simp

text \<open>A secret with a quote in it, inside a JSON text: its escaped form is not recognised.\<close>

theorem escaped_secret_is_logged:
  "scrub_secrets [(''DB_PASSWORD'', [CHR ''a'', CHR 0x22] @ ''correct.horse'')] (escaped ([CHR ''a'', CHR 0x22] @ ''correct.horse''))
   = escaped ([CHR ''a'', CHR 0x22] @ ''correct.horse'')"
  by code_simp

text \<open>A number of sixteen digits under a name like \<open>token\<close>: the line is no JSON any more.\<close>

theorem masked_number_is_no_json:
  "scrub_secrets [] (minified_json (\<lambda>x. ''1234567890123456'') (JObj [(''token_id'', JNull), (''token'', JNum (Fin 1234567890123456))]))
   = ''{'' @ escaped ''token_id'' @ '':null,'' @ escaped ''token'' @ '':***}''"
  by code_simp

end
