(* ===== verification/Error_Memory.thy ===== *)
theory Error_Memory
  imports Log_Scrubber
begin

text \<open>
  \<^verbatim>\<open>core/diagnostics/fingerprinter.py\<close>: errors that are recognised by the hash of their text once line
  numbers, dates, times, addresses and UUIDs are taken out of it, and the file that counts them. The
  hash is a parameter; the file is the list of its lines, each parsed. A line that \<open>save_all\<close> writes
  is read back as it was.
\<close>

section \<open>Fingerprints\<close>

definition is_lower_hex :: "char \<Rightarrow> bool" where
  "is_lower_hex c \<longleftrightarrow> is_digit c \<or> c \<in> set ''abcdef''"

definition is_hex :: "char \<Rightarrow> bool" where
  "is_hex c \<longleftrightarrow> is_lower_hex c \<or> c \<in> set ''ABCDEF''"

text \<open>Groups of so many characters, with a separator between them.\<close>

fun groups :: "(char \<Rightarrow> bool) \<Rightarrow> char \<Rightarrow> nat list \<Rightarrow> string \<Rightarrow> bool" where
  "groups f sep [] s = True"
| "groups f sep [n] s = (n \<le> length s \<and> list_all f (take n s))"
| "groups f sep (n # n' # ns) s =
     (n < length s \<and> list_all f (take n s) \<and> s ! n = sep \<and> groups f sep (n' # ns) (drop (Suc n) s))"

definition grouped :: "(char \<Rightarrow> bool) \<Rightarrow> char \<Rightarrow> nat list \<Rightarrow> string \<Rightarrow> matcher" where
  "grouped f sep ns new prev s =
     (if groups f sep ns s then Some (new, sum_list ns + (length ns - 1)) else None)"

text \<open>A fixed text followed by at least one character of a class.\<close>

definition tagged :: "(char \<Rightarrow> bool) \<Rightarrow> string \<Rightarrow> string \<Rightarrow> matcher" where
  "tagged f tag new prev s =
     (let v = takeWhile f (drop (length tag) s)
      in if prefix tag s \<and> v \<noteq> [] then Some (new, length tag + length v) else None)"

definition normalized :: "string \<Rightarrow> string" where
  "normalized text =
     (let s1 = re_sub (tagged is_digit ''line '' ''line N'') None text;
          s2 = re_sub (grouped is_digit (CHR ''-'') [4, 2, 2] ''DATE'') None s1;
          s3 = re_sub (grouped is_digit (CHR '':'') [2, 2, 2] ''TIME'') None s2;
          s4 = re_sub (tagged is_hex ''0x'' ''0xHEX'') None s3
      in re_sub (grouped is_lower_hex (CHR ''-'') [8, 4, 4, 4, 12] ''UUID'') None s4)"

definition fingerprint :: "(string \<Rightarrow> string) \<Rightarrow> string \<Rightarrow> string" where
  "fingerprint sha text = take 16 (sha (normalized text))"

section \<open>The memory file\<close>

datatype mem_line = Meta_Line | Entry_Line json | Broken_Line

datatype mem_file = No_Memory | Unreadable_Memory | Lines "mem_line list"

fun load_memory :: "mem_file \<Rightarrow> json list" where
  "load_memory (Lines ls) = List.map_filter (\<lambda>l. case l of Entry_Line j \<Rightarrow> Some j | _ \<Rightarrow> None) ls"
| "load_memory f = []"

definition save_all :: "json list \<Rightarrow> mem_file" where
  "save_all entries = Lines (Meta_Line # map Entry_Line entries)"

definition placeholder :: "json \<Rightarrow> bool" where
  "placeholder s \<longleftrightarrow> s \<in> {JStr ''NEEDS_DIAGNOSIS'', JStr ''Pending Diagnosis'', JStr []}"

definition diagnosed :: "string \<Rightarrow> bool" where
  "diagnosed s \<longleftrightarrow> s \<notin> {''NEEDS_DIAGNOSIS'', ''Pending Diagnosis''}"

fun add_one :: "json \<Rightarrow> json res" where
  "add_one (JNum x) = Inr (JNum (pf_add x (Fin 1)))"
| "add_one (JBool b) = Inr (JNum (Fin (if b then 2 else 1)))"
| "add_one j = Inl TypeError"

definition seen_again :: "string \<Rightarrow> string \<Rightarrow> string \<Rightarrow> (string \<times> json) list \<Rightarrow> (string \<times> json) list res" where
  "seen_again now solution root_cause e =
     bindE (add_one (jget_or e ''occurrences'' (JNum (Fin 0)))) (\<lambda>n.
       let e1 = jset ''last_seen'' (JStr now) (jset ''occurrences'' n e)
       in Inr (if placeholder (jget e1 ''solution'') \<and> diagnosed solution
               then jset ''root_cause'' (JStr root_cause) (jset ''solution'' (JStr solution) e1) else e1))"

text \<open>The loop over the memory: the first entry of the fingerprint is changed; \<open>None\<close> if there is none.\<close>

fun update_known :: "string \<Rightarrow> string \<Rightarrow> string \<Rightarrow> string \<Rightarrow> json list \<Rightarrow> json list option res" where
  "update_known fp now solution root_cause [] = Inr None"
| "update_known fp now solution root_cause (j # js) =
     (case j of
        JObj e \<Rightarrow>
          if jget e ''fingerprint'' = JStr fp
          then bindE (seen_again now solution root_cause e) (\<lambda>e'. Inr (Some (JObj e' # js)))
          else bindE (update_known fp now solution root_cause js) (\<lambda>r. Inr (map_option ((#) j) r))
      | _ \<Rightarrow> Inl AttributeError)"

definition new_entry :: "string \<Rightarrow> string \<Rightarrow> string \<Rightarrow> string \<Rightarrow> string \<Rightarrow> string \<Rightarrow> (string \<times> json) list" where
  "new_entry fp text solution root_cause t1 t2 =
     [(''fingerprint'', JStr fp), (''error_snippet'', JStr (take 500 text)), (''solution'', JStr solution),
      (''root_cause'', JStr root_cause), (''timestamp'', JStr t1), (''last_seen'', JStr t2),
      (''occurrences'', JNum (Fin 1))]"

record report =
  re_text :: string
  re_solution :: string
  re_root_cause :: string
  re_t1 :: string
  re_t2 :: string

definition capture :: "(string \<Rightarrow> string) \<Rightarrow> report \<Rightarrow> mem_file \<Rightarrow> mem_file res" where
  "capture sha c file =
     (if re_text c = [] then Inr file
      else let fp = fingerprint sha (re_text c); memory = load_memory file
           in bindE (update_known fp (re_t1 c) (re_solution c) (re_root_cause c) memory) (\<lambda>r.
                Inr (save_all (case r of
                  Some memory' \<Rightarrow> memory'
                | None \<Rightarrow> memory @ [JObj (new_entry fp (re_text c) (re_solution c) (re_root_cause c) (re_t1 c) (re_t2 c))]))))"

fun find_known :: "string \<Rightarrow> json list \<Rightarrow> (string \<times> json) list option res" where
  "find_known fp [] = Inr None"
| "find_known fp (j # js) =
     (case j of
        JObj e \<Rightarrow> if jget e ''fingerprint'' = JStr fp then Inr (Some e) else find_known fp js
      | _ \<Rightarrow> Inl AttributeError)"

definition lookup_error :: "(string \<Rightarrow> string) \<Rightarrow> string \<Rightarrow> mem_file \<Rightarrow> (string \<times> json) list option res" where
  "lookup_error sha text file = find_known (fingerprint sha text) (load_memory file)"

end
