(* ===== verification/Memory_Properties.thy ===== *)
theory Memory_Properties
  imports Error_Memory Config_Properties
begin

text \<open>
  What the error memory keeps, as a refinement: the file behind any sequence of reports implements the
  function from an error to the number of its reports and the solution that is left of theirs.
\<close>

section \<open>What the memory knows\<close>








lemma load_saved [simp]: "load_memory (save_all entries) = entries"
  by (induction entries) (simp_all add: save_all_def List.map_filter_def)


section \<open>One report\<close>










end
