(* ===== verification/Alert_Service.thy ===== *)
theory Alert_Service
  imports Config Market_Data Indicators
begin

text \<open>
  The alert service, a program of its own in \<^verbatim>\<open>btc-alert-mvp\<close>: collectors behind a rate limiter and
  retries, the features and the score, the text of an alert, and the store that keeps the same alert
  from being sent again too soon. \<^verbatim>\<open>httpx\<close>, the hash and the text of a number are a record of
  parameters; each reading of the clock is consumed from a sequence. Numbers that arrive are finite.
\<close>

section \<open>\<^verbatim>\<open>features\<close>\<close>

definition alert_ema :: "real list \<Rightarrow> int \<Rightarrow> real option" where
  "alert_ema vals period =
     (if period \<le> 0 \<or> int (length vals) < period then None
      else let k = 2 / of_int (period + 1);
               e = sum_list (take (nat period) vals) / of_int period
           in Some (fold (\<lambda>v e. (v - e) * k + e) (drop (nat period) vals) e))"

definition ema_momentum_signal :: "real list \<Rightarrow> real \<times> string" where
  "ema_momentum_signal closes =
     (case (alert_ema closes 9, alert_ema closes 21) of
        (Some fast, Some slow) \<Rightarrow>
          (let diff = (if slow \<noteq> 0 then (fast - slow) / slow else 0)
           in (diff, if 2 / 1000 < diff then ''bullish'' else if diff < - (2 / 1000) then ''bearish'' else ''neutral''))
      | _ \<Rightarrow> (0, ''neutral''))"

definition pstdev :: "real list \<Rightarrow> real" where
  "pstdev xs =
     (let mean = sum_list xs / real (length xs)
      in sqrt (sum_list (map (\<lambda>x. (x - mean)\<^sup>2) xs) / real (length xs)))"

text \<open>\<open>for i in range(-window, -1)\<close>: \<open>closes[i]\<close> counts from the end.\<close>

definition window_returns :: "real list \<Rightarrow> nat \<Rightarrow> real list" where
  "window_returns closes window =
     (let n = length closes
      in map (\<lambda>i. (closes ! i - closes ! (i - 1)) / closes ! (i - 1))
           (filter (\<lambda>i. closes ! (i - 1) \<noteq> 0) [n - window..<n - 1]))"

definition compute_volatility :: "real list \<Rightarrow> nat \<Rightarrow> real" where
  "compute_volatility closes window =
     (if length closes < window + 1 then 0
      else let returns = window_returns closes window in if returns = [] then 0 else pstdev returns)"

definition round4 :: "real \<Rightarrow> real" where
  "round4 x = of_int (py_round (x * 10 ^ 4)) / 10 ^ 4"

definition score_trigger :: "real \<Rightarrow> real \<Rightarrow> real \<Rightarrow> real \<Rightarrow> int \<Rightarrow> real \<times> string" where
  "score_trigger price_change momentum vol sentiment fear_greed =
     (let score = momentum * 100 + max (min price_change 8) (- 8) * (1 / 2) + sentiment * 2
            + (if 75 \<le> fear_greed then - (8 / 10) else if fear_greed \<le> 25 then 8 / 10 else 0)
            + (if 3 / 100 < vol then 1 / 2 else 0)
      in (round4 score, if 3 / 2 \<le> score then ''bullish_alert'' else if score \<le> - (3 / 2) then ''bearish_alert'' else ''watch''))"

section \<open>\<^verbatim>\<open>core/rate_limiter.py\<close> and \<^verbatim>\<open>resilience/retry.py\<close>\<close>

record alert_limiter =
  al_rps :: real
  al_burst :: real
  al_tokens :: real
  al_last :: real

definition init_alert_limiter :: "real \<Rightarrow> alert_limiter" where
  "init_alert_limiter now = \<lparr>al_rps = 5, al_burst = 10, al_tokens = 10, al_last = now\<rparr>"

definition alert_slot :: "real \<Rightarrow> alert_limiter \<Rightarrow> real \<times> alert_limiter" where
  "alert_slot now l =
     (let effective_now = max now (al_last l);
          tok = min (al_burst l) (al_tokens l + (effective_now - al_last l) * al_rps l)
      in if 1 \<le> tok
         then (0, l\<lparr>al_tokens := tok - 1, al_last := (if effective_now = now then effective_now else al_last l)\<rparr>)
         else let delay = (effective_now - now) + (1 - tok) / al_rps l
              in (delay, l\<lparr>al_last := now + delay, al_tokens := 0\<rparr>))"

text \<open>The loop of \<open>with_retry\<close> with so many attempts left; the third result are the pauses.\<close>

fun alert_retry ::
  "real \<Rightarrow> string \<Rightarrow> ('s, 'a) py \<Rightarrow> nat \<Rightarrow> nat \<Rightarrow> py_exc option \<Rightarrow> 's \<Rightarrow> 'a res \<times> 's \<times> real list" where
  "alert_retry base op f 0 attempt last_exception s =
     (case last_exception of
        Some e \<Rightarrow> (Inl e, s, [])
      | None \<Rightarrow> (Inl (RuntimeError (''Operation '' @ op @ '' failed'')), s, []))"
| "alert_retry base op f (Suc left) attempt last_exception s =
     (case f s of
        (Inr a, s') \<Rightarrow> (Inr a, s', [])
      | (Inl e, s') \<Rightarrow>
          (let (r, t, sleeps) = alert_retry base op f left (Suc attempt) (Some e) s'
           in (r, t, if 0 < left then base * 2 ^ attempt # sleeps else sleeps)))"

section \<open>The world of the service\<close>

record 'w web =
  wb_get :: "string \<Rightarrow> (string \<times> pval) list \<Rightarrow> ('w, json) py"
  wb_post :: "string \<Rightarrow> json \<Rightarrow> ('w, json) py"
  wb_sha :: "string \<Rightarrow> string"
  wb_repr :: "real \<Rightarrow> string"
  wb_fixed2 :: "real \<Rightarrow> string"
  wb_env :: environ

text \<open>The state file of \<open>AlertStateStore\<close>, absent, parsed or not JSON.\<close>

datatype alert_file = No_Alert_File | Alert_Doc json | Damaged_File

record 'w service =
  sv_klines_limiter :: alert_limiter
  sv_market_limiter :: alert_limiter
  sv_fear_limiter :: alert_limiter
  sv_clock :: "nat \<Rightarrow> real"
  sv_net :: 'w
  sv_file :: alert_file

definition sv_time :: "'w service \<Rightarrow> real \<times> 'w service" where
  "sv_time s = (sv_clock s 0, s\<lparr>sv_clock := \<lambda>k. sv_clock s (Suc k)\<rparr>)"

definition web_get :: "'w web \<Rightarrow> string \<Rightarrow> (string \<times> pval) list \<Rightarrow> ('w service, json) py" where
  "web_get W url params s = (case wb_get W url params (sv_net s) of (r, w) \<Rightarrow> (r, s\<lparr>sv_net := w\<rparr>))"

definition web_post :: "'w web \<Rightarrow> string \<Rightarrow> json \<Rightarrow> ('w service, json) py" where
  "web_post W url body s = (case wb_post W url body (sv_net s) of (r, w) \<Rightarrow> (r, s\<lparr>sv_net := w\<rparr>))"

section \<open>\<^verbatim>\<open>collectors\<close>\<close>

text \<open>\<open>RetryPolicy(max_attempts=3, base_delay=0.5)\<close>; \<open>turn\<close> waits for the collector's own limiter.\<close>

definition collect :: "string \<Rightarrow> ('w service \<Rightarrow> 'w service) \<Rightarrow> ('w service, 'a) py \<Rightarrow> ('w service, 'a) py" where
  "collect op turn f s =
     (case alert_retry (1 / 2) op (\<lambda>s. f (turn s)) 3 0 None s of (r, s', sleeps) \<Rightarrow> (r, s'))"

fun jnth :: "nat \<Rightarrow> json \<Rightarrow> json res" where
  "jnth n (JArr xs) = (if n < length xs then Inr (xs ! n) else Inl IndexError)"
| "jnth n (JStr s) = (if n < length s then Inr (JStr [s ! n]) else Inl IndexError)"
| "jnth n (JObj d) = Inl (KeyError (str_of_nat n))"
| "jnth n j = Inl TypeError"

fun json_rows :: "json \<Rightarrow> json list res" where
  "json_rows (JArr xs) = Inr xs"
| "json_rows (JObj d) = Inr (map (\<lambda>(k, v). JStr k) d)"
| "json_rows (JStr s) = Inr (map (\<lambda>c. JStr [c]) s)"
| "json_rows j = Inl TypeError"

definition klines_turn :: "'w service \<Rightarrow> 'w service" where
  "klines_turn s = (let (now, s1) = sv_time s; (d, l) = alert_slot now (sv_klines_limiter s1) in s1\<lparr>sv_klines_limiter := l\<rparr>)"

definition fetch_klines :: "'w web \<Rightarrow> string \<Rightarrow> ('w service, real list) py" where
  "fetch_klines W symbol =
     collect ''fetch_klines'' klines_turn
       (bindS (web_get W ''https://api.binance.com/api/v3/klines''
                 [(''symbol'', PStr symbol), (''interval'', PStr ''5m''), (''limit'', PInt 100)])
          (\<lambda>j. liftS (bindE (json_rows j) (mapE (\<lambda>r. bindE (jnth 4 r) finite_float)))))"

record market_snapshot =
  ms_last_price :: real
  ms_change :: real
  ms_volume :: real

definition market_turn :: "'w service \<Rightarrow> 'w service" where
  "market_turn s = (let (now, s1) = sv_time s; (d, l) = alert_slot now (sv_market_limiter s1) in s1\<lparr>sv_market_limiter := l\<rparr>)"

definition fetch_market_snapshot :: "'w web \<Rightarrow> string \<Rightarrow> ('w service, market_snapshot) py" where
  "fetch_market_snapshot W symbol =
     collect ''fetch_market_snapshot'' market_turn
       (bindS (web_get W ''https://api.binance.com/api/v3/ticker/24hr'' [(''symbol'', PStr symbol)])
          (\<lambda>j. liftS (bindE (bindE (jindex ''lastPrice'' j) finite_float) (\<lambda>p.
                      bindE (bindE (jindex ''priceChangePercent'' j) finite_float) (\<lambda>c.
                      bindE (bindE (jindex ''quoteVolume'' j) finite_float) (\<lambda>v.
                        Inr \<lparr>ms_last_price = p, ms_change = c, ms_volume = v\<rparr>))))))"

definition fear_turn :: "'w service \<Rightarrow> 'w service" where
  "fear_turn s = (let (now, s1) = sv_time s; (d, l) = alert_slot now (sv_fear_limiter s1) in s1\<lparr>sv_fear_limiter := l\<rparr>)"

definition fetch_fear_greed :: "'w web \<Rightarrow> ('w service, int) py" where
  "fetch_fear_greed W =
     collect ''fetch_fear_greed'' fear_turn
       (bindS (web_get W ''https://api.alternative.me/fng/'' [(''limit'', PInt 1)])
          (\<lambda>j. liftS (bindE (bindE (jindex ''data'' j) (jnth 0)) (\<lambda>d.
                      bindE (bindE (jindex ''value'' d) int_of_json) (\<lambda>v.
                      bindE (jindex ''value_classification'' d) (\<lambda>c. Inr v))))))"

section \<open>\<^verbatim>\<open>summarizer\<close> and \<^verbatim>\<open>notifiers\<close>\<close>

record alert_payload =
  ap_symbol :: string
  ap_score :: real
  ap_label :: string
  ap_regime :: string
  ap_change :: real
  ap_fear_greed :: int

definition alert_text :: "'w web \<Rightarrow> alert_payload \<Rightarrow> string" where
  "alert_text W p =
     ''BTC Alert '' @ ap_symbol p @ '': '' @ ap_label p @ '' (score='' @ wb_repr W (ap_score p)
     @ '', momentum='' @ ap_regime p @ '', 24h='' @ wb_fixed2 W (ap_change p)
     @ ''%, F&G='' @ str_of_int (ap_fear_greed p) @ '').''"

definition payload_json :: "alert_payload \<Rightarrow> json" where
  "payload_json p = JObj
     [(''symbol'', JStr (ap_symbol p)), (''trigger_score'', num (ap_score p)), (''trigger_label'', JStr (ap_label p)),
      (''momentum_regime'', JStr (ap_regime p)), (''price_change_percent'', num (ap_change p)),
      (''fear_greed_value'', num (of_int (ap_fear_greed p)))]"

text \<open>With a key the text is what the model answers; the payload stands for the prompt made of it.\<close>

definition synthesize_alert_text :: "'w web \<Rightarrow> alert_payload \<Rightarrow> ('w service, string) py" where
  "synthesize_alert_text W p =
     (if getenv (wb_env W) ''OPENAI_API_KEY'' = [] then returnS (alert_text W p)
      else bindS (web_post W ''https://api.openai.com/v1/chat/completions'' (payload_json p)) (\<lambda>j.
        liftS (bindE (bindE (bindE (bindE (bindE (jindex ''choices'' j) (jnth 0)) (jindex ''message'')) (jindex ''content''))
                 (\<lambda>c. case c of JStr t \<Rightarrow> Inr t | _ \<Rightarrow> Inl AttributeError)) (\<lambda>t. Inr (py_strip t)))))"

definition send_telegram :: "'w web \<Rightarrow> string \<Rightarrow> ('w service, bool) py" where
  "send_telegram W message =
     (let token = getenv (wb_env W) ''TELEGRAM_BOT_TOKEN''; chat_id = getenv (wb_env W) ''TELEGRAM_CHAT_ID''
      in if token = [] \<or> chat_id = [] then returnS False
         else bindS (web_post W (''https://api.telegram.org/bot'' @ token @ ''/sendMessage'')
                (JObj [(''chat_id'', JStr chat_id), (''text'', JStr message)])) (\<lambda>_. returnS True))"

section \<open>\<^verbatim>\<open>store/state_store.py\<close>\<close>

fun read_store :: "alert_file \<Rightarrow> (string \<times> json) list res" where
  "read_store No_Alert_File = Inr []"
| "read_store Damaged_File = Inl (ValueError ''JSONDecodeError'')"
| "read_store (Alert_Doc (JObj d)) = Inr d"
| "read_store (Alert_Doc j) = Inl AttributeError"

definition should_send :: "'w web \<Rightarrow> string \<Rightarrow> int \<Rightarrow> ('w service, bool \<times> int) py" where
  "should_send W message cooldown_s s =
     (case read_store (sv_file s) of
        Inl e \<Rightarrow> (Inl e, s)
      | Inr data \<Rightarrow>
          (let (t, s1) = sv_time s; now = py_int t
           in case int_of_json (jget_or data ''last_sent_ts'' (JNum (Fin 0))) of
                Inl e \<Rightarrow> (Inl e, s1)
              | Inr last_sent \<Rightarrow>
                  (Inr (\<not> (jget data ''last_hash'' = JStr (wb_sha W message) \<and> now - last_sent < cooldown_s), now), s1)))"

definition mark_sent :: "'w web \<Rightarrow> string \<Rightarrow> 'w service \<Rightarrow> int \<times> 'w service" where
  "mark_sent W message s =
     (let (t, s1) = sv_time s
      in (py_int t, s1\<lparr>sv_file := Alert_Doc (JObj [(''last_hash'', JStr (wb_sha W message)),
                                            (''last_sent_ts'', JNum (Fin (of_int (py_int t))))])\<rparr>))"

section \<open>\<^verbatim>\<open>pipeline.py\<close>\<close>

text \<open>
  What a round of the loop ends with; the times of an emission are those at which it was allowed and
  recorded. The news are collected and not used, the sentiment is always zero.
\<close>

datatype round_end =
    Emitted bool string int int    \<comment> \<open>sent, message, allowed at, recorded at\<close>
  | Suppressed
  | Pipeline_Error py_exc

definition build_payload :: "string \<Rightarrow> real list \<Rightarrow> market_snapshot \<Rightarrow> int \<Rightarrow> alert_payload" where
  "build_payload symbol closes market fear_greed =
     (let (momentum, regime) = ema_momentum_signal closes;
          (score, label) = score_trigger (ms_change market) momentum (compute_volatility closes 20) 0 fear_greed
      in \<lparr>ap_symbol = symbol, ap_score = score, ap_label = label, ap_regime = regime,
          ap_change = ms_change market, ap_fear_greed = fear_greed\<rparr>)"

definition compose_alert :: "'w web \<Rightarrow> string \<Rightarrow> ('w service, string) py" where
  "compose_alert W symbol =
     bindS (fetch_klines W symbol) (\<lambda>closes.
     bindS (fetch_market_snapshot W symbol) (\<lambda>market.
     bindS (fetch_fear_greed W) (\<lambda>fear_greed.
       synthesize_alert_text W (build_payload symbol closes market fear_greed))))"

definition emit_alert :: "'w web \<Rightarrow> string \<Rightarrow> int \<Rightarrow> ('w service, round_end) py" where
  "emit_alert W message cooldown =
     bindS (should_send W message cooldown) (\<lambda>(ok, now).
       if \<not> ok then returnS Suppressed
       else bindS (send_telegram W message) (\<lambda>sent s.
              let (t, s1) = mark_sent W message s in (Inr (Emitted sent message now t), s1)))"

definition pipeline_round :: "'w web \<Rightarrow> string \<Rightarrow> int \<Rightarrow> 'w service \<Rightarrow> round_end \<times> 'w service" where
  "pipeline_round W symbol cooldown s =
     (case bindS (compose_alert W symbol) (\<lambda>message. emit_alert W message cooldown) s of
        (Inr r, s1) \<Rightarrow> (r, s1)
      | (Inl e, s1) \<Rightarrow> (Pipeline_Error e, s1))"

text \<open>The loop, for so many rounds; it has no other end.\<close>

fun run_pipeline :: "'w web \<Rightarrow> string \<Rightarrow> int \<Rightarrow> nat \<Rightarrow> 'w service \<Rightarrow> round_end list \<times> 'w service" where
  "run_pipeline W symbol cooldown 0 s = ([], s)"
| "run_pipeline W symbol cooldown (Suc n) s =
     (let (r, s1) = pipeline_round W symbol cooldown s; (rs, s2) = run_pipeline W symbol cooldown n s1 in (r # rs, s2))"

end
