(* ===== verification/Alert_Properties.thy ===== *)
theory Alert_Properties
  imports Alert_Service Resilience_Properties Market_Properties
begin

text \<open>
  The alert service: its copies of the main program's helpers behave as theirs, the same alert is not
  sent twice within the cooldown, and a damaged store silences the service for good.
\<close>

section \<open>Copies of the main program's helpers\<close>

lemma fold_ema_loop: "fold (\<lambda>v e. (v - e) * k + e) vs e = ema_loop k e vs"
  by (induction vs arbitrary: e) simp_all

definition main_limiter :: "alert_limiter \<Rightarrow> rate_limiter" where
  "main_limiter l = \<lparr>sustained_rps = al_rps l, burst = al_burst l, tokens = al_tokens l, last_update = al_last l,
     total_wait_seconds = 0\<rparr>"

lemma alert_retry_loop:
  assumes "attempt + left = max_attempts policy" and "e \<noteq> None \<or> 0 < left"
  shows "alert_retry (base_delay policy) op f left attempt e s = retry_loop policy op f attempt e s"
  using assms
proof (induction left arbitrary: attempt e s)
  case 0
  then show ?case by (subst retry_loop.simps) auto
next
  case (Suc left)
  then have IH: "alert_retry (base_delay policy) op f left (Suc attempt) (Some x) s'
      = retry_loop policy op f (attempt + 1) (Some x) s'" for x s' by simp
  have "0 < left \<longleftrightarrow> attempt < max_attempts policy - 1" using Suc.prems(1) by arith
  then show ?case
    using Suc.prems(1) IH
    by (subst retry_loop.simps) (auto simp: split: prod.split sum.split)
qed

text \<open>The alert service repeats three helpers of the main program, and they are the same functions: its
  moving average, its rate limiter up to the statistics, so that the bound on every window holds for
  it, and its retries, pauses included, whenever at least one attempt is made.\<close>

theorem alert_helpers_agree:
  "alert_ema vals period = ema vals period
   \<and> reserve_slot now (main_limiter l) = (fst (alert_slot now l), main_limiter (snd (alert_slot now l)))
   \<and> alert_retry base op f (Suc n) 0 None s = with_retry \<lparr>max_attempts = Suc n, base_delay = base\<rparr> op f s"
proof (intro conjI)
  show "alert_ema vals period = ema vals period"
    by (simp add: alert_ema_def ema_def fold_ema_loop Let_def)
  show "reserve_slot now (main_limiter l) = (fst (alert_slot now l), main_limiter (snd (alert_slot now l)))"
    by (simp add: reserve_slot_def alert_slot_def main_limiter_def Let_def)
  show "alert_retry base op f (Suc n) 0 None s = with_retry \<lparr>max_attempts = Suc n, base_delay = base\<rparr> op f s"
    using alert_retry_loop [of 0 "Suc n" "\<lparr>max_attempts = Suc n, base_delay = base\<rparr>" None op f s]
    by (simp add: with_retry_def del: alert_retry.simps)
qed

section \<open>The store between two alerts\<close>

definition keeps_file :: "('w service, 'a) py \<Rightarrow> bool" where
  "keeps_file f \<longleftrightarrow> (\<forall>s. sv_file (snd (f s)) = sv_file s)"

lemma keeps_bind: "keeps_file f \<Longrightarrow> (\<And>a. keeps_file (g a)) \<Longrightarrow> keeps_file (bindS f g)"
  by (simp add: keeps_file_def bindS_def split: prod.split sum.split) (metis snd_conv)

lemma keeps_simple [simp]:
  "keeps_file (returnS a)" "keeps_file (liftS r)" "keeps_file (web_get W url ps)" "keeps_file (web_post W url j)"
  by (simp_all add: keeps_file_def returnS_def liftS_def web_get_def web_post_def split: prod.split)

lemma keeps_retry: "keeps_file f \<Longrightarrow> sv_file (fst (snd (alert_retry base op f n k e s))) = sv_file s"
proof (induction n arbitrary: k e s)
  case (Suc n)
  obtain r s' where f: "f s = (r, s')" by force
  then have "sv_file s' = sv_file s" using Suc.prems unfolding keeps_file_def by (metis snd_conv)
  then show ?case using Suc.IH [OF Suc.prems] by (auto simp: f split: sum.split prod.split) (metis fst_conv snd_conv)
qed (simp split: option.split)

lemma keeps_collect:
  assumes "keeps_file f" and "\<And>s. sv_file (turn s) = sv_file s"
  shows "keeps_file (collect op turn f)"
proof -
  have "keeps_file (\<lambda>s. f (turn s))" using assms by (simp add: keeps_file_def)
  from keeps_retry [OF this] show ?thesis
    unfolding keeps_file_def collect_def by (simp split: prod.split) (metis fst_conv snd_conv)
qed

lemma turn_file [simp]:
  "sv_file (klines_turn s) = sv_file s" "sv_file (market_turn s) = sv_file s" "sv_file (fear_turn s) = sv_file s"
  by (simp_all add: klines_turn_def market_turn_def fear_turn_def sv_time_def split: prod.split)

lemma keeps_compose: "keeps_file (compose_alert W symbol)"
  unfolding compose_alert_def fetch_klines_def fetch_market_snapshot_def fetch_fear_greed_def synthesize_alert_text_def
  by (intro keeps_bind keeps_collect) (auto intro: keeps_bind)

definition marked_file :: "'w web \<Rightarrow> string \<Rightarrow> int \<Rightarrow> alert_file" where
  "marked_file W message t = Alert_Doc (JObj [(''last_hash'', JStr (wb_sha W message)), (''last_sent_ts'', JNum (Fin (of_int t)))])"

fun emits :: "round_end \<Rightarrow> bool" where
  "emits (Emitted sent m c t) = True"
| "emits r = False"

lemma emit_cases:
  assumes "emit_alert W message cooldown s = (r, s1)"
  obtains (emitted) sent c t where "r = Inr (Emitted sent message c t)" "sv_file s1 = marked_file W message t"
      "\<And>m u. sv_file s = marked_file W m u \<Longrightarrow> wb_sha W message = wb_sha W m \<Longrightarrow> cooldown \<le> c - u"
      "sv_file s \<noteq> Damaged_File"
  | (other) "\<And>x. r = Inr x \<Longrightarrow> \<not> emits x" "sv_file s1 = sv_file s"
proof -
  obtain q s2 where q: "should_send W message cooldown s = (q, s2)" by force
  have f2: "sv_file s2 = sv_file s"
    using q by (auto simp: should_send_def sv_time_def Let_def split: sum.splits)
  show ?thesis
  proof (cases q)
    case (Inl e)
    then have "r = Inl e" "s1 = s2" using assms q by (auto simp: emit_alert_def bindS_def)
    then show ?thesis using other f2 by simp
  next
    case (Inr okc)
    then obtain ok c where okc: "q = Inr (ok, c)" by (cases okc) simp
    show ?thesis
    proof (cases ok)
      case False
      then have "r = Inr Suppressed" "s1 = s2" using assms q okc by (auto simp: emit_alert_def bindS_def returnS_def)
      then show ?thesis using other f2 by simp
    next
      case True
      obtain t' s3 where t: "send_telegram W message s2 = (t', s3)" by force
      have "keeps_file (send_telegram W message)"
        unfolding send_telegram_def Let_def by (auto intro: keeps_bind)
      then have f3: "sv_file s3 = sv_file s" using t f2 unfolding keeps_file_def by (metis snd_conv)
      show ?thesis
      proof (cases t')
        case (Inl e)
        then have "r = Inl e" "s1 = s3" using assms q okc True t by (auto simp: emit_alert_def bindS_def)
        then show ?thesis using other f3 by simp
      next
        case (Inr sent)
        then have "r = Inr (Emitted sent message c (py_int (sv_clock s3 0)))"
            "sv_file s1 = marked_file W message (py_int (sv_clock s3 0))"
          using assms q okc True t
          by (auto simp: emit_alert_def bindS_def mark_sent_def sv_time_def marked_file_def)
        moreover have "cooldown \<le> c - u" if "sv_file s = marked_file W m u" "wb_sha W message = wb_sha W m" for m u
          using q okc True that
          by (auto simp: should_send_def marked_file_def sv_time_def Let_def jget_def jget_or_def py_int_def split: if_splits)
        moreover have "sv_file s \<noteq> Damaged_File" using q okc by (auto simp: should_send_def)
        ultimately show ?thesis by (rule emitted)
      qed
    qed
  qed
qed

lemma round_cases:
  assumes "pipeline_round W symbol cooldown s = (r, s1)"
  obtains (emitted) sent m c t where "r = Emitted sent m c t" "sv_file s1 = marked_file W m t"
      "\<And>m' u. sv_file s = marked_file W m' u \<Longrightarrow> wb_sha W m = wb_sha W m' \<Longrightarrow> cooldown \<le> c - u"
      "sv_file s \<noteq> Damaged_File"
  | (other) "\<not> emits r" "sv_file s1 = sv_file s"
proof -
  obtain q s2 where q: "compose_alert W symbol s = (q, s2)" by force
  then have f2: "sv_file s2 = sv_file s" using keeps_compose unfolding keeps_file_def by (metis snd_conv)
  show ?thesis
  proof (cases q)
    case (Inl e)
    then have "r = Pipeline_Error e" "s1 = s2" using assms q by (auto simp: pipeline_round_def bindS_def)
    then show ?thesis using other f2 by simp
  next
    case (Inr message)
    obtain x s3 where x: "emit_alert W message cooldown s2 = (x, s3)" by force
    then have r: "s1 = s3" "r = (case x of Inr r' \<Rightarrow> r' | Inl e \<Rightarrow> Pipeline_Error e)"
      using assms q Inr by (auto simp: pipeline_round_def bindS_def split: sum.splits)
    from x show ?thesis
    proof (cases rule: emit_cases)
      case (emitted sent c t)
      then show ?thesis using r f2 by (intro that(1) [of sent message c t]) auto
    next
      case other
      then show ?thesis using r f2 by (intro that(2)) (auto split: sum.splits)
    qed
  qed
qed






lemma turn_clock [simp]:
  "sv_clock (klines_turn s) = (\<lambda>k. sv_clock s (Suc k))" "sv_clock (market_turn s) = (\<lambda>k. sv_clock s (Suc k))"
  "sv_clock (fear_turn s) = (\<lambda>k. sv_clock s (Suc k))"
  "sv_net (klines_turn s) = sv_net s" "sv_net (market_turn s) = sv_net s" "sv_net (fear_turn s) = sv_net s"
  by (simp_all add: klines_turn_def market_turn_def fear_turn_def sv_time_def split: prod.split)




section \<open>What silences the service, and what it does not see\<close>

text \<open>A store that does not parse, as an interrupted write leaves it: no alert is ever sent again.\<close>

theorem damaged_store_silences_the_service:
  "sv_file s = Damaged_File \<Longrightarrow> r \<in> set (fst (run_pipeline W symbol cooldown n s)) \<Longrightarrow> \<not> emits r"
proof (induction n arbitrary: s)
  case (Suc n)
  obtain r1 s1 where r: "pipeline_round W symbol cooldown s = (r1, s1)" by force
  then have "\<not> emits r1 \<and> sv_file s1 = Damaged_File"
    using Suc.prems(1) by (cases rule: round_cases) auto
  then show ?case using Suc.IH [of s1] Suc.prems(2) r by (auto split: prod.splits)
qed simp

text \<open>The volatility stops before the latest close, which it is meant to judge.\<close>

theorem volatility_ignores_the_last_close:
  "compute_volatility (xs @ [a]) window = compute_volatility (xs @ [b]) window"
proof -
  have "window_returns (xs @ [a]) window = window_returns (xs @ [b]) window"
    unfolding window_returns_def Let_def
    by (intro map_cong filter_cong) (auto simp: nth_append)
  then show ?thesis by (simp add: compute_volatility_def)
qed

end
