(* ===== verification/Reports.thy ===== *)
theory Reports
  imports Config Market_Data Supervisor "HOL-Library.AList"
begin

text \<open>
  What the program tells about itself: the event log of \<^verbatim>\<open>core/events.py\<close>, the journal file of
  \<^verbatim>\<open>trading/paper_journal.py\<close> as lines of JSON, and the reports made of them in \<^verbatim>\<open>reporting/core.py\<close>,
  \<^verbatim>\<open>reporting/service.py\<close>, \<^verbatim>\<open>reporting/summary.py\<close>, \<^verbatim>\<open>reporting/html_renderer.py\<close> and
  \<^verbatim>\<open>session/reporting.py\<close>. The hash of a document and the text of a number are parameters, and the
  numbers a journal holds are finite. The templates the numbers are printed into are left out.
\<close>

section \<open>The event log\<close>

fun hashable :: "json \<Rightarrow> bool" where
  "hashable (JArr xs) = False"
| "hashable (JObj d) = False"
| "hashable j = True"

record event_log =
  el_cache :: "json list"
  el_run :: "(string \<times> json) list list"
  el_paper :: "(string \<times> json) list list"

text \<open>
  \<open>EVENT_CACHE\<close> is a set; \<open>order\<close> is the order in which it is listed when it is cut to half its size.
\<close>

definition cache_add :: "(json list \<Rightarrow> json list) \<Rightarrow> json \<Rightarrow> json list \<Rightarrow> json list" where
  "cache_add order i cache =
     (let c = cache @ [i] in if 5000 < length c then last_n 2500 (order c) else c)"

text \<open>\<open>digest\<close> stands for the hash of the sorted rendering.\<close>

definition event_id :: "(json \<Rightarrow> string) \<Rightarrow> (string \<times> json) list \<Rightarrow> json" where
  "event_id digest obj =
     (let given = jget obj ''event_id''
      in if jtrue given then given
         else JStr (digest (JObj (filter (\<lambda>(k, v). k \<noteq> ''timestamp'') obj))))"

definition logged_event :: "(json \<Rightarrow> string) \<Rightarrow> string \<Rightarrow> (string \<times> json) list \<Rightarrow> (string \<times> json) list" where
  "logged_event digest now obj =
     (let obj1 = (if jtrue (jget obj ''event_id'') then obj else jset ''event_id'' (event_id digest obj) obj)
      in if dict_get obj1 ''timestamp'' = None then jset ''timestamp'' (JStr now) obj1 else obj1)"

record event_call =
  ec_obj :: "(string \<times> json) list"
  ec_paper :: bool
  ec_now :: string
  ec_writable :: bool

definition log_event ::
  "(json \<Rightarrow> string) \<Rightarrow> (json list \<Rightarrow> json list) \<Rightarrow> event_call \<Rightarrow> (event_log, unit) py" where
  "log_event digest order c l =
     (let i = event_id digest (ec_obj c)
      in if \<not> hashable i then (Inl TypeError, l)
         else if i \<in> set (el_cache l) then (Inr (), l)
         else let l1 = l\<lparr>el_cache := cache_add order i (el_cache l)\<rparr>;
                  obj = logged_event digest (ec_now c) (ec_obj c)
              in if \<not> ec_writable c then (Inl OSError, l1)
                 else (Inr (), if ec_paper c then l1\<lparr>el_paper := el_paper l1 @ [obj]\<rparr>
                               else l1\<lparr>el_run := el_run l1 @ [obj]\<rparr>))"

section \<open>The journal file\<close>

text \<open>Its lines that are not blank, each parsed, or \<open>None\<close> for one that is not JSON.\<close>

type_synonym jfile = "json option list"

definition new_trade :: "string \<Rightarrow> string \<Rightarrow> string \<Rightarrow> string \<Rightarrow> string \<Rightarrow> json \<Rightarrow> jfile \<Rightarrow> jfile" where
  "new_trade now tid instrument timeframe direction plan f =
     f @ [Some (JObj [(''type'', JStr ''trade''), (''trade_id'', JStr tid), (''created_at'', JStr now),
                      (''instrument'', JStr instrument), (''timeframe'', JStr timeframe),
                      (''direction'', JStr direction), (''plan'', plan)])]"

definition update_line :: "string \<Rightarrow> string \<Rightarrow> (string \<times> json) list \<Rightarrow> json" where
  "update_line now tid update =
     JObj (fold (\<lambda>(k, v). jset k v) update
       [(''type'', JStr ''update''), (''trade_id'', JStr tid), (''at'', JStr now)])"

definition add_update :: "string \<Rightarrow> string \<Rightarrow> (string \<times> json) list \<Rightarrow> jfile \<Rightarrow> jfile" where
  "add_update now tid update f = f @ [Some (update_line now tid update)]"

fun read_line :: "json option \<Rightarrow> json res" where
  "read_line None = Inl (ValueError ''JSONDecodeError'')"
| "read_line (Some j) = Inr j"

fun as_dict :: "json \<Rightarrow> (string \<times> json) list res" where
  "as_dict (JObj d) = Inr d"
| "as_dict j = Inl AttributeError"

definition last_events :: "nat \<Rightarrow> jfile \<Rightarrow> json list res" where
  "last_events n f = bindE (mapE read_line f) (\<lambda>js. Inr (if n = 0 then js else last_n n js))"

text \<open>The events of a fill and of an exit as the broker writes them.\<close>

fun side_text :: "side \<Rightarrow> string" where
  "side_text LONG = ''LONG''"
| "side_text SHORT = ''SHORT''"
| "side_text (OtherSide s) = s"

definition fill_json :: "fill_rec \<Rightarrow> (string \<times> json) list" where
  "fill_json f =
     [(''type'', JStr ''fill''), (''trade_id'', JStr (fr_trade_id f)), (''side'', JStr (side_text (fr_side f))),
      (''price'', num (fr_price f)), (''qty'', num (fr_qty f)), (''sl'', num (fr_sl f)), (''tp'', num (fr_tp f)),
      (''at'', JStr (fr_at f)), (''fees'', num (fr_fees f))]
     @ (case fr_requested_qty f of None \<Rightarrow> [] | Some q \<Rightarrow> [(''partial'', JBool True), (''requested_qty'', num q)])"

definition exit_json :: "exit_rec \<Rightarrow> (string \<times> json) list" where
  "exit_json x =
     [(''type'', JStr ''exit''), (''trade_id'', JStr (er_trade_id x)), (''reason'', JStr (er_reason x)),
      (''entry'', num (er_entry x)), (''exit'', num (er_exit x)), (''price'', num (er_exit x)),
      (''quantity'', num (er_qty x)), (''qty'', num (er_qty x)), (''pnl'', num (er_pnl x)),
      (''at'', JStr (er_at x)), (''timestamp'', JStr (er_at x)), (''fees'', num (er_fees x)), (''r'', num (er_r x)),
      (''side'', JStr (side_text (er_side x))), (''bars_open'', num (of_int (er_bars_open x)))]"

definition fill_update :: "fill_rec \<Rightarrow> (string \<times> json) list" where
  "fill_update f = [(''note'', JStr ''fill''), (''fill'', JObj (fill_json f))]"

definition exit_update :: "exit_rec \<Rightarrow> (string \<times> json) list" where
  "exit_update x =
     [(''note'', JStr ''exit''), (''exit'', JObj (exit_json x)),
      (''coach'', JObj [(''tags'', JArr (map JStr (coach_tags x))), (''bars_open'', num (of_int (er_bars_open x))),
                        (''r'', num (er_r x))])]"

section \<open>\<^verbatim>\<open>reporting/service.py\<close>\<close>

text \<open>\<open>str(j)\<close>, with the rendering of what is not a string as a parameter.\<close>

fun py_str :: "(json \<Rightarrow> string) \<Rightarrow> json \<Rightarrow> string" where
  "py_str repr (JStr s) = s"
| "py_str repr j = repr j"

definition float_at :: "(string \<times> json) list \<Rightarrow> string \<Rightarrow> real res" where
  "float_at d k = finite_float (jget_or d k (num 0))"

definition reported_trade ::
  "(json \<Rightarrow> string) \<Rightarrow> json \<Rightarrow> json \<Rightarrow> json \<Rightarrow> (string \<times> json) list \<Rightarrow> (string \<times> json) list res" where
  "reported_trade repr tid fill exit_ev event =
     bindE (as_dict fill) (\<lambda>f.
     bindE (float_at f ''price'') (\<lambda>entry.
     bindE (as_dict exit_ev) (\<lambda>x.
     bindE (float_at x ''price'') (\<lambda>exit_px.
     bindE (float_at f ''qty'') (\<lambda>qty.
     bindE (float_at x ''pnl'') (\<lambda>pnl.
     bindE (float_at f ''fees'') (\<lambda>fees1.
     bindE (float_at x ''fees'') (\<lambda>fees2.
       Inr [(''trade_id'', tid), (''side'', jget_or f ''side'' (JStr ''???'')), (''signal'', JStr ''MODULAR''),
            (''entry'', num entry), (''exit'', num exit_px), (''quantity'', num qty), (''pnl'', num pnl),
            (''fees'', num (fees1 + fees2)),
            (''entry_ts'', JStr (py_str repr (jget_or f ''at'' (JStr [])))),
            (''exit_ts'', JStr (py_str repr (jget_or x ''at'' (JStr [])))),
            (''timestamp'', JStr (py_str repr (jget_or x ''at'' (jget_or event ''at'' (JStr []))))),
            (''setup'', jget_or f ''setup'' (JStr ''unknown''))]))))))))"

text \<open>The fills of the trades still open, by trade, and the trades closed so far.\<close>

type_synonym open_fills = "(json \<times> json) list"

definition read_event ::
  "(json \<Rightarrow> string) \<Rightarrow> (string \<times> json) list \<Rightarrow> open_fills \<times> (string \<times> json) list list
   \<Rightarrow> (open_fills \<times> (string \<times> json) list list) res" where
  "read_event repr e acc =
     (let (opens, trades) = acc; tid = jget e ''trade_id''
      in if jget e ''type'' \<noteq> JStr ''update'' \<or> tid = JNull then Inr acc
         else case dict_get e ''fill'' of
             Some f \<Rightarrow> if hashable tid then Inr (AList.update tid f opens, trades) else Inl TypeError
           | None \<Rightarrow>
               (case dict_get e ''exit'' of
                  None \<Rightarrow> Inr acc
                | Some x \<Rightarrow>
                    if \<not> hashable tid then Inl TypeError
                    else (case map_of opens tid of
                            None \<Rightarrow> Inr acc
                          | Some f \<Rightarrow> bindE (reported_trade repr tid f x e)
                              (\<lambda>t. Inr (AList.delete tid opens, trades @ [t])))))"

fun journal_events ::
  "(json \<Rightarrow> string) \<Rightarrow> jfile \<Rightarrow> open_fills \<times> (string \<times> json) list list
   \<Rightarrow> (open_fills \<times> (string \<times> json) list list) res" where
  "journal_events repr [] acc = Inr acc"
| "journal_events repr (l # ls) acc =
     bindE (read_line l) (\<lambda>j. bindE (as_dict j) (\<lambda>e. bindE (read_event repr e acc) (journal_events repr ls)))"

definition parse_journal_for_trades ::
  "(json \<Rightarrow> string) \<Rightarrow> jfile option \<Rightarrow> (string \<times> json) list list res" where
  "parse_journal_for_trades repr journal =
     (case journal of
        None \<Rightarrow> Inr []
      | Some f \<Rightarrow> bindE (journal_events repr f ([], [])) (\<lambda>(opens, trades). Inr trades))"

definition trade_fields :: "string list" where
  "trade_fields = [''trade_id'', ''side'', ''signal'', ''entry'', ''exit'', ''price'', ''quantity'', ''pnl'', ''fees'',
     ''entry_ts'', ''exit_ts'', ''timestamp'', ''setup'']"

text \<open>The rows of \<open>trades.csv\<close>; a key that is absent is an empty cell, others are dropped.\<close>

definition write_trades_csv :: "(string \<times> json) list list \<Rightarrow> json option list list" where
  "write_trades_csv trades = map (\<lambda>t. map (dict_get t) trade_fields) trades"

text \<open>\<^verbatim>\<open>reporting/html_renderer.py\<close>: the rows of the table of trades.\<close>

record trade_cell =
  tc_profit_color :: bool    \<comment> \<open>whether the profit is shown in the colour of a gain\<close>
  tc_badge :: string
  tc_side :: string
  tc_id :: string
  tc_entry :: real
  tc_exit :: real
  tc_qty :: real
  tc_pnl :: real
  tc_fees :: real
  tc_time :: json

definition first_true :: "json list \<Rightarrow> json" where
  "first_true js = (case find jtrue (butlast js) of Some j \<Rightarrow> j | None \<Rightarrow> last js)"

definition render_cell :: "(json \<Rightarrow> string) \<Rightarrow> (string \<times> json) list \<Rightarrow> trade_cell res" where
  "render_cell repr t =
     bindE (float_at t ''pnl'') (\<lambda>pnl.
     bindE (case jget_or t ''side'' (JStr ''N/A'') of JStr s \<Rightarrow> Inr s | _ \<Rightarrow> Inl AttributeError) (\<lambda>sd.
     let i = py_str repr (first_true [jget t ''trade_id'', jget t ''exchange_id'', JStr ''N/A''])
     in bindE (finite_float (first_true [jget t ''entry'', jget_or t ''price'' (num 0)])) (\<lambda>entry.
        bindE (finite_float (first_true [jget t ''exit'', jget_or t ''price'' (num 0)])) (\<lambda>exit_px.
        bindE (finite_float (first_true [jget t ''quantity'', jget_or t ''qty'' (num 0)])) (\<lambda>qty.
        bindE (float_at t ''fees'') (\<lambda>fees.
          Inr \<lparr>tc_profit_color = (0 \<le> pnl), tc_badge = ''badge-'' @ py_lower sd, tc_side = sd,
               tc_id = (if 8 < length i then take 8 i @ ''...'' else i), tc_entry = entry, tc_exit = exit_px,
               tc_qty = qty, tc_pnl = pnl, tc_fees = fees,
               tc_time = first_true [jget t ''timestamp'', jget t ''at'', JStr ''N/A'']\<rparr>))))))"

definition trade_cells :: "(json \<Rightarrow> string) \<Rightarrow> (string \<times> json) list list \<Rightarrow> trade_cell list res" where
  "trade_cells repr trades = mapE (render_cell repr) (last_n 10 trades)"

text \<open>
  \<open>finalize_run_reporting\<close>: the files in the order they are written, as far as it gets. The journal is
  read after the equity file is written, and the last candle is asked for after the trades are; the page
  is rendered before the event of a degraded run.
\<close>

record run_info =
  ri_run_id :: string
  ri_symbol :: string
  ri_interval :: string
  ri_source :: string
  ri_risk_pct :: real
  ri_stop_bps :: real
  ri_tp_r :: real
  ri_health :: "(string \<times> json) list"
  ri_degraded :: bool

record run_files =
  rf_equity :: "(string \<times> real) list"
  rf_trades :: "json option list list option"
  rf_state :: "(string \<times> json) list option"
  rf_degraded_event :: bool

definition run_summary ::
  "string \<Rightarrow> run_info \<Rightarrow> candle list \<Rightarrow> real \<Rightarrow> real \<Rightarrow> nat \<Rightarrow> (string \<times> json) list" where
  "run_summary now a candles starting ending trades =
     [(''run_id'', JStr (ri_run_id a)), (''timestamp'', JStr now), (''source'', JStr (ri_source a)),
      (''symbol'', JStr (ri_symbol a)), (''interval'', JStr (ri_interval a)),
      (''candle_count'', num (real (length candles))), (''last_ts'', JStr (c_ts (last candles))),
      (''starting_balance'', num starting), (''ending_balance'', num ending), (''net_pnl'', num (ending - starting)),
      (''trades'', num (real trades)), (''risk_pct'', num (ri_risk_pct a)), (''stop_bps'', num (ri_stop_bps a)),
      (''tp_r'', num (ri_tp_r a)), (''source_health'', JObj (ri_health a)), (''degraded_mode'', JBool (ri_degraded a))]"

definition finalize_run_reporting ::
  "(json \<Rightarrow> string) \<Rightarrow> string \<Rightarrow> run_info \<Rightarrow> candle list \<Rightarrow> real \<Rightarrow> real \<Rightarrow> (string \<times> real) list \<Rightarrow> jfile option
   \<Rightarrow> unit res \<times> run_files" where
  "finalize_run_reporting repr now a candles starting ending equity_history journal =
     (let f0 = \<lparr>rf_equity = equity_history, rf_trades = None, rf_state = None, rf_degraded_event = False\<rparr>
      in case parse_journal_for_trades repr journal of
           Inl e \<Rightarrow> (Inl e, f0)
         | Inr trades \<Rightarrow>
             (let f1 = f0\<lparr>rf_trades := Some (write_trades_csv trades)\<rparr>;
                  f2 = f1\<lparr>rf_state := Some [(''summary'', JObj (run_summary now a candles starting ending (length trades))),
                                         (''source_health'', JObj (ri_health a))]\<rparr>
              in if candles = [] then (Inl IndexError, f1)
                 else (case trade_cells repr trades of
                         Inl e \<Rightarrow> (Inl e, f2)
                       | Inr cells \<Rightarrow> (Inr (), f2\<lparr>rf_degraded_event := ri_degraded a\<rparr>))))"

section \<open>\<^verbatim>\<open>reporting/core.py\<close>\<close>

record trade_obj =
  to_trade :: "(string \<times> json) list"
  to_setup :: json
  to_fills :: "json list"
  to_exits :: "json list"
  to_cancels :: "json list"

text \<open>\<open>d.get(k) or {}\<close>, and what is asked of it.\<close>

definition or_empty :: "json \<Rightarrow> json" where
  "or_empty j = (if jtrue j then j else JObj [])"

definition setup_name :: "(string \<times> json) list \<Rightarrow> json res" where
  "setup_name e =
     bindE (as_dict (or_empty (jget e ''plan''))) (\<lambda>plan.
     bindE (as_dict (or_empty (jget plan ''setup''))) (\<lambda>su.
       Inr (let n = jget su ''name'' in if jtrue n then n else JStr ''UNKNOWN'')))"

definition collect_event ::
  "(string \<times> json) list \<Rightarrow> (json \<times> trade_obj) list \<Rightarrow> (json \<times> trade_obj) list res" where
  "collect_event e trades =
     (let t = jget e ''type''; tid = jget e ''trade_id''
      in if \<not> jtrue tid then Inr trades
         else if t = JStr ''trade''
         then bindE (setup_name e) (\<lambda>su.
                if hashable tid
                then Inr (AList.update tid \<lparr>to_trade = e, to_setup = su, to_fills = [], to_exits = [], to_cancels = []\<rparr> trades)
                else Inl TypeError)
         else if t = JStr ''update''
         then (if \<not> hashable tid then Inl TypeError
               else case map_of trades tid of
                   None \<Rightarrow> Inr trades
                 | Some ob \<Rightarrow>
                     let note = jget e ''note''
                     in Inr (AList.update tid
                          (if note = JStr ''fill'' then ob\<lparr>to_fills := to_fills ob @ [or_empty (jget e ''fill'')]\<rparr>
                           else if note = JStr ''exit'' then ob\<lparr>to_exits := to_exits ob @ [or_empty (jget e ''exit'')]\<rparr>
                           else if note = JStr ''canceled'' then ob\<lparr>to_cancels := to_cancels ob @ [or_empty (jget e ''cancel'')]\<rparr>
                           else ob) trades))
         else Inr trades)"

fun collect_events :: "json list \<Rightarrow> (json \<times> trade_obj) list \<Rightarrow> (json \<times> trade_obj) list res" where
  "collect_events [] trades = Inr trades"
| "collect_events (j # js) trades =
     bindE (as_dict j) (\<lambda>e. bindE (collect_event e trades) (collect_events js))"

record trade_row =
  tr_trade_id :: json
  tr_created_at :: json
  tr_setup :: json
  tr_direction :: json
  tr_entry :: "real option"
  tr_exit_price :: "real option"
  tr_r :: "real option"
  tr_pnl :: "real option"
  tr_bars_open :: "int option"
  tr_reason :: string

text \<open>\<open>conv(j[k]) if j and k in j else None\<close>.\<close>

fun has_key :: "string \<Rightarrow> json \<Rightarrow> bool res" where
  "has_key k (JObj d) = Inr (dict_get d k \<noteq> None)"
| "has_key k (JArr xs) = Inr (JStr k \<in> set xs)"
| "has_key k (JStr s) = Inr (str_contains k s)"
| "has_key k j = Inl TypeError"

definition if_true :: "json option \<Rightarrow> json option" where
  "if_true j = (case j of Some x \<Rightarrow> if jtrue x then Some x else None | None \<Rightarrow> None)"

definition maybe_field :: "(json \<Rightarrow> 'a res) \<Rightarrow> json option \<Rightarrow> string \<Rightarrow> 'a option res" where
  "maybe_field conv j k =
     (case if_true j of
        None \<Rightarrow> Inr None
      | Some x \<Rightarrow> bindE (has_key k x) (\<lambda>b.
            if b then bindE (bindE (jindex k x) conv) (\<lambda>a. Inr (Some a)) else Inr None))"

definition last_of :: "json list \<Rightarrow> json option" where
  "last_of xs = (if xs = [] then None else Some (last xs))"

definition close_reason :: "(json \<Rightarrow> string) \<Rightarrow> json option \<Rightarrow> json option \<Rightarrow> string res" where
  "close_reason repr exit_ev cancel_ev =
     (case if_true exit_ev of
        Some x \<Rightarrow> bindE (as_dict x) (\<lambda>d. Inr (py_str repr (jget_or d ''reason'' (JStr ''EXIT''))))
      | None \<Rightarrow>
          (case if_true cancel_ev of
             Some c \<Rightarrow> bindE (as_dict c) (\<lambda>d. Inr (''CANCELED:'' @ py_str repr (jget d ''reason'')))
           | None \<Rightarrow> Inr ''OPEN_OR_PLANNED''))"

definition row_of_trade :: "(json \<Rightarrow> string) \<Rightarrow> json \<Rightarrow> trade_obj \<Rightarrow> trade_row res" where
  "row_of_trade repr tid ob =
     (let fill = last_of (to_fills ob); exit_ev = last_of (to_exits ob); cancel_ev = last_of (to_cancels ob)
      in if \<not> hashable (to_setup ob) then Inl TypeError
         else
         bindE (maybe_field finite_float fill ''price'') (\<lambda>entry.
         bindE (maybe_field finite_float exit_ev ''price'') (\<lambda>exit_price.
         bindE (maybe_field finite_float exit_ev ''r'') (\<lambda>r.
         bindE (maybe_field finite_float exit_ev ''pnl'') (\<lambda>pnl.
         bindE (maybe_field int_of_json exit_ev ''bars_open'') (\<lambda>bars.
         bindE (close_reason repr exit_ev cancel_ev) (\<lambda>reason.
           Inr \<lparr>tr_trade_id = tid, tr_created_at = jget_or (to_trade ob) ''created_at'' (JStr []),
                tr_setup = to_setup ob, tr_direction = jget_or (to_trade ob) ''direction'' (JStr []),
                tr_entry = entry, tr_exit_price = exit_price, tr_r = r, tr_pnl = pnl, tr_bars_open = bars,
                tr_reason = reason\<rparr>)))))))"

text \<open>The peak, the running sum and the deepest fall of it below the peak.\<close>

definition drawdown_step :: "real \<Rightarrow> real \<times> real \<times> real \<Rightarrow> real \<times> real \<times> real" where
  "drawdown_step r acc =
     (case acc of (peak, eq, max_dd) \<Rightarrow>
        let eq' = eq + r; peak' = max peak eq' in (peak', eq', min max_dd (eq' - peak')))"

record setup_stats =
  ss_planned :: nat
  ss_avg_r :: real
  ss_closed :: nat

record report_summary =
  rs_planned :: nat
  rs_closed :: nat
  rs_winrate :: real
  rs_avg_r :: real
  rs_total_r :: real
  rs_profit_factor :: pyfloat
  rs_max_drawdown :: real
  rs_setups :: "(json \<times> setup_stats) list"

definition closed_r :: "trade_row list \<Rightarrow> real list" where
  "closed_r rows = List.map_filter tr_r rows"

definition profit_factor_r :: "real list \<Rightarrow> pyfloat res" where
  "profit_factor_r rs =
     (let wins = filter (\<lambda>r. 0 < r) rs; losses = filter (\<lambda>r. r \<le> 0) rs
      in if losses = [] then Inr PInf
         else bindE (py_div (sum_list wins) \<bar>sum_list losses\<bar>) (\<lambda>x. Inr (Fin x)))"

text \<open>Per setup, in the order in which the setups closed their first trade.\<close>

definition setup_table :: "trade_row list \<Rightarrow> (json \<times> setup_stats) list" where
  "setup_table rows =
     map (\<lambda>k. let v = closed_r (filter (\<lambda>x. tr_setup x = k) rows)
              in (k, \<lparr>ss_planned = length (filter (\<lambda>x. tr_setup x = k) rows),
                      ss_avg_r = sum_list v / real (length v), ss_closed = length v\<rparr>))
       (rev (remdups (rev (map tr_setup (filter (\<lambda>x. tr_r x \<noteq> None) rows)))))"

definition summary_of_rows :: "trade_row list \<Rightarrow> report_summary res" where
  "summary_of_rows rows =
     (let rs = closed_r rows; n = length rs; total = sum_list rs
      in bindE (profit_factor_r rs) (\<lambda>pf.
         Inr \<lparr>rs_planned = length rows, rs_closed = n,
              rs_winrate = (if n = 0 then 0 else real (length (filter (\<lambda>r. 0 < r) rs)) / real n),
              rs_avg_r = (if n = 0 then 0 else total / real n), rs_total_r = total, rs_profit_factor = pf,
              rs_max_drawdown = snd (snd (fold drawdown_step rs (0, 0, 0))), rs_setups = setup_table rows\<rparr>))"

definition summarize :: "(json \<Rightarrow> string) \<Rightarrow> jfile option \<Rightarrow> (report_summary \<times> trade_row list) res" where
  "summarize repr journal =
     bindE (case journal of None \<Rightarrow> Inr [] | Some f \<Rightarrow> mapE read_line f) (\<lambda>events.
     bindE (collect_events events []) (\<lambda>trades.
     bindE (mapE (\<lambda>(tid, ob). row_of_trade repr tid ob) trades) (\<lambda>rows.
     bindE (summary_of_rows rows) (\<lambda>s. Inr (s, rows)))))"

section \<open>Reports on the paper broker\<close>

text \<open>The events of type \<^verbatim>\<open>"exit"\<close> in the order history, and \<open>round(x, 2)\<close>.\<close>

fun is_exit :: "bevent \<Rightarrow> bool" where
  "is_exit (FillEv f) = False"
| "is_exit (CloseEv c) = cr_final c"
| "is_exit (ExitEv x) = True"

fun ev_fees :: "bevent \<Rightarrow> real" where
  "ev_fees (FillEv f) = fr_fees f"
| "ev_fees (CloseEv c) = cr_fees c"
| "ev_fees (ExitEv x) = er_fees x"

definition exits_of :: "broker \<Rightarrow> bevent list" where
  "exits_of b = filter is_exit (b_order_history b)"

definition round2 :: "real \<Rightarrow> real" where
  "round2 x = of_int (cents x) / 100"

definition win_rate_of :: "bevent list \<Rightarrow> real" where
  "win_rate_of trades =
     (if trades = [] then 0 else real (length (filter (\<lambda>t. 0 < ev_pnl t) trades)) / real (length trades) * 100)"

definition round1 :: "real \<Rightarrow> real" where
  "round1 x = of_int (py_round (x * 10)) / 10"

record broker_summary =
  gs_run_id :: int
  gs_duration :: real
  gs_trades :: nat
  gs_win_rate :: real
  gs_realized :: real
  gs_fees :: real

definition generate_summary :: "real \<Rightarrow> real \<Rightarrow> broker \<Rightarrow> broker_summary" where
  "generate_summary now start b =
     (let trades = exits_of b
      in \<lparr>gs_run_id = py_int start, gs_duration = round1 (now - start), gs_trades = length trades,
          gs_win_rate = round2 (win_rate_of trades),
          gs_realized = round2 (\<Sum>t\<leftarrow>trades. ev_pnl t), gs_fees = round2 (\<Sum>t\<leftarrow>trades. ev_fees t)\<rparr>)"

record final_report =
  fp_exit_code :: nat
  fp_pnl :: real
  fp_errors :: nat
  fp_duration :: real
  fp_symbol :: string
  fp_trades :: nat
  fp_reason :: string
  fp_net_pnl :: real
  fp_pnl_pct :: real
  fp_exits :: nat
  fp_win_rate :: real
  fp_total_fees :: real
  fp_alert :: bool

definition generate_final_reports :: "runner \<Rightarrow> final_report" where
  "generate_final_reports r =
     (let b = rn_broker r; net = b_current_equity b - rn_starting_equity r; trades = exits_of b
      in \<lparr>fp_exit_code = (if rn_errors r = 0 then 0 else 1), fp_pnl = round2 net, fp_errors = rn_errors r,
          fp_duration = round1 (fst (rn_time r) - rn_start_time r), fp_symbol = rn_symbol r,
          fp_trades = rn_trades r, fp_reason = rn_stopped_reason r, fp_net_pnl = net,
          fp_pnl_pct = (if 0 < rn_starting_equity r then net / rn_starting_equity r * 100 else 0),
          fp_exits = length trades, fp_win_rate = win_rate_of trades,
          fp_total_fees = (\<Sum>t\<leftarrow>trades. ev_fees t), fp_alert = (0 < rn_errors r)\<rparr>)"

text \<open>
  \<open>export_metrics\<close>: the columns are the keys of the first point, and a point with another key raises, which
  is logged; the rows before it stay in the file.
\<close>

fun metric_keys :: "metric \<Rightarrow> string list" where
  "metric_keys (HeartbeatPoint e p u n) = [''ts'', ''elapsed'', ''equity'', ''price'', ''unrealized'', ''errors'']"
| "metric_keys (ExitPoint e p reason) = [''ts'', ''elapsed'', ''equity'', ''price'', ''unrealized'', ''event'', ''reason'']"

definition export_metrics :: "metric list \<Rightarrow> unit res \<times> metric list" where
  "export_metrics ms =
     (case ms of
        [] \<Rightarrow> (Inr (), [])
      | m # ms' \<Rightarrow>
          (let rows = takeWhile (\<lambda>x. set (metric_keys x) \<subseteq> set (metric_keys m)) ms
           in (if rows = ms then Inr () else Inl (ValueError ''dict contains fields not in fieldnames''), rows)))"

section \<open>\<^verbatim>\<open>backtest/funding.py\<close>\<close>

text \<open>The rows of the file, with their timestamps as text; of two equal ones the last counts.\<close>

definition load_funding :: "(string \<times> real) list option \<Rightarrow> (string \<times> real) list" where
  "load_funding csv = (case csv of None \<Rightarrow> [] | Some rows \<Rightarrow> rows)"

definition get_rate_at :: "string \<Rightarrow> (string \<times> real) list \<Rightarrow> real option" where
  "get_rate_at ts rates = map_of (rev rates) ts"

end
