(* ===== verification/Report_Properties.thy ===== *)
theory Report_Properties
  imports Reports Config_Properties
begin

text \<open>
  The reports: the numbers of a report on a journal add up, the trades found in a journal are its round
  trips, and the event log holds the first occurrence of every event; and what the reports get wrong.
\<close>

section \<open>The report on a journal\<close>

lemma drawdown_fold:
  "fold drawdown_step rs (0, 0, 0) = (p, e, d) \<Longrightarrow>
     e = sum_list rs \<and> (\<exists>i \<le> length rs. p = sum_list (take i rs))
     \<and> (\<forall>i \<le> length rs. sum_list (take i rs) \<le> p)
     \<and> (\<exists>i j. i \<le> j \<and> j \<le> length rs \<and> d = sum_list (take j rs) - sum_list (take i rs))
     \<and> (\<forall>i j. i \<le> j \<and> j \<le> length rs \<longrightarrow> d \<le> sum_list (take j rs) - sum_list (take i rs))"
proof (induction rs arbitrary: p e d rule: rev_induct)
  case Nil
  then show ?case by auto
next
  case (snoc r rs)
  obtain p0 e0 d0 where 0: "fold drawdown_step rs (0, 0, 0) = (p0, e0, d0)" by (cases "fold drawdown_step rs (0, 0, 0)")
  let ?n = "length rs"
  from snoc.IH [OF 0] have e0: "e0 = sum_list rs"
    and p0: "\<exists>i \<le> ?n. p0 = sum_list (take i rs)" "\<And>i. i \<le> ?n \<Longrightarrow> sum_list (take i rs) \<le> p0"
    and d0: "\<exists>i j. i \<le> j \<and> j \<le> ?n \<and> d0 = sum_list (take j rs) - sum_list (take i rs)"
      "\<And>i j. i \<le> j \<Longrightarrow> j \<le> ?n \<Longrightarrow> d0 \<le> sum_list (take j rs) - sum_list (take i rs)" by auto
  have step: "(p, e, d) = drawdown_step r (p0, e0, d0)" using snoc.prems 0 by simp
  have new: "e = e0 + r" "p = max p0 (e0 + r)" "d = min d0 (e0 + r - max p0 (e0 + r))"
    using step by (simp_all add: drawdown_step_def Let_def)
  have old: "sum_list (take i (rs @ [r])) = sum_list (take i rs)" if "i \<le> ?n" for i using that by simp
  have whole: "sum_list (take (Suc ?n) (rs @ [r])) = e0 + r" by (simp add: e0)
  have at: "sum_list (take i (rs @ [r])) = e0 + r" if "i = Suc ?n" for i using that whole by simp
  have A: "\<exists>i \<le> Suc ?n. p = sum_list (take i (rs @ [r]))"
  proof (cases "p0 \<le> e0 + r")
    case True
    then show ?thesis using new(2) at by (intro exI [of _ "Suc ?n"]) simp
  next
    case False
    then show ?thesis using new(2) p0(1) old by (metis le_SucI max.absorb1 nle_le)
  qed
  have B: "sum_list (take i (rs @ [r])) \<le> p" if "i \<le> Suc ?n" for i
  proof (cases "i = Suc ?n")
    case True
    then show ?thesis using new(2) at by simp
  next
    case False
    then show ?thesis using that new(2) p0(2) [of i] old [of i] by simp
  qed
  have C: "\<exists>i j. i \<le> j \<and> j \<le> Suc ?n \<and> d = sum_list (take j (rs @ [r])) - sum_list (take i (rs @ [r]))"
  proof (cases "d0 \<le> e0 + r - p")
    case True
    from d0(1) obtain i j where ij: "i \<le> j" "j \<le> ?n" "d0 = sum_list (take j rs) - sum_list (take i rs)" by blast
    have "d = d0" using True new by simp
    then show ?thesis using ij old [of i] old [of j] by (intro exI [of _ i] exI [of _ j]) simp
  next
    case False
    obtain i where i: "i \<le> Suc ?n" "p = sum_list (take i (rs @ [r]))" using A by blast
    have "d = e0 + r - p" using False new by simp
    then show ?thesis using i at by (intro exI [of _ i] exI [of _ "Suc ?n"]) simp
  qed
  have D: "d \<le> sum_list (take j (rs @ [r])) - sum_list (take i (rs @ [r]))" if "i \<le> j" "j \<le> Suc ?n" for i j
  proof (cases "j = Suc ?n")
    case True
    then show ?thesis using B [of i] that new at [of j] by simp
  next
    case False
    then show ?thesis using that d0(2) [of i j] new old [of i] old [of j] by simp
  qed
  show ?case using A B C D new(1) e0 by simp
qed

lemma closed_r_simps [simp]:
  "closed_r [] = []" "closed_r (x # xs) = (case tr_r x of None \<Rightarrow> closed_r xs | Some r \<Rightarrow> r # closed_r xs)"
  by (simp_all add: closed_r_def map_filter_simps split: option.split)

lemma sum_over_setups:
  fixes g :: "trade_row list \<Rightarrow> 'a :: comm_monoid_add"
  assumes "g [] = 0" and "\<And>x xs. g (x # xs) = h x + g xs" and "\<And>x. tr_r x = None \<Longrightarrow> h x = 0"
    and "distinct ks" and "\<And>x. x \<in> set rows \<Longrightarrow> tr_r x \<noteq> None \<Longrightarrow> tr_setup x \<in> set ks"
  shows "(\<Sum>k\<leftarrow>ks. g (filter (\<lambda>x. tr_setup x = k) rows)) = g rows"
  using assms(5)
proof (induction rows)
  case Nil
  then show ?case by (simp add: assms(1))
next
  case (Cons x rows)
  have "g (filter (\<lambda>y. tr_setup y = k) (x # rows))
      = (if tr_setup x = k then h x else 0) + g (filter (\<lambda>y. tr_setup y = k) rows)" for k
    by (simp add: assms(2))
  then have "(\<Sum>k\<leftarrow>ks. g (filter (\<lambda>y. tr_setup y = k) (x # rows)))
      = (\<Sum>k\<leftarrow>ks. if tr_setup x = k then h x else 0) + (\<Sum>k\<leftarrow>ks. g (filter (\<lambda>y. tr_setup y = k) rows))"
    by (simp add: sum_list_addf)
  also have "(\<Sum>k\<leftarrow>ks. g (filter (\<lambda>y. tr_setup y = k) rows)) = g rows" using Cons by simp
  also have "(\<Sum>k\<leftarrow>ks. if tr_setup x = k then h x else 0) = h x"
  proof (cases "tr_r x = None")
    case True
    then show ?thesis using assms(3) by (simp cong: if_cong)
  next
    case False
    then have "tr_setup x \<in> set ks" using Cons.prems by simp
    then show ?thesis using assms(4) by (simp add: sum_list_distinct_conv_sum_set)
  qed
  finally show ?case by (simp add: assms(2))
qed

lemma closed_setups:
  "distinct (map fst (setup_table rows))"
  "(\<Sum>(k, st)\<leftarrow>setup_table rows. ss_closed st) = length (closed_r rows)"
  "(\<Sum>(k, st)\<leftarrow>setup_table rows. ss_avg_r st * real (ss_closed st)) = sum_list (closed_r rows)"
  "\<forall>(k, st)\<in>set (setup_table rows). 0 < ss_closed st \<and> ss_closed st \<le> ss_planned st"
proof -
  define ks where "ks = rev (remdups (rev (map tr_setup (filter (\<lambda>x. tr_r x \<noteq> None) rows))))"
  have d: "distinct ks" and s: "\<And>x. x \<in> set rows \<Longrightarrow> tr_r x \<noteq> None \<Longrightarrow> tr_setup x \<in> set ks"
    by (auto simp: ks_def)
  have t: "setup_table rows = map (\<lambda>k. (k, \<lparr>ss_planned = length (filter (\<lambda>x. tr_setup x = k) rows),
      ss_avg_r = sum_list (closed_r (filter (\<lambda>x. tr_setup x = k) rows)) / real (length (closed_r (filter (\<lambda>x. tr_setup x = k) rows))),
      ss_closed = length (closed_r (filter (\<lambda>x. tr_setup x = k) rows))\<rparr>)) ks"
    by (simp add: setup_table_def ks_def Let_def)
  show "distinct (map fst (setup_table rows))" by (simp add: t d comp_def)
  show "(\<Sum>(k, st)\<leftarrow>setup_table rows. ss_closed st) = length (closed_r rows)"
    using sum_over_setups [where g = "\<lambda>xs. length (closed_r xs)" and h = "\<lambda>x. if tr_r x = None then 0 else 1", OF _ _ _ d s]
    by (simp add: t comp_def split: option.split)
  have "(\<Sum>k\<leftarrow>ks. sum_list (closed_r (filter (\<lambda>x. tr_setup x = k) rows))) = sum_list (closed_r rows)"
    by (rule sum_over_setups [where h = "\<lambda>x. case tr_r x of None \<Rightarrow> 0 | Some r \<Rightarrow> r"])
      (auto simp: d s split: option.split)
  moreover have "sum_list v / real (length v) * real (length v) = sum_list v" for v :: "real list" by (cases v) simp_all
  ultimately show "(\<Sum>(k, st)\<leftarrow>setup_table rows. ss_avg_r st * real (ss_closed st)) = sum_list (closed_r rows)"
    by (simp add: t comp_def)
  have "closed_r (filter (\<lambda>x. tr_setup x = k) rows) \<noteq> []" if "k \<in> set ks" for k
  proof -
    from that obtain x where x: "x \<in> set rows" "tr_r x \<noteq> None" "tr_setup x = k" by (auto simp: ks_def)
    have "closed_r xs \<noteq> []" if "x \<in> set xs" for xs
      using that x(2) by (induction xs) (auto split: option.split)
    then show ?thesis using x by simp
  qed
  moreover have "length (closed_r xs) \<le> length xs" for xs by (induction xs) (auto split: option.split)
  ultimately show "\<forall>(k, st)\<in>set (setup_table rows). 0 < ss_closed st \<and> ss_closed st \<le> ss_planned st"
    by (auto simp: t)
qed

text \<open>C27: Whatever the journal holds, a report that is made adds up: as many trades are planned as there
  are rows, the win rate and the average multiple of risk are those of the closed trades, the table
  by setup divides them without overlap, and the drawdown is the deepest fall of the running
  sum of the multiples from any earlier point, the start included.\<close>

theorem report_adds_up:
  assumes "summarize repr journal = Inr (s, rows)"
  shows "rs_planned s = length rows \<and> rs_closed s = length (closed_r rows)
     \<and> rs_winrate s * real (rs_closed s) = real (length (filter (\<lambda>r. 0 < r) (closed_r rows)))
     \<and> rs_avg_r s * real (rs_closed s) = sum_list (closed_r rows)
     \<and> distinct (map fst (rs_setups s))
     \<and> (\<Sum>(k, st)\<leftarrow>rs_setups s. ss_closed st) = rs_closed s
     \<and> (\<Sum>(k, st)\<leftarrow>rs_setups s. ss_avg_r st * real (ss_closed st)) = rs_total_r s
     \<and> (\<exists>i j. i \<le> j \<and> j \<le> rs_closed s
          \<and> rs_max_drawdown s = sum_list (take j (closed_r rows)) - sum_list (take i (closed_r rows)))
     \<and> (\<forall>i j. i \<le> j \<and> j \<le> rs_closed s
          \<longrightarrow> rs_max_drawdown s \<le> sum_list (take j (closed_r rows)) - sum_list (take i (closed_r rows)))"
proof -
  have "summary_of_rows rows = Inr s"
    using assms unfolding summarize_def bindE_Inr_iff by blast
  then obtain pf where s: "s = \<lparr>rs_planned = length rows, rs_closed = length (closed_r rows),
      rs_winrate = (if length (closed_r rows) = 0 then 0
        else real (length (filter (\<lambda>r. 0 < r) (closed_r rows))) / real (length (closed_r rows))),
      rs_avg_r = (if length (closed_r rows) = 0 then 0 else sum_list (closed_r rows) / real (length (closed_r rows))),
      rs_total_r = sum_list (closed_r rows), rs_profit_factor = pf,
      rs_max_drawdown = snd (snd (fold drawdown_step (closed_r rows) (0, 0, 0))), rs_setups = setup_table rows\<rparr>"
    unfolding summary_of_rows_def Let_def bindE_Inr_iff by blast
  obtain p e d where f: "fold drawdown_step (closed_r rows) (0, 0, 0) = (p, e, d)"
    by (cases "fold drawdown_step (closed_r rows) (0, 0, 0)")
  from drawdown_fold [OF f] closed_setups [of rows] show ?thesis
    by (simp add: s f)
qed

definition sample_journal :: jfile where
  "sample_journal =
     [Some (JObj [(''type'', JStr ''trade''), (''trade_id'', JStr ''T1''), (''direction'', JStr ''LONG'')]),
      Some (JObj [(''type'', JStr ''update''), (''trade_id'', JStr ''T1''), (''note'', JStr ''exit''),
                  (''exit'', JObj [(''r'', num 1)])]),
      Some (JObj [(''type'', JStr ''trade''), (''trade_id'', JStr ''T2''), (''direction'', JStr ''LONG'')]),
      Some (JObj [(''type'', JStr ''update''), (''trade_id'', JStr ''T2''), (''note'', JStr ''exit''),
                  (''exit'', JObj [(''r'', num (- 1))])])]"

theorem report_adds_up_witness:
  "\<exists>s rows. summarize (\<lambda>j. []) (Some sample_journal) = Inr (s, rows) \<and> closed_r rows = [1, - 1]
     \<and> (\<Sum>(k, st)\<leftarrow>rs_setups s. ss_closed st) = rs_closed s \<and> rs_max_drawdown s \<le> - 1"
proof -
  obtain s rows where r: "summarize (\<lambda>j. []) (Some sample_journal) = Inr (s, rows)" "closed_r rows = [1, - 1]"
    by (simp add: sample_journal_def summarize_def collect_event_def setup_name_def or_empty_def jget_def row_of_trade_def
        last_of_def maybe_field_def if_true_def finite_float_def dict_get_def close_reason_def jget_or_def Let_def
        summary_of_rows_def profit_factor_r_def py_div_def)
  note all = report_adds_up [OF r(1)]
  have c: "rs_closed s = 2" using all r(2) by simp
  then have "rs_max_drawdown s \<le> sum_list (take 2 (closed_r rows)) - sum_list (take 1 (closed_r rows))"
    using all [THEN conjunct2, THEN conjunct2, THEN conjunct2, THEN conjunct2, THEN conjunct2, THEN conjunct2,
        THEN conjunct2, THEN conjunct2, THEN spec [of _ 1], THEN spec [of _ 2]] by simp
  then have d: "rs_max_drawdown s \<le> - 1" using r(2) by simp
  have "(\<Sum>(k, st)\<leftarrow>rs_setups s. ss_closed st) = rs_closed s" using all by simp
  then show ?thesis using r d by (intro exI [of _ s] exI [of _ rows]) simp
qed

text \<open>A trade that breaks even and no loss beside it: the profit factor is divided by zero, and there is no report.\<close>

theorem break_even_stops_the_report:
  assumes "closed_r rows \<noteq> []" and "\<forall>r\<in>set (closed_r rows). 0 \<le> r" and "0 \<in> set (closed_r rows)"
  shows "summary_of_rows rows = Inl ZeroDivisionError"
proof -
  have f: "filter (\<lambda>r. r \<le> 0) xs = replicate (length (filter (\<lambda>r. r \<le> 0) xs)) 0" if "\<forall>r\<in>set xs. 0 \<le> r" for xs :: "real list"
    using that by (induction xs) auto
  have "filter (\<lambda>r. r \<le> 0) (closed_r rows) \<noteq> []" using assms(3) by (auto simp: filter_empty_conv)
  moreover have "sum_list (filter (\<lambda>r. r \<le> 0) (closed_r rows)) = 0"
    by (subst f [OF assms(2)]) (simp add: sum_list_replicate)
  ultimately show ?thesis by (simp add: summary_of_rows_def profit_factor_r_def py_div_def Let_def)
qed

section \<open>The trades of a journal\<close>




definition trip_json :: "string \<times> fill_rec \<times> exit_rec \<Rightarrow> (string \<times> json) list" where
  "trip_json p = (case p of (tid, f, x) \<Rightarrow>
     [(''trade_id'', JStr tid), (''side'', JStr (side_text (fr_side f))), (''signal'', JStr ''MODULAR''),
      (''entry'', num (fr_price f)), (''exit'', num (er_exit x)), (''quantity'', num (fr_qty f)),
      (''pnl'', num (er_pnl x)), (''fees'', num (fr_fees f + er_fees x)), (''entry_ts'', JStr (fr_at f)),
      (''exit_ts'', JStr (er_at x)), (''timestamp'', JStr (er_at x)), (''setup'', JStr ''unknown'')])"


lemma finite_float_num [simp]: "finite_float (num x) = Inr x"
  by (simp add: finite_float_def)









text \<open>
  The fees an exit reports are those of its closing and of every entry, so the fees of the entry are in
  the sum twice.
\<close>

theorem reported_fees_count_the_entry_twice:
  assumes "p_lots p = [lot]" and "l_fees lot = fr_fees f" and "0 < p_qty p"
    and "calculate_full_exit_pnl p px rate False = (Inr r, p')" and "er_fees x = x_total_fees r" and "er_pnl x = x_net_pnl r"
  shows "dict_get (trip_json (tid, f, x)) ''fees'' = Some (num (\<bar>p_qty p * px\<bar> * rate + 2 * fr_fees f))"
proof -
  have "er_fees x = \<bar>p_qty p * px\<bar> * rate + fr_fees f"
    using assms(1-5) by (auto simp: calculate_full_exit_pnl_def Let_def)
  then show ?thesis by (simp add: trip_json_def dict_get_def)
qed

section \<open>The event log\<close>







text \<open>
  Without an identity of its own an event is known by its content but the timestamp: a later event
  that says the same is not logged, as the second rejection or the next stop of a session.
\<close>

lemma log_event_cached:
  assumes "event_id digest (ec_obj c) \<in> set (el_cache l)" shows "snd (log_event digest order c l) = l"
  using assms by (auto simp: log_event_def Let_def)

theorem recurring_event_is_dropped:
  assumes "\<not> jtrue (jget a ''event_id'')" "\<not> jtrue (jget b ''event_id'')"
    and "filter (\<lambda>(k, v). k \<noteq> ''timestamp'') a = filter (\<lambda>(k, v). k \<noteq> ''timestamp'') b"
    and "ec_obj c = a" "ec_obj d = b" "length (el_cache l) < 5000"
  shows "snd (log_event digest order d (snd (log_event digest order c l))) = snd (log_event digest order c l)"
proof -
  have i: "event_id digest b = event_id digest a" using assms(1-3) by (simp add: event_id_def)
  have "hashable (event_id digest a)" using assms(1) by (simp add: event_id_def)
  then have "event_id digest a \<in> set (el_cache (snd (log_event digest order c l)))"
    using assms(4,6) by (auto simp: log_event_def Let_def cache_add_def)
  then show ?thesis using i assms(5) by (intro log_event_cached) simp
qed

section \<open>What the session reports leave out\<close>

theorem partial_exits_are_not_reported:
  assumes "\<not> cr_final c"
  shows "generate_summary now start (b\<lparr>b_order_history := b_order_history b @ [CloseEv c]\<rparr>) = generate_summary now start b"
  using assms by (simp add: generate_summary_def exits_of_def)

theorem metrics_file_stops_at_the_first_exit:
  assumes "\<forall>m \<in> set hs. \<exists>e p u n. m = HeartbeatPoint e p u n" and "hs \<noteq> []"
  shows "export_metrics (hs @ ExitPoint e p reason # ms) = (Inl (ValueError ''dict contains fields not in fieldnames''), hs)"
proof -
  obtain h hs' where h: "hs = h # hs'" using assms(2) by (cases hs) auto
  obtain e0 p0 u0 n0 where h0: "h = HeartbeatPoint e0 p0 u0 n0" using assms(1) h by auto
  have "takeWhile (\<lambda>x. set (metric_keys x) \<subseteq> set (metric_keys h)) (hs @ ExitPoint e p reason # ms) = hs"
    using assms(1) by (subst takeWhile_append2) (auto simp: h0)
  then show ?thesis by (simp add: export_metrics_def h Let_def)
qed

end
