(* ===== verification/Collectors.thy ===== *)
theory Collectors
  imports Alert_Service Log_Scrubber "HOL-Library.AList"
begin

text \<open>
  \<^verbatim>\<open>data/free_collectors.py\<close>: public data gathered for the report of an orchestrated run, each source
  behind an hourly quota, a rate limiter, retries and a time limit. \<^verbatim>\<open>urllib\<close> and \<^verbatim>\<open>ElementTree\<close> are
  a record of parameters: an answer in JSON, the titles and links of the items of a feed, the text of
  an exception. Each reading of the clock is consumed from a sequence.
\<close>

section \<open>\<open>HourlyQuota\<close>\<close>

record quota =
  qt_max :: int
  qt_start :: real
  qt_used :: int

definition init_quota :: "real \<Rightarrow> int \<Rightarrow> quota" where
  "init_quota now max_per_hour = \<lparr>qt_max = max_per_hour, qt_start = now, qt_used = 0\<rparr>"

definition quota_allow :: "real \<Rightarrow> quota \<Rightarrow> bool \<times> quota" where
  "quota_allow now q =
     (let q1 = (if 3600 \<le> now - qt_start q then q\<lparr>qt_start := now, qt_used := 0\<rparr> else q)
      in if qt_max q1 \<le> qt_used q1 then (False, q1) else (True, q1\<lparr>qt_used := qt_used q1 + 1\<rparr>))"

section \<open>The collectors\<close>

record source_result =
  so_ok :: bool
  so_degraded :: bool
  so_latency_ms :: int
  so_quota_exhausted :: bool
  so_reason :: string

record 'w data_feeds =
  fd_json :: "string \<Rightarrow> ('w, json) py"
  fd_xml :: "string \<Rightarrow> ('w, (string option \<times> string option) list) py"
  fd_text :: "py_exc \<Rightarrow> string"

text \<open>\<open>co_health\<close> is the dictionary \<open>source_health\<close> that \<open>collect_all\<close> hands to each collection.\<close>

record 'w collectors =
  co_offline :: bool
  co_sources :: "(string \<times> json) list"
  co_limiters :: "(string \<times> rate_limiter) list"
  co_quotas :: "(string \<times> quota) list"
  co_health :: "(string \<times> source_result) list"
  co_clock :: "nat \<Rightarrow> real"
  co_net :: 'w

definition co_time :: "'w collectors \<Rightarrow> real \<times> 'w collectors" where
  "co_time c = (co_clock c 0, c\<lparr>co_clock := \<lambda>k. co_clock c (Suc k)\<rparr>)"

definition load_source_limits :: "json \<Rightarrow> (string \<times> json) list res" where
  "load_source_limits yaml =
     (case (if jtrue yaml then yaml else JObj []) of
        JObj cfg \<Rightarrow>
          (case dict_get cfg ''sources'' of
             None \<Rightarrow> Inl (ValueError ''free_limits.yaml missing sources'')
           | Some (JObj d) \<Rightarrow> Inr d
           | Some j \<Rightarrow> Inl AttributeError)
      | _ \<Rightarrow> Inl TypeError)"

definition source_limiter :: "real \<Rightarrow> json \<Rightarrow> rate_limiter res" where
  "source_limiter now cfg =
     bindE (bindE (jindex ''budget_per_hour'' cfg) finite_float) (\<lambda>budget.
       Inr (init_limiter (max (1 / 10) (budget / 3600)) (max 1 (min 5 (budget / 10))) now))"

definition source_quota :: "real \<Rightarrow> json \<Rightarrow> quota res" where
  "source_quota now cfg =
     bindE (bindE (jindex ''budget_per_hour'' cfg) int_of_json) (\<lambda>budget. Inr (init_quota now budget))"

text \<open>Both comprehensions over the sources, each reading the clock once for an entry.\<close>

fun per_source :: "(real \<Rightarrow> json \<Rightarrow> 'a res) \<Rightarrow> (string \<times> json) list \<Rightarrow> (nat \<Rightarrow> real) \<Rightarrow> (string \<times> 'a) list res" where
  "per_source f [] clk = Inr []"
| "per_source f ((k, cfg) # ds) clk =
     bindE (f (clk 0) cfg) (\<lambda>a. bindE (per_source f ds (\<lambda>i. clk (Suc i))) (\<lambda>as. Inr ((k, a) # as)))"

definition init_collectors :: "json \<Rightarrow> bool \<Rightarrow> (nat \<Rightarrow> real) \<Rightarrow> 'w \<Rightarrow> 'w collectors res" where
  "init_collectors yaml offline_safe clk net =
     bindE (load_source_limits yaml) (\<lambda>sources.
     bindE (per_source source_limiter sources clk) (\<lambda>limiters.
     bindE (per_source source_quota sources (\<lambda>i. clk (length sources + i))) (\<lambda>quotas.
       Inr \<lparr>co_offline = offline_safe, co_sources = sources, co_limiters = limiters, co_quotas = quotas,
            co_health = [], co_clock = (\<lambda>i. clk (2 * length sources + i)), co_net = net\<rparr>)))"

section \<open>Guarded collection\<close>

definition on_feeds :: "('w, 'a) py \<Rightarrow> ('w collectors, 'a) py" where
  "on_feeds f c = (case f (co_net c) of (r, w) \<Rightarrow> (r, c\<lparr>co_net := w\<rparr>))"

text \<open>\<open>_read_json\<close> and \<open>_read_xml\<close>: three attempts.\<close>

definition read_with_retry :: "string \<Rightarrow> ('w, 'a) py \<Rightarrow> ('w collectors, 'a) py" where
  "read_with_retry op f c =
     (case with_retry \<lparr>max_attempts = 3, base_delay = 1 / 5\<rparr> op (on_feeds f) c of (r, c', sleeps) \<Rightarrow> (r, c'))"

definition with_timeout :: "real \<Rightarrow> (real \<Rightarrow> ('w collectors, 'a) py) \<Rightarrow> ('w collectors, 'a) py" where
  "with_timeout timeout_s fn c =
     (let (t0, c1) = co_time c
      in case fn timeout_s c1 of
           (Inl e, c2) \<Rightarrow> (Inl e, c2)
         | (Inr a, c2) \<Rightarrow>
             (let (t1, c3) = co_time c2
              in (if timeout_s < t1 - t0 then Inl (OtherError ''TimeoutError'') else Inr a, c3)))"

definition set_health :: "string \<Rightarrow> source_result \<Rightarrow> 'w collectors \<Rightarrow> 'w collectors" where
  "set_health source h c = c\<lparr>co_health := AList.update source h (co_health c)\<rparr>"

definition ask_quota :: "string \<Rightarrow> ('w collectors, bool) py" where
  "ask_quota source c =
     (case map_of (co_quotas c) source of
        None \<Rightarrow> (Inl (KeyError source), c)
      | Some q \<Rightarrow>
          (let (now, c1) = co_time c; (ok, q') = quota_allow now q
           in (Inr ok, c1\<lparr>co_quotas := AList.update source q' (co_quotas c1)\<rparr>)))"

definition wait_source :: "string \<Rightarrow> ('w collectors, unit) py" where
  "wait_source source c =
     (case map_of (co_limiters c) source of
        None \<Rightarrow> (Inl (KeyError source), c)
      | Some l \<Rightarrow>
          (let (now, c1) = co_time c; (d, l') = wait_slot now l
           in (Inr (), c1\<lparr>co_limiters := AList.update source l' (co_limiters c1)\<rparr>)))"

definition collect_timed ::
  "'w data_feeds \<Rightarrow> string \<Rightarrow> json \<Rightarrow> real \<Rightarrow> (real \<Rightarrow> ('w collectors, 'a) py) \<Rightarrow> ('w collectors, 'a option) py" where
  "collect_timed F source cfg started fn c =
     (case (case bindE (jindex ''timeout_seconds'' cfg) finite_float of
              Inl e \<Rightarrow> (Inl e, c) | Inr timeout_s \<Rightarrow> with_timeout timeout_s fn c) of
        (Inr a, c1) \<Rightarrow>
          (let (now, c2) = co_time c1
           in (Inr (Some a), set_health source \<lparr>so_ok = True, so_degraded = False,
                 so_latency_ms = py_int ((now - started) * 1000), so_quota_exhausted = False, so_reason = []\<rparr> c2))
      | (Inl e, c1) \<Rightarrow>
          (let (now, c2) = co_time c1;
               c3 = set_health source \<lparr>so_ok = False, so_degraded = True,
                 so_latency_ms = py_int ((now - started) * 1000), so_quota_exhausted = False,
                 so_reason = fd_text F e\<rparr> c2
           in (if co_offline c3 then Inr None
               else Inl (RuntimeError (''source '' @ source @ '' unavailable: '' @ fd_text F e)), c3)))"

definition guarded_collect ::
  "'w data_feeds \<Rightarrow> string \<Rightarrow> (real \<Rightarrow> ('w collectors, 'a) py) \<Rightarrow> ('w collectors, 'a option) py" where
  "guarded_collect F source fn c =
     (case dict_get (co_sources c) source of
        None \<Rightarrow> (Inl (KeyError source), c)
      | Some cfg \<Rightarrow>
          (let (started, c1) = co_time c
           in bindS (ask_quota source) (\<lambda>ok.
                if ok then bindS (wait_source source) (\<lambda>_. collect_timed F source cfg started fn)
                else bindS (modifyS (set_health source \<lparr>so_ok = False, so_degraded = True, so_latency_ms = 0,
                              so_quota_exhausted = True, so_reason = ''hourly_quota_exhausted''\<rparr>)) (\<lambda>_. returnS None)) c1))"

section \<open>The four sources\<close>

record ohlc =
  oh_time :: json
  oh_open :: real
  oh_high :: real
  oh_low :: real
  oh_close :: real
  oh_volume :: real

definition ohlc_of_row :: "json \<Rightarrow> ohlc res" where
  "ohlc_of_row row =
     bindE (jnth 0 row) (\<lambda>t.
     bindE (bindE (jnth 1 row) finite_float) (\<lambda>o'.
     bindE (bindE (jnth 2 row) finite_float) (\<lambda>h.
     bindE (bindE (jnth 3 row) finite_float) (\<lambda>l.
     bindE (bindE (jnth 4 row) finite_float) (\<lambda>cl.
     bindE (bindE (jnth 5 row) finite_float) (\<lambda>v.
       Inr \<lparr>oh_time = t, oh_open = o', oh_high = h, oh_low = l, oh_close = cl, oh_volume = v\<rparr>))))))"

definition collect_binance_ohlc :: "'w data_feeds \<Rightarrow> string \<Rightarrow> real \<Rightarrow> ('w collectors, ohlc list) py" where
  "collect_binance_ohlc F symbol timeout_s =
     bindS (read_with_retry ''read_json'' (fd_json F
              (''https://api.binance.com/api/v3/klines?symbol='' @ py_upper symbol @ ''USDT&interval=1h&limit=24'')))
       (\<lambda>data. liftS (if jtrue data then bindE (json_rows data) (mapE ohlc_of_row) else Inr []))"

record fear_greed =
  fg_value :: int
  fg_classification :: json
  fg_timestamp :: json

definition fear_greed_of :: "json \<Rightarrow> fear_greed res" where
  "fear_greed_of data =
     (case data of
        JObj d \<Rightarrow>
          (let rows = jget d ''data''
           in bindE (jnth 0 (if jtrue rows then rows else JArr [JObj []])) (\<lambda>item.
                case item of
                  JObj i \<Rightarrow> bindE (int_of_json (jget_or i ''value'' (num 0))) (\<lambda>v.
                      Inr \<lparr>fg_value = v, fg_classification = jget_or i ''value_classification'' (JStr ''unknown''),
                           fg_timestamp = jget i ''timestamp''\<rparr>)
                | _ \<Rightarrow> Inl AttributeError))
      | _ \<Rightarrow> Inl AttributeError)"

definition collect_fear_greed :: "'w data_feeds \<Rightarrow> real \<Rightarrow> ('w collectors, fear_greed) py" where
  "collect_fear_greed F timeout_s =
     bindS (read_with_retry ''read_json'' (fd_json F ''https://api.alternative.me/fng/?limit=1''))
       (\<lambda>data. liftS (fear_greed_of data))"

definition keyword_score :: "string \<Rightarrow> string list \<Rightarrow> string list \<Rightarrow> int" where
  "keyword_score t positive negative =
     (let lowered = py_lower t
      in int (length (filter (\<lambda>w. str_contains w lowered) positive))
         - int (length (filter (\<lambda>w. str_contains w lowered) negative)))"

definition good_words :: "string list" where
  "good_words = [''surge'', ''rally'', ''approval'', ''gain'', ''bull'']"

definition bad_words :: "string list" where
  "bad_words = [''hack'', ''ban'', ''drop'', ''loss'', ''bear'']"

record news_item =
  ne_title :: string
  ne_link :: string
  ne_score :: int

fun or_blank :: "string option \<Rightarrow> string" where
  "or_blank None = []"
| "or_blank (Some s) = s"

definition news_of_feed :: "string \<Rightarrow> (string option \<times> string option) list \<Rightarrow> news_item list" where
  "news_of_feed symbol items =
     map (\<lambda>(t, l). \<lparr>ne_title = or_blank t, ne_link = or_blank l,
                    ne_score = keyword_score (or_blank t) good_words bad_words\<rparr>)
       (filter (\<lambda>(t, l). str_contains (py_lower symbol) (py_lower (or_blank t))
                         \<or> str_contains ''bitcoin'' (py_lower (or_blank t))) (take 8 items))"

text \<open>The addresses of the feeds in the configuration of a source.\<close>

fun as_text :: "json \<Rightarrow> string res" where
  "as_text (JStr s) = Inr s"
| "as_text j = Inl AttributeError"

definition feed_urls :: "string \<Rightarrow> 'w collectors \<Rightarrow> string list res" where
  "feed_urls source c =
     bindE (case dict_get (co_sources c) source of None \<Rightarrow> Inl (KeyError source) | Some cfg \<Rightarrow> jindex ''feeds'' cfg)
       (\<lambda>fs. bindE (json_rows fs) (mapE as_text))"

fun read_feeds :: "'w data_feeds \<Rightarrow> string list \<Rightarrow> ('w collectors, (string option \<times> string option) list list) py" where
  "read_feeds F [] = returnS []"
| "read_feeds F (u # us) =
     bindS (read_with_retry ''read_xml'' (fd_xml F u)) (\<lambda>items.
     bindS (read_feeds F us) (\<lambda>rest. returnS (items # rest)))"

definition ranked_news :: "news_item list \<Rightarrow> news_item list" where
  "ranked_news out = take 15 (sort_key (\<lambda>x. - ne_score x) out)"

definition collect_news :: "'w data_feeds \<Rightarrow> string \<Rightarrow> real \<Rightarrow> ('w collectors, news_item list) py" where
  "collect_news F symbol timeout_s c =
     bindS (liftS (feed_urls ''news'' c)) (\<lambda>urls. bindS (read_feeds F urls)
       (\<lambda>feeds. returnS (ranked_news (concat (map (news_of_feed symbol) feeds))))) c"

record social =
  sl_mentions :: nat
  sl_samples :: "string list"

text \<open>\<open>parse.quote\<close>.\<close>

definition hex_digit :: "nat \<Rightarrow> char" where
  "hex_digit n = ''0123456789ABCDEF'' ! n"

definition url_quote :: "string \<Rightarrow> string" where
  "url_quote s = concat (map (\<lambda>c.
     if is_alnum c \<or> c \<in> {CHR ''_'', CHR ''.'', CHR ''-'', CHR ''~'', CHR ''/''} then [c]
     else let n = of_char c :: nat in [CHR ''%'', hex_digit (n div 16), hex_digit (n mod 16)]) s)"

definition social_of_feeds :: "(string option \<times> string option) list list \<Rightarrow> social" where
  "social_of_feeds feeds =
     (let titles = map (\<lambda>items. map (\<lambda>(t, l). or_blank t) (take 20 items)) feeds
      in \<lparr>sl_mentions = sum_list (map length titles), sl_samples = take 6 (concat (map (take 3) titles))\<rparr>)"

definition collect_social_sentiment :: "'w data_feeds \<Rightarrow> string \<Rightarrow> real \<Rightarrow> ('w collectors, social) py" where
  "collect_social_sentiment F symbol timeout_s c =
     bindS (liftS (feed_urls ''social_sentiment'' c)) (\<lambda>urls.
     bindS (read_feeds F (map (str_replace ''{keyword}'' (url_quote (py_lower symbol))) urls))
       (\<lambda>feeds. returnS (social_of_feeds feeds))) c"

record collected =
  cd_ohlc :: "ohlc list option"
  cd_fear_greed :: "fear_greed option"
  cd_news :: "news_item list option"
  cd_social :: "social option"
  cd_health :: "(string \<times> source_result) list"
  cd_degraded :: bool

definition collect_all :: "'w data_feeds \<Rightarrow> string \<Rightarrow> ('w collectors, collected) py" where
  "collect_all F symbol =
     bindS (modifyS (\<lambda>c. c\<lparr>co_health := []\<rparr>)) (\<lambda>_.
     bindS (guarded_collect F ''price_ohlc'' (collect_binance_ohlc F symbol)) (\<lambda>p.
     bindS (guarded_collect F ''fear_greed'' (collect_fear_greed F)) (\<lambda>g.
     bindS (guarded_collect F ''news'' (collect_news F symbol)) (\<lambda>n.
     bindS (guarded_collect F ''social_sentiment'' (collect_social_sentiment F symbol)) (\<lambda>s c.
       (Inr \<lparr>cd_ohlc = p, cd_fear_greed = g, cd_news = n, cd_social = s, cd_health = co_health c,
             cd_degraded = (\<exists>h \<in> set (co_health c). \<not> so_ok (snd h))\<rparr>, c))))))"

end
