(* ===== verification/Collector_Properties.thy ===== *)
theory Collector_Properties
  imports Collectors Resilience_Properties
begin

text \<open>
  The collectors of public data: how many calls an hourly quota lets through, and that a collection
  that is allowed to be incomplete never fails and says what is missing.
\<close>

section \<open>The quota\<close>

fun allowed_at :: "quota \<Rightarrow> real list \<Rightarrow> real list" where
  "allowed_at q [] = []"
| "allowed_at q (t # ts) =
     (let (ok, q') = quota_allow t q in if ok then t # allowed_at q' ts else allowed_at q' ts)"

definition in_hour :: "real \<Rightarrow> real list \<Rightarrow> int" where
  "in_hour a ts = int (length (filter (\<lambda>t. a \<le> t \<and> t < a + 3600) ts))"

lemma in_hour_simps [simp]:
  "in_hour a [] = 0" "in_hour a (t # ts) = (if a \<le> t \<and> t < a + 3600 then 1 else 0) + in_hour a ts"
  by (simp_all add: in_hour_def)

lemma allowed_subset: "set (allowed_at q ts) \<subseteq> set ts"
  by (induction ts arbitrary: q) (auto simp: Let_def split: prod.splits)

lemma in_hour_none: "\<forall>t \<in> set ts. a + 3600 \<le> t \<Longrightarrow> in_hour a ts = 0"
  by (induction ts) auto

lemma hour_before_reset:
  "sorted ts \<Longrightarrow> a \<le> qt_start q \<Longrightarrow> in_hour a (allowed_at q ts) \<le> max 0 (qt_max q - qt_used q)"
proof (induction ts arbitrary: q)
  case (Cons t ts)
  show ?case
  proof (cases "3600 \<le> t - qt_start q")
    case True
    have "\<forall>u \<in> set (allowed_at q (t # ts)). a + 3600 \<le> u"
    proof
      fix u assume "u \<in> set (allowed_at q (t # ts))"
      then have "u \<in> set (t # ts)" using allowed_subset by blast
      then have "t \<le> u" using Cons.prems(1) by auto
      then show "a + 3600 \<le> u" using True Cons.prems(2) by linarith
    qed
    then show ?thesis by (simp add: in_hour_none del: allowed_at.simps)
  next
    case False
    let ?q = "q\<lparr>qt_used := qt_used q + 1\<rparr>"
    show ?thesis
    proof (cases "qt_max q \<le> qt_used q")
      case True
      then show ?thesis using False Cons.prems Cons.IH [of q] by (simp add: quota_allow_def Let_def)
    next
      case under: False
      then have "in_hour a (allowed_at ?q ts) \<le> max 0 (qt_max q - (qt_used q + 1))"
        using Cons.IH [of ?q] Cons.prems by simp
      then show ?thesis using False under by (auto simp: quota_allow_def Let_def)
    qed
  qed
qed simp

lemma hour_from_now:
  assumes "sorted ts" "\<forall>t \<in> set ts. a \<le> t" "0 \<le> qt_used q" "qt_used q \<le> max 0 (qt_max q)"
  shows "in_hour a (allowed_at q ts) \<le> max 0 (2 * qt_max q - qt_used q)"
  using assms
proof (induction ts arbitrary: q)
  case (Cons t ts)
  show ?case
  proof (cases "3600 \<le> t - qt_start q")
    case True
    let ?q = "q\<lparr>qt_start := t, qt_used := 0\<rparr>" and ?q1 = "q\<lparr>qt_start := t, qt_used := 1\<rparr>"
    have "in_hour a (allowed_at ?q ts) \<le> max 0 (qt_max q)" "in_hour a (allowed_at ?q1 ts) \<le> max 0 (qt_max q - 1)"
      using hour_before_reset [of ts a ?q] hour_before_reset [of ts a ?q1] Cons.prems by simp_all
    then show ?thesis using True Cons.prems(3,4) by (auto simp: quota_allow_def Let_def)
  next
    case False
    let ?q = "q\<lparr>qt_used := qt_used q + 1\<rparr>"
    show ?thesis
    proof (cases "qt_max q \<le> qt_used q")
      case True
      then show ?thesis using False Cons by (simp add: quota_allow_def Let_def)
    next
      case under: False
      then have "in_hour a (allowed_at ?q ts) \<le> max 0 (2 * qt_max q - (qt_used q + 1))"
        using Cons.IH [of ?q] Cons.prems by simp
      then show ?thesis using False under Cons.prems(3) by (auto simp: quota_allow_def Let_def)
    qed
  qed
qed simp

lemma hour_bound:
  assumes "sorted ts" "0 \<le> qt_used q" "qt_used q \<le> max 0 (qt_max q)"
  shows "in_hour a (allowed_at q ts) \<le> 2 * max 0 (qt_max q)"
  using assms
proof (induction ts arbitrary: q)
  case (Cons t ts)
  show ?case
  proof (cases "a \<le> t")
    case True
    then have "\<forall>u \<in> set (t # ts). a \<le> u" using Cons.prems(1) by auto
    from hour_from_now [OF Cons.prems(1) this Cons.prems(2,3)] show ?thesis using Cons.prems(2) by linarith
  next
    case False
    obtain ok q' where q': "quota_allow t q = (ok, q')" by force
    then have "0 \<le> qt_used q'" "qt_used q' \<le> max 0 (qt_max q')" "qt_max q' = qt_max q"
      using Cons.prems(2,3) by (auto simp: quota_allow_def Let_def split: if_splits)
    then have "in_hour a (allowed_at q' ts) \<le> 2 * max 0 (qt_max q)" using Cons.IH [of q'] Cons.prems(1) by simp
    then show ?thesis using q' False by simp
  qed
qed simp

text \<open>However the calls fall, while the clock does not run backwards, no period of an hour has more
  than twice the quota of a source let through: the windows are fixed, so the end of one and the
  beginning of the next can both be used up.\<close>

theorem quota_bounds_every_hour:
  assumes "sorted ts" and "0 \<le> n"
  shows "length (filter (\<lambda>t. a \<le> t \<and> t < a + 3600) (allowed_at (init_quota t0 n) ts)) \<le> 2 * nat n"
  using hour_bound [of ts "init_quota t0 n" a] assms by (simp add: init_quota_def in_hour_def)

theorem quota_bounds_every_hour_witness:
  "allowed_at (init_quota 0 1) [3599, 3600, 3601] = [3599, 3600]
   \<and> length (filter (\<lambda>t. 3599 \<le> t \<and> t < 3599 + 3600) (allowed_at (init_quota 0 1) [3599, 3600, 3601])) \<le> 2"
  using quota_bounds_every_hour [of "[3599, 3600, 3601]" 1 3599 0]
  by (simp add: init_quota_def quota_allow_def)

section \<open>What a collection leaves alone\<close>

definition same_setting :: "'w collectors \<Rightarrow> 'w collectors \<Rightarrow> bool" where
  "same_setting c c' \<longleftrightarrow> co_offline c' = co_offline c \<and> co_sources c' = co_sources c \<and> co_health c' = co_health c
     \<and> co_quotas c' = co_quotas c \<and> co_limiters c' = co_limiters c"

definition steady :: "('w collectors, 'a) py \<Rightarrow> bool" where
  "steady f \<longleftrightarrow> (\<forall>c. same_setting c (snd (f c)))"

lemma same_setting_refl [simp]: "same_setting c c"
  by (simp add: same_setting_def)

lemma same_setting_trans: "same_setting a b \<Longrightarrow> same_setting b c \<Longrightarrow> same_setting a c"
  by (simp add: same_setting_def)

lemma steady_bind: "steady f \<Longrightarrow> (\<And>a. steady (g a)) \<Longrightarrow> steady (bindS f g)"
  unfolding steady_def bindS_def
  by (auto split: prod.split sum.split) (metis same_setting_trans snd_conv)+

lemma steady_simple [simp]: "steady (Pair (Inr a))" "steady (returnS a)" "steady (liftS r)" "steady (on_feeds f)"
  by (simp_all add: steady_def returnS_def liftS_def on_feeds_def same_setting_def split: prod.split)

lemma steady_app: "steady f \<Longrightarrow> f c = (r, c1) \<Longrightarrow> same_setting c c1"
  unfolding steady_def by (metis snd_conv)

lemma steady_retry_loop:
  assumes "steady f" and "retry_loop policy op f k e c = (r, c', sleeps)"
  shows "same_setting c c'"
  using assms(2)
proof (induction "max_attempts policy - k" arbitrary: k e c r c' sleeps)
  case 0
  then show ?case by (subst (asm) retry_loop.simps) (simp split: option.splits)
next
  case (Suc n)
  have k: "k < max_attempts policy" using Suc.hyps(2) by simp
  obtain x c1 where f: "f c = (x, c1)" by force
  have c1: "same_setting c c1" by (rule steady_app [OF assms(1) f])
  show ?case
  proof (cases x)
    case (Inr a)
    then show ?thesis using Suc.prems c1 k by (simp add: retry_loop.simps [of policy op f k] f)
  next
    case (Inl e')
    obtain r1 c2 s1 where l: "retry_loop policy op f (k + 1) (Some e') c1 = (r1, c2, s1)"
      by (rule prod_cases3)
    have "same_setting c1 c2" using Suc.hyps(1) [OF _ l] Suc.hyps(2) by simp
    moreover have "c' = c2" using Suc.prems Inl l k by (simp add: retry_loop.simps [of policy op f k] f)
    ultimately show ?thesis using same_setting_trans [OF c1] by simp
  qed
qed

lemma steady_read [simp]: "steady (read_with_retry op f)"
  unfolding steady_def
proof
  fix c :: "'a collectors"
  obtain r c' sleeps where "with_retry \<lparr>max_attempts = 3, base_delay = 1 / 5\<rparr> op (on_feeds f) c = (r, c', sleeps)"
    by (rule prod_cases3)
  then show "same_setting c (snd (read_with_retry op f c))"
    using steady_retry_loop [OF steady_simple(4)] by (simp add: read_with_retry_def with_retry_def)
qed

lemma steady_feeds [simp]: "steady (read_feeds F us)"
  by (induction us) (auto intro!: steady_bind)

lemma steady_reading:
  "steady (bindS (liftS u) (\<lambda>urls. bindS (read_feeds F (h urls)) (\<lambda>feeds. returnS (g feeds))))"
  by (intro steady_bind) simp_all

lemma steady_collectors [simp]:
  "steady (collect_binance_ohlc F symbol t)" "steady (collect_fear_greed F t)"
  "steady (collect_news F symbol t)" "steady (collect_social_sentiment F symbol t)"
proof -
  show "steady (collect_binance_ohlc F symbol t)" "steady (collect_fear_greed F t)"
    unfolding collect_binance_ohlc_def collect_fear_greed_def by (auto intro!: steady_bind)
  show "steady (collect_news F symbol t)"
    unfolding steady_def collect_news_def
  proof
    fix c
    show "same_setting c (snd (bindS (liftS (feed_urls ''news'' c)) (\<lambda>urls. bindS (read_feeds F urls)
       (\<lambda>feeds. returnS (ranked_news (concat (map (news_of_feed symbol) feeds))))) c))"
      by (rule steady_reading [unfolded steady_def, THEN spec])
  qed
  show "steady (collect_social_sentiment F symbol t)"
    unfolding steady_def collect_social_sentiment_def
  proof
    fix c
    show "same_setting c (snd (bindS (liftS (feed_urls ''social_sentiment'' c)) (\<lambda>urls.
       bindS (read_feeds F (map (str_replace ''{keyword}'' (url_quote (py_lower symbol))) urls))
         (\<lambda>feeds. returnS (social_of_feeds feeds))) c))"
      by (rule steady_reading [unfolded steady_def, THEN spec])
  qed
qed

lemma same_setting_time [simp]: "same_setting c (snd (co_time c))"
  by (simp add: co_time_def same_setting_def)

lemma steady_timeout:
  fixes fn :: "real \<Rightarrow> ('w collectors, 'a) py"
  assumes "\<And>t. steady (fn t)" shows "steady (with_timeout t fn)"
  unfolding steady_def
proof
  fix c :: "'w collectors"
  obtain t0 c1 where t0: "co_time c = (t0, c1)" by force
  obtain r c2 where r: "fn t c1 = (r, c2)" by force
  obtain t1 c3 where t1: "co_time c2 = (t1, c3)" by force
  have "same_setting c c1" "same_setting c2 c3"
    using same_setting_time [of c] same_setting_time [of c2] by (simp_all add: t0 t1)
  moreover have "same_setting c1 c2" by (rule steady_app [OF assms r])
  ultimately have "same_setting c c2" "same_setting c c3" using same_setting_trans by blast+
  then show "same_setting c (snd (with_timeout t fn c))"
    by (simp add: with_timeout_def t0 r t1 split: sum.split)
qed

section \<open>A collection that may be incomplete\<close>

definition ready :: "string list \<Rightarrow> 'w collectors \<Rightarrow> bool" where
  "ready names c \<longleftrightarrow> co_offline c
     \<and> (\<forall>k \<in> set names. dict_get (co_sources c) k \<noteq> None \<and> map_of (co_quotas c) k \<noteq> None \<and> map_of (co_limiters c) k \<noteq> None)"

lemma ready_same: "same_setting c c' \<Longrightarrow> ready names c \<Longrightarrow> ready names c'"
  by (simp add: same_setting_def ready_def)

lemma ready_updates:
  "ready names c \<Longrightarrow> ready names (c\<lparr>co_quotas := AList.update k q (co_quotas c)\<rparr>)"
  "ready names c \<Longrightarrow> ready names (c\<lparr>co_limiters := AList.update k l (co_limiters c)\<rparr>)"
  "ready names (c\<lparr>co_health := h\<rparr>) \<longleftrightarrow> ready names c"
  "ready names (c\<lparr>co_clock := t\<rparr>) \<longleftrightarrow> ready names c"
  by (auto simp: ready_def update_conv')

lemma timed_collection:
  assumes "\<And>t. steady (fn t)" and "ready names c"
  shows "\<exists>r c' h. collect_timed F source cfg started fn c = (Inr r, c') \<and> ready names c'
     \<and> co_health c' = AList.update source h (co_health c) \<and> (so_ok h \<longleftrightarrow> r \<noteq> None)"
proof -
  obtain x c1 where x: "(case bindE (jindex ''timeout_seconds'' cfg) finite_float of
              Inl e \<Rightarrow> (Inl e, c) | Inr timeout_s \<Rightarrow> with_timeout timeout_s fn c) = (x, c1)" by force
  have c1: "same_setting c c1"
    using x steady_app [OF steady_timeout [OF assms(1)]] by (auto split: sum.splits)
  obtain now c2 where t: "co_time c1 = (now, c2)" by force
  have c2: "same_setting c c2" using same_setting_time [of c1] same_setting_trans [OF c1] by (simp add: t)
  have off: "co_offline c" using assms(2) by (simp add: ready_def)
  have rd: "ready names c2" using ready_same [OF c2 assms(2)] .
  have hh: "co_health c2 = co_health c" "co_offline c2" using c2 off by (simp_all add: same_setting_def)
  show ?thesis
    by (cases x) (auto simp: collect_timed_def x t set_health_def hh ready_updates rd)
qed

lemma one_source:
  assumes "\<And>t. steady (fn t)" and "ready names c" and "source \<in> set names"
  shows "\<exists>r c' h. guarded_collect F source fn c = (Inr r, c') \<and> ready names c'
     \<and> co_health c' = AList.update source h (co_health c) \<and> (so_ok h \<longleftrightarrow> r \<noteq> None)"
proof -
  obtain cfg where cfg: "dict_get (co_sources c) source = Some cfg" using assms(2,3) unfolding ready_def by blast
  obtain started c1 where t: "co_time c = (started, c1)" by force
  have rd1: "ready names c1" and h1: "co_health c1 = co_health c"
    using t assms(2) by (auto simp: co_time_def ready_updates)
  obtain q where q: "map_of (co_quotas c1) source = Some q" using rd1 assms(3) unfolding ready_def by blast
  obtain now c2 where t2: "co_time c1 = (now, c2)" by force
  obtain ok q' where ok: "quota_allow now q = (ok, q')" by force
  define c3 where "c3 = c2\<lparr>co_quotas := AList.update source q' (co_quotas c2)\<rparr>"
  have a: "ask_quota source c1 = (Inr ok, c3)" by (simp add: ask_quota_def q t2 ok c3_def)
  have "ready names c2" and h2: "co_health c2 = co_health c"
    using t2 rd1 h1 by (auto simp: co_time_def ready_updates)
  then have rd3: "ready names c3" and h3: "co_health c3 = co_health c"
    unfolding c3_def by (auto intro: ready_updates(1))
  show ?thesis
  proof (cases ok)
    case False
    then show ?thesis
      by (auto simp: guarded_collect_def cfg t bindS_def a modifyS_def returnS_def set_health_def ready_updates rd3 h3)
  next
    case True
    obtain l where l: "map_of (co_limiters c3) source = Some l" using rd3 assms(3) unfolding ready_def by blast
    obtain now2 c4 where t4: "co_time c3 = (now2, c4)" by force
    obtain d l' where w: "wait_slot now2 l = (d, l')" by force
    define c5 where "c5 = c4\<lparr>co_limiters := AList.update source l' (co_limiters c4)\<rparr>"
    have ws: "wait_source source c3 = (Inr (), c5)" by (simp add: wait_source_def l t4 w c5_def)
    have "ready names c4" and h4: "co_health c4 = co_health c"
      using t4 rd3 h3 by (auto simp: co_time_def ready_updates)
    then have rd5: "ready names c5" and h5: "co_health c5 = co_health c"
      unfolding c5_def by (auto intro: ready_updates(2))
    show ?thesis
      using timed_collection [OF assms(1) rd5, of F source cfg started] True
      by (simp add: guarded_collect_def cfg t bindS_def a ws h5)
  qed
qed

lemma init_ready:
  assumes "init_collectors yaml True clk net = Inr c" and "\<forall>k \<in> set names. dict_get (co_sources c) k \<noteq> None"
  shows "ready names c"
proof -
  have "map fst as = map fst ds" if "per_source f ds t = Inr as" for f ds t and as :: "(string \<times> 'z) list"
    using that by (induction f ds t arbitrary: as rule: per_source.induct) (auto simp: bindE_Inr_iff)
  then have keys: "fst ` set as = fst ` set ds" if "per_source f ds t = Inr as" for f ds t and as :: "(string \<times> 'z) list"
    using that by (metis list.set_map)
  from assms(1) obtain sources ls qs where "load_source_limits yaml = Inr sources" "per_source source_limiter sources clk = Inr ls"
      "per_source source_quota sources (\<lambda>i. clk (length sources + i)) = Inr qs"
      and c: "co_sources c = sources" "co_limiters c = ls" "co_quotas c = qs" "co_offline c"
    unfolding init_collectors_def bindE_Inr_iff by force
  then have "fst ` set ls = fst ` set sources" "fst ` set qs = fst ` set sources" using keys by blast+
  with assms(2) c show ?thesis
    by (auto simp: ready_def dict_get_def map_of_eq_None_iff)
qed

definition source_names :: "string list" where
  "source_names = [''price_ohlc'', ''fear_greed'', ''news'', ''social_sentiment'']"

text \<open>C29: When the collectors may be incomplete and the four sources are configured, a collection never
  raises, whatever the network, the answers, the clock and the other settings of the sources are: it
  reports on all four sources in their order, a part is missing exactly when its source is not well,
  and the whole is degraded exactly when a part is missing.\<close>

theorem offline_collection_never_raises:
  assumes "init_collectors yaml True clk net = Inr c"
    and "\<forall>k \<in> set source_names. dict_get (co_sources c) k \<noteq> None"
  shows "\<exists>p c'. collect_all F symbol c = (Inr p, c')
     \<and> map fst (cd_health p) = source_names
     \<and> map (\<lambda>h. so_ok (snd h)) (cd_health p)
         = [cd_ohlc p \<noteq> None, cd_fear_greed p \<noteq> None, cd_news p \<noteq> None, cd_social p \<noteq> None]
     \<and> (cd_degraded p \<longleftrightarrow> cd_ohlc p = None \<or> cd_fear_greed p = None \<or> cd_news p = None \<or> cd_social p = None)"
proof -
  let ?c = "c\<lparr>co_health := []\<rparr>"
  have "ready source_names ?c" using init_ready [OF assms] by (simp add: ready_updates)
  then obtain r1 c1 h1 where 1: "guarded_collect F ''price_ohlc'' (collect_binance_ohlc F symbol) ?c = (Inr r1, c1)"
      "ready source_names c1" "co_health c1 = [(''price_ohlc'', h1)]" "so_ok h1 \<longleftrightarrow> r1 \<noteq> None"
    using one_source [of "collect_binance_ohlc F symbol" source_names ?c "''price_ohlc''" F] by (auto simp: source_names_def)
  then obtain r2 c2 h2 where 2: "guarded_collect F ''fear_greed'' (collect_fear_greed F) c1 = (Inr r2, c2)"
      "ready source_names c2" "co_health c2 = [(''price_ohlc'', h1), (''fear_greed'', h2)]" "so_ok h2 \<longleftrightarrow> r2 \<noteq> None"
    using one_source [of "collect_fear_greed F" source_names c1 "''fear_greed''" F] by (auto simp: source_names_def)
  then obtain r3 c3 h3 where 3: "guarded_collect F ''news'' (collect_news F symbol) c2 = (Inr r3, c3)"
      "ready source_names c3" "co_health c3 = [(''price_ohlc'', h1), (''fear_greed'', h2), (''news'', h3)]" "so_ok h3 \<longleftrightarrow> r3 \<noteq> None"
    using one_source [of "collect_news F symbol" source_names c2 "''news''" F] by (auto simp: source_names_def)
  then obtain r4 c4 h4 where 4: "guarded_collect F ''social_sentiment'' (collect_social_sentiment F symbol) c3 = (Inr r4, c4)"
      "co_health c4 = [(''price_ohlc'', h1), (''fear_greed'', h2), (''news'', h3), (''social_sentiment'', h4)]" "so_ok h4 \<longleftrightarrow> r4 \<noteq> None"
    using one_source [of "collect_social_sentiment F symbol" source_names c3 "''social_sentiment''" F] by (auto simp: source_names_def)
  show ?thesis
    using 1(4) 2(4) 3(4) 4(3)
    by (simp add: collect_all_def bindS_def modifyS_def 1(1) 2(1) 3(1) 4(1) 4(2) source_names_def)
qed

definition dead_feeds :: "unit data_feeds" where
  "dead_feeds = \<lparr>fd_json = (\<lambda>u w. (Inl TimeoutException, w)), fd_xml = (\<lambda>u w. (Inl TimeoutException, w)), fd_text = (\<lambda>e. ''timeout'')\<rparr>"

definition sample_limits :: json where
  "sample_limits = JObj [(''sources'', JObj (map (\<lambda>k. (k, JObj [(''budget_per_hour'', num 60), (''timeout_seconds'', num 5)])) source_names))]"

theorem offline_collection_never_raises_witness:
  "\<exists>c p c'. init_collectors sample_limits True real () = Inr c
     \<and> collect_all dead_feeds ''BTC'' c = (Inr p, c') \<and> map fst (cd_health p) = source_names"
proof -
  let ?d = "JObj [(''budget_per_hour'', num 60), (''timeout_seconds'', num 5)]"
  obtain c where c: "init_collectors sample_limits True real () = Inr c" "co_sources c = map (\<lambda>k. (k, ?d)) source_names"
    by (simp add: sample_limits_def source_names_def init_collectors_def load_source_limits_def dict_get_def source_limiter_def
        source_quota_def finite_float_def)
  then have "\<forall>k \<in> set source_names. dict_get (co_sources c) k \<noteq> None"
    by (auto simp: source_names_def dict_get_def)
  from offline_collection_never_raises [OF c(1) this, of dead_feeds "''BTC''"] c(1) show ?thesis by blast
qed

text \<open>
  The quotas live in memory: a new object starts with all of them, so a program that collects once in
  a run, as the orchestrated run does, is never held back by them.
\<close>

theorem first_collection_is_never_limited:
  assumes "1 \<le> n"
  shows "fst (quota_allow now (init_quota t0 n))"
  using assms by (simp add: quota_allow_def init_quota_def Let_def)

end
