(* ===== verification/Error_Scripts.thy ===== *)
theory Error_Scripts
  imports Error_Memory "HOL-Library.AList"
begin

text \<open>
  \<^verbatim>\<open>src/scripts/error_fingerprinter.py\<close>, which the logger calls on every error, and
  \<^verbatim>\<open>src/scripts/diagnose_pending_errors.py\<close>, over the same file as \<^verbatim>\<open>core/diagnostics/fingerprinter.py\<close>.
  The timestamps in the file are texts or absent; any other counts as one that cannot be sorted.
\<close>

section \<open>Fingerprints\<close>

text \<open>A date and a time joined by a T.\<close>

definition stamp :: matcher where
  "stamp prev s =
     (if groups is_digit (CHR ''-'') [4, 2, 2] s \<and> 10 < length s \<and> s ! 10 = CHR ''T''
         \<and> groups is_digit (CHR '':'') [2, 2, 2] (drop 11 s)
      then Some (''<TIMESTAMP>'', 19) else None)"

definition clean_message :: "string \<Rightarrow> string" where
  "clean_message s0 =
     (let s1 = re_sub stamp None s0;
          s2 = re_sub (tagged is_hex ''0x'' ''<ADDR>'') None s1;
          s3 = re_sub (grouped is_lower_hex (CHR ''-'') [8, 4, 4, 4, 12] ''<UUID>'') None s2
      in re_sub (tagged is_digit [] ''<NUM>'') None s3)"

definition get_fingerprint :: "(string \<Rightarrow> string) \<Rightarrow> string \<Rightarrow> string" where
  "get_fingerprint md5 s = md5 (clean_message s)"

section \<open>The file as a dict\<close>

type_synonym known_errors = "(json \<times> (string \<times> json) list) list"

fun is_key :: "json \<Rightarrow> bool" where
  "is_key (JArr xs) = False"
| "is_key (JObj d) = False"
| "is_key j = True"

text \<open>Any exception but that of the parser leaves the loop with what has been read.\<close>

fun read_known :: "mem_line list \<Rightarrow> known_errors \<Rightarrow> known_errors" where
  "read_known [] known = known"
| "read_known (Entry_Line (JObj e) # ls) known =
     (case dict_get e ''fingerprint'' of
        None \<Rightarrow> known
      | Some fp \<Rightarrow> if is_key fp then read_known ls (AList.update fp e known) else known)"
| "read_known (Entry_Line j # ls) known = known"
| "read_known (l # ls) known = read_known ls known"

definition load_known_errors :: "mem_file \<Rightarrow> known_errors" where
  "load_known_errors file = (case file of Lines ls \<Rightarrow> read_known ls [] | _ \<Rightarrow> [])"

fun first_seen :: "(string \<times> json) list \<Rightarrow> string option" where
  "first_seen e = (case jget_or e ''timestamp'' (JStr []) of JStr t \<Rightarrow> Some t | _ \<Rightarrow> None)"

text \<open>\<open>sorted(..., reverse=True)\<close>.\<close>

fun insert_late :: "string \<Rightarrow> string list \<Rightarrow> string list" where
  "insert_late t [] = [t]"
| "insert_late t (u # us) = (if str_less t u then u # insert_late t us else t # u # us)"

definition latest_first :: "string list \<Rightarrow> string list" where
  "latest_first ts = foldr insert_late ts []"

definition entry_of_time :: "known_errors \<Rightarrow> string \<Rightarrow> (string \<times> json) list option" where
  "entry_of_time errors t = find (\<lambda>e. jget e ''timestamp'' = JStr t) (map snd errors)"

text \<open>The header is written before the timestamps are sorted.\<close>

definition save_known_errors :: "known_errors \<Rightarrow> unit res \<times> mem_file" where
  "save_known_errors errors =
     (let times = map (first_seen \<circ> snd) errors
      in if None \<in> set times then (Inl TypeError, Lines [Meta_Line])
         else (Inr (), Lines (Meta_Line # map (Entry_Line \<circ> JObj)
                (List.map_filter (entry_of_time errors) (latest_first (List.map_filter id times))))))"

section \<open>Capturing\<close>

definition needs_diagnosis :: json where
  "needs_diagnosis = JStr ''NEEDS_DIAGNOSIS''"

definition script_seen :: "string \<Rightarrow> string \<Rightarrow> string \<Rightarrow> (string \<times> json) list \<Rightarrow> (string \<times> json) list res" where
  "script_seen now solution root_cause e =
     bindE (add_one (jget_or e ''occurrences'' (JNum (Fin 0)))) (\<lambda>n.
       let e1 = jset ''last_seen'' (JStr now) (jset ''occurrences'' n e)
       in Inr (if JStr solution \<noteq> needs_diagnosis \<and> jget e1 ''solution'' = needs_diagnosis
               then jset ''root_cause'' (JStr root_cause) (jset ''solution'' (JStr solution) e1) else e1))"

definition script_entry :: "string \<Rightarrow> report \<Rightarrow> (string \<times> json) list" where
  "script_entry fp c =
     [(''fingerprint'', JStr fp), (''error_snippet'', JStr (take 200 (re_text c))), (''solution'', JStr (re_solution c)),
      (''root_cause'', JStr (re_root_cause c)), (''occurrences'', JNum (Fin 1)), (''timestamp'', JStr (re_t1 c)),
      (''last_seen'', JStr (re_t2 c))]"

definition ensure_memory_init :: "mem_file \<Rightarrow> mem_file" where
  "ensure_memory_init file = (if file = No_Memory then Lines [Meta_Line] else file)"

definition script_capture :: "(string \<Rightarrow> string) \<Rightarrow> report \<Rightarrow> mem_file \<Rightarrow> unit res \<times> mem_file" where
  "script_capture md5 c file0 =
     (let file = ensure_memory_init file0; known = load_known_errors file; fp = get_fingerprint md5 (re_text c)
      in case map_of known (JStr fp) of
           None \<Rightarrow> save_known_errors (known @ [(JStr fp, script_entry fp c)])
         | Some e \<Rightarrow>
             (case script_seen (re_t1 c) (re_solution c) (re_root_cause c) e of
                Inl x \<Rightarrow> (Inl x, file)
              | Inr e' \<Rightarrow> save_known_errors (AList.update (JStr fp) e' known)))"

text \<open>
  \<open>AutonomousMemoryHandler.emit\<close> of \<^verbatim>\<open>core/logger.py\<close>: the message of an error with its traceback; an
  exception of the capture is printed and dropped.
\<close>

definition memory_emit ::
  "(string \<Rightarrow> string) \<Rightarrow> bool \<Rightarrow> string \<Rightarrow> string option \<Rightarrow> string \<Rightarrow> string \<Rightarrow> mem_file \<Rightarrow> mem_file" where
  "memory_emit md5 is_error message trace t1 t2 file =
     (if is_error
      then snd (script_capture md5 \<lparr>re_text = message @ (case trace of None \<Rightarrow> [] | Some t \<Rightarrow> CHR 0x0A # t),
             re_solution = ''NEEDS_DIAGNOSIS'', re_root_cause = ''Auto-captured from logger'', re_t1 = t1, re_t2 = t2\<rparr> file)
      else file)"

section \<open>Scanning the log\<close>

text \<open>
  The last 1000 lines of the log, \<open>None\<close> for one that is blank or does not parse; an entry that is no
  dict ends the scan with the errors found so far.
\<close>

fun scan_entries :: "json option list \<Rightarrow> (string \<times> json) list list" where
  "scan_entries [] = []"
| "scan_entries (None # ls) = scan_entries ls"
| "scan_entries (Some (JObj d) # ls) =
     (if jget d ''level'' = JStr ''ERROR'' then d # scan_entries ls else scan_entries ls)"
| "scan_entries (Some j # ls) = []"

definition scan_logs :: "json option list \<Rightarrow> (string \<times> json) list list" where
  "scan_logs ls = scan_entries (last_n 1000 ls)"

definition raw_message :: "(string \<times> json) list \<Rightarrow> json" where
  "raw_message err =
     (let ev = jget_or err ''event'' (JStr [])
      in if jtrue ev then ev else jget_or err ''message'' (JStr ''Unknown Error''))"

fun process_entries ::
  "(string \<Rightarrow> string) \<Rightarrow> string \<Rightarrow> (string \<times> json) list list \<Rightarrow> known_errors \<Rightarrow> known_errors res" where
  "process_entries md5 now [] known = Inr known"
| "process_entries md5 now (err # errs) known =
     (case raw_message err of
        JStr msg \<Rightarrow>
          (let fp = JStr (get_fingerprint md5 msg)
           in case map_of known fp of
                Some e \<Rightarrow> bindE (add_one (jget_or e ''occurrences'' (JNum (Fin 0)))) (\<lambda>n.
                    process_entries md5 now errs
                      (AList.update fp (jset ''last_seen'' (JStr now) (jset ''occurrences'' n e)) known))
              | None \<Rightarrow> process_entries md5 now errs (known @ [(fp,
                  [(''fingerprint'', fp), (''error_snippet'', JStr (take 200 msg)), (''solution'', needs_diagnosis),
                   (''occurrences'', JNum (Fin 1)), (''timestamp'', JStr now), (''last_seen'', JStr now)])]))
      | _ \<Rightarrow> Inl TypeError)"

definition process_errors ::
  "(string \<Rightarrow> string) \<Rightarrow> string \<Rightarrow> json option list option \<Rightarrow> mem_file \<Rightarrow> unit res \<times> mem_file" where
  "process_errors md5 now lines file0 =
     (let file = ensure_memory_init file0
      in case process_entries md5 now (case lines of None \<Rightarrow> [] | Some ls \<Rightarrow> scan_logs ls) (load_known_errors file) of
           Inl e \<Rightarrow> (Inl e, file)
         | Inr known \<Rightarrow> save_known_errors known)"

section \<open>Diagnosing\<close>

definition list_pending :: "mem_file \<Rightarrow> json list res" where
  "list_pending file =
     (let memory = load_memory file
      in if list_all is_dict memory
         then Inr (filter (\<lambda>j. case j of JObj e \<Rightarrow> placeholder (jget e ''solution'') | _ \<Rightarrow> False) memory)
         else Inl AttributeError)"

fun solve_in :: "string \<Rightarrow> string \<Rightarrow> string \<Rightarrow> string \<Rightarrow> json list \<Rightarrow> json list option res" where
  "solve_in now fp solution root_cause [] = Inr None"
| "solve_in now fp solution root_cause (j # js) =
     (case j of
        JObj e \<Rightarrow>
          if jget e ''fingerprint'' = JStr fp
          then Inr (Some (JObj (jset ''diagnosed_by'' (JStr ''AI_AGENT'') (jset ''diagnosed_at'' (JStr now)
                 (jset ''root_cause'' (JStr root_cause) (jset ''solution'' (JStr solution) e)))) # js))
          else bindE (solve_in now fp solution root_cause js) (\<lambda>r. Inr (map_option ((#) j) r))
      | _ \<Rightarrow> Inl AttributeError)"

definition solve :: "string \<Rightarrow> string \<Rightarrow> string \<Rightarrow> string \<Rightarrow> mem_file \<Rightarrow> bool res \<times> mem_file" where
  "solve now fp solution root_cause file =
     (case solve_in now fp solution root_cause (load_memory file) of
        Inl e \<Rightarrow> (Inl e, file)
      | Inr None \<Rightarrow> (Inr False, file)
      | Inr (Some memory) \<Rightarrow> (Inr True, save_all memory))"

end
