(* ===== verification/System_Commands.thy ===== *)
theory System_Commands
  imports Command_Line Log_Scrubber
begin

text \<open>
  The commands about the installation: \<^verbatim>\<open>commands/system.py\<close> (\<open>la status\<close>, \<open>la clean\<close>, \<open>la doctor\<close>), \<open>la
  backtest\<close> of \<^verbatim>\<open>commands/backtest.py\<close>, \<^verbatim>\<open>health.py\<close> and one round of
  \<^verbatim>\<open>src/scripts/monitor_heartbeat.py\<close>. What a command prints is a record of what it found.
\<close>

section \<open>\<open>la status\<close> and \<open>la clean\<close>\<close>

record status_report =
  sr_kill :: bool
  sr_agent :: "(int \<times> real \<times> real) option"    \<comment> \<open>process, megabytes and seconds\<close>
  sr_runs :: nat

record dir_entry =
  de_name :: string
  de_is_dir :: bool
  de_mtime :: real

definition is_run :: "dir_entry \<Rightarrow> bool" where
  "is_run d \<longleftrightarrow> de_is_dir d \<and> de_name d \<noteq> ''latest''"

definition env_or :: "environ \<Rightarrow> string \<Rightarrow> string \<Rightarrow> string" where
  "env_or env k d = (case map_of env k of None \<Rightarrow> d | Some v \<Rightarrow> v)"

definition status_command ::
  "environ \<Rightarrow> processes \<Rightarrow> lock_file \<Rightarrow> real \<Rightarrow> dir_entry list option \<Rightarrow> status_report" where
  "status_command env procs l now runs =
     \<lparr>sr_kill = (py_upper (env_or env ''LA_KILL_SWITCH'' ''FALSE'') = ''TRUE''),
      sr_agent = (case get_status procs l of
                    Not_Running \<Rightarrow> None
                  | Running pid created memory status \<Rightarrow>
                      Some (pid, of_int (case map_of memory ''rss'' of None \<Rightarrow> 0 | Some m \<Rightarrow> m) / 1024 / 1024, now - created)),
      sr_runs = (case runs of None \<Rightarrow> 0 | Some ds \<Rightarrow> length (filter is_run ds))\<rparr>"

definition clean_command :: "int \<Rightarrow> real \<Rightarrow> dir_entry list option \<Rightarrow> dir_entry list option \<times> nat" where
  "clean_command days now runs =
     (case runs of
        None \<Rightarrow> (None, 0)
      | Some ds \<Rightarrow>
          (let old = (\<lambda>d. is_run d \<and> of_int days * 86400 < now - de_mtime d)
           in (Some (filter (\<lambda>d. \<not> old d) ds), length (filter old ds))))"

section \<open>\<open>la doctor\<close>\<close>

text \<open>The files it looks at; the two with a version are their lines.\<close>

record install =
  in_workspace :: bool
  in_env_file :: bool
  in_env_example :: bool
  in_config :: bool
  in_pyproject :: "string list option"
  in_init :: "string list option"

text \<open>\<open>line.split("=")[1].strip().strip('"').strip("'")\<close>.\<close>

definition strip_char :: "char \<Rightarrow> string \<Rightarrow> string" where
  "strip_char c s = rev (dropWhile ((=) c) (rev (dropWhile ((=) c) s)))"

definition version_value :: "string \<Rightarrow> string" where
  "version_value line =
     strip_char (CHR 0x27) (strip_char (CHR 0x22)
       (py_strip (takeWhile ((\<noteq>) (CHR ''='')) (drop 1 (dropWhile ((\<noteq>) (CHR ''='')) line)))))"

definition version_in :: "string \<Rightarrow> string list option \<Rightarrow> string" where
  "version_in start ls =
     (case ls of
        None \<Rightarrow> ''Unknown''
      | Some lines \<Rightarrow>
          (case find (\<lambda>l. str_startswith start (py_strip l)) lines of
             None \<Rightarrow> ''Unknown''
           | Some l \<Rightarrow> version_value l))"

definition doctor_fix :: "install \<Rightarrow> install" where
  "doctor_fix i = i\<lparr>in_workspace := True, in_env_file := in_env_file i \<or> in_env_example i\<rparr>"

definition bitunix_status_ok :: "environ \<Rightarrow> bool" where
  "bitunix_status_ok env \<longleftrightarrow>
     \<not> ((map_of env ''LA_EXECUTION_MODE'' = Some ''live'' \<or> map_of env ''LA_SOURCE'' = Some ''bitunix'')
        \<and> (getenv env ''BITUNIX_API_KEY'' = [] \<or> getenv env ''BITUNIX_API_SECRET'' = []))"

definition doctor_checks :: "environ \<Rightarrow> install \<Rightarrow> (string \<times> bool) list" where
  "doctor_checks env i =
     [(''Python Version'', True), (''Repo Root'', True), (''.env file'', in_env_file i), (''Config Dir'', in_config i),
      (''Workspace'', in_workspace i), (''Pyproject.toml'', in_pyproject i \<noteq> None), (''Bitunix Keys'', bitunix_status_ok env)]"

record doctor_report =
  dr_checks :: "(string \<times> bool) list"
  dr_versions_match :: bool
  dr_connected :: "bool option"
  dr_hint :: bool

text \<open>\<open>pending\<close> is what \<open>get_pending_positions\<close> answers, asked for when both keys are there.\<close>

definition doctor_command ::
  "bool \<Rightarrow> environ \<Rightarrow> ('w, unit) py \<Rightarrow> install \<Rightarrow> 'w \<Rightarrow> doctor_report \<times> install \<times> 'w" where
  "doctor_command fix_it env pending i0 w0 =
     (let i = (if fix_it then doctor_fix i0 else i0);
          checks = doctor_checks env i;
          v1 = version_in ''version ='' (in_pyproject i); v2 = version_in ''__version__ ='' (in_init i);
          ask = bitunix_status_ok env \<and> getenv env ''BITUNIX_API_KEY'' \<noteq> [] \<and> getenv env ''BITUNIX_API_SECRET'' \<noteq> [];
          (answer, w) = (if ask then (case pending w0 of (r, w1) \<Rightarrow> (Some (case r of Inr u \<Rightarrow> True | Inl e \<Rightarrow> False), w1))
                         else (None, w0))
      in (\<lparr>dr_checks = checks, dr_versions_match = (v1 = v2 \<and> v1 \<noteq> ''Unknown''), dr_connected = answer,
           dr_hint = (\<not> fix_it \<and> (\<exists>c \<in> set checks. \<not> snd c))\<rparr>, i, w))"

section \<open>\<open>la backtest\<close>\<close>

record backtest_args =
  ba_symbol :: string
  ba_days :: int
  ba_interval :: string
  ba_risk_pct :: real
  ba_leverage :: real
  ba_stop_bps :: real
  ba_tp_r :: real

definition backtest_overrides :: "backtest_args \<Rightarrow> (string \<times> json) list" where
  "backtest_overrides a =
     [(''symbol'', JStr (str_replace ''-'' [] (str_replace ''/'' [] (py_upper (ba_symbol a))))),
      (''timeframe'', JStr (ba_interval a)),
      (''trading'', JObj [(''risk_pct'', num (ba_risk_pct a)), (''max_leverage'', num (ba_leverage a))])]"

text \<open>\<open>session\<close> is \<open>run_backtest_session\<close> on a configuration, up to the two numbers that are printed.\<close>

definition backtest_command ::
  "environ \<Rightarrow> (string \<times> json) list option \<Rightarrow> (string \<times> json) list option
   \<Rightarrow> ((string \<times> json) list \<Rightarrow> 'a res) \<Rightarrow> backtest_args \<Rightarrow> cli_end \<times> 'a option" where
  "backtest_command env base profile session a =
     (case load_profile env base profile (backtest_overrides a) of
        Inl e \<Rightarrow> (Crash e, None)
      | Inr config \<Rightarrow>
          (case session config of
             Inr stats \<Rightarrow> (Exit 0, Some stats)
           | Inl e \<Rightarrow> (Exit 1, None)))"

section \<open>\<^verbatim>\<open>health.py\<close>\<close>

record provider_health =
  ph_total :: nat
  ph_successful :: nat
  ph_failed :: nat
  ph_streak :: nat
  ph_last_error :: "string option"

definition new_health :: provider_health where
  "new_health = \<lparr>ph_total = 0, ph_successful = 0, ph_failed = 0, ph_streak = 0, ph_last_error = None\<rparr>"

definition health_success :: "provider_health \<Rightarrow> provider_health" where
  "health_success h = h\<lparr>ph_total := ph_total h + 1, ph_successful := ph_successful h + 1, ph_streak := ph_streak h + 1,
     ph_last_error := None\<rparr>"

definition health_failure :: "string \<Rightarrow> provider_health \<Rightarrow> provider_health" where
  "health_failure e h = h\<lparr>ph_total := ph_total h + 1, ph_failed := ph_failed h + 1, ph_streak := 0, ph_last_error := Some e\<rparr>"

definition health_score :: "provider_health \<Rightarrow> real" where
  "health_score h = (if ph_total h = 0 then 1 else real (ph_successful h) / real (ph_total h))"

definition provider_healthy :: "real \<Rightarrow> provider_health \<Rightarrow> bool" where
  "provider_healthy threshold h \<longleftrightarrow> threshold \<le> health_score h"

section \<open>\<^verbatim>\<open>scripts/monitor_heartbeat.py\<close>\<close>

text \<open>
  One round: \<open>now1\<close> and \<open>now2\<close> are its two readings of the clock; \<open>parsed\<close> is \<open>None\<close> where the text is no
  JSON. An exception is printed and leaves the count.
\<close>

definition script_monitor_round ::
  "real \<Rightarrow> real \<Rightarrow> (real \<times> json option) option \<Rightarrow> nat \<Rightarrow> alarm list \<times> nat" where
  "script_monitor_round now1 now2 beat stale =
     (case beat of
        None \<Rightarrow> ([], stale)
      | Some (mtime, parsed) \<Rightarrow>
          (case last_beat mtime parsed of
             Inl e \<Rightarrow> ([], stale)
           | Inr last_ts \<Rightarrow>
               if 5 < max (now2 - last_ts) (now1 - mtime)
               then (Stale # (if 3 \<le> Suc stale then [Frozen] else []), Suc stale)
               else ((if 0 < stale then [Recovered] else []), 0)))"

end
