(* ===== verification/Script_Properties.thy ===== *)
theory Script_Properties
  imports Error_Scripts System_Commands Config_Properties Orchestrator "HOL-Library.Multiset"
begin

text \<open>
  What the error file goes through in the hands of the scripts: a save keeps the errors whose first
  sight is dated and unique, and the cases in which it does not; what the scan of the log counts; and
  what the commands about the installation do with their options.
\<close>

section \<open>Saving and loading\<close>

lemma insert_late_perm: "mset (insert_late t ts) = add_mset t (mset ts)"
  by (induction ts) auto

lemma latest_first_perm [simp]: "mset (latest_first ts) = mset ts"
  unfolding latest_first_def by (induction ts) (auto simp: insert_late_perm)

lemma latest_first_set [simp]: "set (latest_first ts) = set ts"
  by (metis latest_first_perm mset_eq_setD)

lemma latest_first_distinct [simp]: "distinct (latest_first ts) \<longleftrightarrow> distinct ts"
  by (metis latest_first_perm mset_eq_imp_distinct_iff)

text \<open>Dated errors, each under its own fingerprint.\<close>

definition dated_errors :: "known_errors \<Rightarrow> bool" where
  "dated_errors errors \<longleftrightarrow>
     (\<forall>(k, e) \<in> set errors. is_key k \<and> dict_get e ''fingerprint'' = Some k \<and> (\<exists>t. dict_get e ''timestamp'' = Some (JStr t)))
     \<and> distinct (map fst errors)"

definition date_of :: "(string \<times> json) list \<Rightarrow> string" where
  "date_of e = (case dict_get e ''timestamp'' of Some (JStr t) \<Rightarrow> t | _ \<Rightarrow> [])"

lemma jget_dict: "jget d k = (case dict_get d k of None \<Rightarrow> JNull | Some v \<Rightarrow> v)"
  by (simp add: jget_def dict_get_def)

lemma first_seen_dated: "dict_get e ''timestamp'' = Some (JStr t) \<Longrightarrow> first_seen e = Some t \<and> date_of e = t"
  by (simp add: jget_or_def dict_get_def date_of_def)

lemma dated_entry:
  assumes "dated_errors errors" "(k, e) \<in> set errors"
  shows "is_key k" "dict_get e ''fingerprint'' = Some k" "\<exists>t. dict_get e ''timestamp'' = Some (JStr t)"
  using bspec [OF conjunct1 [OF assms(1) [unfolded dated_errors_def]] assms(2)] by simp_all

lemma find_SomeD: "find P xs = Some x \<Longrightarrow> x \<in> set xs \<and> P x"
  by (induction xs) (auto split: if_splits)

lemma find_finds: "x \<in> set xs \<Longrightarrow> P x \<Longrightarrow> find P xs \<noteq> None"
  by (induction xs) auto

lemma entry_of_date:
  assumes "(k, e) \<in> set errors" "dated_errors errors" "distinct (map (date_of \<circ> snd) errors)"
  shows "entry_of_time errors (date_of e) = Some e"
proof -
  have d: "jget e' ''timestamp'' = JStr (date_of e')" if m: "(k', e') \<in> set errors" for k' e'
  proof -
    obtain t where "dict_get e' ''timestamp'' = Some (JStr t)" using dated_entry(3) [OF assms(2) m] by auto
    then show ?thesis by (simp add: jget_dict date_of_def)
  qed
  let ?P = "\<lambda>e'. jget e' ''timestamp'' = JStr (date_of e)"
  have e: "e \<in> set (map snd errors)" using assms(1) by force
  have "find ?P (map snd errors) \<noteq> None" by (rule find_finds [of e]) (use e d [OF assms(1)] in auto)
  then obtain x where x: "find ?P (map snd errors) = Some x" by blast
  from find_SomeD [OF this] have "x \<in> set (map snd errors)" "?P x" by blast+
  then obtain k' where k': "(k', x) \<in> set errors" by auto
  have "date_of x = date_of e" using d [OF k'] \<open>?P x\<close> by simp
  then have "(k', x) = (k, e)"
    using assms(1,3) k' unfolding distinct_map by (metis comp_apply inj_on_def snd_conv)
  then show ?thesis using x by (simp add: entry_of_time_def)
qed

lemma read_known_entries:
  assumes "\<forall>e \<in> set es. \<exists>k. is_key k \<and> dict_get e ''fingerprint'' = Some k"
    and "distinct (map fst known @ map (\<lambda>e. jget e ''fingerprint'') es)"
  shows "read_known (map (Entry_Line \<circ> JObj) es) known = known @ map (\<lambda>e. (jget e ''fingerprint'', e)) es"
  using assms
proof (induction es arbitrary: known)
  case (Cons e es)
  from Cons.prems(1) obtain k where k: "is_key k" "dict_get e ''fingerprint'' = Some k" by auto
  then have j: "jget e ''fingerprint'' = k" by (simp add: jget_dict)
  have "AList.update k e known = known @ [(k, e)]"
    using Cons.prems(2) j by (induction known) auto
  then show ?case using Cons.IH [of "known @ [(k, e)]"] Cons.prems k j by auto
qed simp

text \<open>What is saved is found again: errors whose first sights are dated and differ survive a save and
  a load without a change, in whatever order they lie in the file.\<close>

theorem known_errors_survive_a_save:
  assumes "dated_errors errors" and "distinct (map (date_of \<circ> snd) errors)"
  shows "fst (save_known_errors errors) = Inr ()
     \<and> map_of (load_known_errors (snd (save_known_errors errors))) = map_of errors"
proof -
  have dt: "first_seen e = Some (date_of e)" if "(k, e) \<in> set errors" for k e
    using dated_entry(3) [OF assms(1) that] first_seen_dated by blast
  then have times: "map (first_seen \<circ> snd) errors = map Some (map (date_of \<circ> snd) errors)" by auto
  have some: "List.map_filter id (map Some xs) = xs" for xs :: "string list"
    by (induction xs) (simp_all add: map_filter_simps)
  let ?ts = "latest_first (map (date_of \<circ> snd) errors)" and ?find = "entry_of_time errors"
  define es where "es = List.map_filter ?find ?ts"
  have found: "?find (date_of e) = Some e" if "e \<in> snd ` set errors" for e
    using that entry_of_date [OF _ assms] by auto
  have ts: "set ?ts = date_of ` snd ` set errors" by (simp add: image_comp)
  have "filter (\<lambda>t. ?find t \<noteq> None) ?ts = ?ts"
  proof (rule filter_True, rule ballI)
    fix t assume "t \<in> set ?ts"
    then obtain e where "t = date_of e" "e \<in> snd ` set errors" unfolding ts by blast
    then show "?find t \<noteq> None" using found by simp
  qed
  then have es: "es = map (the \<circ> ?find) ?ts" by (simp add: es_def map_filter_def)
  have mem: "set es = snd ` set errors"
  proof -
    have "set es = (the \<circ> ?find) ` date_of ` snd ` set errors" unfolding es set_map ts ..
    also have "\<dots> = (\<lambda>e. e) ` snd ` set errors"
      unfolding image_image [of "the \<circ> ?find"] by (rule image_cong [OF refl]) (simp add: found)
    finally show ?thesis by simp
  qed
  have round_trip: "date_of (the (?find t)) = t" if "t \<in> set ?ts" for t
  proof -
    from that obtain e where "t = date_of e" "e \<in> snd ` set errors" unfolding ts by blast
    then show ?thesis using found by simp
  qed
  have "map (\<lambda>t. date_of (the (?find t))) ?ts = ?ts" by (rule map_idI) (rule round_trip)
  then have "map date_of es = ?ts" unfolding es map_map comp_def .
  then have de: "distinct es" using assms(2) by (metis distinct_map latest_first_distinct)
  have key: "is_key k \<and> dict_get e ''fingerprint'' = Some k \<and> jget e ''fingerprint'' = k" if "(k, e) \<in> set errors" for k e
    using dated_entry(1,2) [OF assms(1) that] by (simp add: jget_dict)
  have pairs: "(\<lambda>e. (jget e ''fingerprint'', e)) ` set es = set errors"
  proof -
    have "(\<lambda>e. (jget e ''fingerprint'', e)) ` snd ` set errors = (\<lambda>p. p) ` set errors"
      unfolding image_image by (rule image_cong [OF refl]) (auto simp: key)
    then show ?thesis by (simp add: mem)
  qed
  have inj: "inj_on (\<lambda>e. jget e ''fingerprint'') (set es)"
  proof (rule inj_onI)
    fix x y assume xy: "x \<in> set es" "y \<in> set es" and e: "jget x ''fingerprint'' = jget y ''fingerprint''"
    from xy obtain k k' where k: "(k, x) \<in> set errors" "(k', y) \<in> set errors" unfolding mem by auto
    with e key have "k = k'" by metis
    with k show "x = y" using assms(1) unfolding dated_errors_def by (metis eq_key_imp_eq_value)
  qed
  have "read_known (map (Entry_Line \<circ> JObj) es) [] = [] @ map (\<lambda>e. (jget e ''fingerprint'', e)) es"
  proof (rule read_known_entries)
    show "\<forall>e \<in> set es. \<exists>k. is_key k \<and> dict_get e ''fingerprint'' = Some k"
      using key unfolding mem by auto
  qed (use inj de in \<open>simp add: distinct_map\<close>)
  moreover have "save_known_errors errors = (Inr (), Lines (Meta_Line # map (Entry_Line \<circ> JObj) es))"
    unfolding save_known_errors_def times some es_def Let_def by auto
  moreover have "map_of (map (\<lambda>e. (jget e ''fingerprint'', e)) es) = map_of errors"
  proof (rule map_of_inject_set [THEN iffD2])
    show "distinct (map fst errors)" using assms(1) by (simp add: dated_errors_def)
    show "distinct (map fst (map (\<lambda>e. (jget e ''fingerprint'', e)) es))"
      using inj de by (simp add: comp_def distinct_map)
  qed (simp add: pairs)
  ultimately show ?thesis by (simp add: load_known_errors_def)
qed

definition sample_errors :: known_errors where
  "sample_errors =
     [(JStr ''a'', [(''fingerprint'', JStr ''a''), (''timestamp'', JStr ''2026-01-01'')]),
      (JStr ''b'', [(''fingerprint'', JStr ''b''), (''timestamp'', JStr ''2026-01-02'')])]"

theorem known_errors_survive_a_save_witness:
  "map_of (load_known_errors (snd (save_known_errors sample_errors))) (JStr ''a'')
     = Some [(''fingerprint'', JStr ''a''), (''timestamp'', JStr ''2026-01-01'')]"
proof -
  have "dated_errors sample_errors" "distinct (map (date_of \<circ> snd) sample_errors)"
    by (simp_all add: sample_errors_def dated_errors_def dict_get_def date_of_def)
  from known_errors_survive_a_save [OF this] show ?thesis by (simp add: sample_errors_def)
qed

text \<open>Two errors first seen at the same time: the one is written twice and the other is lost.\<close>

theorem save_loses_twins:
  assumes "dict_get e1 ''timestamp'' = Some (JStr t)" "dict_get e2 ''timestamp'' = Some (JStr t)"
  shows "save_known_errors [(k1, e1), (k2, e2)] = (Inr (), Lines [Meta_Line, Entry_Line (JObj e1), Entry_Line (JObj e1)])"
proof -
  have "first_seen e1 = Some t" "first_seen e2 = Some t" "jget e1 ''timestamp'' = JStr t"
    using first_seen_dated assms by (auto simp: jget_dict)
  then show ?thesis
    by (simp add: save_known_errors_def entry_of_time_def latest_first_def map_filter_simps)
qed

text \<open>An error without a timestamp is looked for by an empty one, which it does not have, and is lost.\<close>

theorem undated_error_is_lost:
  assumes "dict_get e ''timestamp'' = None"
  shows "save_known_errors [(k, e)] = (Inr (), Lines [Meta_Line])"
proof -
  have "jget_or e ''timestamp'' (JStr []) = JStr []" "jget e ''timestamp'' = JNull"
    using assms by (simp_all add: jget_or_def jget_def dict_get_def)
  then show ?thesis
    by (simp add: save_known_errors_def entry_of_time_def latest_first_def map_filter_simps)
qed

text \<open>A line that is JSON but no error ends the reading, and the next save drops all that follows it.\<close>

theorem stray_line_erases_the_rest:
  assumes "dict_get d ''fingerprint'' = None"
  shows "load_known_errors (Lines (Meta_Line # Entry_Line (JObj d) # ls)) = []"
  using assms by (simp add: load_known_errors_def)

text \<open>
  Both tools keep their errors in one file, under fingerprints of different length: neither finds what
  the other has stored.
\<close>

theorem tools_never_recognise_each_other:
  assumes "\<And>s. length (md5 s) = 32"
  shows "get_fingerprint md5 a \<noteq> fingerprint sha b"
proof
  assume "get_fingerprint md5 a = fingerprint sha b"
  then have "length (get_fingerprint md5 a) \<le> 16" by (simp add: fingerprint_def)
  then show False using assms by (simp add: get_fingerprint_def)
qed

text \<open>
  The formatter gives every entry an event, ''Log'' where the record has none: the scan takes it for
  the message, so all those errors count as one.
\<close>

lemma dict_get_fold_other:
  "k \<notin> fst ` set kvs \<Longrightarrow> dict_get (fold (\<lambda>(k, v). jset k v) kvs d) k = dict_get d k"
  by (induction kvs arbitrary: d) (auto simp: dict_simps)

theorem scanned_errors_are_one:
  assumes "dict_get (record_meta r) ''event'' = None"
  shows "raw_message (log_entry message r) = JStr ''Log''"
proof -
  have "dict_get (log_entry message r) ''event'' = Some (JStr ''Log'')"
    using assms by (simp add: log_entry_def Let_def dict_simps split: option.split)
  then have "jget_or (log_entry message r) ''event'' (JStr []) = JStr ''Log''"
    by (simp add: jget_or_def dict_get_def)
  then show ?thesis by (simp add: raw_message_def)
qed

section \<open>The commands\<close>

theorem backtest_options_are_ignored:
  "backtest_command env base profile session (a\<lparr>ba_days := d, ba_stop_bps := s, ba_tp_r := t\<rparr>)
     = backtest_command env base profile session a"
  by (simp add: backtest_command_def backtest_overrides_def)

text \<open>The secret under its old name is enough for the program and missing for the doctor.\<close>

theorem doctor_misses_the_old_secret:
  assumes "map_of env ''LA_EXECUTION_MODE'' = Some ''live''" "getenv env ''BITUNIX_API_SECRET'' = []"
    and "getenv env ''BITUNIX_API_KEY'' = key" "getenv env ''BITUNIX_SECRET_KEY'' = old" "key \<noteq> []" "old \<noteq> []"
  shows "check_bitunix_config key [] old \<and> \<not> bitunix_status_ok env"
  using assms by (simp add: check_bitunix_config_def bitunix_status_ok_def)

lemma clean_command_keeps:
  "clean_command days now (Some ds) = (Some ds', n) \<Longrightarrow>
     length ds' + n = length ds
     \<and> set ds' = {d \<in> set ds. is_run d \<longrightarrow> now - de_mtime d \<le> of_int days * 86400}"
  using sum_length_filter_compl [of "\<lambda>d. is_run d \<and> of_int days * 86400 < now - de_mtime d" ds]
  by (auto simp: clean_command_def Let_def not_less)

lemma health_counts_add_up:
  "ph_total (fold (\<lambda>r h. case r of None \<Rightarrow> health_success h | Some e \<Rightarrow> health_failure e h) rs new_health)
     = ph_successful (fold (\<lambda>r h. case r of None \<Rightarrow> health_success h | Some e \<Rightarrow> health_failure e h) rs new_health)
       + ph_failed (fold (\<lambda>r h. case r of None \<Rightarrow> health_success h | Some e \<Rightarrow> health_failure e h) rs new_health)"
proof -
  have "ph_total h = ph_successful h + ph_failed h \<Longrightarrow>
      ph_total (fold (\<lambda>r h. case r of None \<Rightarrow> health_success h | Some e \<Rightarrow> health_failure e h) rs h)
     = ph_successful (fold (\<lambda>r h. case r of None \<Rightarrow> health_success h | Some e \<Rightarrow> health_failure e h) rs h)
       + ph_failed (fold (\<lambda>r h. case r of None \<Rightarrow> health_success h | Some e \<Rightarrow> health_failure e h) rs h)" for h
    by (induction rs arbitrary: h) (auto simp: health_success_def health_failure_def split: option.split)
  then show ?thesis by (simp add: new_health_def)
qed

text \<open>The monitor of the scripts is the watchdog of the agents with a limit of five seconds.\<close>

lemma monitors_differ_in_their_limit:
  assumes "max (now - last_ts) (now - mtime) \<le> 5 \<or> 30 < max (now - last_ts) (now - mtime)"
    and "last_beat mtime parsed = Inr last_ts"
  shows "script_monitor_round now now (Some (mtime, parsed)) stale = monitor_round now (Some (mtime, parsed)) stale"
  using assms by (auto simp: script_monitor_round_def monitor_round_def)

end
