(* ===== verification/Auditor.thy ===== *)
theory Auditor
  imports Config_Properties Backtest_Engine
begin

text \<open>
  The loop of \<^verbatim>\<open>agents/auditor.py\<close> over the event file, and the text of a grid as \<^verbatim>\<open>backtest/engine.py\<close>
  reads it; what they do with lines and numbers that are not as expected.
\<close>

section \<open>The auditor\<close>

fun as_number :: "json \<Rightarrow> pyfloat res" where
  "as_number (JNum x) = Inr x"
| "as_number (JBool b) = Inr (Fin (if b then 1 else 0))"
| "as_number j = Inl TypeError"

datatype finding = PriceFinding pyfloat | EquityFinding pyfloat | SizeFinding pyfloat

text \<open>The rules for one event; the second result are the alerts raised up to an exception.\<close>

definition rule :: "(pyfloat \<Rightarrow> bool) \<Rightarrow> (pyfloat \<Rightarrow> finding) \<Rightarrow> json \<Rightarrow> unit res \<times> finding list" where
  "rule bad alert j =
     (case as_number j of Inl e \<Rightarrow> (Inl e, []) | Inr x \<Rightarrow> (Inr (), if bad x then [alert x] else []))"

definition and_then :: "unit res \<times> 'a list \<Rightarrow> unit res \<times> 'a list \<Rightarrow> unit res \<times> 'a list" where
  "and_then a b = (case a of (Inl e, xs) \<Rightarrow> (Inl e, xs) | (Inr u, xs) \<Rightarrow> (fst b, xs @ snd b))"

definition audit_rules :: "json \<Rightarrow> unit res \<times> finding list" where
  "audit_rules j =
     (case j of
        JObj d \<Rightarrow>
          (let kind = jget d ''event''; zero = JNum (Fin 0)
           in if kind = JStr ''AsyncHeartbeat''
              then and_then (rule (\<lambda>x. pf_le x (Fin 0)) PriceFinding (jget_or d ''price'' zero))
                     (rule (\<lambda>x. pf_lt x (Fin 5000)) EquityFinding (jget_or d ''equity'' zero))
              else if kind = JStr ''Fill'' then rule (\<lambda>x. pf_lt (Fin 5) x) SizeFinding (jget_or d ''qty'' zero)
              else (Inr (), []))
      | _ \<Rightarrow> (Inl AttributeError, []))"

record auditor =
  ad_processed :: nat
  ad_alerts :: "finding list"

text \<open>The lines of the file, \<open>None\<close> for one that is blank or does not parse.\<close>

definition read_new_events :: "json option list \<Rightarrow> nat \<Rightarrow> json list" where
  "read_new_events lines n = List.map_filter id (drop n lines)"

fun audit_events :: "json list \<Rightarrow> auditor \<Rightarrow> unit res \<times> auditor" where
  "audit_events [] a = (Inr (), a)"
| "audit_events (j # js) a =
     (case audit_rules j of
        (Inl e, xs) \<Rightarrow> (Inl e, a\<lparr>ad_alerts := ad_alerts a @ xs\<rparr>)
      | (Inr u, xs) \<Rightarrow> audit_events js (a\<lparr>ad_alerts := ad_alerts a @ xs, ad_processed := Suc (ad_processed a)\<rparr>))"

text \<open>One round of \<open>run\<close>: the file may not be there yet, and an exception is logged.\<close>

definition audit_round :: "json option list option \<Rightarrow> auditor \<Rightarrow> auditor" where
  "audit_round file_lines a =
     (case file_lines of None \<Rightarrow> a | Some ls \<Rightarrow> snd (audit_events (read_new_events ls (ad_processed a)) a))"

definition new_auditor :: auditor where
  "new_auditor = \<lparr>ad_processed = 0, ad_alerts = []\<rparr>"

section \<open>The text of a grid\<close>

fun split_on :: "char \<Rightarrow> string \<Rightarrow> string list" where
  "split_on sep [] = [[]]"
| "split_on sep (c # s) =
     (if c = sep then [] # split_on sep s
      else (case split_on sep s of [] \<Rightarrow> [[c]] | w # ws \<Rightarrow> (c # w) # ws))"

text \<open>\<open>s.split()\<close>: the words between blanks.\<close>

fun words_of :: "string \<Rightarrow> string list" where
  "words_of [] = []"
| "words_of (c # s) =
     (if is_space c then words_of s
      else (case s of
              [] \<Rightarrow> [[c]]
            | d # t \<Rightarrow> if is_space d then [c] # words_of s
                       else (case words_of s of [] \<Rightarrow> [[c]] | w # ws \<Rightarrow> (c # w) # ws)))"

text \<open>\<open>s.split("=", 1)\<close> where there is one.\<close>

definition cut_at :: "string \<Rightarrow> (string \<times> string) option" where
  "cut_at s = (if CHR ''='' \<in> set s
     then Some (takeWhile ((\<noteq>) (CHR ''='')) s, tl (dropWhile ((\<noteq>) (CHR ''='')) s)) else None)"

definition int_text :: "string \<Rightarrow> int res" where
  "int_text s = int_of_text (py_strip s)"

fun equal_pairs :: "string list \<Rightarrow> (int \<times> int) list res" where
  "equal_pairs [] = Inr []"
| "equal_pairs (p # ps) =
     (case cut_at (py_strip p) of
        None \<Rightarrow> equal_pairs ps
      | Some (fast, slow) \<Rightarrow>
          (case (int_text fast, int_text slow) of
             (Inr a, Inr b) \<Rightarrow> bindE (equal_pairs ps) (\<lambda>r. Inr ((a, b) # r))
           | _ \<Rightarrow> Inl (ValueError (''Invalid SMA pair format: '' @ py_strip p))))"

fun comma_pairs :: "string list \<Rightarrow> (int \<times> int) list" where
  "comma_pairs [] = []"
| "comma_pairs (w # ws) =
     (case split_on (CHR '','') w of
        [a, b] \<Rightarrow> (case (int_text a, int_text b) of (Inr x, Inr y) \<Rightarrow> (x, y) # comma_pairs ws | _ \<Rightarrow> comma_pairs ws)
      | _ \<Rightarrow> comma_pairs ws)"

definition sma_pairs :: "string \<Rightarrow> (int \<times> int) list res" where
  "sma_pairs values =
     bindE (equal_pairs (split_on (CHR '','') values)) (\<lambda>ps.
       let qs = (if ps = [] then comma_pairs (words_of values) else ps)
       in if qs = [] then Inl (ValueError (''No valid SMA pairs found in: '' @ values)) else Inr qs)"

fun float_values :: "string \<Rightarrow> string list \<Rightarrow> pyfloat list res" where
  "float_values key [] = Inr []"
| "float_values key (v # vs) =
     (let s = py_strip v
      in if s = [] then float_values key vs
         else (case float_of_string s of
                 Inr x \<Rightarrow> bindE (float_values key vs) (\<lambda>r. Inr (x # r))
               | Inl e \<Rightarrow> Inl (ValueError (''Invalid '' @ key @ '' value: '' @ s))))"

record grid_lists =
  gl_sma :: "(int \<times> int) list"
  gl_stop :: "pyfloat list"
  gl_tp :: "pyfloat list"

text \<open>A part without a sign of equality is skipped, another key is kept and not looked at.\<close>

definition grid_part :: "string \<Rightarrow> grid_lists \<Rightarrow> grid_lists res" where
  "grid_part part g =
     (case cut_at part of
        None \<Rightarrow> Inr g
      | Some (k, values) \<Rightarrow>
          (let key = py_lower (py_strip k)
           in if key = ''sma'' then bindE (sma_pairs values) (\<lambda>ps. Inr (g\<lparr>gl_sma := ps\<rparr>))
              else if key = ''stop'' then bindE (float_values key (split_on (CHR '','') values)) (\<lambda>xs. Inr (g\<lparr>gl_stop := xs\<rparr>))
              else if key = ''tp'' then bindE (float_values key (split_on (CHR '','') values)) (\<lambda>xs. Inr (g\<lparr>gl_tp := xs\<rparr>))
              else Inr g))"

fun grid_parts :: "string list \<Rightarrow> grid_lists \<Rightarrow> grid_lists res" where
  "grid_parts [] g = Inr g"
| "grid_parts (p # ps) g = bindE (grid_part p g) (grid_parts ps)"

text \<open>
  The candidates of a text. The code also takes \<open>inf\<close> and \<open>nan\<close> as values; a candidate of the model
  has real numbers, so those texts are outside it and give \<open>None\<close>.
\<close>

fun finite_value :: "pyfloat \<Rightarrow> real option" where
  "finite_value (Fin x) = Some x"
| "finite_value v = None"

definition finite_values :: "pyfloat list \<Rightarrow> real list option" where
  "finite_values vs = those (map finite_value vs)"

definition parse_grid :: "string \<Rightarrow> nat \<Rightarrow> candidate list res option" where
  "parse_grid s max_candidates =
     (case grid_parts (split_on (CHR '';'') s) \<lparr>gl_sma = [], gl_stop = [], gl_tp = []\<rparr> of
        Inl e \<Rightarrow> Some (Inl e)
      | Inr g \<Rightarrow>
          (case (finite_values (gl_stop g), finite_values (gl_tp g)) of
             (Some stops, Some tps) \<Rightarrow> Some (grid_candidates (gl_sma g) stops tps max_candidates)
           | _ \<Rightarrow> None))"

section \<open>What the auditor sees\<close>

definition clean :: "json \<Rightarrow> bool" where
  "clean j \<longleftrightarrow> fst (audit_rules j) = Inr ()"

lemma audit_events_clean:
  "list_all clean js \<Longrightarrow> audit_events js a
     = (Inr (), a\<lparr>ad_alerts := ad_alerts a @ concat (map (snd \<circ> audit_rules) js), ad_processed := ad_processed a + length js\<rparr>)"
proof (induction js arbitrary: a)
  case (Cons j js)
  then obtain u xs where "audit_rules j = (Inr u, xs)" by (cases "audit_rules j") (auto simp: clean_def)
  then show ?case using Cons by simp
qed simp

text \<open>The file as it grows between two rounds.\<close>

fun grows :: "json option list list \<Rightarrow> bool" where
  "grows [] = True"
| "grows [x] = True"
| "grows (x # y # fs) = ((\<exists>zs. y = x @ zs) \<and> grows (y # fs))"

lemma read_new_clean: "read_new_events (map Some (xs @ ys)) (length xs) = ys"
  by (simp add: read_new_events_def map_filter_def comp_def)

text \<open>
  While every line is an event whose fields are numbers, each event is audited exactly once, however
  the file grows between the rounds.
\<close>

theorem every_event_is_audited_once:
  assumes "list_all clean (concat jss)"
  shows "fold (\<lambda>n. audit_round (Some (map Some (concat (take n jss))))) [0..<Suc (length jss)] new_auditor
     = \<lparr>ad_processed = length (concat jss), ad_alerts = concat (map (snd \<circ> audit_rules) (concat jss))\<rparr>"
proof -
  have "fold (\<lambda>n. audit_round (Some (map Some (concat (take n jss))))) [0..<Suc k] new_auditor
     = \<lparr>ad_processed = length (concat (take k jss)), ad_alerts = concat (map (snd \<circ> audit_rules) (concat (take k jss)))\<rparr>"
    if "k \<le> length jss" for k
    using that
  proof (induction k)
    case 0
    then show ?case by (simp add: audit_round_def read_new_events_def map_filter_simps new_auditor_def)
  next
    case (Suc k)
    let ?a = "\<lparr>ad_processed = length (concat (take k jss)), ad_alerts = concat (map (snd \<circ> audit_rules) (concat (take k jss)))\<rparr>"
    have t: "concat (take (Suc k) jss) = concat (take k jss) @ jss ! k"
      using Suc.prems by (simp add: take_Suc_conv_app_nth)
    have c: "list_all clean (jss ! k)"
      using assms Suc.prems by (fastforce simp: list_all_iff)
    have "[0..<Suc (Suc k)] = [0..<Suc k] @ [Suc k]" by simp
    then have "fold (\<lambda>n. audit_round (Some (map Some (concat (take n jss))))) [0..<Suc (Suc k)] new_auditor
        = audit_round (Some (map Some (concat (take (Suc k) jss)))) ?a"
      using Suc by (simp del: upt_Suc add: comp_def)
    moreover have "audit_round (Some (map Some (concat (take (Suc k) jss)))) ?a
        = \<lparr>ad_processed = length (concat (take (Suc k) jss)),
           ad_alerts = concat (map (snd \<circ> audit_rules) (concat (take (Suc k) jss)))\<rparr>"
      using audit_events_clean [OF c, of ?a] read_new_clean [of "concat (take k jss)" "jss ! k"]
      by (simp add: audit_round_def t)
    ultimately show ?case by (rule trans)
  qed
  from this [of "length jss"] show ?thesis by simp
qed

text \<open>An event whose price is null stops the auditor for good: every round starts at it again.\<close>

theorem auditor_sticks_at_a_null:
  assumes "ls = map Some (js @ JObj d # ks)" and "list_all clean js"
    and "jget d ''event'' = JStr ''AsyncHeartbeat''" "jget_or d ''price'' (JNum (Fin 0)) = JNull"
    and "ad_processed a = length js"
  shows "audit_round (Some (ls @ later_lines)) a = a"
proof -
  have "drop (length js) (ls @ later_lines) = Some (JObj d) # map Some ks @ later_lines" by (simp add: assms(1))
  then have "read_new_events (ls @ later_lines) (length js) = JObj d # List.map_filter id (map Some ks @ later_lines)"
    by (simp add: read_new_events_def map_filter_simps)
  moreover have "audit_rules (JObj d) = (Inl TypeError, [])"
    using assms(3,4) by (simp add: audit_rules_def rule_def and_then_def)
  ultimately show ?thesis using assms(5) by (simp add: audit_round_def)
qed

text \<open>
  The count of events is used as a count of lines: after a line that does not parse the last event is
  audited twice.
\<close>

theorem broken_line_repeats_an_event:
  "let beat = JObj [(''event'', JStr ''AsyncHeartbeat''), (''price'', num 1), (''equity'', num 10)];
       ls = [None, Some beat]
   in ad_alerts (audit_round (Some ls) (audit_round (Some ls) new_auditor)) = [EquityFinding (Fin 10), EquityFinding (Fin 10)]"
  by (simp add: audit_round_def read_new_events_def map_filter_simps new_auditor_def audit_rules_def rule_def and_then_def
      jget_def jget_or_def)

section \<open>The default grid\<close>

lemma default_lists:
  "grid_parts (split_on (CHR '';'') ''sma=10,30;stop=20,30,40;tp=1.0,1.5,2.0'') \<lparr>gl_sma = [], gl_stop = [], gl_tp = []\<rparr>
     = Inr \<lparr>gl_sma = [(10, 30)], gl_stop = [Fin 20, Fin 30, Fin 40], gl_tp = [Fin 1, Fin (3 / 2), Fin 2]\<rparr>"
  by code_simp

lemma default_grid:
  "map_option (map_sum id (\<lambda>cs. (length cs, hd cs))) (parse_grid ''sma=10,30;stop=20,30,40;tp=1.0,1.5,2.0'' 200)
     = Some (Inr (9, \<lparr>fast_sma = 10, slow_sma = 30, stop_bps = 20, tp_r = 1\<rparr>))"
  unfolding parse_grid_def default_lists by (auto simp: finite_values_def grid_candidates_def grid_size_def combinations_def)

end
